(* ===== verification/Osm_Prelude.thy ===== *)
theory Osm_Prelude
  imports Main "HOL-Library.Word" "HOL-Library.Char_ord" "HOL-Library.List_Lexorder"
    "HOL-Library.Sublist" "HOL-Library.Multiset" "HOL-Library.AList" "HOL-Library.Monad_Syntax"
begin

text \<open>
  Shared vocabulary of the development: what the components use of the Go language and of its
  standard library, and the list, map and merge lemmas they share.

  \<^item> A Go \<open>string\<close> is a \<^typ>\<open>string\<close> (its bytes). \<open>to_lower\<close> and
    \<open>equal_fold\<close> are the ASCII restriction of \<open>strings.ToLower\<close> and
    \<open>strings.EqualFold\<close>: names, protocols and namespaces of Kubernetes objects are ASCII.
  \<^item> A Go \<open>uint16\<close>, \<open>uint32\<close> is a word of that width; an \<open>int\<close> or \<open>int32\<close> is an
    \<^typ>\<open>int\<close>, and \<open>wrap64\<close> is written where 64-bit arithmetic can overflow.
  \<^item> A pointer that may be \<open>nil\<close> is an option; a computation that can panic (index out of
    range, nil dereference) is an option too, with \<open>None\<close> for the panic.
  \<^item> A Go \<open>map\<close> is an association list with distinct keys, and a loop that ranges over a map or
    over a set takes the iteration order, which Go leaves open, as an argument.
  \<^item> The loop that appends an element only when \<open>mapset.Set.Add\<close> reports it as new is
    \<open>set_add\<close>.
\<close>

named_theorems go_string \<open>rewrite rules for the Go string functions\<close>
named_theorems go_map \<open>rewrite rules for Go maps kept as association lists\<close>
named_theorems go_set \<open>rewrite rules for first-occurrence collection\<close>
named_theorems merge_laws \<open>facts on merging lists of records by a key\<close>


section \<open>Machine integers\<close>

type_synonym uint16 = "16 word"
type_synonym uint32 = "32 word"

text \<open>Two's complement reading of a 64-bit \<open>int\<close>.\<close>

definition wrap64 :: "int \<Rightarrow> int" where
  "wrap64 x = (x + 2 ^ 63) mod 2 ^ 64 - 2 ^ 63"

lemma wrap64_id: "- (2 ^ 63) \<le> x \<Longrightarrow> x < 2 ^ 63 \<Longrightarrow> wrap64 x = x"
  by (simp add: wrap64_def)

lemma wrap64_range: "- (2 ^ 63) \<le> wrap64 x \<and> wrap64 x < 2 ^ 63"
  by (simp add: wrap64_def)

text \<open>Truncating division, the meaning of \<open>/\<close> on Go integers.\<close>

definition go_quot :: "int \<Rightarrow> int \<Rightarrow> int" where
  "go_quot a b = sgn a * sgn b * (\<bar>a\<bar> div \<bar>b\<bar>)"

lemma go_quot_nonneg: "0 \<le> a \<Longrightarrow> 0 < b \<Longrightarrow> go_quot a b = a div b"
  by (cases "a = 0") (simp_all add: go_quot_def)


section \<open>Strings\<close>

definition digit :: "nat \<Rightarrow> char" where
  "digit n = char_of (48 + n)"

fun itoa :: "nat \<Rightarrow> string" where
  "itoa n = (if n < 10 then [digit n] else itoa (n div 10) @ [digit (n mod 10)])"

declare itoa.simps [simp del]

text \<open>The \<open>%d\<close> verb of \<open>fmt.Sprintf\<close> on a signed value.\<close>

definition itoa_int :: "int \<Rightarrow> string" where
  "itoa_int i = (if i < 0 then CHR ''-'' # itoa (nat (- i)) else itoa (nat i))"

definition digit_value :: "char \<Rightarrow> nat" where
  "digit_value c = of_char c - 48"

fun atoi :: "string \<Rightarrow> nat" where
  "atoi s = foldl (\<lambda>acc c. acc * 10 + digit_value c) 0 s"

lemma digit_value_digit: "n < 10 \<Longrightarrow> digit_value (digit n) = n"
  by (simp add: digit_value_def digit_def)

lemma of_char_digit: "n < 10 \<Longrightarrow> of_char (digit n) = (48 + n :: nat)"
  by (simp add: digit_def)

lemma atoi_itoa [simp]: "atoi (itoa n) = n"
proof (induction n rule: itoa.induct)
  case (1 n)
  show ?case
  proof (cases "n < 10")
    case True
    then show ?thesis by (simp add: itoa.simps [of n] digit_value_digit)
  next
    case False
    with "1.IH" have "atoi (itoa (n div 10)) = n div 10" by simp
    with False show ?thesis by (simp add: itoa.simps [of n] digit_value_digit)
  qed
qed

lemma itoa_inject [simp]: "itoa m = itoa n \<longleftrightarrow> m = n"
  by (metis atoi_itoa)

lemma itoa_digits: "c \<in> set (itoa n) \<Longrightarrow> 48 \<le> (of_char c :: nat) \<and> of_char c \<le> (57 :: nat)"
proof (induction n rule: itoa.induct)
  case (1 n)
  show ?case
  proof (cases "n < 10")
    case True
    with "1.prems" show ?thesis by (simp add: itoa.simps [of n] of_char_digit)
  next
    case False
    have m: "n mod 10 < 10" by simp
    show ?thesis
    proof (cases "c \<in> set (itoa (n div 10))")
      case True
      with "1.IH" False show ?thesis by blast
    next
      case c: False
      with "1.prems" False have "c = digit (n mod 10)" by (simp add: itoa.simps [of n])
      with m of_char_digit [OF m] show ?thesis by simp
    qed
  qed
qed

lemma itoa_notin: "(of_char c :: nat) < 48 \<or> 57 < (of_char c :: nat) \<Longrightarrow> c \<notin> set (itoa n)"
  using itoa_digits [of c n] by auto

text \<open>Separators that never occur in a printed number.\<close>

lemma itoa_seps [go_string]:
  "CHR ''|'' \<notin> set (itoa n)" "CHR ''_'' \<notin> set (itoa n)" "CHR ''.'' \<notin> set (itoa n)"
  "CHR ''/'' \<notin> set (itoa n)" "CHR '':'' \<notin> set (itoa n)" "CHR ''-'' \<notin> set (itoa n)"
  by (auto intro!: itoa_notin)

lemma itoa_nonempty [simp]: "itoa n \<noteq> []"
  by (subst itoa.simps) simp

text \<open>\<open>strings.Split\<close> at a one-character separator: never the empty list.\<close>

fun go_split :: "char \<Rightarrow> string \<Rightarrow> string list" where
  "go_split c [] = [[]]"
| "go_split c (x # xs) =
     (if x = c then [] # go_split c xs
      else case go_split c xs of [] \<Rightarrow> [[x]] | y # ys \<Rightarrow> (x # y) # ys)"

lemma go_split_nonempty [simp]: "go_split c s \<noteq> []"
  by (cases s) (auto split: list.splits)

lemma go_split_none [go_string]: "c \<notin> set s \<Longrightarrow> go_split c s = [s]"
  by (induction s) auto

lemma go_split_Cons [go_string]: "c \<notin> set a \<Longrightarrow> go_split c (a @ c # b) = a # go_split c b"
  by (induction a) auto

lemma go_split_length: "length (go_split c s) = Suc (count_list s c)"
  by (induction s) (auto split: list.splits)

lemma go_split_pieces: "p \<in> set (go_split c s) \<Longrightarrow> c \<notin> set p"
  by (induction s arbitrary: p) (auto split: list.splits if_splits)

lemma go_split_append: "c \<in> set s \<Longrightarrow> \<exists>a b. s = a @ c # b \<and> c \<notin> set a"
  by (metis split_list_first)

lemma go_split_concat: "go_split c (a @ c # b) = go_split c a @ go_split c b"
  by (induction a) (auto split: list.splits simp: Cons_eq_append_conv)

lemma last_go_split: "c \<notin> set s \<Longrightarrow> last (go_split c (h @ c # s)) = s"
  by (simp add: go_split_concat go_split_none)

definition has_prefix :: "string \<Rightarrow> string \<Rightarrow> bool" where
  "has_prefix s p = (take (length p) s = p)"

lemma has_prefix_append [go_string]: "has_prefix (p @ s) p"
  by (simp add: has_prefix_def)

definition has_suffix :: "string \<Rightarrow> string \<Rightarrow> bool" where
  "has_suffix s p = (length p \<le> length s \<and> drop (length s - length p) s = p)"

text \<open>\<open>strings.TrimSuffix\<close>.\<close>

definition trim_suffix :: "string \<Rightarrow> string \<Rightarrow> string" where
  "trim_suffix s p = (if has_suffix s p then take (length s - length p) s else s)"

lemma trim_suffix_append [go_string]: "trim_suffix (s @ p) p = s"
  by (simp add: trim_suffix_def has_suffix_def)

lemma trim_suffix_no [go_string]: "\<not> has_suffix s p \<Longrightarrow> trim_suffix s p = s"
  by (simp add: trim_suffix_def)

definition lower_char :: "char \<Rightarrow> char" where
  "lower_char c =
     (let n = of_char c :: nat in if 65 \<le> n \<and> n \<le> 90 then char_of (n + 32) else c)"

definition to_lower :: "string \<Rightarrow> string" where
  "to_lower s = map lower_char s"

definition equal_fold :: "string \<Rightarrow> string \<Rightarrow> bool" where
  "equal_fold s t \<longleftrightarrow> to_lower s = to_lower t"

lemma lower_char_idem [simp]: "lower_char (lower_char c) = lower_char c"
  by (auto simp: lower_char_def Let_def)

lemma to_lower_idem [simp]: "to_lower (to_lower s) = to_lower s"
  by (simp add: to_lower_def comp_def)

lemma equal_fold_refl [simp]: "equal_fold s s"
  by (simp add: equal_fold_def)

lemma to_lower_length [simp]: "length (to_lower s) = length s"
  by (simp add: to_lower_def)

text \<open>Splitting a concatenation at a separator that occurs in neither left part.\<close>

lemma append_sep_inject:
  assumes "c \<notin> set a" and "c \<notin> set a'"
  shows "a @ c # b = a' @ c # b' \<longleftrightarrow> a = a' \<and> b = b'"
proof
  assume eq: "a @ c # b = a' @ c # b'"
  then have "takeWhile (\<lambda>x. x \<noteq> c) (a @ c # b) = takeWhile (\<lambda>x. x \<noteq> c) (a' @ c # b')"
    by simp
  moreover have "takeWhile (\<lambda>x. x \<noteq> c) (a @ c # b) = a"
    using assms(1) by (subst takeWhile_append2) auto
  moreover have "takeWhile (\<lambda>x. x \<noteq> c) (a' @ c # b') = a'"
    using assms(2) by (subst takeWhile_append2) auto
  ultimately have "a = a'" by simp
  with eq show "a = a' \<and> b = b'" by simp
qed simp


section \<open>Indexing\<close>

text \<open>\<open>xs[i]\<close>: \<open>None\<close> is the index-out-of-range panic.\<close>

definition index :: "'a list \<Rightarrow> nat \<Rightarrow> 'a option" where
  "index xs i = (if i < length xs then Some (xs ! i) else None)"

lemma index_simps [simp]:
  "index [] i = None" "index (x # xs) 0 = Some x" "index (x # xs) (Suc i) = index xs i"
  by (simp_all add: index_def)


lemma find_SomeD: "find P xs = Some x \<Longrightarrow> x \<in> set xs \<and> P x"
  by (auto simp: find_Some_iff)


lemma set_map_filter: "set (List.map_filter f xs) = {y. \<exists>x \<in> set xs. f x = Some y}"
  by (induction xs) (auto simp: List.map_filter_def)

lemma find_unique:
  assumes "x \<in> set xs" and "P x" and "\<And>y. y \<in> set xs \<Longrightarrow> P y \<Longrightarrow> y = x"
  shows "find P xs = Some x"
proof (cases "find P xs")
  case None
  with assms(1,2) show ?thesis by (auto simp: find_None_iff)
next
  case (Some y)
  with assms(3) [of y] find_SomeD [OF Some] show ?thesis by simp
qed


text \<open>Membership in the lists built by nested loops.\<close>

lemma mem_concat_map: "x \<in> set (concat (map f xs)) \<longleftrightarrow> (\<exists>y \<in> set xs. x \<in> set (f y))"
  by auto

lemma mem_if_Nil: "x \<in> set (if b then l else []) \<longleftrightarrow> b \<and> x \<in> set l"
  by simp

lemma mem_map: "x \<in> set (map f xs) \<longleftrightarrow> (\<exists>y \<in> set xs. x = f y)"
  by auto

lemma mem_filter: "x \<in> set (filter P xs) \<longleftrightarrow> x \<in> set xs \<and> P x"
  by auto

lemma mem_single: "x \<in> set [y] \<longleftrightarrow> x = y"
  by simp

lemmas loop_mem = mem_concat_map mem_if_Nil mem_map mem_filter mem_single


section \<open>Collecting first occurrences\<close>

definition set_add :: "'a \<Rightarrow> 'a list \<Rightarrow> 'a list" where
  "set_add x out = (if x \<in> set out then out else out @ [x])"

definition set_adds :: "'a list \<Rightarrow> 'a list \<Rightarrow> 'a list" where
  "set_adds xs out = fold set_add xs out"

lemma set_set_add [simp]: "set (set_add x out) = insert x (set out)"
  by (auto simp: set_add_def)

lemma distinct_set_add [simp]: "distinct (set_add x out) = distinct out"
  by (simp add: set_add_def)

lemma set_adds_simps [simp]:
  "set_adds [] out = out" "set_adds (x # xs) out = set_adds xs (set_add x out)"
  by (simp_all add: set_adds_def)

lemma set_adds_append [go_set]: "set_adds (xs @ ys) out = set_adds ys (set_adds xs out)"
  by (simp add: set_adds_def)

lemma set_set_adds [simp]: "set (set_adds xs out) = set xs \<union> set out"
  by (induction xs arbitrary: out) auto

lemma distinct_set_adds [simp]: "distinct (set_adds xs out) = distinct out"
  by (induction xs arbitrary: out) auto

lemma set_adds_prefix: "\<exists>zs. set_adds xs out = out @ zs"
proof (induction xs arbitrary: out)
  case (Cons x xs)
  obtain zs where "set_adds xs (set_add x out) = set_add x out @ zs"
    using Cons.IH by blast
  then show ?case by (auto simp: set_add_def)
qed simp


section \<open>Go maps\<close>

type_synonym ('k, 'v) gomap = "('k \<times> 'v) list"

definition gm_get :: "('k, 'v) gomap \<Rightarrow> 'k \<Rightarrow> 'v option" where
  "gm_get m k = map_of m k"

definition gm_put :: "('k, 'v) gomap \<Rightarrow> 'k \<Rightarrow> 'v \<Rightarrow> ('k, 'v) gomap" where
  "gm_put m k v = AList.update k v m"

text \<open>Reading an absent key of a \<open>map[k][]v\<close> gives the nil slice.\<close>

definition gm_slice :: "('k, 'v list) gomap \<Rightarrow> 'k \<Rightarrow> 'v list" where
  "gm_slice m k = (case gm_get m k of None \<Rightarrow> [] | Some vs \<Rightarrow> vs)"

text \<open>\<open>m[k] = append(m[k], vs...)\<close>.\<close>

definition gm_append :: "('k, 'v list) gomap \<Rightarrow> 'k \<Rightarrow> 'v list \<Rightarrow> ('k, 'v list) gomap" where
  "gm_append m k vs = gm_put m k (gm_slice m k @ vs)"

definition gm_wf :: "('k, 'v) gomap \<Rightarrow> bool" where
  "gm_wf m = distinct (map fst m)"

lemma gm_wf_Nil [simp]: "gm_wf []"
  by (simp add: gm_wf_def)

lemma gm_wf_put [simp, intro]: "gm_wf m \<Longrightarrow> gm_wf (gm_put m k v)"
  by (simp add: gm_wf_def gm_put_def distinct_update)

lemma gm_wf_append [simp, intro]: "gm_wf m \<Longrightarrow> gm_wf (gm_append m k vs)"
  by (simp add: gm_append_def)

lemma gm_put_subset: "set (gm_put m k v) \<subseteq> insert (k, v) (set m)"
  unfolding gm_put_def by (induction m) auto

lemma gm_put_keys: "fst ` set (gm_put m k v) = insert k (fst ` set m)"
  unfolding gm_put_def by (induction m) auto

lemma gm_get_Nil [go_map, simp]: "gm_get [] k = None"
  by (simp add: gm_get_def)

lemma gm_get_put [go_map]: "gm_get (gm_put m k v) k' = (if k' = k then Some v else gm_get m k')"
  by (simp add: gm_get_def gm_put_def update_conv')

lemma gm_slice_append [go_map]:
  "gm_slice (gm_append m k vs) k' = gm_slice m k' @ (if k' = k then vs else [])"
  by (simp add: gm_slice_def gm_append_def gm_get_put)

lemma gm_slice_Nil [go_map, simp]: "gm_slice [] k = []"
  by (simp add: gm_slice_def)

lemma gm_get_in: "gm_wf m \<Longrightarrow> gm_get m k = Some v \<longleftrightarrow> (k, v) \<in> set m"
  by (simp add: gm_wf_def gm_get_def)


text \<open>Filling a map in a loop: the last entry written under a key is the one read.\<close>

lemma gm_get_fold_put [go_map]:
  "gm_get (fold (\<lambda>x m. gm_put m (k x) (v x)) xs m) key =
     (case find (\<lambda>x. k x = key) (rev xs) of Some x \<Rightarrow> Some (v x) | None \<Rightarrow> gm_get m key)"
proof (induction xs rule: rev_induct)
  case (snoc x xs)
  then show ?case by (cases "k x = key") (auto simp: gm_get_put)
qed simp

end
