(* ===== verification/Keyed_Merge.thy ===== *)
theory Keyed_Merge
  imports Osm_Prelude
begin

text \<open>
  The traffic policy code merges lists of records by a key: for every incoming record it searches
  the accumulated list for a record with the same key, combines the two, and appends the incoming
  record when there is none. \<open>merge_first\<close> stops at the first record with that key (the Go loop
  \<open>break\<close>s), \<open>merge_all\<close> combines with every one of them (the loop does not). The locales state what
  a client relies on: the combination keeps the key, and a set-valued content of the combination is
  the union of the contents.
\<close>

fun update_first :: "('a \<Rightarrow> bool) \<Rightarrow> ('a \<Rightarrow> 'a) \<Rightarrow> 'a list \<Rightarrow> 'a list option" where
  "update_first P f [] = None"
| "update_first P f (x # xs) =
     (if P x then Some (f x # xs) else map_option (Cons x) (update_first P f xs))"

definition merge_first :: "('a \<Rightarrow> 'k) \<Rightarrow> ('a \<Rightarrow> 'a \<Rightarrow> 'a) \<Rightarrow> 'a list \<Rightarrow> 'a \<Rightarrow> 'a list" where
  "merge_first key comb os l =
     (case update_first (\<lambda>x. key l = key x) (\<lambda>x. comb x l) os of
        None \<Rightarrow> os @ [l] | Some os' \<Rightarrow> os')"

definition merge_all :: "('a \<Rightarrow> 'k) \<Rightarrow> ('a \<Rightarrow> 'a \<Rightarrow> 'a) \<Rightarrow> 'a list \<Rightarrow> 'a \<Rightarrow> 'a list" where
  "merge_all key comb os l =
     (if \<exists>x \<in> set os. key x = key l
      then map (\<lambda>x. if key x = key l then comb x l else x) os else os @ [l])"

lemma update_first_None: "update_first P f xs = None \<longleftrightarrow> (\<forall>x \<in> set xs. \<not> P x)"
  by (induction xs) auto

lemma update_first_Some:
  "update_first P f xs = Some ys \<Longrightarrow>
   \<exists>as x bs. xs = as @ x # bs \<and> ys = as @ f x # bs \<and> P x \<and> (\<forall>a \<in> set as. \<not> P a)"
proof (induction xs arbitrary: ys)
  case (Cons x xs)
  show ?case
  proof (cases "P x")
    case True
    with Cons.prems show ?thesis by (intro exI [of _ "[]"]) auto
  next
    case False
    with Cons.prems obtain zs where "update_first P f xs = Some zs" and ys: "ys = x # zs"
      by auto
    with Cons.IH obtain as y bs where
      "xs = as @ y # bs" "zs = as @ f y # bs" "P y" "\<forall>a \<in> set as. \<not> P a" by blast
    with ys False show ?thesis by (intro exI [of _ "x # as"]) auto
  qed
qed simp

lemma merge_first_cases:
  obtains (append) "\<forall>x \<in> set os. key l \<noteq> key x" "merge_first key comb os l = os @ [l]"
  | (update) as x bs where "os = as @ x # bs" "merge_first key comb os l = as @ comb x l # bs"
      "key l = key x" "\<forall>a \<in> set as. key l \<noteq> key a"
proof (cases "update_first (\<lambda>x. key l = key x) (\<lambda>x. comb x l) os")
  case None
  then have "merge_first key comb os l = os @ [l]" by (simp add: merge_first_def)
  moreover from None have "\<forall>x \<in> set os. key l \<noteq> key x" by (simp add: update_first_None)
  ultimately show thesis by (intro append)
next
  case (Some ys)
  from update_first_Some [OF Some] obtain as x bs where
    "os = as @ x # bs" "ys = as @ comb x l # bs" "key l = key x" "\<forall>a \<in> set as. key l \<noteq> key a"
    by blast
  moreover from Some have "merge_first key comb os l = ys" by (simp add: merge_first_def)
  ultimately show thesis by (intro update) simp_all
qed

text \<open>Some record with key \<open>k\<close> carries \<open>v\<close>.\<close>

definition grants :: "('a \<Rightarrow> 'k) \<Rightarrow> ('a \<Rightarrow> 'v set) \<Rightarrow> 'a list \<Rightarrow> 'k \<Rightarrow> 'v \<Rightarrow> bool" where
  "grants key content xs k v \<longleftrightarrow> (\<exists>x \<in> set xs. key x = k \<and> v \<in> content x)"

lemma grants_Nil [simp]: "\<not> grants key content [] k v"
  by (simp add: grants_def)

lemma grants_append [simp]:
  "grants key content (xs @ ys) k v \<longleftrightarrow> grants key content xs k v \<or> grants key content ys k v"
  by (auto simp: grants_def)

lemma grants_Cons [simp]:
  "grants key content (x # xs) k v \<longleftrightarrow> key x = k \<and> v \<in> content x \<or> grants key content xs k v"
  by (auto simp: grants_def)

locale keyed_merge =
  fixes key :: "'a \<Rightarrow> 'k" and comb :: "'a \<Rightarrow> 'a \<Rightarrow> 'a"
  assumes key_comb: "key x = key l \<Longrightarrow> key (comb x l) = key x"
begin

lemma keys_merge_first:
  "map key (merge_first key comb os l) =
     map key os @ (if key l \<in> key ` set os then [] else [key l])"
proof (cases rule: merge_first_cases [of os key l comb])
  case append
  then show ?thesis by auto
next
  case (update as x bs)
  then show ?thesis using key_comb [of x l] by simp
qed

lemma keys_merge_all:
  "map key (merge_all key comb os l) =
     map key os @ (if key l \<in> key ` set os then [] else [key l])"
proof (cases "\<exists>x \<in> set os. key x = key l")
  case True
  then have "key l \<in> key ` set os" by (metis imageI)
  moreover have "key (if key x = key l then comb x l else x) = key x" for x
    using key_comb [of x l] by simp
  ultimately show ?thesis using True by (simp add: merge_all_def comp_def)
next
  case False
  then have "key l \<notin> key ` set os" by (metis imageE)
  with False show ?thesis by (simp add: merge_all_def)
qed

lemma distinct_keys_merge_first:
  "distinct (map key os) \<Longrightarrow> distinct (map key (merge_first key comb os l))"
  by (auto simp: keys_merge_first)

lemma distinct_keys_merge_all:
  "distinct (map key os) \<Longrightarrow> distinct (map key (merge_all key comb os l))"
  by (auto simp: keys_merge_all)

lemma keys_fold_merge_first:
  "key ` set (fold (\<lambda>l os. merge_first key comb os l) ls os) = key ` set os \<union> key ` set ls"
proof (induction ls arbitrary: os)
  case (Cons l ls)
  have "key ` set (merge_first key comb os l) = insert (key l) (key ` set os)"
    using arg_cong [OF keys_merge_first [of os l], of set] by (auto split: if_splits)
  with Cons.IH show ?case by auto
qed simp

lemma distinct_keys_fold_merge_first:
  "distinct (map key os) \<Longrightarrow>
   distinct (map key (fold (\<lambda>l os. merge_first key comb os l) ls os))"
  by (induction ls arbitrary: os) (auto simp: distinct_keys_merge_first)

lemma distinct_keys_fold_merge_all:
  "distinct (map key os) \<Longrightarrow>
   distinct (map key (fold (\<lambda>l os. merge_all key comb os l) ls os))"
  by (induction ls arbitrary: os) (auto simp: distinct_keys_merge_all)

lemma keys_fold_merge_all:
  "key ` set (fold (\<lambda>l os. merge_all key comb os l) ls os) = key ` set os \<union> key ` set ls"
proof (induction ls arbitrary: os)
  case (Cons l ls)
  have "key ` set (merge_all key comb os l) = insert (key l) (key ` set os)"
    using arg_cong [OF keys_merge_all [of os l], of set] by (auto split: if_splits)
  with Cons.IH show ?case by auto
qed simp

text \<open>With distinct keys the two loops agree.\<close>

lemma merge_first_eq_all:
  assumes "distinct (map key os)"
  shows "merge_first key comb os l = merge_all key comb os l"
proof (cases rule: merge_first_cases [of os key l comb])
  case append
  then have "\<not> (\<exists>x \<in> set os. key x = key l)" by metis
  with append(2) show ?thesis by (simp add: merge_all_def)
next
  case (update as x bs)
  have id: "map (\<lambda>x. if key x = key l then comb x l else x) ys = ys"
    if "\<forall>y \<in> set ys. key l \<noteq> key y" for ys
    using that by (induction ys) auto
  from assms update(1,3) have "\<forall>b \<in> set bs. key l \<noteq> key b" by auto
  with update id [of as] id [of bs] show ?thesis by (simp add: merge_all_def)
qed

end

locale keyed_union = keyed_merge +
  fixes content :: "'a \<Rightarrow> 'v set"
  assumes content_comb: "key x = key l \<Longrightarrow> content (comb x l) = content x \<union> content l"
begin

lemma grants_merge_first:
  "grants key content (merge_first key comb os l) k v \<longleftrightarrow>
   grants key content os k v \<or> key l = k \<and> v \<in> content l"
proof (cases rule: merge_first_cases [of os key l comb])
  case append
  then show ?thesis by simp
next
  case (update as x bs)
  have "key (comb x l) = key x" "content (comb x l) = content x \<union> content l"
    using key_comb [of x l] content_comb [of x l] update(3) by simp_all
  then show ?thesis unfolding update(1) update(2) [unfolded update(1)]
    using update(3) by (simp add: grants_append grants_Cons) blast
qed

lemma grants_merge_all:
  "grants key content (merge_all key comb os l) k v \<longleftrightarrow>
   grants key content os k v \<or> key l = k \<and> v \<in> content l"
proof (cases "\<exists>x \<in> set os. key x = key l")
  case True
  define f where "f = (\<lambda>x. if key x = key l then comb x l else x)"
  have k: "key (f x) = key x" for x
    using key_comb [of x l] by (simp add: f_def)
  have c: "content (f x) = content x \<union> {w. key x = key l \<and> w \<in> content l}" for x
    using content_comb [of x l] by (auto simp: f_def)
  have "merge_all key comb os l = map f os"
    using True by (simp add: merge_all_def f_def)
  then have "grants key content (merge_all key comb os l) k v \<longleftrightarrow>
      (\<exists>x \<in> set os. key x = k \<and> (v \<in> content x \<or> key x = key l \<and> v \<in> content l))"
    by (simp add: grants_def k c)
  also have "\<dots> \<longleftrightarrow> grants key content os k v \<or> key l = k \<and> v \<in> content l"
    using True by (auto simp: grants_def)
  finally show ?thesis .
next
  case False
  then have "merge_all key comb os l = os @ [l]" by (simp add: merge_all_def)
  then show ?thesis by simp
qed

lemma grants_fold_merge_first:
  "grants key content (fold (\<lambda>l os. merge_first key comb os l) ls os) k v \<longleftrightarrow>
   grants key content os k v \<or> grants key content ls k v"
  by (induction ls arbitrary: os) (auto simp: grants_merge_first)

lemma grants_fold_merge_all:
  "grants key content (fold (\<lambda>l os. merge_all key comb os l) ls os) k v \<longleftrightarrow>
   grants key content os k v \<or> grants key content ls k v"
  by (induction ls arbitrary: os) (auto simp: grants_merge_all)

end

end
