(* ===== verification/Constants.thy ===== *)
theory Constants
  imports Osm_Prelude
begin

text \<open>The constants of \<open>src/pkg/constants/constants.go\<close> that the modelled components use.\<close>

definition LocalhostIPAddress :: string where
  "LocalhostIPAddress = ''127.0.0.1''"

definition RegexMatchAll :: string where
  "RegexMatchAll = ''.*''"

definition WildcardHTTPMethod :: string where
  "WildcardHTTPMethod = ''*''"

definition OSMKubeResourceMonitorAnnotation :: string where
  "OSMKubeResourceMonitorAnnotation = ''openservicemesh.io/monitored-by''"

definition SidecarUniqueIDLabelName :: string where
  "SidecarUniqueIDLabelName = ''osm-proxy-uuid''"

definition ClusterWeightAcceptAll :: int where
  "ClusterWeightAcceptAll = 100"

definition ClusterWeightFailOver :: int where
  "ClusterWeightFailOver = 0"

definition EgressGatewayModeAnnotation :: string where
  "EgressGatewayModeAnnotation = ''openservicemesh.io/egress-gateway-mode''"

definition EgressGatewayModeHTTP2Tunnel :: string where
  "EgressGatewayModeHTTP2Tunnel = ''http2tunnel''"

definition EgressGatewayModeSock5 :: string where
  "EgressGatewayModeSock5 = ''sock5''"

definition ProtocolHTTP :: string where
  "ProtocolHTTP = ''http''"

definition ProtocolHTTPS :: string where
  "ProtocolHTTPS = ''https''"

definition ProtocolTCP :: string where
  "ProtocolTCP = ''tcp''"

definition ProtocolGRPC :: string where
  "ProtocolGRPC = ''grpc''"

definition ProtocolTCPServerFirst :: string where
  "ProtocolTCPServerFirst = ''tcp-server-first''"

definition SupportedProtocolsInMesh :: "string list" where
  "SupportedProtocolsInMesh = [ProtocolTCPServerFirst, ProtocolHTTP, ProtocolTCP, ProtocolGRPC]"

lemmas protocol_defs =
  ProtocolHTTP_def ProtocolHTTPS_def ProtocolTCP_def ProtocolGRPC_def ProtocolTCPServerFirst_def


definition DefaultTracingEndpoint :: string where
  "DefaultTracingEndpoint = ''/api/v2/spans''"

definition DefaultTracingHost :: string where
  "DefaultTracingHost = ''jaeger''"

definition DefaultTracingPort :: uint32 where
  "DefaultTracingPort = 9411"

definition DefaultSidecarLogLevel :: string where
  "DefaultSidecarLogLevel = ''error''"

definition ProxyServerPort :: uint32 where
  "ProxyServerPort = 15128"

definition SidecarClassPipy :: string where
  "SidecarClassPipy = ''pipy''"

definition PrometheusScrapeAnnotation :: string where
  "PrometheusScrapeAnnotation = ''prometheus.io/scrape''"

end
