(* ===== verification/Identity.thy ===== *)
theory Identity
  imports Osm_Prelude
begin

text \<open>
  Service identities (\<open>src/pkg/identity/types.go\<close>): the string \<open><ServiceAccount>.<Namespace>\<close>
  that names a workload in every traffic policy, its principal (the identity with the trust
  domain, the name a certificate carries), and the Kubernetes service account it stands for.
  \<open>ToK8sServiceAccount\<close> indexes the second piece of the split identity and panics when there is
  none, hence the option.
\<close>

type_synonym ServiceIdentity = string

record K8sServiceAccount =
  sa_Namespace :: string
  sa_Name :: string

definition New :: "string \<Rightarrow> string \<Rightarrow> ServiceIdentity" where
  "New name namespace = name @ ''.'' @ namespace"

definition FromPrincipal :: "string \<Rightarrow> string \<Rightarrow> ServiceIdentity" where
  "FromPrincipal servicePrincipal trustDomain = trim_suffix servicePrincipal (''.'' @ trustDomain)"

definition WildcardServiceIdentity :: ServiceIdentity where
  "WildcardServiceIdentity = ''*''"

definition WildcardPrincipal :: string where
  "WildcardPrincipal = ''*''"

definition IsWildcard :: "ServiceIdentity \<Rightarrow> bool" where
  "IsWildcard si \<longleftrightarrow> si = WildcardServiceIdentity"

definition AsPrincipal :: "ServiceIdentity \<Rightarrow> string \<Rightarrow> string" where
  "AsPrincipal si trustDomain = (if IsWildcard si then si else si @ ''.'' @ trustDomain)"

definition ToK8sServiceAccount :: "ServiceIdentity \<Rightarrow> K8sServiceAccount option" where
  "ToK8sServiceAccount si =
     (let chunks = go_split CHR ''.'' si in
      do {
        name \<leftarrow> index chunks 0;
        namespace \<leftarrow> index chunks 1;
        Some \<lparr>sa_Namespace = namespace, sa_Name = name\<rparr>
      })"

definition K8sServiceAccount_String :: "K8sServiceAccount \<Rightarrow> string" where
  "K8sServiceAccount_String sa = sa_Namespace sa @ ''/'' @ sa_Name sa"

definition ToServiceIdentity :: "K8sServiceAccount \<Rightarrow> ServiceIdentity" where
  "ToServiceIdentity sa = New (sa_Name sa) (sa_Namespace sa)"

definition K8sServiceAccount_AsPrincipal :: "K8sServiceAccount \<Rightarrow> string \<Rightarrow> string" where
  "K8sServiceAccount_AsPrincipal sa trustDomain = AsPrincipal (ToServiceIdentity sa) trustDomain"

text \<open>
  The identities the mesh is meant to hold: service account and namespace names without dots
  (Kubernetes namespaces never contain one; service account names may).
\<close>

definition sa_plain :: "K8sServiceAccount \<Rightarrow> bool" where
  "sa_plain sa \<longleftrightarrow> CHR ''.'' \<notin> set (sa_Name sa) \<and> CHR ''.'' \<notin> set (sa_Namespace sa)"


section \<open>Lemmas\<close>

lemma New_not_wildcard [simp]: "New name ns \<noteq> WildcardServiceIdentity"
  by (auto simp: New_def WildcardServiceIdentity_def append_eq_Cons_conv)

lemma ToServiceIdentity_not_wildcard [simp]: "\<not> IsWildcard (ToServiceIdentity sa)"
  by (simp add: IsWildcard_def ToServiceIdentity_def)

lemma New_inject:
  "CHR ''.'' \<notin> set n \<Longrightarrow> CHR ''.'' \<notin> set n' \<Longrightarrow> New n ns = New n' ns' \<longleftrightarrow> n = n' \<and> ns = ns'"
  by (simp add: New_def append_sep_inject)

lemma ToServiceIdentity_inject:
  "sa_plain sa \<Longrightarrow> sa_plain sb \<Longrightarrow> ToServiceIdentity sa = ToServiceIdentity sb \<longleftrightarrow> sa = sb"
  by (auto simp: ToServiceIdentity_def sa_plain_def New_inject)

lemma AsPrincipal_inject:
  "AsPrincipal si td = AsPrincipal sj td \<longleftrightarrow> si = sj"
  by (auto simp: AsPrincipal_def IsWildcard_def WildcardServiceIdentity_def append_eq_Cons_conv
      Cons_eq_append_conv)

lemma AsPrincipal_wildcard: "AsPrincipal si td = WildcardPrincipal \<longleftrightarrow> IsWildcard si"
  by (auto simp: AsPrincipal_def IsWildcard_def WildcardServiceIdentity_def WildcardPrincipal_def
      append_eq_Cons_conv)

lemma ToK8sServiceAccount_New:
  "CHR ''.'' \<notin> set n \<Longrightarrow>
   ToK8sServiceAccount (New n ns) =
     Some \<lparr>sa_Namespace = hd (go_split CHR ''.'' ns), sa_Name = n\<rparr>"
  by (cases "go_split CHR ''.'' ns")
    (simp_all add: ToK8sServiceAccount_def New_def go_string)

lemma ToK8sServiceAccount_inverse:
  "sa_plain sa \<Longrightarrow> ToK8sServiceAccount (ToServiceIdentity sa) = Some sa"
  by (simp add: ToServiceIdentity_def sa_plain_def ToK8sServiceAccount_New go_string)

lemma ToK8sServiceAccount_None:
  "ToK8sServiceAccount si = None \<longleftrightarrow> CHR ''.'' \<notin> set si"
proof (cases "CHR ''.'' \<in> set si")
  case True
  then obtain a b where s: "si = a @ CHR ''.'' # b" "CHR ''.'' \<notin> set a"
    using go_split_append by metis
  then have "ToK8sServiceAccount si \<noteq> None"
    using ToK8sServiceAccount_New [of a b] by (simp add: New_def)
  with True show ?thesis by simp
qed (simp add: ToK8sServiceAccount_def go_string)


section \<open>Properties\<close>

text \<open>
  C23. For a service account whose names contain no dot, the identity and the principal printed
  from it lead back to it: \<open>ToK8sServiceAccount\<close> does not panic and returns the same service
  account, and removing the trust domain from its principal gives its identity.
\<close>

theorem service_account_roundtrip:
  assumes "sa_plain sa"
  shows "ToK8sServiceAccount (ToServiceIdentity sa) = Some sa \<and>
    FromPrincipal (K8sServiceAccount_AsPrincipal sa td) td = ToServiceIdentity sa"
proof
  show "ToK8sServiceAccount (ToServiceIdentity sa) = Some sa"
    using assms by (rule ToK8sServiceAccount_inverse)
  have "K8sServiceAccount_AsPrincipal sa td = ToServiceIdentity sa @ (''.'' @ td)"
    by (simp add: K8sServiceAccount_AsPrincipal_def AsPrincipal_def)
  then show "FromPrincipal (K8sServiceAccount_AsPrincipal sa td) td = ToServiceIdentity sa"
    by (simp only: FromPrincipal_def trim_suffix_append)
qed

theorem service_account_roundtrip_witness:
  "ToK8sServiceAccount (ToServiceIdentity \<lparr>sa_Namespace = ''default'', sa_Name = ''bookbuyer''\<rparr>) =
     Some \<lparr>sa_Namespace = ''default'', sa_Name = ''bookbuyer''\<rparr> \<and>
   FromPrincipal ''bookbuyer.default.cluster.local'' ''cluster.local'' = ''bookbuyer.default''"
  using service_account_roundtrip
    [of "\<lparr>sa_Namespace = ''default'', sa_Name = ''bookbuyer''\<rparr>" "''cluster.local''"]
  by (simp add: sa_plain_def K8sServiceAccount_AsPrincipal_def ToServiceIdentity_def New_def
      AsPrincipal_def IsWildcard_def WildcardServiceIdentity_def)

text \<open>
  C25. Within one trust domain a principal stands for exactly one service account (of those with
  no dot in their names), and no service account has the wildcard principal, which the
  authorization policies read as "everyone".
\<close>

theorem principal_identifies_account:
  assumes "sa_plain sa" and "sa_plain sb"
  shows "(K8sServiceAccount_AsPrincipal sa td = K8sServiceAccount_AsPrincipal sb td \<longleftrightarrow> sa = sb) \<and>
    K8sServiceAccount_AsPrincipal sa td \<noteq> WildcardPrincipal"
  using assms
  by (simp add: K8sServiceAccount_AsPrincipal_def AsPrincipal_inject AsPrincipal_wildcard
      ToServiceIdentity_inject)

theorem principal_identifies_account_witness:
  "K8sServiceAccount_AsPrincipal \<lparr>sa_Namespace = ''b'', sa_Name = ''a''\<rparr> ''td'' \<noteq>
     K8sServiceAccount_AsPrincipal \<lparr>sa_Namespace = ''a'', sa_Name = ''b''\<rparr> ''td''"
  using principal_identifies_account
    [of "\<lparr>sa_Namespace = ''b'', sa_Name = ''a''\<rparr>" "\<lparr>sa_Namespace = ''a'', sa_Name = ''b''\<rparr>" "''td''"]
  by (simp add: sa_plain_def)

text \<open>
  C26. Kubernetes allows dots in the name of a service account, and then the identity is read
  back as another service account: the account \<open>a.b\<close> of namespace \<open>c\<close> is resolved to the
  account \<open>a\<close> of namespace \<open>b\<close>. An identity with no dot at all, such as the wildcard, makes
  the conversion panic, and only such an identity does.
\<close>

theorem dotted_service_account_confused:
  "(CHR ''.'' \<notin> set a \<and> CHR ''.'' \<notin> set b \<longrightarrow>
     ToK8sServiceAccount (ToServiceIdentity \<lparr>sa_Namespace = c, sa_Name = a @ ''.'' @ b\<rparr>) =
       Some \<lparr>sa_Namespace = b, sa_Name = a\<rparr>) \<and>
   (ToK8sServiceAccount si = None \<longleftrightarrow> CHR ''.'' \<notin> set si)"
proof -
  have "ToServiceIdentity \<lparr>sa_Namespace = c, sa_Name = a @ ''.'' @ b\<rparr> = New a (b @ CHR ''.'' # c)"
    by (simp add: ToServiceIdentity_def New_def)
  then show ?thesis
    by (simp add: ToK8sServiceAccount_New ToK8sServiceAccount_None go_string)
qed

theorem dotted_service_account_confused_witness:
  "ToK8sServiceAccount (ToServiceIdentity \<lparr>sa_Namespace = ''tenant'', sa_Name = ''admin.payments''\<rparr>) =
     Some \<lparr>sa_Namespace = ''payments'', sa_Name = ''admin''\<rparr>"
  using dotted_service_account_confused [of "''admin''" "''payments''" "''tenant''"] by simp

end
