(* ===== verification/Mesh_Service.thy ===== *)
theory Mesh_Service
  imports Identity
begin

text \<open>
  Services of the mesh (\<open>src/pkg/service/types.go\<close>): the \<open>MeshService\<close> value that every
  component keys its policies by, and the names of sidecar clusters and traffic matches that are
  printed from it. \<open>ServiceImportUID\<close> is a Kubernetes UID, a string.
\<close>

datatype Locality = LocalNS | LocalCluster | RemoteCluster

record MeshService =
  ms_Namespace :: string
  ms_Name :: string
  ms_Port :: uint16
  ms_TargetPort :: uint16
  ms_Protocol :: string
  ms_ServiceImportUID :: string

definition zero_MeshService :: MeshService where
  "zero_MeshService = \<lparr>ms_Namespace = '''', ms_Name = '''', ms_Port = 0, ms_TargetPort = 0,
     ms_Protocol = '''', ms_ServiceImportUID = ''''\<rparr>"

definition utoa :: "uint16 \<Rightarrow> string" where
  "utoa w = itoa (unat w)"

definition ProviderKey :: "MeshService \<Rightarrow> string" where
  "ProviderKey ms = last (go_split CHR ''.'' (ms_Name ms))"

definition NamespacedKey :: "MeshService \<Rightarrow> string" where
  "NamespacedKey ms = ms_Namespace ms @ ''/'' @ ProviderKey ms"

definition Subdomain :: "MeshService \<Rightarrow> string" where
  "Subdomain ms =
     (let nameComponents = go_split CHR ''.'' (ms_Name ms) in
      if length nameComponents = 1 then '''' else hd nameComponents)"

definition IsMultiClusterService :: "MeshService \<Rightarrow> bool" where
  "IsMultiClusterService ms \<longleftrightarrow> 0 < length (ms_ServiceImportUID ms)"

definition SiblingTo :: "MeshService \<Rightarrow> MeshService \<Rightarrow> bool" where
  "SiblingTo ms svc \<longleftrightarrow> NamespacedKey ms = NamespacedKey svc"

definition MeshService_String :: "MeshService \<Rightarrow> string" where
  "MeshService_String ms = ms_Namespace ms @ ''/'' @ ms_Name ms"

definition SidecarClusterName :: "MeshService \<Rightarrow> string" where
  "SidecarClusterName ms =
     ms_Namespace ms @ ''/'' @ ms_Name ms @ ''|'' @ utoa (ms_TargetPort ms)"

definition SidecarLocalClusterName :: "MeshService \<Rightarrow> string" where
  "SidecarLocalClusterName ms =
     ms_Namespace ms @ ''/'' @ ms_Name ms @ ''|'' @ utoa (ms_TargetPort ms) @ ''|local''"

definition FQDN :: "MeshService \<Rightarrow> string" where
  "FQDN ms = ms_Name ms @ ''.'' @ ms_Namespace ms @ ''.svc.cluster.local''"

definition ServerName :: "MeshService \<Rightarrow> string" where
  "ServerName ms = FQDN ms"

definition OutboundTrafficMatchName :: "MeshService \<Rightarrow> string" where
  "OutboundTrafficMatchName ms =
     ''outbound_'' @ MeshService_String ms @ ''_'' @ utoa (ms_Port ms) @ ''_'' @ ms_Protocol ms"

definition InboundTrafficMatchName :: "MeshService \<Rightarrow> string" where
  "InboundTrafficMatchName ms =
     ''inbound_'' @ MeshService_String ms @ ''_'' @ utoa (ms_TargetPort ms) @ ''_'' @ ms_Protocol ms"

text \<open>
  The package has a function and a method of each of the two names; the method passes its
  namespace where the function takes the name, and its name where it takes the namespace.
\<close>

definition IngressTrafficMatchName :: "string \<Rightarrow> string \<Rightarrow> uint16 \<Rightarrow> string \<Rightarrow> string" where
  "IngressTrafficMatchName name namespace targetPort protocol =
     ''ingress_'' @ namespace @ ''/'' @ name @ ''_'' @ utoa targetPort @ ''_'' @ protocol"

definition MeshService_IngressTrafficMatchName :: "MeshService \<Rightarrow> string" where
  "MeshService_IngressTrafficMatchName ms =
     IngressTrafficMatchName (ms_Namespace ms) (ms_Name ms) (ms_TargetPort ms) (ms_Protocol ms)"

definition AccessControlTrafficMatchName :: "string \<Rightarrow> string \<Rightarrow> uint16 \<Rightarrow> string \<Rightarrow> string" where
  "AccessControlTrafficMatchName name namespace targetPort protocol =
     ''acl_'' @ namespace @ ''/'' @ name @ ''_'' @ utoa targetPort @ ''_'' @ protocol"

definition MeshService_AccessControlTrafficMatchName :: "MeshService \<Rightarrow> string" where
  "MeshService_AccessControlTrafficMatchName ms =
     AccessControlTrafficMatchName (ms_Namespace ms) (ms_Name ms) (ms_TargetPort ms) (ms_Protocol ms)"

definition ExportedServiceTrafficMatchName :: "string \<Rightarrow> string \<Rightarrow> uint16 \<Rightarrow> string \<Rightarrow> string" where
  "ExportedServiceTrafficMatchName name namespace targetPort protocol =
     ''exp_'' @ namespace @ ''/'' @ name @ ''_'' @ utoa targetPort @ ''_'' @ protocol"

type_synonym ClusterName = string

record WeightedCluster =
  wc_ClusterName :: ClusterName
  wc_Weight :: int

text \<open>
  Kubernetes names: a namespace is a DNS label, the name of a mesh service at most
  \<open>subdomain.service\<close>, so neither contains the separators used by the printed names.
\<close>

definition ms_plain :: "MeshService \<Rightarrow> bool" where
  "ms_plain ms \<longleftrightarrow>
     set (ms_Namespace ms) \<inter> {CHR ''/'', CHR ''|'', CHR ''_'', CHR ''.''} = {} \<and>
     set (ms_Name ms) \<inter> {CHR ''/'', CHR ''|'', CHR ''_''} = {}"


section \<open>Lemmas\<close>

lemma utoa_inject [simp]: "utoa v = utoa w \<longleftrightarrow> v = w"
  by (simp add: utoa_def word_unat_eq_iff [symmetric])

lemma utoa_seps [go_string]:
  "CHR ''|'' \<notin> set (utoa n)" "CHR ''_'' \<notin> set (utoa n)" "CHR ''.'' \<notin> set (utoa n)"
  "CHR ''/'' \<notin> set (utoa n)" "CHR '':'' \<notin> set (utoa n)"
  by (simp_all add: utoa_def go_string)

lemma ms_plainD:
  assumes "ms_plain ms"
  shows "CHR ''/'' \<notin> set (ms_Namespace ms)" "CHR ''|'' \<notin> set (ms_Namespace ms)"
    "CHR ''_'' \<notin> set (ms_Namespace ms)" "CHR ''.'' \<notin> set (ms_Namespace ms)"
    "CHR ''/'' \<notin> set (ms_Name ms)" "CHR ''|'' \<notin> set (ms_Name ms)" "CHR ''_'' \<notin> set (ms_Name ms)"
  using assms by (auto simp: ms_plain_def)

lemma ProviderKey_no_dot: "CHR ''.'' \<notin> set (ProviderKey ms)"
  using go_split_pieces [of "ProviderKey ms" "CHR ''.''" "ms_Name ms"]
  by (simp add: ProviderKey_def)

lemma ProviderKey_plain: "CHR ''.'' \<notin> set (ms_Name ms) \<Longrightarrow> ProviderKey ms = ms_Name ms"
  by (simp add: ProviderKey_def go_string)

lemma Subdomain_plain: "CHR ''.'' \<notin> set (ms_Name ms) \<Longrightarrow> Subdomain ms = ''''"
  by (simp add: Subdomain_def go_string)

text \<open>A headless service named \<open>svc\<close> has mesh services named \<open>host.svc\<close>.\<close>

lemma ProviderKey_headless:
  "ms_Name ms = h @ ''.'' @ s \<Longrightarrow> CHR ''.'' \<notin> set h \<Longrightarrow> CHR ''.'' \<notin> set s \<Longrightarrow> ProviderKey ms = s"
  by (simp add: ProviderKey_def go_string)

lemma Subdomain_headless:
  "ms_Name ms = h @ ''.'' @ s \<Longrightarrow> CHR ''.'' \<notin> set h \<Longrightarrow> CHR ''.'' \<notin> set s \<Longrightarrow> Subdomain ms = h"
  by (simp add: Subdomain_def go_string)

lemma SiblingTo_iff:
  "CHR ''/'' \<notin> set (ms_Namespace a) \<Longrightarrow> CHR ''/'' \<notin> set (ms_Namespace b) \<Longrightarrow>
   SiblingTo a b \<longleftrightarrow> ms_Namespace a = ms_Namespace b \<and> ProviderKey a = ProviderKey b"
  by (simp add: SiblingTo_def NamespacedKey_def append_sep_inject)

lemma SiblingTo_refl [simp]: "SiblingTo a a"
  by (simp add: SiblingTo_def)

lemma SiblingTo_sym: "SiblingTo a b \<Longrightarrow> SiblingTo b a"
  by (simp add: SiblingTo_def)

lemma SiblingTo_trans: "SiblingTo a b \<Longrightarrow> SiblingTo b c \<Longrightarrow> SiblingTo a c"
  by (simp add: SiblingTo_def)

lemma MeshService_String_inject:
  "CHR ''/'' \<notin> set (ms_Namespace a) \<Longrightarrow> CHR ''/'' \<notin> set (ms_Namespace b) \<Longrightarrow>
   MeshService_String a = MeshService_String b \<longleftrightarrow>
     ms_Namespace a = ms_Namespace b \<and> ms_Name a = ms_Name b"
  by (simp add: MeshService_String_def append_sep_inject)

lemma SidecarClusterName_inject:
  assumes "ms_plain a" "ms_plain b"
  shows "SidecarClusterName a = SidecarClusterName b \<longleftrightarrow>
    ms_Namespace a = ms_Namespace b \<and> ms_Name a = ms_Name b \<and> ms_TargetPort a = ms_TargetPort b"
  using ms_plainD [OF assms(1)] ms_plainD [OF assms(2)]
  by (simp add: SidecarClusterName_def append_sep_inject)

lemma SidecarLocalClusterName_inject:
  assumes "ms_plain a" "ms_plain b"
  shows "SidecarLocalClusterName a = SidecarLocalClusterName b \<longleftrightarrow>
    ms_Namespace a = ms_Namespace b \<and> ms_Name a = ms_Name b \<and> ms_TargetPort a = ms_TargetPort b"
  using ms_plainD [OF assms(1)] ms_plainD [OF assms(2)]
  by (auto simp: SidecarLocalClusterName_def append_sep_inject go_string)

lemma SidecarLocal_not_remote:
  assumes "ms_plain a" "ms_plain b"
  shows "SidecarLocalClusterName a \<noteq> SidecarClusterName b"
proof
  assume "SidecarLocalClusterName a = SidecarClusterName b"
  then have "utoa (ms_TargetPort a) @ ''|local'' = utoa (ms_TargetPort b)"
    using ms_plainD [OF assms(1)] ms_plainD [OF assms(2)]
    by (simp add: SidecarLocalClusterName_def SidecarClusterName_def append_sep_inject)
  moreover have "CHR ''|'' \<in> set (utoa (ms_TargetPort a) @ ''|local'')" by simp
  ultimately show False by (simp add: go_string)
qed

text \<open>The part of a traffic match name after its prefix determines the service and the port.\<close>

lemma match_name_inject:
  assumes "CHR ''_'' \<notin> set ns" "CHR ''_'' \<notin> set n" "CHR ''_'' \<notin> set ns'" "CHR ''_'' \<notin> set n'"
    and "CHR ''/'' \<notin> set ns" "CHR ''/'' \<notin> set ns'"
  shows "ns @ ''/'' @ n @ ''_'' @ utoa p @ ''_'' @ q = ns' @ ''/'' @ n' @ ''_'' @ utoa p' @ ''_'' @ q'
    \<longleftrightarrow> ns = ns' \<and> n = n' \<and> p = p' \<and> q = q'"
  using assms by (auto simp: append_sep_inject go_string)

lemma IngressTrafficMatchName_inject:
  assumes "CHR ''_'' \<notin> set ns" "CHR ''_'' \<notin> set n" "CHR ''_'' \<notin> set ns'" "CHR ''_'' \<notin> set n'"
    and "CHR ''/'' \<notin> set ns" "CHR ''/'' \<notin> set ns'"
  shows "IngressTrafficMatchName n ns p q = IngressTrafficMatchName n' ns' p' q'
    \<longleftrightarrow> ns = ns' \<and> n = n' \<and> p = p' \<and> q = q'"
  using match_name_inject [OF assms] by (simp add: IngressTrafficMatchName_def)


section \<open>Properties\<close>

text \<open>
  C27. Cluster names do not collide: two services have the same sidecar cluster name exactly when
  they have the same namespace, name and target port, the same holds of the local cluster names,
  and no local cluster name is the name of a remote cluster.
\<close>

theorem cluster_names_unique:
  assumes "ms_plain a" and "ms_plain b"
  shows "(SidecarClusterName a = SidecarClusterName b \<longleftrightarrow>
      ms_Namespace a = ms_Namespace b \<and> ms_Name a = ms_Name b \<and> ms_TargetPort a = ms_TargetPort b) \<and>
    (SidecarLocalClusterName a = SidecarLocalClusterName b \<longleftrightarrow>
      ms_Namespace a = ms_Namespace b \<and> ms_Name a = ms_Name b \<and> ms_TargetPort a = ms_TargetPort b) \<and>
    SidecarLocalClusterName a \<noteq> SidecarClusterName b"
  using assms
  by (simp add: SidecarClusterName_inject SidecarLocalClusterName_inject SidecarLocal_not_remote)

theorem cluster_names_unique_witness:
  "SidecarLocalClusterName \<lparr>ms_Namespace = ''ns'', ms_Name = ''svc'', ms_Port = 80,
      ms_TargetPort = 8080, ms_Protocol = ''http'', ms_ServiceImportUID = ''''\<rparr> \<noteq>
   SidecarClusterName \<lparr>ms_Namespace = ''ns'', ms_Name = ''h.svc'', ms_Port = 80,
      ms_TargetPort = 8080, ms_Protocol = ''http'', ms_ServiceImportUID = ''''\<rparr>"
  using cluster_names_unique [of
      "\<lparr>ms_Namespace = ''ns'', ms_Name = ''svc'', ms_Port = 80,
        ms_TargetPort = 8080, ms_Protocol = ''http'', ms_ServiceImportUID = ''''\<rparr>"
      "\<lparr>ms_Namespace = ''ns'', ms_Name = ''h.svc'', ms_Port = 80,
        ms_TargetPort = 8080, ms_Protocol = ''http'', ms_ServiceImportUID = ''''\<rparr>"]
  by (simp add: ms_plain_def)

text \<open>
  The \<open>IngressTrafficMatchName\<close> method of a mesh service, which the ingress verifier uses to
  find the filter chain, gives the name that the catalog gives to the ingress traffic match of
  that service only when the service is named like its namespace: name and namespace are swapped.
\<close>

theorem ingress_match_name_swapped:
  assumes "ms_plain ms"
  shows "MeshService_IngressTrafficMatchName ms =
      IngressTrafficMatchName (ms_Name ms) (ms_Namespace ms) (ms_TargetPort ms) (ms_Protocol ms)
    \<longleftrightarrow> ms_Name ms = ms_Namespace ms"
  using ms_plainD [OF assms]
  by (auto simp: MeshService_IngressTrafficMatchName_def IngressTrafficMatchName_inject)

theorem ingress_match_name_swapped_witness:
  "MeshService_IngressTrafficMatchName \<lparr>ms_Namespace = ''prod'', ms_Name = ''web'', ms_Port = 80,
      ms_TargetPort = 8080, ms_Protocol = ''http'', ms_ServiceImportUID = ''''\<rparr> \<noteq>
   IngressTrafficMatchName ''web'' ''prod'' 8080 ''http''"
  using ingress_match_name_swapped [of "\<lparr>ms_Namespace = ''prod'', ms_Name = ''web'', ms_Port = 80,
      ms_TargetPort = 8080, ms_Protocol = ''http'', ms_ServiceImportUID = ''''\<rparr>"]
  by (simp add: ms_plain_def)

end
