(* ===== verification/Net_Ip.thy ===== *)
theory Net_Ip
  imports Osm_Prelude
begin

text \<open>
  The part of Go's package \<open>net\<close> that the endpoint providers use: \<open>net.IP\<close> (a byte slice, four or
  sixteen bytes when it is an address, empty when nil), \<open>ParseIP\<close>, \<open>To4\<close> and \<open>String\<close>.
\<close>

type_synonym IP = "8 word list"

definition v4InV6Prefix :: IP where
  "v4InV6Prefix = [0, 0, 0, 0, 0, 0, 0, 0, 0, 0, 255, 255]"

definition To4 :: "IP \<Rightarrow> IP" where
  "To4 ip =
     (if length ip = 4 then ip
      else if length ip = 16 \<and> take 12 ip = v4InV6Prefix then drop 12 ip else [])"


section \<open>Printing\<close>

definition btoa :: "8 word \<Rightarrow> string" where
  "btoa b = itoa (unat b)"

definition dotted :: "IP \<Rightarrow> string" where
  "dotted p4 = btoa (p4 ! 0) @ ''.'' @ btoa (p4 ! 1) @ ''.'' @ btoa (p4 ! 2) @ ''.'' @ btoa (p4 ! 3)"

definition hex_digit :: "nat \<Rightarrow> char" where
  "hex_digit n = (if n < 10 then char_of (48 + n) else char_of (87 + n))"

fun xtoa :: "nat \<Rightarrow> string" where
  "xtoa n = (if n < 16 then [hex_digit n] else xtoa (n div 16) @ [hex_digit (n mod 16)])"

declare xtoa.simps [simp del]

text \<open>The sixteen-bit fields of an address.\<close>

fun fields16 :: "IP \<Rightarrow> nat list" where
  "fields16 (a # b # ip) = (unat a * 256 + unat b) # fields16 ip"
| "fields16 _ = []"

text \<open>
  The run of zero fields to elide, as start and length in fields: the first longest run. The loop
  of \<open>String\<close> continues one field after the end of a run it has taken, which it has seen not to
  be zero.
\<close>

fun zero_run :: "nat list \<Rightarrow> nat" where
  "zero_run (0 # fs) = Suc (zero_run fs)"
| "zero_run _ = 0"

fun longest_zeros :: "nat \<Rightarrow> nat list \<Rightarrow> nat \<times> nat \<Rightarrow> nat \<times> nat" where
  "longest_zeros i [] best = best"
| "longest_zeros i (f # fs) best =
     longest_zeros (Suc i) fs
       (if zero_run (f # fs) > snd best then (i, zero_run (f # fs)) else best)"

fun join_colon :: "nat list \<Rightarrow> string" where
  "join_colon [] = ''''"
| "join_colon [f] = xtoa f"
| "join_colon (f # fs) = xtoa f @ '':'' @ join_colon fs"

definition colon_hex :: "IP \<Rightarrow> string" where
  "colon_hex ip =
     (let fs = fields16 ip; (e, n) = longest_zeros 0 fs (0, 0) in
      if n \<le> 1 then join_colon fs
      else join_colon (take e fs) @ ''::'' @ join_colon (drop (e + n) fs))"

definition IP_String :: "IP \<Rightarrow> string" where
  "IP_String ip =
     (if length ip = 0 then ''<nil>''
      else if length (To4 ip) = 4 then dotted (To4 ip)
      else if length ip \<noteq> 16 then
        ''?'' @ concat (map (\<lambda>b. [hex_digit (unat b div 16), hex_digit (unat b mod 16)]) ip)
      else colon_hex ip)"


section \<open>Parsing\<close>

definition is_digit :: "char \<Rightarrow> bool" where
  "is_digit c \<longleftrightarrow> 48 \<le> (of_char c :: nat) \<and> (of_char c :: nat) \<le> 57"

definition hex_value :: "char \<Rightarrow> nat option" where
  "hex_value c =
     (let n = of_char c :: nat in
      if 48 \<le> n \<and> n \<le> 57 then Some (n - 48)
      else if 97 \<le> n \<and> n \<le> 102 then Some (n - 87)
      else if 65 \<le> n \<and> n \<le> 70 then Some (n - 55) else None)"

text \<open>\<open>dtoi\<close> and \<open>xtoi\<close> fail on an empty prefix and from \<open>0xFFFFFF\<close> on.\<close>

definition dtoi :: "string \<Rightarrow> (nat \<times> string \<times> string) option" where
  "dtoi s =
     (let ds = takeWhile is_digit s; n = atoi ds in
      if ds = [] \<or> n \<ge> 16777215 then None else Some (n, ds, dropWhile is_digit s))"

definition xtoi :: "string \<Rightarrow> (nat \<times> string) option" where
  "xtoi s =
     (let ds = takeWhile (\<lambda>c. hex_value c \<noteq> None) s;
          n = foldl (\<lambda>acc c. acc * 16 + the (hex_value c)) 0 ds in
      if ds = [] \<or> n \<ge> 16777215 then None
      else Some (n, dropWhile (\<lambda>c. hex_value c \<noteq> None) s))"

definition parse_octet :: "string \<Rightarrow> (8 word \<times> string) option" where
  "parse_octet s =
     (case dtoi s of
        None \<Rightarrow> None
      | Some (n, ds, rest) \<Rightarrow>
          if n > 255 \<or> (length ds > 1 \<and> hd ds = CHR ''0'') then None
          else Some (of_nat n, rest))"

fun parse_octets :: "nat \<Rightarrow> string \<Rightarrow> (IP \<times> string) option" where
  "parse_octets 0 s = Some ([], s)"
| "parse_octets (Suc k) (c # s) =
     (if c \<noteq> CHR ''.'' then None
      else do {
        (b, rest) \<leftarrow> parse_octet s;
        (bs, rest') \<leftarrow> parse_octets k rest;
        Some (b # bs, rest')
      })"
| "parse_octets (Suc k) [] = None"

definition parseIPv4 :: "string \<Rightarrow> IP option" where
  "parseIPv4 s =
     do {
       (b, rest) \<leftarrow> parse_octet s;
       (bs, rest') \<leftarrow> parse_octets 3 rest;
       if rest' = [] then Some (v4InV6Prefix @ b # bs) else None
     }"

text \<open>
  The loop of \<open>parseIPv6\<close>: \<open>i\<close> bytes parsed so far in \<open>acc\<close>, \<open>el\<close> the position of the ellipsis. A dot
  after the digits of a field means that the rest is an IPv4 address.
\<close>

fun parseIPv6_loop :: "nat \<Rightarrow> IP \<Rightarrow> nat option \<Rightarrow> string \<Rightarrow> (IP \<times> nat option \<times> string) option" where
  "parseIPv6_loop fuel acc el s =
     (case fuel of 0 \<Rightarrow> None | Suc fuel' \<Rightarrow>
      if length acc \<ge> 16 then Some (acc, el, s)
      else
      do {
        (n, rest) \<leftarrow> xtoi s;
        if n > 65535 then None
        else if rest \<noteq> [] \<and> hd rest = CHR ''.'' then
          (if (el = None \<and> length acc \<noteq> 12) \<or> length acc + 4 > 16 then None
           else do { ip4 \<leftarrow> parseIPv4 s; Some (acc @ drop 12 ip4, el, []) })
        else
          let acc' = acc @ [of_nat (n div 256), of_nat (n mod 256)] in
          if rest = [] then Some (acc', el, [])
          else if hd rest \<noteq> CHR '':'' \<or> length rest = 1 then None
          else
            let rest1 = tl rest in
            if hd rest1 = CHR '':'' then
              (if el \<noteq> None then None
               else if tl rest1 = [] then Some (acc', Some (length acc'), [])
               else parseIPv6_loop fuel' acc' (Some (length acc')) (tl rest1))
            else parseIPv6_loop fuel' acc' el rest1
      })"

declare parseIPv6_loop.simps [simp del]

definition parseIPv6 :: "string \<Rightarrow> IP option" where
  "parseIPv6 s =
     (let start = has_prefix s ''::'' in
      if start \<and> length s = 2 then Some (replicate 16 0)
      else
      do {
        (acc, el, rest) \<leftarrow> parseIPv6_loop 9 [] (if start then Some 0 else None)
                              (if start then drop 2 s else s);
        if rest \<noteq> [] then None
        else if length acc < 16 then
          (case el of
             None \<Rightarrow> None
           | Some e \<Rightarrow> Some (take e acc @ replicate (16 - length acc) 0 @ drop e acc))
        else if el \<noteq> None then None
        else Some acc
      })"

definition ParseIP :: "string \<Rightarrow> IP option" where
  "ParseIP s =
     (case filter (\<lambda>c. c = CHR ''.'' \<or> c = CHR '':'') s of
        [] \<Rightarrow> None
      | c # _ \<Rightarrow> if c = CHR ''.'' then parseIPv4 s else parseIPv6 s)"


section \<open>Lemmas\<close>

lemma itoa_is_digit: "c \<in> set (itoa n) \<Longrightarrow> is_digit c"
  using itoa_digits [of c n] by (simp add: is_digit_def)

lemma itoa_first: "n \<noteq> 0 \<Longrightarrow> hd (itoa n) \<noteq> CHR ''0''"
proof (induction n rule: itoa.induct)
  case (1 n)
  show ?case
  proof (cases "n < 10")
    case True
    have "(of_char (digit n) :: nat) \<noteq> of_char CHR ''0''"
      using True "1.prems" by (simp add: of_char_digit)
    then have "digit n \<noteq> CHR ''0''" by metis
    with True show ?thesis by (simp add: itoa.simps [of n])
  next
    case False
    with "1.IH" show ?thesis by (simp add: itoa.simps [of n])
  qed
qed

lemma itoa_0: "itoa 0 = ''0''"
  by code_simp

lemma takeWhile_itoa:
  "rest = [] \<or> \<not> is_digit (hd rest) \<Longrightarrow> takeWhile is_digit (itoa n @ rest) = itoa n"
  using itoa_is_digit by (cases rest) (auto simp: takeWhile_append2 takeWhile_eq_all_conv)

lemma dropWhile_itoa:
  "rest = [] \<or> \<not> is_digit (hd rest) \<Longrightarrow> dropWhile is_digit (itoa n @ rest) = rest"
  using itoa_is_digit by (cases rest) (auto simp: dropWhile_append2 dropWhile_eq_Nil_conv)

lemma parse_octet_btoa:
  assumes "rest = [] \<or> \<not> is_digit (hd rest)"
  shows "parse_octet (btoa b @ rest) = Some (b, rest)"
proof -
  have "unat b < 2 ^ LENGTH(8)" by (rule unsigned_less)
  then have lt: "unat b < 256" by simp
  have z: "\<not> (length (itoa (unat b)) > 1 \<and> hd (itoa (unat b)) = CHR ''0'')"
  proof (cases "unat b = 0")
    case True
    then show ?thesis by (simp add: itoa_0)
  next
    case False
    then show ?thesis using itoa_first [of "unat b"] by simp
  qed
  show ?thesis
    using lt z
    by (simp add: parse_octet_def dtoi_def Let_def btoa_def takeWhile_itoa [OF assms]
        dropWhile_itoa [OF assms] del: atoi.simps)
qed

lemma not_digit_dot [simp]: "\<not> is_digit CHR ''.''"
  by (simp add: is_digit_def)

lemma parseIPv4_dotted: "parseIPv4 (dotted [a, b, c, d]) = Some (v4InV6Prefix @ [a, b, c, d])"
  using parse_octet_btoa [of "[]" d]
  by (simp add: parseIPv4_def dotted_def parse_octet_btoa numeral_3_eq_3)

lemma filter_btoa: "filter (\<lambda>c. c = CHR ''.'' \<or> c = CHR '':'') (btoa b) = []"
  using itoa_seps [of "unat b"] by (auto simp: btoa_def filter_empty_conv)

lemma ParseIP_dotted: "ParseIP (dotted [a, b, c, d]) = Some (v4InV6Prefix @ [a, b, c, d])"
proof -
  have "\<exists>cs. filter (\<lambda>c. c = CHR ''.'' \<or> c = CHR '':'') (dotted [a, b, c, d]) = CHR ''.'' # cs"
    by (simp add: dotted_def filter_btoa)
  then show ?thesis
    using parseIPv4_dotted [of a b c d] by (auto simp: ParseIP_def)
qed

lemma To4_mapped: "length bs = 4 \<Longrightarrow> To4 (v4InV6Prefix @ bs) = bs"
  by (simp add: To4_def v4InV6Prefix_def)

lemma IP_String_mapped: "length bs = 4 \<Longrightarrow> IP_String (v4InV6Prefix @ bs) = dotted bs"
  by (simp add: IP_String_def To4_mapped)



section \<open>Masks and networks\<close>

unbundle bit_operations_syntax

text \<open>\<open>CIDRMask\<close>: the loop fills the bytes of the mask from the number of ones left.\<close>

fun mask_bytes :: "nat \<Rightarrow> nat \<Rightarrow> 8 word list" where
  "mask_bytes 0 n = []"
| "mask_bytes (Suc l) n =
     (if n \<ge> 8 then 255 # mask_bytes l (n - 8) else NOT (drop_bit n 255) # mask_bytes l 0)"

definition CIDRMask :: "nat \<Rightarrow> nat \<Rightarrow> 8 word list" where
  "CIDRMask ones bits =
     (if bits \<noteq> 32 \<and> bits \<noteq> 128 then []
      else if ones > bits then [] else mask_bytes (bits div 8) ones)"

text \<open>\<open>IP.Mask\<close>: an IPv4 address in its long form is masked by a short mask; else the lengths agree.\<close>

definition IP_Mask :: "IP \<Rightarrow> 8 word list \<Rightarrow> IP" where
  "IP_Mask ip msk =
     (let msk1 = (if length msk = 16 \<and> length ip = 4 \<and> take 12 msk = replicate 12 255 then drop 12 msk else msk);
          ip1 = (if length msk1 = 4 \<and> length ip = 16 \<and> take 12 ip = v4InV6Prefix then drop 12 ip else ip) in
      if length ip1 \<noteq> length msk1 then [] else map2 (AND) ip1 msk1)"

record IPNet =
  net_IP :: IP
  net_Mask :: "8 word list"

definition ParseCIDR :: "string \<Rightarrow> (IP \<times> IPNet) option" where
  "ParseCIDR s =
     (if CHR ''/'' \<notin> set s then None
      else
        let addr = takeWhile (\<lambda>c. c \<noteq> CHR ''/'') s;
            msk = tl (dropWhile (\<lambda>c. c \<noteq> CHR ''/'') s);
            (iplen, ip) = (case parseIPv4 addr of Some ip \<Rightarrow> (4, Some ip) | None \<Rightarrow> (16, parseIPv6 addr)) in
        case (ip, dtoi msk) of
          (Some ip', Some (n, ds, rest)) \<Rightarrow>
            if rest \<noteq> [] \<or> n > 8 * iplen then None
            else let m = CIDRMask n (8 * iplen) in Some (ip', \<lparr>net_IP = IP_Mask ip' m, net_Mask = m\<rparr>)
        | _ \<Rightarrow> None)"

lemma length_mask_bytes [simp]: "length (mask_bytes l n) = l"
  by (induction l n rule: mask_bytes.induct) simp_all

end
