(* ===== verification/Endpoint.thy ===== *)
theory Endpoint
  imports Mesh_Service Net_Ip
begin

text \<open>
  Endpoints (\<open>src/pkg/endpoint/types.go\<close>), and the two provider interfaces of
  \<open>src/pkg/endpoint\<close> and \<open>src/pkg/service\<close> as records of functions: a Go value of interface type is
  the record of its methods. A method whose implementation may panic returns an option.
\<close>

type_synonym Port = uint32
type_synonym Weight = uint32
type_synonym Priority = uint32

record Endpoint =
  ep_IP :: IP
  ep_Port :: Port
  ep_Weight :: Weight
  ep_Priority :: Priority
  ep_Zone :: string
  ep_ClusterKey :: string
  ep_LBType :: string
  ep_Path :: string

definition zero_Endpoint :: Endpoint where
  "zero_Endpoint = \<lparr>ep_IP = [], ep_Port = 0, ep_Weight = 0, ep_Priority = 0, ep_Zone = '''',
     ep_ClusterKey = '''', ep_LBType = '''', ep_Path = ''''\<rparr>"

definition Endpoint_String :: "Endpoint \<Rightarrow> string" where
  "Endpoint_String ep = ''(ip='' @ IP_String (ep_IP ep) @ '', port='' @ itoa (unat (ep_Port ep)) @ '')''"

record EndpointProvider =
  epp_ListEndpointsForService :: "MeshService \<Rightarrow> Endpoint list"
  epp_ListEndpointsForIdentity :: "ServiceIdentity \<Rightarrow> Endpoint list option"
  epp_GetResolvableEndpointsForService :: "MeshService \<Rightarrow> Endpoint list"
  epp_GetID :: string

record ServiceProvider =
  svp_GetServicesForServiceIdentity :: "ServiceIdentity \<Rightarrow> MeshService list option"
  svp_ListServices :: "MeshService list"
  svp_ListServiceIdentitiesForService :: "MeshService \<Rightarrow> ServiceIdentity list"
  svp_GetID :: string

end
