(* ===== verification/Policy_Api.thy ===== *)
theory Policy_Api
  imports Osm_Prelude
begin

text \<open>
  The resources of the policy API (\<open>src/pkg/apis/policy/v1alpha1\<close>), a record per struct with a
  field per field. A pointer that may be nil is an option. Of the Kubernetes metadata the code
  embeds, \<open>ObjectMeta\<close> keeps the fields that the modelled code reads, and \<open>TypeMeta\<close>, which it
  never reads, is left out. A \<open>metav1.Duration\<close> is its number of nanoseconds, a \<open>float32\<close> its bit
  pattern: both are only copied and compared. Each \<open>zero_...\<close> constant is the zero value of its
  struct.
\<close>

section \<open>Kubernetes metadata\<close>

record ObjectMeta =
  om_Name :: string
  om_Namespace :: string
  om_UID :: string
  om_Labels :: "(string, string) gomap"
  om_Annotations :: "(string, string) gomap"

definition zero_ObjectMeta :: ObjectMeta where
  "zero_ObjectMeta = \<lparr>om_Name = '''', om_Namespace = '''', om_UID = '''', om_Labels = [],
     om_Annotations = []\<rparr>"

record TypedLocalObjectReference =
  ref_APIGroup :: "string option"
  ref_Kind :: string
  ref_Name :: string

record SecretReference =
  sr_Name :: string
  sr_Namespace :: string

type_synonym duration = int
type_synonym float32 = "32 word"


section \<open>UpstreamTrafficSetting\<close>

record TCPConnectionSettings =
  tcs_MaxConnections :: "uint32 option"
  tcs_ConnectTimeout :: "duration option"

record HTTPCircuitBreaking =
  hcb_StatTimeWindow :: "duration option"
  hcb_MinRequestAmount :: uint32
  hcb_DegradedTimeWindow :: "duration option"
  hcb_SlowTimeThreshold :: "duration option"
  hcb_SlowAmountThreshold :: "uint32 option"
  hcb_SlowRatioThreshold :: "float32 option"
  hcb_ErrorAmountThreshold :: "uint32 option"
  hcb_ErrorRatioThreshold :: "float32 option"
  hcb_DegradedStatusCode :: "int option"
  hcb_DegradedResponseContent :: "string option"

record HTTPConnectionSettings =
  hcs_MaxRequests :: "uint32 option"
  hcs_MaxRequestsPerConnection :: "uint32 option"
  hcs_MaxPendingRequests :: "uint32 option"
  hcs_MaxRetries :: "uint32 option"
  hcs_CircuitBreaking :: "HTTPCircuitBreaking option"

record ConnectionSettingsSpec =
  cs_TCP :: "TCPConnectionSettings option"
  cs_HTTP :: "HTTPConnectionSettings option"

record TCPLocalRateLimitSpec =
  trl_Connections :: uint32
  trl_Unit :: string
  trl_Burst :: uint32

record HTTPHeaderValue =
  hv_Name :: string
  hv_Value :: string

record HTTPLocalRateLimitSpec =
  hrl_Requests :: uint32
  hrl_Unit :: string
  hrl_Burst :: uint32
  hrl_ResponseStatusCode :: uint32
  hrl_ResponseHeadersToAdd :: "HTTPHeaderValue list"

record LocalRateLimitSpec =
  lrl_TCP :: "TCPLocalRateLimitSpec option"
  lrl_HTTP :: "HTTPLocalRateLimitSpec option"

record RateLimitSpec =
  rl_Local :: "LocalRateLimitSpec option"

record HTTPPerRouteRateLimitSpec =
  prl_Local :: "HTTPLocalRateLimitSpec option"

record HTTPRouteSpec =
  hrs_Path :: string
  hrs_RateLimit :: "HTTPPerRouteRateLimitSpec option"

record UpstreamTrafficSettingSpec =
  uts_Host :: string
  uts_ConnectionSettings :: "ConnectionSettingsSpec option"
  uts_RateLimit :: "RateLimitSpec option"
  uts_HTTPRoutes :: "HTTPRouteSpec list"

record UpstreamTrafficSettingStatus =
  utss_CurrentStatus :: string
  utss_Reason :: string

record UpstreamTrafficSetting =
  uts_Meta :: ObjectMeta
  uts_Spec :: UpstreamTrafficSettingSpec
  uts_Status :: UpstreamTrafficSettingStatus

definition zero_UpstreamTrafficSetting :: UpstreamTrafficSetting where
  "zero_UpstreamTrafficSetting =
     \<lparr>uts_Meta = zero_ObjectMeta,
      uts_Spec = \<lparr>uts_Host = '''', uts_ConnectionSettings = None, uts_RateLimit = None,
        uts_HTTPRoutes = []\<rparr>,
      uts_Status = \<lparr>utss_CurrentStatus = '''', utss_Reason = ''''\<rparr>\<rparr>"


section \<open>Egress\<close>

record EgressSourceCertSpec =
  esc_SerialNumber :: int
  esc_SubjectAltNames :: "string list"
  esc_Expiration :: string
  esc_Secret :: SecretReference

record EgressSourceMTLSSpec =
  esm_Issuer :: string
  esm_Cert :: "EgressSourceCertSpec option"

record EgressSourceSpec =
  ess_Kind :: string
  ess_Name :: string
  ess_Namespace :: string
  ess_MTLS :: "EgressSourceMTLSSpec option"

record PortSpec =
  ps_Number :: int
  ps_Protocol :: string

record EgressSpec =
  egs_Sources :: "EgressSourceSpec list"
  egs_Hosts :: "string list"
  egs_IPAddresses :: "string list"
  egs_Ports :: "PortSpec list"
  egs_Matches :: "TypedLocalObjectReference list"

record Egress =
  eg_Meta :: ObjectMeta
  eg_Spec :: EgressSpec


section \<open>IngressBackend and AccessControl\<close>

record TLSSpec =
  tls_SkipClientCertValidation :: bool
  tls_SNIHosts :: "string list"

record BackendSpec =
  be_Name :: string
  be_Port :: PortSpec
  be_TLS :: "TLSSpec option"

definition KindService :: string where
  "KindService = ''Service''"

definition KindAuthenticatedPrincipal :: string where
  "KindAuthenticatedPrincipal = ''AuthenticatedPrincipal''"

definition KindIPRange :: string where
  "KindIPRange = ''IPRange''"

record IngressSourceSpec =
  is_Kind :: string
  is_Name :: string
  is_Namespace :: string

record IngressBackendSpec =
  ibs_Backends :: "BackendSpec list"
  ibs_Sources :: "IngressSourceSpec list"
  ibs_Matches :: "TypedLocalObjectReference list"

record IngressBackendStatus =
  ibst_CurrentStatus :: string
  ibst_Reason :: string

record IngressBackend =
  ib_Meta :: ObjectMeta
  ib_Spec :: IngressBackendSpec
  ib_Status :: IngressBackendStatus

record AccessControlBackendSpec =
  acb_Name :: string
  acb_Port :: PortSpec
  acb_TLS :: "TLSSpec option"

record AccessControlSourceSpec =
  acs_Kind :: string
  acs_Name :: string
  acs_Namespace :: string

record AccessControlSpec =
  acsp_Backends :: "AccessControlBackendSpec list"
  acsp_Sources :: "AccessControlSourceSpec list"
  acsp_Matches :: "TypedLocalObjectReference list"

record AccessControlStatus =
  acst_CurrentStatus :: string
  acst_Reason :: string

record AccessControl =
  ac_Meta :: ObjectMeta
  ac_Spec :: AccessControlSpec
  ac_Status :: AccessControlStatus


section \<open>Retry and EgressGateway\<close>

record RetryPolicySpec =
  rp_RetryOn :: string
  rp_PerTryTimeout :: "duration option"
  rp_NumRetries :: "uint32 option"
  rp_RetryBackoffBaseInterval :: "duration option"

record RetrySrcDstSpec =
  rsd_Kind :: string
  rsd_Name :: string
  rsd_Namespace :: string

record RetrySpec =
  rts_Source :: RetrySrcDstSpec
  rts_Destinations :: "RetrySrcDstSpec list"
  rts_RetryPolicy :: RetryPolicySpec

record Retry =
  rt_Meta :: ObjectMeta
  rt_Spec :: RetrySpec

record EgressBindingSubject =
  ebs_Name :: string
  ebs_Namespace :: string

record GatewayBindingSubject =
  gbs_Service :: string
  gbs_Namespace :: string
  gbs_Weight :: "int option"

record EgressPolicyGatewayRule =
  epg_EgressPolicies :: "EgressBindingSubject list"
  epg_EgressGateways :: "GatewayBindingSubject list"

record EgressGatewaySpec =
  egw_GlobalEgressGateways :: "GatewayBindingSubject list option"
  egw_EgressPolicyGatewayRules :: "EgressPolicyGatewayRule list"
  egw_Matches :: "TypedLocalObjectReference list"

record EgressGateway =
  egw_Meta :: ObjectMeta
  egw_Spec :: EgressGatewaySpec

end
