(* ===== verification/Traffic_Policy.thy ===== *)
theory Traffic_Policy
  imports Keyed_Merge Constants Endpoint Policy_Api
begin

text \<open>
  Traffic policies (\<open>src/pkg/trafficpolicy\<close>): the values that the catalog computes and the
  sidecar generators consume, and the operations that build and merge them.

  The headers of a route match are a map that may be nil; \<open>reflect.DeepEqual\<close> distinguishes nil
  from empty, hence the option. A \<open>mapset.Set\<close> is a set. \<open>reflect.DeepEqual\<close> on the remaining
  fields is equality of the records.
\<close>

section \<open>Types\<close>

type_synonym TrafficSpecName = string
type_synonym TrafficSpecMatchName = string

datatype PathMatchType = PathMatchRegex | PathMatchExact | PathMatchPrefix

record HTTPRouteMatch =
  hrm_Path :: string
  hrm_PathMatchType :: PathMatchType
  hrm_Methods :: "string list"
  hrm_Headers :: "(string \<rightharpoonup> string) option"

record HTTPRouteMatchWithWeightedClusters =
  hrw_UpstreamClusters :: "WeightedCluster list"
  hrw_RouteMatches :: "HTTPRouteMatch list"
  hrw_HasSplitMatches :: bool

record TCPRouteMatch =
  trm_Ports :: "uint16 list"

record RouteWeightedClusters =
  rwc_HTTPRouteMatch :: HTTPRouteMatch
  rwc_WeightedClusters :: "WeightedCluster set"
  rwc_RetryPolicy :: "RetryPolicySpec option"
  rwc_RateLimit :: "HTTPPerRouteRateLimitSpec option"

record Rule =
  rule_Route :: RouteWeightedClusters
  rule_AllowedPrincipals :: "string set"

record InboundTrafficPolicy =
  itp_Name :: string
  itp_Hostnames :: "string list"
  itp_Rules :: "Rule list"
  itp_RateLimit :: "RateLimitSpec option"

record OutboundTrafficPolicy =
  otp_Name :: string
  otp_Hostnames :: "string list"
  otp_Routes :: "RouteWeightedClusters list"

record TrafficTargetWithRoutes =
  ttr_Name :: string
  ttr_Destination :: ServiceIdentity
  ttr_Sources :: "ServiceIdentity list"
  ttr_TCPRouteMatches :: "TCPRouteMatch list"

record MeshClusterConfig =
  mcc_Name :: string
  mcc_Service :: MeshService
  mcc_Address :: string
  mcc_Port :: uint32
  mcc_EnableSidecarActiveHealthChecks :: bool
  mcc_UpstreamTrafficSetting :: "UpstreamTrafficSetting option"

record TrafficMatch =
  tm_DestinationPort :: int
  tm_DestinationProtocol :: string
  tm_DestinationIPRanges :: "string list"
  tm_ServerNames :: "string list"
  tm_Cluster :: string
  tm_Name :: string
  tm_WeightedClusters :: "WeightedCluster list"
  tm_RateLimit :: "RateLimitSpec option"
  tm_EgressGateWay :: "string option"

definition zero_TrafficMatch :: TrafficMatch where
  "zero_TrafficMatch = \<lparr>tm_DestinationPort = 0, tm_DestinationProtocol = '''',
     tm_DestinationIPRanges = [], tm_ServerNames = [], tm_Cluster = '''', tm_Name = '''',
     tm_WeightedClusters = [], tm_RateLimit = None, tm_EgressGateWay = None\<rparr>"

record OutboundMeshTrafficPolicy =
  omp_TrafficMatches :: "TrafficMatch list"
  omp_HTTPRouteConfigsPerPort :: "(int, OutboundTrafficPolicy list) gomap"
  omp_ClustersConfigs :: "MeshClusterConfig list"
  omp_ServicesResolvableSet :: "(string, string list) gomap"

record InboundMeshTrafficPolicy =
  imp_TrafficMatches :: "TrafficMatch list"
  imp_HTTPRouteConfigsPerPort :: "(int, InboundTrafficPolicy list) gomap"
  imp_ClustersConfigs :: "MeshClusterConfig list"

text \<open>Egress (\<open>egress_types.go\<close>, \<open>egress_gateway_types.go\<close>).\<close>

record EgressClusterConfig =
  ecc_Name :: string
  ecc_Host :: string
  ecc_Port :: int
  ecc_UpstreamTrafficSetting :: "UpstreamTrafficSetting option"
  ecc_SourceMTLS :: "EgressSourceMTLSSpec option"

record EgressHTTPRoutingRule =
  ehr_Route :: RouteWeightedClusters
  ehr_AllowedDestinationIPRanges :: "string list"

record EgressHTTPRouteConfig =
  ehc_Name :: string
  ehc_Hostnames :: "string list"
  ehc_RoutingRules :: "EgressHTTPRoutingRule list"

record EgressTrafficPolicy =
  etp_TrafficMatches :: "TrafficMatch list"
  etp_HTTPRouteConfigsPerPort :: "(int, EgressHTTPRouteConfig list) gomap"
  etp_ClustersConfigs :: "EgressClusterConfig list"

record EgressGatewayConfig =
  egc_Service :: string
  egc_Namespace :: string
  egc_Mode :: string
  egc_Weight :: "int option"
  egc_Endpoints :: "Endpoint list"

record EgressPolicyConfig =
  epc_Name :: string
  epc_Namespace :: string

record EgressGatewayRule =
  egr_Name :: string
  egr_Namespace :: string
  egr_EgressPolicies :: "EgressPolicyConfig list"
  egr_EgressGateways :: "EgressGatewayConfig list"

record EgressGatewayPolicy =
  egp_Global :: "EgressGatewayConfig list"
  egp_Rules :: "EgressGatewayRule list"

text \<open>
  Ingress, access control and exported services. The code puts a possibly nil policy pointer into
  \<open>HTTPRoutePolicies\<close>, hence the option.
\<close>

record IngressTrafficMatch =
  itm_Name :: string
  itm_Port :: uint32
  itm_Protocol :: string
  itm_SourceIPRanges :: "string list"
  itm_TLS :: "TLSSpec option"
  itm_ServerNames :: "string list"
  itm_SkipClientCertValidation :: bool
  itm_RateLimit :: "RateLimitSpec option"

record IngressTrafficPolicy =
  ingp_TrafficMatches :: "IngressTrafficMatch list"
  ingp_HTTPRoutePolicies :: "InboundTrafficPolicy option list"

record AccessControlTrafficMatch =
  acm_Name :: string
  acm_Port :: uint32
  acm_Protocol :: string
  acm_SourceIPRanges :: "string list"
  acm_TLS :: "TLSSpec option"
  acm_RateLimit :: "RateLimitSpec option"

record AccessControlTrafficPolicy =
  acp_TrafficMatches :: "AccessControlTrafficMatch list"
  acp_HTTPRoutePolicies :: "InboundTrafficPolicy option list"

record ServiceExportTrafficMatch =
  sem_Name :: string
  sem_Port :: uint32
  sem_Protocol :: string
  sem_SourceIPRanges :: "string list"
  sem_TLS :: "TLSSpec option"

record ServiceExportTrafficPolicy =
  sep_TrafficMatches :: "ServiceExportTrafficMatch list"
  sep_HTTPRoutePolicies :: "InboundTrafficPolicy option list"


section \<open>Building routes and policies\<close>

definition WildCardRouteMatch :: HTTPRouteMatch where
  "WildCardRouteMatch = \<lparr>hrm_Path = RegexMatchAll, hrm_PathMatchType = PathMatchRegex,
     hrm_Methods = [WildcardHTTPMethod], hrm_Headers = None\<rparr>"

definition NewRouteWeightedCluster ::
  "HTTPRouteMatch \<Rightarrow> WeightedCluster list \<Rightarrow> UpstreamTrafficSetting option \<Rightarrow> RouteWeightedClusters"
where
  "NewRouteWeightedCluster route weightedClusters upstreamTrafficSetting =
     (let routeWC = \<lparr>rwc_HTTPRouteMatch = route, rwc_WeightedClusters = set weightedClusters,
            rwc_RetryPolicy = None, rwc_RateLimit = None\<rparr> in
      case upstreamTrafficSetting of
        None \<Rightarrow> routeWC
      | Some uts \<Rightarrow>
          routeWC\<lparr>rwc_RateLimit :=
            (case find (\<lambda>httpRoute. hrs_Path httpRoute = hrm_Path route) (uts_HTTPRoutes (uts_Spec uts)) of
               None \<Rightarrow> None | Some httpRoute \<Rightarrow> hrs_RateLimit httpRoute)\<rparr>)"

definition NewInboundTrafficPolicy ::
  "string \<Rightarrow> string list \<Rightarrow> UpstreamTrafficSetting option \<Rightarrow> InboundTrafficPolicy" where
  "NewInboundTrafficPolicy name hostnames upstreamTrafficSetting =
     \<lparr>itp_Name = name, itp_Hostnames = hostnames, itp_Rules = [],
      itp_RateLimit = (case upstreamTrafficSetting of None \<Rightarrow> None
                       | Some uts \<Rightarrow> uts_RateLimit (uts_Spec uts))\<rparr>"

definition NewOutboundTrafficPolicy :: "string \<Rightarrow> string list \<Rightarrow> OutboundTrafficPolicy" where
  "NewOutboundTrafficPolicy name hostnames =
     \<lparr>otp_Name = name, otp_Hostnames = hostnames, otp_Routes = []\<rparr>"

text \<open>\<open>order\<close> is the order in which the set of clusters is iterated.\<close>

definition TotalClustersWeight :: "WeightedCluster list \<Rightarrow> RouteWeightedClusters \<Rightarrow> int" where
  "TotalClustersWeight order rwc =
     fold (\<lambda>cluster totalWeight. wrap64 (totalWeight + wc_Weight cluster)) order 0"

datatype TrafficPolicyError = RouteAlreadyExists HTTPRouteMatch RouteWeightedClusters string

text \<open>\<open>AddRoute\<close> returns the error or the updated policy; on an error the policy is unchanged.\<close>

definition AddRoute ::
  "OutboundTrafficPolicy \<Rightarrow> HTTPRouteMatch \<Rightarrow> RetryPolicySpec option \<Rightarrow> WeightedCluster list \<Rightarrow>
     TrafficPolicyError + OutboundTrafficPolicy" where
  "AddRoute out httpRouteMatch retryPolicy weightedClusters =
     (let wc = set weightedClusters; same = (\<lambda>r. rwc_HTTPRouteMatch r = httpRouteMatch) in
      case find same (otp_Routes out) of
        Some existingRoute \<Rightarrow>
          if rwc_WeightedClusters existingRoute = wc
          then Inr (out\<lparr>otp_Routes :=
                 the (update_first same (\<lambda>r. r\<lparr>rwc_RetryPolicy := retryPolicy\<rparr>) (otp_Routes out))\<rparr>)
          else Inl (RouteAlreadyExists (rwc_HTTPRouteMatch existingRoute) existingRoute (otp_Name out))
      | None \<Rightarrow>
          Inr (out\<lparr>otp_Routes := otp_Routes out @
            [\<lparr>rwc_HTTPRouteMatch = httpRouteMatch, rwc_WeightedClusters = wc,
              rwc_RetryPolicy = retryPolicy, rwc_RateLimit = None\<rparr>]\<rparr>))"

definition GetEgressTrafficMatchName :: "int \<Rightarrow> string \<Rightarrow> string" where
  "GetEgressTrafficMatchName port protocol =
     ''egress-'' @ to_lower protocol @ ''.'' @ itoa_int port"

end
