(* ===== verification/Traffic_Merge.thy ===== *)
theory Traffic_Merge
  imports Traffic_Policy
begin

text \<open>
  Merging and deduplication of traffic policies (\<open>src/pkg/trafficpolicy/trafficpolicy.go\<close>), with
  the properties of these operations and of \<open>AddRoute\<close>: one rule per route and one route per route
  match, and a merge that grants exactly what the merged lists grant.
\<close>

section \<open>Merging rules and routes\<close>

text \<open>
  Rules are merged by their route, route clusters by their route match. The value model below is
  exact for rules held by distinct pointers; rules shared between policies are in the store model
  of the next section.
\<close>

definition merge_principals :: "Rule \<Rightarrow> Rule \<Rightarrow> Rule" where
  "merge_principals original latest =
     original\<lparr>rule_AllowedPrincipals := rule_AllowedPrincipals original \<union> rule_AllowedPrincipals latest\<rparr>"

definition MergeRules :: "Rule list \<Rightarrow> Rule list \<Rightarrow> Rule list" where
  "MergeRules originalRules latestRules =
     fold (\<lambda>latest rules. merge_first rule_Route merge_principals rules latest) latestRules originalRules"

definition merge_clusters :: "RouteWeightedClusters \<Rightarrow> RouteWeightedClusters \<Rightarrow> RouteWeightedClusters" where
  "merge_clusters original latest =
     (if rwc_WeightedClusters original \<noteq> rwc_WeightedClusters latest
      then original\<lparr>rwc_WeightedClusters := rwc_WeightedClusters original \<union> rwc_WeightedClusters latest\<rparr>
      else original)"

definition mergeRoutesWeightedClusters ::
  "RouteWeightedClusters list \<Rightarrow> RouteWeightedClusters list \<Rightarrow> RouteWeightedClusters list" where
  "mergeRoutesWeightedClusters originalRoutes latestRoutes =
     fold (\<lambda>latest routes. merge_all rwc_HTTPRouteMatch merge_clusters routes latest)
       latestRoutes originalRoutes"

definition slicesUnionIfSubset :: "string list \<Rightarrow> string list \<Rightarrow> string list" where
  "slicesUnionIfSubset first second =
     (if set first \<subseteq> set second \<or> set second \<subseteq> set first
      then sorted_list_of_set (set first \<union> set second) else [])"


section \<open>Merging policies that share rules\<close>

text \<open>
  \<open>MergeInboundPolicies\<close> appends the \<open>*Rule\<close> pointers of a policy to every policy it is merged into,
  and \<open>MergeRules\<close> updates the rule behind a pointer. A store maps the pointers to rules; a policy
  holds pointers. The policies themselves are values: a policy pointer that occurs both among the
  original and the latest policies, which no caller passes, is not represented.
\<close>

type_synonym rule_store = "nat \<Rightarrow> Rule"

record PolicyRef =
  pr_Name :: string
  pr_Hostnames :: "string list"
  pr_Rules :: "nat list"
  pr_RateLimit :: "RateLimitSpec option"

definition merge_rule_ref :: "nat \<Rightarrow> rule_store \<times> nat list \<Rightarrow> rule_store \<times> nat list" where
  "merge_rule_ref latest = (\<lambda>(st, originals).
     (case find (\<lambda>original. rule_Route (st latest) = rule_Route (st original)) originals of
        Some original \<Rightarrow> (st(original := merge_principals (st original) (st latest)), originals)
      | None \<Rightarrow> (st, originals @ [latest])))"

definition MergeRules_ref :: "rule_store \<Rightarrow> nat list \<Rightarrow> nat list \<Rightarrow> rule_store \<times> nat list" where
  "MergeRules_ref st originalRules latestRules = fold merge_rule_ref latestRules (st, originalRules)"

fun merge_policy_ref ::
  "PolicyRef \<Rightarrow> PolicyRef list \<Rightarrow> rule_store \<Rightarrow> rule_store \<times> PolicyRef list \<times> bool" where
  "merge_policy_ref l [] st = (st, [], False)"
| "merge_policy_ref l (org # original) st =
     (let hostsUnion = slicesUnionIfSubset (pr_Hostnames org) (pr_Hostnames l) in
      if 0 < length hostsUnion then
        let (st1, rules) = MergeRules_ref st (pr_Rules org) (pr_Rules l);
            (st2, original', _) = merge_policy_ref l original st1 in
        (st2, org\<lparr>pr_Hostnames := hostsUnion, pr_Rules := rules\<rparr> # original', True)
      else
        let (st2, original', foundHostnames) = merge_policy_ref l original st in
        (st2, org # original', foundHostnames))"

definition MergeInboundPolicies ::
  "rule_store \<Rightarrow> PolicyRef list \<Rightarrow> PolicyRef list \<Rightarrow> rule_store \<times> PolicyRef list" where
  "MergeInboundPolicies st original latest =
     fold (\<lambda>l (st, original).
        let (st', original', foundHostnames) = merge_policy_ref l original st in
        (st', if foundHostnames then original' else original' @ [l]))
       latest (st, original)"


section \<open>Deduplication\<close>

text \<open>
  The hash of a value is computed by a library function that may fail, so it is a parameter; the
  map from hashes to values is ranged over in an unspecified order \<open>iter\<close>.
\<close>

definition map_order :: "(('k \<times> 'v) list \<Rightarrow> ('k \<times> 'v) list) \<Rightarrow> bool" where
  "map_order iter \<longleftrightarrow> (\<forall>m. mset (iter m) = mset m)"

fun hash_into :: "('a \<Rightarrow> 'e + 'h) \<Rightarrow> 'a list \<Rightarrow> ('h, 'a) gomap \<Rightarrow> 'e + ('h, 'a) gomap" where
  "hash_into hash [] m = Inr m"
| "hash_into hash (x # xs) m =
     (case hash x of Inl err \<Rightarrow> Inl err | Inr h \<Rightarrow> hash_into hash xs (gm_put m h x))"

definition DeduplicateTrafficMatches ::
  "(TrafficMatch \<Rightarrow> 'e + 'h) \<Rightarrow> (('h \<times> TrafficMatch) list \<Rightarrow> ('h \<times> TrafficMatch) list) \<Rightarrow>
     TrafficMatch list \<Rightarrow> 'e + TrafficMatch list" where
  "DeduplicateTrafficMatches hash iter matches =
     (case hash_into hash matches [] of
        Inl err \<Rightarrow> Inl err | Inr matchesMap \<Rightarrow> Inr (map snd (iter matchesMap)))"

definition DeduplicateClusterConfigs ::
  "(EgressClusterConfig \<Rightarrow> 'e + 'h) \<Rightarrow> (('h \<times> EgressClusterConfig) list \<Rightarrow> ('h \<times> EgressClusterConfig) list) \<Rightarrow>
     EgressClusterConfig list \<Rightarrow> 'e + EgressClusterConfig list" where
  "DeduplicateClusterConfigs hash iter configs =
     (case hash_into hash configs [] of
        Inl err \<Rightarrow> Inl err | Inr configMap \<Rightarrow> Inr (map snd (iter configMap)))"


section \<open>Lemmas on merging\<close>

lemma merge_principals_simps [simp]:
  "rule_Route (merge_principals x l) = rule_Route x"
  "rule_AllowedPrincipals (merge_principals x l) = rule_AllowedPrincipals x \<union> rule_AllowedPrincipals l"
  by (simp_all add: merge_principals_def)

lemma merge_clusters_simps [simp]:
  "rwc_HTTPRouteMatch (merge_clusters x l) = rwc_HTTPRouteMatch x"
  "rwc_WeightedClusters (merge_clusters x l) = rwc_WeightedClusters x \<union> rwc_WeightedClusters l"
  by (simp_all add: merge_clusters_def)

interpretation rules: keyed_union rule_Route merge_principals rule_AllowedPrincipals
  by unfold_locales simp_all

interpretation routes: keyed_union rwc_HTTPRouteMatch merge_clusters rwc_WeightedClusters
  by unfold_locales simp_all

text \<open>The list of rules allows the principal on the route.\<close>

abbreviation allows :: "Rule list \<Rightarrow> RouteWeightedClusters \<Rightarrow> string \<Rightarrow> bool" where
  "allows \<equiv> grants rule_Route rule_AllowedPrincipals"

lemma MergeRules_allows [merge_laws]:
  "allows (MergeRules os ls) rt p \<longleftrightarrow> allows os rt p \<or> allows ls rt p"
  by (simp add: MergeRules_def rules.grants_fold_merge_first)

lemma MergeRules_routes [merge_laws]:
  "rule_Route ` set (MergeRules os ls) = rule_Route ` set os \<union> rule_Route ` set ls"
  by (simp add: MergeRules_def rules.keys_fold_merge_first)

lemma MergeRules_distinct [merge_laws]:
  "distinct (map rule_Route os) \<Longrightarrow> distinct (map rule_Route (MergeRules os ls))"
  by (simp add: MergeRules_def rules.distinct_keys_fold_merge_first)

lemma fold_MergeRules_allows [merge_laws]:
  "allows (fold (\<lambda>rs acc. MergeRules acc rs) rss os) rt p \<longleftrightarrow>
   allows os rt p \<or> (\<exists>rs \<in> set rss. allows rs rt p)"
  by (induction rss arbitrary: os) (auto simp: merge_laws)

lemma fold_MergeRules_distinct [merge_laws]:
  "distinct (map rule_Route os) \<Longrightarrow>
   distinct (map rule_Route (fold (\<lambda>rs acc. MergeRules acc rs) rss os))"
  by (induction rss arbitrary: os) (auto simp: merge_laws)

lemma fold_MergeRules_routes [merge_laws]:
  "rule_Route ` set (fold (\<lambda>rs acc. MergeRules acc rs) rss os) =
   rule_Route ` set os \<union> (\<Union>rs \<in> set rss. rule_Route ` set rs)"
  by (induction rss arbitrary: os) (auto simp: merge_laws)

lemma slicesUnionIfSubset_nonempty:
  "slicesUnionIfSubset a b \<noteq> [] \<Longrightarrow>
   set (slicesUnionIfSubset a b) = set a \<union> set b \<and> (set a \<subseteq> set b \<or> set b \<subseteq> set a)"
  by (auto simp: slicesUnionIfSubset_def split: if_splits)


section \<open>Lemmas on the rule store\<close>

lemma update_first_store:
  "distinct os \<Longrightarrow> l \<notin> set os \<Longrightarrow>
   update_first (\<lambda>x. rule_Route (st l) = rule_Route x) (\<lambda>x. merge_principals x (st l)) (map st os) =
     (case find (\<lambda>r. rule_Route (st l) = rule_Route (st r)) os of
        None \<Rightarrow> None
      | Some r \<Rightarrow> Some (map (st(r := merge_principals (st r) (st l))) os))"
proof (induction os)
  case (Cons a os)
  show ?case
  proof (cases "rule_Route (st l) = rule_Route (st a)")
    case True
    with Cons.prems show ?thesis by (simp add: map_fun_upd)
  next
    case False
    have "r \<in> set os" if "find (\<lambda>r. rule_Route (st l) = rule_Route (st r)) os = Some r" for r
      using that by (blast dest: find_SomeD)
    with Cons False show ?thesis by (auto split: option.splits)
  qed
qed simp

lemma merge_rule_ref_refines:
  assumes "merge_rule_ref l (st, os) = (st', os')" and "distinct os" and "l \<notin> set os"
  shows "map st' os' = merge_first rule_Route merge_principals (map st os) (st l)"
    and "\<And>r. r \<notin> set os \<Longrightarrow> st' r = st r"
    and "distinct os'" and "set os' \<subseteq> insert l (set os)"
proof -
  let ?f = "find (\<lambda>r. rule_Route (st l) = rule_Route (st r)) os"
  have mem: "r \<in> set os" if "?f = Some r" for r
    using that by (blast dest: find_SomeD)
  show "map st' os' = merge_first rule_Route merge_principals (map st os) (st l)"
    using assms(1)
    by (auto simp: merge_first_def update_first_store [OF assms(2,3)] merge_rule_ref_def
        split: option.splits)
  show "\<And>r. r \<notin> set os \<Longrightarrow> st' r = st r"
    using assms(1) mem by (auto simp: merge_rule_ref_def split: option.splits)
  show "distinct os'" "set os' \<subseteq> insert l (set os)"
    using assms by (auto simp: merge_rule_ref_def split: option.splits)
qed

lemma MergeRules_ref_refines_aux:
  "distinct (os @ ls) \<Longrightarrow> fold merge_rule_ref ls (st, os) = (st', os') \<Longrightarrow>
   map st' os' = MergeRules (map st os) (map st ls)"
proof (induction ls arbitrary: st os)
  case (Cons l ls)
  obtain st1 os1 where m: "merge_rule_ref l (st, os) = (st1, os1)" by fastforce
  have d: "distinct os" "l \<notin> set os" using Cons.prems(1) by auto
  note r = merge_rule_ref_refines [OF m d]
  have "distinct (os1 @ ls)" using r(3,4) Cons.prems(1) by auto
  moreover have "fold merge_rule_ref ls (st1, os1) = (st', os')" using Cons.prems(2) m by simp
  ultimately have "map st' os' = MergeRules (map st1 os1) (map st1 ls)" by (rule Cons.IH)
  moreover have "map st1 ls = map st ls" using r(2) Cons.prems(1) by auto
  ultimately show ?case using r(1) by (simp add: MergeRules_def)
qed (simp add: MergeRules_def)

text \<open>What every merge keeps: routes of rules do not change and principals are only added.\<close>

definition store_le :: "rule_store \<Rightarrow> rule_store \<Rightarrow> bool" where
  "store_le st st' \<longleftrightarrow>
     (\<forall>r. rule_Route (st' r) = rule_Route (st r) \<and>
          rule_AllowedPrincipals (st r) \<subseteq> rule_AllowedPrincipals (st' r))"

definition covers :: "rule_store \<Rightarrow> nat list \<Rightarrow> rule_store \<Rightarrow> nat \<Rightarrow> bool" where
  "covers st' rs' st r \<longleftrightarrow>
     (\<exists>q \<in> set rs'. rule_Route (st' q) = rule_Route (st r) \<and>
        rule_AllowedPrincipals (st r) \<subseteq> rule_AllowedPrincipals (st' q))"

lemma store_le_refl [simp]: "store_le st st"
  by (simp add: store_le_def)

lemma store_le_trans: "store_le a b \<Longrightarrow> store_le b c \<Longrightarrow> store_le a c"
  unfolding store_le_def by (metis order_trans)

lemma covers_mono:
  "covers st1 rs1 st r \<Longrightarrow> store_le st1 st2 \<Longrightarrow> set rs1 \<subseteq> set rs2 \<Longrightarrow> covers st2 rs2 st r"
  by (auto simp: covers_def store_le_def dest: subsetD) blast

lemma covers_earlier: "covers st2 rs st1 r \<Longrightarrow> store_le st0 st1 \<Longrightarrow> covers st2 rs st0 r"
  unfolding covers_def store_le_def by (metis order_trans)

lemma covers_self: "r \<in> set rs \<Longrightarrow> store_le st st' \<Longrightarrow> covers st' rs st r"
  unfolding covers_def store_le_def by blast

lemma covers_allows:
  "covers st' rs st r \<Longrightarrow> who \<in> rule_AllowedPrincipals (st r) \<Longrightarrow>
   allows (map st' rs) (rule_Route (st r)) who"
  by (auto simp: covers_def grants_def)

lemma merge_rule_ref_step:
  assumes "merge_rule_ref l (st, os) = (st', os')"
  shows "store_le st st'" and "set os \<subseteq> set os'" and "covers st' os' st l"
proof -
  show "store_le st st'" "set os \<subseteq> set os'"
    using assms by (auto simp: merge_rule_ref_def store_le_def split: option.splits)
  show "covers st' os' st l"
  proof (cases "find (\<lambda>r. rule_Route (st l) = rule_Route (st r)) os")
    case None
    then show ?thesis using assms by (auto simp: merge_rule_ref_def covers_def)
  next
    case (Some r)
    then have "r \<in> set os" "rule_Route (st l) = rule_Route (st r)"
      by (blast dest: find_SomeD)+
    moreover have "os' = os" "st' r = merge_principals (st r) (st l)"
      using Some assms by (auto simp: merge_rule_ref_def)
    ultimately show ?thesis unfolding covers_def by (intro bexI [of _ r]) simp_all
  qed
qed

lemma MergeRules_ref_step:
  "fold merge_rule_ref ls (st, os) = (st', os') \<Longrightarrow>
   store_le st st' \<and> set os \<subseteq> set os' \<and> (\<forall>l \<in> set ls. covers st' os' st l)"
proof (induction ls arbitrary: st os)
  case (Cons l ls)
  obtain st1 os1 where m: "merge_rule_ref l (st, os) = (st1, os1)" by fastforce
  note a = merge_rule_ref_step [OF m]
  from Cons.prems m have "fold merge_rule_ref ls (st1, os1) = (st', os')" by simp
  note b = Cons.IH [OF this]
  have "store_le st st'" using a(1) b by (blast intro: store_le_trans)
  moreover have "covers st' os' st l" using covers_mono [OF a(3)] b by blast
  moreover have "\<forall>l \<in> set ls. covers st' os' st l" using b covers_earlier [OF _ a(1)] by blast
  ultimately show ?case using a(2) b by auto
qed simp


definition policy_le :: "PolicyRef \<Rightarrow> PolicyRef \<Rightarrow> bool" where
  "policy_le p q \<longleftrightarrow> set (pr_Hostnames p) \<subseteq> set (pr_Hostnames q) \<and> set (pr_Rules p) \<subseteq> set (pr_Rules q)"

text \<open>Policy \<open>q\<close> serves every hostname of \<open>p\<close> and allows there what \<open>p\<close> allowed.\<close>

definition policy_covered :: "rule_store \<Rightarrow> PolicyRef \<Rightarrow> rule_store \<Rightarrow> PolicyRef \<Rightarrow> bool" where
  "policy_covered st p st' q \<longleftrightarrow>
     set (pr_Hostnames p) \<subseteq> set (pr_Hostnames q) \<and>
     (\<forall>r \<in> set (pr_Rules p). covers st' (pr_Rules q) st r)"

lemma policy_covered_mono:
  "policy_covered st p st1 q1 \<Longrightarrow> store_le st1 st2 \<Longrightarrow> policy_le q1 q2 \<Longrightarrow> policy_covered st p st2 q2"
  unfolding policy_covered_def policy_le_def by (meson covers_mono order_trans)

lemma policy_covered_earlier:
  "policy_covered st1 p st2 q \<Longrightarrow> store_le st0 st1 \<Longrightarrow> policy_covered st0 p st2 q"
  unfolding policy_covered_def by (meson covers_earlier)

lemma policy_covered_self: "policy_covered st p st p"
  by (simp add: policy_covered_def covers_self)

lemma covers_trans:
  "covers st1 rs st r \<Longrightarrow> \<forall>y \<in> set rs. covers st2 rs' st1 y \<Longrightarrow> covers st2 rs' st r"
  unfolding covers_def by (metis order_trans)

lemma policy_covered_trans:
  "policy_covered st p st1 q \<Longrightarrow> policy_covered st1 q st2 q' \<Longrightarrow> policy_covered st p st2 q'"
  unfolding policy_covered_def using covers_trans by (metis order_trans)

lemma merge_policy_ref_step:
  "merge_policy_ref l os st = (st', os', found) \<Longrightarrow>
   store_le st st' \<and> list_all2 policy_le os os' \<and>
   (found \<longrightarrow> (\<exists>q \<in> set os'. policy_covered st l st' q))"
proof (induction os arbitrary: st st' os' found)
  case (Cons p os)
  let ?u = "slicesUnionIfSubset (pr_Hostnames p) (pr_Hostnames l)"
  show ?case
  proof (cases "?u = []")
    case True
    obtain os1 where m: "merge_policy_ref l os st = (st', os1, found)" and o: "os' = p # os1"
      using Cons.prems True by (auto simp: Let_def split: prod.splits)
    from Cons.IH [OF m] o show ?thesis by (auto simp: policy_le_def)
  next
    case False
    obtain st1 rules where r: "MergeRules_ref st (pr_Rules p) (pr_Rules l) = (st1, rules)" by fastforce
    obtain os1 f where m: "merge_policy_ref l os st1 = (st', os1, f)"
      and o: "os' = p\<lparr>pr_Hostnames := ?u, pr_Rules := rules\<rparr> # os1"
      using Cons.prems False r by (auto simp: Let_def split: prod.splits)
    have u: "set ?u = set (pr_Hostnames p) \<union> set (pr_Hostnames l)"
      using slicesUnionIfSubset_nonempty [OF False] by simp
    from MergeRules_ref_step [OF r [unfolded MergeRules_ref_def]]
    have a: "store_le st st1" "set (pr_Rules p) \<subseteq> set rules"
      and c: "\<forall>x \<in> set (pr_Rules l). covers st1 rules st x" by simp_all
    from Cons.IH [OF m] have b: "store_le st1 st'" "list_all2 policy_le os os1" by simp_all
    have "policy_covered st l st' (p\<lparr>pr_Hostnames := ?u, pr_Rules := rules\<rparr>)"
      using c covers_mono [OF _ b(1)] u by (auto simp: policy_covered_def)
    moreover have "policy_le p (p\<lparr>pr_Hostnames := ?u, pr_Rules := rules\<rparr>)"
      using a(2) u by (simp add: policy_le_def)
    ultimately show ?thesis using store_le_trans [OF a(1) b(1)] b(2) o by auto
  qed
qed simp

lemma list_all2_covered:
  assumes "list_all2 policy_le os os'" and "store_le st1 st2"
    and "\<exists>q \<in> set os. policy_covered st p st1 q"
  shows "\<exists>q \<in> set os'. policy_covered st p st2 q"
proof -
  from assms(3) obtain i where i: "i < length os" "policy_covered st p st1 (os ! i)"
    by (metis in_set_conv_nth)
  with assms(1) have "policy_le (os ! i) (os' ! i)" "i < length os'"
    by (auto simp: list_all2_conv_all_nth)
  with i(2) assms(2) show ?thesis using policy_covered_mono nth_mem by blast
qed

lemma MergeInboundPolicies_covers_aux:
  "MergeInboundPolicies st os ls = (st', os') \<Longrightarrow>
   store_le st st' \<and> (\<forall>p \<in> set os \<union> set ls. \<exists>q \<in> set os'. policy_covered st p st' q)"
proof (induction ls arbitrary: st os)
  case Nil
  then show ?case by (auto simp: MergeInboundPolicies_def intro: policy_covered_self)
next
  case (Cons l ls)
  obtain st1 os1 f where m: "merge_policy_ref l os st = (st1, os1, f)" by (metis prod_cases3)
  define os2 where "os2 = (if f then os1 else os1 @ [l])"
  have "MergeInboundPolicies st1 os2 ls = (st', os')"
    using Cons.prems m by (simp add: MergeInboundPolicies_def os2_def)
  from Cons.IH [OF this] have st: "store_le st1 st'"
    and ih: "\<And>p. p \<in> set os2 \<or> p \<in> set ls \<Longrightarrow> \<exists>q \<in> set os'. policy_covered st1 p st' q" by auto
  from merge_policy_ref_step [OF m] have s: "store_le st st1" "list_all2 policy_le os os1"
    and found: "f \<Longrightarrow> \<exists>q \<in> set os1. policy_covered st l st1 q" by auto
  have two: "\<exists>q \<in> set os'. policy_covered st p st' q" if "\<exists>q \<in> set os2. policy_covered st p st1 q" for p
    using that ih policy_covered_trans by blast
  have "\<exists>q \<in> set os2. policy_covered st p st1 q" if "p \<in> set os" for p
    using list_all2_covered [OF s(2,1)] that policy_covered_self by (fastforce simp: os2_def)
  moreover have "\<exists>q \<in> set os2. policy_covered st l st1 q"
    using found policy_covered_earlier [OF policy_covered_self s(1)] by (auto simp: os2_def)
  moreover have "\<exists>q \<in> set os'. policy_covered st p st' q" if "p \<in> set ls" for p
    using ih that policy_covered_earlier [OF _ s(1)] by blast
  ultimately show ?case using two store_le_trans [OF s(1) st] by auto
qed


text \<open>
  Which pointers a merge leaves for a route: those there were, or else the first of the merged policy.
  This is how two policies come to share a rule.
\<close>

definition rules_for :: "rule_store \<Rightarrow> RouteWeightedClusters \<Rightarrow> nat list \<Rightarrow> nat list" where
  "rules_for st route rs = filter (\<lambda>r. rule_Route (st r) = route) rs"

lemma rules_for_store_le: "store_le st st' \<Longrightarrow> rules_for st' route rs = rules_for st route rs"
  by (simp add: rules_for_def store_le_def)

lemma find_rules_for:
  "find (\<lambda>r. route = rule_Route (st r)) os = (case rules_for st route os of [] \<Rightarrow> None | r # _ \<Rightarrow> Some r)"
  by (induction os) (auto simp: rules_for_def)

lemma MergeRules_ref_rules_for:
  "fold merge_rule_ref ls (st, os) = (st', os') \<Longrightarrow>
   rules_for st route os' = (if rules_for st route os = [] then take 1 (rules_for st route ls) else rules_for st route os)"
proof (induction ls arbitrary: st os)
  case (Cons l ls)
  obtain st1 os1 where m: "merge_rule_ref l (st, os) = (st1, os1)" by fastforce
  have keep: "rules_for st1 route rs = rules_for st route rs" for rs
    using merge_rule_ref_step(1) [OF m] by (rule rules_for_store_le)
  have "rules_for st route os1 = (if rules_for st route os = [] then rules_for st route [l] else rules_for st route os)"
    using m by (auto simp: merge_rule_ref_def find_rules_for rules_for_def split: list.splits)
  moreover from Cons.prems m have "fold merge_rule_ref ls (st1, os1) = (st', os')" by simp
  from Cons.IH [OF this] have "rules_for st route os' =
      (if rules_for st route os1 = [] then take 1 (rules_for st route ls) else rules_for st route os1)"
    unfolding keep .
  ultimately show ?case by (auto simp: rules_for_def)
qed (simp add: rules_for_def)

text \<open>What merging a policy does to the policy at an index.\<close>

lemma merge_policy_ref_nth:
  assumes "merge_policy_ref l os st = (st', os', found)" and "i < length os"
    and "slicesUnionIfSubset (pr_Hostnames (os ! i)) (pr_Hostnames l) = hosts"
  shows "length os' = length os"
    and "hosts = [] \<Longrightarrow> os' ! i = os ! i"
    and "hosts \<noteq> [] \<Longrightarrow> found \<and> (\<exists>st1 st2 rules. store_le st st1 \<and> store_le st2 st' \<and>
      MergeRules_ref st1 (pr_Rules (os ! i)) (pr_Rules l) = (st2, rules) \<and>
      os' ! i = (os ! i)\<lparr>pr_Hostnames := hosts, pr_Rules := rules\<rparr>)"
proof -
  have "length os' = length os \<and> (hosts = [] \<longrightarrow> os' ! i = os ! i) \<and>
    (hosts \<noteq> [] \<longrightarrow> found \<and> (\<exists>st1 st2 rules. store_le st st1 \<and> store_le st2 st' \<and>
      MergeRules_ref st1 (pr_Rules (os ! i)) (pr_Rules l) = (st2, rules) \<and>
      os' ! i = (os ! i)\<lparr>pr_Hostnames := hosts, pr_Rules := rules\<rparr>))"
    using assms
  proof (induction os arbitrary: i st os' found)
    case (Cons p os)
    let ?u = "slicesUnionIfSubset (pr_Hostnames p) (pr_Hostnames l)"
    obtain st1 rules f os1 where r: "(if ?u = [] then (st, pr_Rules p) else MergeRules_ref st (pr_Rules p) (pr_Rules l)) = (st1, rules)"
      and m: "merge_policy_ref l os st1 = (st', os1, f)" and found: "found = (?u \<noteq> [] \<or> f)"
      and o: "os' = (if ?u = [] then p else p\<lparr>pr_Hostnames := ?u, pr_Rules := rules\<rparr>) # os1"
      using Cons.prems(1) by (auto simp: Let_def split: prod.splits if_splits)
    have le: "store_le st st1" "store_le st1 st'"
      using r MergeRules_ref_step [of "pr_Rules l" st "pr_Rules p" st1 rules] merge_policy_ref_step [OF m]
      by (auto simp: MergeRules_ref_def split: if_splits)
    show ?case
    proof (cases i)
      case 0
      have "length os1 = length os" using merge_policy_ref_step [OF m] by (auto dest: list_all2_lengthD)
      moreover have "\<exists>st1 st2 rules. store_le st st1 \<and> store_le st2 st' \<and>
          MergeRules_ref st1 (pr_Rules p) (pr_Rules l) = (st2, rules) \<and>
          os' ! i = p\<lparr>pr_Hostnames := ?u, pr_Rules := rules\<rparr>" if "?u \<noteq> []"
        by (rule exI [of _ st], rule exI [of _ st1], rule exI [of _ rules]) (use 0 o r le(2) that in simp)
      ultimately show ?thesis using 0 Cons.prems(3) o found by auto
    next
      case (Suc k)
      with Cons.prems(2,3) have k: "k < length os" "slicesUnionIfSubset (pr_Hostnames (os ! k)) (pr_Hostnames l) = hosts"
        by simp_all
      from Cons.IH [OF m k] o found Suc show ?thesis using store_le_trans [OF le(1)] by auto
    qed
  qed simp
  then show "length os' = length os" "hosts = [] \<Longrightarrow> os' ! i = os ! i"
    "hosts \<noteq> [] \<Longrightarrow> found \<and> (\<exists>st1 st2 rules. store_le st st1 \<and> store_le st2 st' \<and>
      MergeRules_ref st1 (pr_Rules (os ! i)) (pr_Rules l) = (st2, rules) \<and>
      os' ! i = (os ! i)\<lparr>pr_Hostnames := hosts, pr_Rules := rules\<rparr>)" by blast+
qed

lemma merge_policy_ref_rules_for:
  assumes "merge_policy_ref l os st = (st', os', found)" and "i < length os"
    and "slicesUnionIfSubset (pr_Hostnames (os ! i)) (pr_Hostnames l) \<noteq> []"
  shows "rules_for st route (pr_Rules (os' ! i)) =
    (if rules_for st route (pr_Rules (os ! i)) = [] then take 1 (rules_for st route (pr_Rules l))
     else rules_for st route (pr_Rules (os ! i)))"
proof -
  from merge_policy_ref_nth(3) [OF assms(1,2) refl assms(3)] obtain a b rs where "store_le st a"
    "MergeRules_ref a (pr_Rules (os ! i)) (pr_Rules l) = (b, rs)" "pr_Rules (os' ! i) = rs" by auto
  with MergeRules_ref_rules_for [of "pr_Rules l" a "pr_Rules (os ! i)" b rs route] show ?thesis
    by (simp add: MergeRules_ref_def rules_for_store_le)
qed

lemma merge_policy_ref_adds:
  assumes "merge_policy_ref l os st = (st', os', found)" and "i < length os"
    and "slicesUnionIfSubset (pr_Hostnames (os ! i)) (pr_Hostnames l) \<noteq> []"
    and "rules_for st route (pr_Rules (os ! i)) = [x]"
    and "s \<in> set (pr_Rules l)" and "rule_Route (st s) = route" and "who \<in> rule_AllowedPrincipals (st s)"
  shows "rule_Route (st' x) = route" and "who \<in> rule_AllowedPrincipals (st' x)"
proof -
  from merge_policy_ref_nth(3) [OF assms(1,2) refl assms(3)] obtain a b rs where le: "store_le st a" "store_le b st'"
    and rs: "MergeRules_ref a (pr_Rules (os ! i)) (pr_Rules l) = (b, rs)" "pr_Rules (os' ! i) = rs" by auto
  from MergeRules_ref_step [OF rs(1) [unfolded MergeRules_ref_def]] assms(5) have ab: "store_le a b" "covers b rs a s"
    by auto
  have "store_le st b" using le(1) ab(1) by (rule store_le_trans)
  from covers_earlier [OF ab(2) le(1)] assms(6,7) obtain y where
    y: "y \<in> set rs" "rule_Route (b y) = route" "who \<in> rule_AllowedPrincipals (b y)" by (auto simp: covers_def)
  then have "y \<in> set (rules_for st route rs)" using \<open>store_le st b\<close> by (simp add: rules_for_def store_le_def)
  moreover have "rules_for st route rs = [x]"
    using merge_policy_ref_rules_for [OF assms(1-3), of route] rs(2) assms(4) by simp
  ultimately have "y = x" by simp
  with y(2,3) le(2) show "rule_Route (st' x) = route" "who \<in> rule_AllowedPrincipals (st' x)"
    by (auto simp: store_le_def)
qed


section \<open>Lemmas on AddRoute\<close>

definition route_for :: "OutboundTrafficPolicy \<Rightarrow> HTTPRouteMatch \<Rightarrow> RouteWeightedClusters option" where
  "route_for out m = find (\<lambda>r. rwc_HTTPRouteMatch r = m) (otp_Routes out)"

definition routes_unique :: "OutboundTrafficPolicy \<Rightarrow> bool" where
  "routes_unique out \<longleftrightarrow> distinct (map rwc_HTTPRouteMatch (otp_Routes out))"

lemma find_map_of: "find (\<lambda>r. key r = k) xs = map_of (map (\<lambda>r. (key r, r)) xs) k"
  by (induction xs) auto

lemma find_key_append:
  "find P (xs @ ys) = (case find P xs of None \<Rightarrow> find P ys | Some x \<Rightarrow> Some x)"
  by (induction xs) auto

lemma update_first_find:
  "(\<And>x. P x \<Longrightarrow> key (f x) = key x) \<Longrightarrow> P = (\<lambda>x. key x = k) \<Longrightarrow> find P xs = Some x \<Longrightarrow>
   \<exists>ys. update_first P f xs = Some ys \<and> map key ys = map key xs \<and>
     find P ys = Some (f x) \<and> (\<forall>k'. k' \<noteq> k \<longrightarrow> find (\<lambda>x. key x = k') ys = find (\<lambda>x. key x = k') xs)"
  by (induction xs) (auto split: if_splits)

lemma AddRoute_None:
  "route_for out m = None \<Longrightarrow>
   AddRoute out m rp wcs =
     Inr (out\<lparr>otp_Routes := otp_Routes out @
       [\<lparr>rwc_HTTPRouteMatch = m, rwc_WeightedClusters = set wcs, rwc_RetryPolicy = rp,
         rwc_RateLimit = None\<rparr>]\<rparr>)"
  by (simp add: AddRoute_def route_for_def)

lemma AddRoute_Some:
  assumes "route_for out m = Some r"
  shows "if rwc_WeightedClusters r = set wcs
    then \<exists>rs. AddRoute out m rp wcs = Inr (out\<lparr>otp_Routes := rs\<rparr>) \<and>
      map rwc_HTTPRouteMatch rs = map rwc_HTTPRouteMatch (otp_Routes out) \<and>
      route_for (out\<lparr>otp_Routes := rs\<rparr>) m = Some (r\<lparr>rwc_RetryPolicy := rp\<rparr>) \<and>
      (\<forall>m'. m' \<noteq> m \<longrightarrow> route_for (out\<lparr>otp_Routes := rs\<rparr>) m' = route_for out m')
    else AddRoute out m rp wcs = Inl (RouteAlreadyExists m r (otp_Name out))"
proof -
  from assms have f: "find (\<lambda>r. rwc_HTTPRouteMatch r = m) (otp_Routes out) = Some r"
    by (simp add: route_for_def)
  then have m: "rwc_HTTPRouteMatch r = m" by (blast dest: find_SomeD)
  obtain rs where "update_first (\<lambda>r. rwc_HTTPRouteMatch r = m) (\<lambda>r. r\<lparr>rwc_RetryPolicy := rp\<rparr>)
      (otp_Routes out) = Some rs"
    and "map rwc_HTTPRouteMatch rs = map rwc_HTTPRouteMatch (otp_Routes out)"
    and "find (\<lambda>r. rwc_HTTPRouteMatch r = m) rs = Some (r\<lparr>rwc_RetryPolicy := rp\<rparr>)"
    and "\<forall>m'. m' \<noteq> m \<longrightarrow> find (\<lambda>r. rwc_HTTPRouteMatch r = m') rs =
      find (\<lambda>r. rwc_HTTPRouteMatch r = m') (otp_Routes out)"
    using update_first_find [where P = "\<lambda>r. rwc_HTTPRouteMatch r = m" and key = rwc_HTTPRouteMatch
        and f = "\<lambda>r. r\<lparr>rwc_RetryPolicy := rp\<rparr>" and k = m, OF _ refl f] by auto
  then show ?thesis using f m by (auto simp: AddRoute_def route_for_def)
qed

text \<open>Adding the routes of a list in turn, skipping the ones that are refused.\<close>

lemma AddRoute_unique:
  "routes_unique out \<Longrightarrow> AddRoute out m rp wcs = Inr out' \<Longrightarrow> routes_unique out'"
proof (cases "route_for out m")
  case None
  then have "m \<notin> rwc_HTTPRouteMatch ` set (otp_Routes out)"
    by (auto simp: route_for_def find_None_iff)
  with None show "routes_unique out \<Longrightarrow> AddRoute out m rp wcs = Inr out' \<Longrightarrow> routes_unique out'"
    by (auto simp: AddRoute_None routes_unique_def)
next
  case (Some r)
  from AddRoute_Some [OF Some, of wcs rp]
  show "routes_unique out \<Longrightarrow> AddRoute out m rp wcs = Inr out' \<Longrightarrow> routes_unique out'"
    by (auto simp: routes_unique_def split: if_splits)
qed

lemma AddRoute_keeps:
  "AddRoute out m rp wcs = Inr out' \<Longrightarrow>
   otp_Name out' = otp_Name out \<and> otp_Hostnames out' = otp_Hostnames out"
  by (auto simp: AddRoute_def Let_def split: option.splits if_splits)


section \<open>Lemmas on deduplication\<close>

lemma hash_into_Inl:
  "(\<exists>e. hash_into hash xs m = Inl e) \<longleftrightarrow> (\<exists>x \<in> set xs. \<exists>e. hash x = Inl e)"
  by (induction xs arbitrary: m) (auto split: sum.splits)

lemma hash_into_Inr:
  "hash_into hash xs m = Inr m' \<Longrightarrow> gm_wf m \<Longrightarrow> (\<forall>(h, x) \<in> set m. hash x = Inr h) \<Longrightarrow>
   gm_wf m' \<and> (\<forall>(h, x) \<in> set m'. hash x = Inr h) \<and>
   snd ` set m' \<subseteq> snd ` set m \<union> set xs \<and>
   fst ` set m' = fst ` set m \<union> {h. \<exists>x \<in> set xs. hash x = Inr h}"
proof (induction xs arbitrary: m)
  case (Cons x xs)
  obtain h where h: "hash x = Inr h" using Cons.prems(1) by (auto split: sum.splits)
  have s: "set (gm_put m h x) \<subseteq> insert (h, x) (set m)"
    by (rule gm_put_subset)
  have d: "fst ` set (gm_put m h x) = insert h (fst ` set m)"
    by (rule gm_put_keys)
  have a: "\<forall>(h, x) \<in> set (gm_put m h x). hash x = Inr h"
    using s h Cons.prems(3) by auto
  have "hash_into hash xs (gm_put m h x) = Inr m'" using Cons.prems(1) h by simp
  note ih = Cons.IH [OF this gm_wf_put [OF Cons.prems(2)] a]
  have "snd ` set (gm_put m h x) \<subseteq> insert x (snd ` set m)" using s by force
  moreover from ih have "snd ` set m' \<subseteq> snd ` set (gm_put m h x) \<union> set xs" by simp
  ultimately have "snd ` set m' \<subseteq> snd ` set m \<union> set (x # xs)" unfolding list.set by blast
  with ih d h show ?case by auto
qed auto

lemma distinct_map_Inr: "distinct (map Inr ys) = distinct ys"
  by (induction ys) auto

lemma dedup_correct:
  assumes "hash_into hash xs [] = Inr m" and "map_order iter"
  shows "distinct (map hash (map snd (iter m)))"
    and "set (map snd (iter m)) \<subseteq> set xs"
    and "hash ` set (map snd (iter m)) = hash ` set xs"
proof -
  have ms: "mset (iter m) = mset m" using assms(2) by (simp add: map_order_def)
  then have se: "set (iter m) = set m" by (metis set_mset_mset)
  from hash_into_Inr [OF assms(1)] have wf: "gm_wf m" and hm: "\<forall>(h, x) \<in> set m. hash x = Inr h"
    and sub: "snd ` set m \<subseteq> set xs" and keys: "fst ` set m = {h. \<exists>x \<in> set xs. hash x = Inr h}"
    by auto
  have eq: "map hash (map snd (iter m)) = map Inr (map fst (iter m))"
    using hm se by auto
  have "distinct (map fst (iter m))"
    using wf ms unfolding gm_wf_def by (metis mset_eq_imp_distinct_iff mset_map)
  then show "distinct (map hash (map snd (iter m)))"
    unfolding eq distinct_map_Inr .
  show "set (map snd (iter m)) \<subseteq> set xs" using sub se by auto
  have "hash x \<in> Inr ` fst ` set m" if "x \<in> set xs" for x
  proof -
    from assms(1) have "\<not> (\<exists>e. hash_into hash xs [] = Inl e)" by simp
    with hash_into_Inl [of hash xs "[]"] that obtain h where "hash x = Inr h"
      by (cases "hash x") auto
    with keys that show ?thesis by blast
  qed
  then have "hash ` set xs \<subseteq> Inr ` fst ` set m" by blast
  moreover have "hash ` snd ` set m = Inr ` fst ` set m"
    using arg_cong [OF eq, of set] se by (simp add: image_image)
  ultimately show "hash ` set (map snd (iter m)) = hash ` set xs"
    using image_mono [OF sub, of hash] se by simp
qed

lemma dedup_cases:
  assumes "map_order iter"
  shows "case hash_into hash xs [] of
      Inl err \<Rightarrow> \<exists>x \<in> set xs. \<exists>e. hash x = Inl e
    | Inr m \<Rightarrow> distinct (map hash (map snd (iter m))) \<and> set (map snd (iter m)) \<subseteq> set xs \<and>
        hash ` set (map snd (iter m)) = hash ` set xs \<and> (\<forall>x \<in> set xs. \<exists>h. hash x = Inr h)"
proof (cases "hash_into hash xs []")
  case (Inl e)
  with hash_into_Inl [of hash xs "[]"] show ?thesis by simp
next
  case (Inr m)
  with hash_into_Inl [of hash xs "[]"] have "\<not> (\<exists>x \<in> set xs. \<exists>e. hash x = Inl e)" by simp
  then have "\<forall>x \<in> set xs. \<exists>h. hash x = Inr h" by (metis obj_sumE)
  with dedup_correct [OF Inr assms] Inr show ?thesis by simp
qed


section \<open>Properties\<close>

text \<open>Sample values for the instances below: a route for a path, and a rule on it.\<close>

definition sample_route :: "string \<Rightarrow> RouteWeightedClusters" where
  "sample_route path = NewRouteWeightedCluster (WildCardRouteMatch\<lparr>hrm_Path := path\<rparr>) [] None"

definition sample_rule :: "string \<Rightarrow> string \<Rightarrow> Rule" where
  "sample_rule path p = \<lparr>rule_Route = sample_route path, rule_AllowedPrincipals = {p}\<rparr>"

lemma sample_route_inject [simp]: "sample_route p = sample_route q \<longleftrightarrow> p = q"
  by (simp add: sample_route_def NewRouteWeightedCluster_def WildCardRouteMatch_def Let_def)

lemma sample_rule_simps [simp]:
  "rule_Route (sample_rule path p) = sample_route path"
  "rule_AllowedPrincipals (sample_rule path p) = {p}"
  by (simp_all add: sample_rule_def)

text \<open>
  C5. \<open>MergeRules\<close> neither loses nor invents an authorization: a principal is allowed on a route by
  the merged rules exactly when one of the merged lists allows it; and if the original rules have
  one rule per route, so has the result.
\<close>

theorem MergeRules_correct:
  "(allows (MergeRules originalRules latestRules) route who \<longleftrightarrow>
     allows originalRules route who \<or> allows latestRules route who) \<and>
   (distinct (map rule_Route originalRules) \<longrightarrow>
     distinct (map rule_Route (MergeRules originalRules latestRules)))"
  by (simp add: merge_laws)

theorem MergeRules_correct_witness:
  "allows (MergeRules [sample_rule ''/a'' ''p''] [sample_rule ''/a'' ''q'']) (sample_route ''/a'') ''q'' \<and>
   distinct (map rule_Route (MergeRules [sample_rule ''/a'' ''p''] [sample_rule ''/a'' ''q'']))"
  using MergeRules_correct [of "[sample_rule ''/a'' ''p'']" "[sample_rule ''/a'' ''q'']"
      "sample_route ''/a''" "''q''"]
  by simp

text \<open>
  C10. Run on pointers into a store, \<open>MergeRules\<close> computes the merge of the rules behind the
  pointers, provided the pointers of the two slices are all different, as they are when the rules
  were built by separate calls.
\<close>

theorem MergeRules_ref_refines:
  assumes "distinct (originals @ latests)"
    and "MergeRules_ref st originals latests = (st', merged)"
  shows "map st' merged = MergeRules (map st originals) (map st latests)"
  using MergeRules_ref_refines_aux assms by (simp add: MergeRules_ref_def)

theorem MergeRules_ref_refines_witness:
  "let st = (\<lambda>r. if r = 0 then sample_rule ''/a'' ''p'' else sample_rule ''/a'' ''q'');
       (st', merged) = MergeRules_ref st [0] [1]
   in map st' merged = MergeRules [sample_rule ''/a'' ''p''] [sample_rule ''/a'' ''q'']"
  using MergeRules_ref_refines [of "[0]" "[1]"
      "\<lambda>r. if r = 0 then sample_rule ''/a'' ''p'' else sample_rule ''/a'' ''q''"]
  by (auto simp: Let_def split: prod.splits)

text \<open>
  C28. \<open>MergeInboundPolicies\<close> loses no authorization: every policy that goes in is covered by a
  policy that comes out, one which serves all of its hostnames and allows on each of its routes
  at least the principals that it allowed.
\<close>

theorem MergeInboundPolicies_covers:
  assumes "MergeInboundPolicies st original latest = (st', merged)"
    and "p \<in> set original \<union> set latest"
  shows "\<exists>q \<in> set merged.
    set (pr_Hostnames p) \<subseteq> set (pr_Hostnames q) \<and>
    (\<forall>r \<in> set (pr_Rules p). \<forall>who \<in> rule_AllowedPrincipals (st r).
       allows (map st' (pr_Rules q)) (rule_Route (st r)) who)"
proof -
  from MergeInboundPolicies_covers_aux [OF assms(1)] assms(2) obtain q where
    "q \<in> set merged" "policy_covered st p st' q" by blast
  then show ?thesis
    by (intro bexI [of _ q]) (auto simp: policy_covered_def intro: covers_allows)
qed

definition sample_policy :: "string list \<Rightarrow> nat list \<Rightarrow> PolicyRef" where
  "sample_policy hosts rules =
     \<lparr>pr_Name = '''', pr_Hostnames = hosts, pr_Rules = rules, pr_RateLimit = None\<rparr>"

lemma sample_policy_simps [simp]:
  "pr_Hostnames (sample_policy hosts rules) = hosts" "pr_Rules (sample_policy hosts rules) = rules"
  by (simp_all add: sample_policy_def)

theorem MergeInboundPolicies_covers_witness:
  "\<exists>q \<in> set (snd (MergeInboundPolicies (\<lambda>r. sample_rule ''/a'' ''p'')
      [sample_policy [''h'', ''g''] []] [sample_policy [''h''] [0]])). ''h'' \<in> set (pr_Hostnames q)"
  using MergeInboundPolicies_covers [OF surjective_pairing,
      of "sample_policy [''h''] [0]" "[sample_policy [''h'', ''g''] []]"
      "[sample_policy [''h''] [0]]" "\<lambda>r. sample_rule ''/a'' ''p''"]
  by auto

text \<open>
  C29. \<open>MergeInboundPolicies\<close> invents authorizations when a policy is merged into two others: they then
  share its \<open>*Rule\<close>, and a later merge into one of them changes the other. In general: policies \<open>l\<close> and
  \<open>m\<close> are merged in turn; \<open>l\<close> has a rule for a route that neither the policy at \<open>i\<close> nor that at \<open>j\<close> has
  a rule for, and its host names are comparable with those of both; \<open>m\<close> allows a principal on the same
  route and its host names are comparable with those of the policy at \<open>i\<close> only. Then the policy at \<open>j\<close>
  allows the principal of \<open>m\<close> as well, although it serves only its own host names and those of \<open>l\<close>.
\<close>

theorem MergeInboundPolicies_leak:
  assumes "i < length original" and "j < length original"
    and "slicesUnionIfSubset (pr_Hostnames (original ! i)) (pr_Hostnames l) = hosts_i" and "hosts_i \<noteq> []"
    and "slicesUnionIfSubset (pr_Hostnames (original ! j)) (pr_Hostnames l) = hosts_j" and "hosts_j \<noteq> []"
    and "\<forall>r \<in> set (pr_Rules (original ! i)) \<union> set (pr_Rules (original ! j)). rule_Route (st r) \<noteq> route"
    and "r \<in> set (pr_Rules l)" and "rule_Route (st r) = route"
    and "slicesUnionIfSubset hosts_i (pr_Hostnames m) \<noteq> []" and "slicesUnionIfSubset hosts_j (pr_Hostnames m) = []"
    and "s \<in> set (pr_Rules m)" and "rule_Route (st s) = route" and "who \<in> rule_AllowedPrincipals (st s)"
    and "MergeInboundPolicies st original [l, m] = (st', merged)"
  shows "set (pr_Hostnames (merged ! j)) = set (pr_Hostnames (original ! j)) \<union> set (pr_Hostnames l) \<and>
    allows (map st' (pr_Rules (merged ! j))) route who"
proof -
  obtain st1 os1 f1 where m1: "merge_policy_ref l original st = (st1, os1, f1)" by (metis prod_cases3)
  obtain st2 os2 f2 where m2: "merge_policy_ref m os1 st1 = (st2, os2, f2)" by (metis prod_cases3)
  note at_i = merge_policy_ref_nth [OF m1 assms(1,3)] and at_j = merge_policy_ref_nth [OF m1 assms(2,5)]
  define shared where "shared = hd (rules_for st route (pr_Rules l))"
  have "rules_for st route (pr_Rules l) \<noteq> []"
    using assms(8,9) by (auto simp: rules_for_def filter_empty_conv)
  then have first: "take 1 (rules_for st route (pr_Rules l)) = [shared]"
    by (cases "rules_for st route (pr_Rules l)") (simp_all add: shared_def)
  have none: "rules_for st route (pr_Rules (original ! i)) = []" "rules_for st route (pr_Rules (original ! j)) = []"
    using assms(7) by (auto simp: rules_for_def filter_empty_conv)
  have le: "store_le st st1" using merge_policy_ref_step [OF m1] by blast
  have one: "rules_for st1 route (pr_Rules (os1 ! i)) = [shared]" "rules_for st1 route (pr_Rules (os1 ! j)) = [shared]"
    unfolding rules_for_store_le [OF le] using assms(3-6) none first
      merge_policy_ref_rules_for [OF m1 assms(1)] merge_policy_ref_rules_for [OF m1 assms(2)] by auto
  have hosts: "pr_Hostnames (os1 ! i) = hosts_i" "pr_Hostnames (os1 ! j) = hosts_j" and f1: f1
    using at_i(3) [OF assms(4)] at_j(3) [OF assms(6)] by auto
  have ij: "i < length os1" "j < length os1" using at_i(1) assms(1,2) by simp_all
  have m: "slicesUnionIfSubset (pr_Hostnames (os1 ! i)) (pr_Hostnames m) \<noteq> []" using hosts(1) assms(10) by simp
  have s: "rule_Route (st1 s) = route" "who \<in> rule_AllowedPrincipals (st1 s)"
    using le assms(13,14) by (auto simp: store_le_def)
  note added = merge_policy_ref_adds [OF m2 ij(1) m one(1) assms(12) s]
  moreover have "shared \<in> set (pr_Rules (os1 ! j))" using one(2) by (auto simp: rules_for_def filter_eq_Cons_iff)
  moreover have "os2 ! j = os1 ! j"
    using merge_policy_ref_nth(2) [OF m2 ij(2) refl] hosts(2) assms(11) by simp
  moreover have "st' = st2" "merged = os2"
    using assms(15) m1 m2 f1 merge_policy_ref_nth(3) [OF m2 ij(1) refl m] by (simp_all add: MergeInboundPolicies_def)
  moreover have "set hosts_j = set (pr_Hostnames (original ! j)) \<union> set (pr_Hostnames l)"
    using slicesUnionIfSubset_nonempty assms(5,6) by blast
  ultimately show ?thesis using hosts(2) by (auto simp: grants_def)
qed

theorem MergeInboundPolicies_leak_witness:
  "let st = (\<lambda>r. if r = 0 then sample_rule ''/x'' ''p'' else sample_rule ''/x'' ''q'');
       original = [sample_policy [''a'', ''b''] [], sample_policy [''a'', ''c''] []];
       (st', merged) = MergeInboundPolicies st original [sample_policy [''a''] [0], sample_policy [''b''] [1]]
   in set (pr_Hostnames (merged ! 1)) = {''a'', ''c''} \<and>
      allows (map st' (pr_Rules (merged ! 1))) (sample_route ''/x'') ''q''"
  using MergeInboundPolicies_leak [of 0 "[sample_policy [''a'', ''b''] [], sample_policy [''a'', ''c''] []]" 1
      "sample_policy [''a''] [0]" _ _ "\<lambda>r. if r = 0 then sample_rule ''/x'' ''p'' else sample_rule ''/x'' ''q''"
      "sample_route ''/x''" 0 "sample_policy [''b''] [1]" 1 "''q''", OF _ _ refl _ refl]
  by (auto simp: slicesUnionIfSubset_def insert_commute split: prod.splits)

text \<open>
  C19. \<open>AddRoute\<close> on a policy with one route per route match: it fails exactly when the policy has
  a route for the match with other clusters; otherwise the route for the match has the given
  clusters and retry policy, every other route is as before, and there still is one route per
  route match. The comment on the function promises an error for every route match that exists; for
  one with the same clusters the code replaces the retry policy instead.
\<close>

theorem AddRoute_correct:
  assumes "routes_unique out"
  shows "case AddRoute out m retryPolicy weightedClusters of
      Inl err \<Rightarrow> (\<exists>r. route_for out m = Some r \<and> rwc_WeightedClusters r \<noteq> set weightedClusters \<and>
        err = RouteAlreadyExists m r (otp_Name out))
    | Inr out' \<Rightarrow>
        (\<forall>r. route_for out m = Some r \<longrightarrow> rwc_WeightedClusters r = set weightedClusters) \<and>
        routes_unique out' \<and>
        (\<exists>r. route_for out' m = Some r \<and> rwc_WeightedClusters r = set weightedClusters \<and>
           rwc_RetryPolicy r = retryPolicy) \<and>
        (\<forall>m'. m' \<noteq> m \<longrightarrow> route_for out' m' = route_for out m')"
proof (cases "route_for out m")
  case None
  note add = AddRoute_None [OF None, of retryPolicy weightedClusters]
  have "routes_unique (case AddRoute out m retryPolicy weightedClusters of Inr out' \<Rightarrow> out')"
    using AddRoute_unique [OF assms add] add by simp
  with None add show ?thesis by (simp add: route_for_def find_key_append split: option.splits)
next
  case (Some r)
  show ?thesis
  proof (cases "rwc_WeightedClusters r = set weightedClusters")
    case True
    with AddRoute_Some [OF Some, of weightedClusters retryPolicy] obtain rs where
      add: "AddRoute out m retryPolicy weightedClusters = Inr (out\<lparr>otp_Routes := rs\<rparr>)"
      and rs: "route_for (out\<lparr>otp_Routes := rs\<rparr>) m = Some (r\<lparr>rwc_RetryPolicy := retryPolicy\<rparr>)"
        "\<forall>m'. m' \<noteq> m \<longrightarrow> route_for (out\<lparr>otp_Routes := rs\<rparr>) m' = route_for out m'"
      by auto
    from AddRoute_unique [OF assms add] add rs Some True show ?thesis by simp
  next
    case False
    with AddRoute_Some [OF Some, of weightedClusters retryPolicy] Some show ?thesis by simp
  qed
qed

theorem AddRoute_correct_witness:
  "case AddRoute (NewOutboundTrafficPolicy ''n'' [''h'']) WildCardRouteMatch None [] of
     Inl err \<Rightarrow> False
   | Inr out' \<Rightarrow> routes_unique out' \<and> (\<exists>r. route_for out' WildCardRouteMatch = Some r)"
  using AddRoute_correct [where out = "NewOutboundTrafficPolicy ''n'' [''h'']"
      and m = WildCardRouteMatch and retryPolicy = None and weightedClusters = "[]"]
  by (auto simp: routes_unique_def route_for_def NewOutboundTrafficPolicy_def split: sum.splits)

text \<open>
  C30. Deduplication, of traffic matches and of egress cluster configurations: it fails exactly
  when the hash of some element fails; otherwise it returns elements of the input only, no two
  with the same hash, one for every hash that occurs in the input. This holds for every order in
  which the map of hashes may be iterated.
\<close>

theorem Deduplicate_correct:
  assumes "map_order iter" and "map_order iter'"
  shows "(case DeduplicateTrafficMatches hash iter ms of
      Inl err \<Rightarrow> \<exists>x \<in> set ms. \<exists>e. hash x = Inl e
    | Inr out \<Rightarrow> distinct (map hash out) \<and> set out \<subseteq> set ms \<and> hash ` set out = hash ` set ms \<and>
        (\<forall>x \<in> set ms. \<exists>h. hash x = Inr h)) \<and>
   (case DeduplicateClusterConfigs hash' iter' cs of
      Inl err \<Rightarrow> \<exists>x \<in> set cs. \<exists>e. hash' x = Inl e
    | Inr out \<Rightarrow> distinct (map hash' out) \<and> set out \<subseteq> set cs \<and> hash' ` set out = hash' ` set cs \<and>
        (\<forall>x \<in> set cs. \<exists>h. hash' x = Inr h))"
  using dedup_cases [OF assms(1), where hash = hash and xs = ms]
    dedup_cases [OF assms(2), where hash = hash' and xs = cs]
  by (simp add: DeduplicateTrafficMatches_def DeduplicateClusterConfigs_def split: sum.splits)

theorem Deduplicate_correct_witness:
  "case DeduplicateTrafficMatches (\<lambda>m. Inr (tm_Name m) :: string + string) rev
      [zero_TrafficMatch, zero_TrafficMatch] of
     Inl err \<Rightarrow> False | Inr out \<Rightarrow> distinct (map tm_Name out) \<and> set out = {zero_TrafficMatch}"
  using Deduplicate_correct [where iter = rev and iter' = rev
      and hash = "\<lambda>m. Inr (tm_Name m) :: string + string" and ms = "[zero_TrafficMatch, zero_TrafficMatch]"
      and hash' = "\<lambda>m. Inr (ecc_Name m) :: string + string" and cs = "[]"]
  by (auto simp: map_order_def distinct_map inj_on_def split: sum.splits)

end
