(* ===== verification/K8s_Client.thy ===== *)
theory K8s_Client
  imports Constants Endpoint Policy_Api
begin

text \<open>
  The Kubernetes client (\<open>src/pkg/k8s/client.go\<close>, \<open>util.go\<close>, \<open>informers/informers.go\<close>): the
  informer caches it reads and the operations over them.

  A cache is the content of a client-go store: objects under their keys, in the order in which the
  store lists them. The Kubernetes objects keep the fields that the code reads. Matching a label
  selector is library code and a field of the client; the code only relies on it being a function
  of the selector and the labels. Looking a key up in a store never returns an error, and the
  informers of the core resources are created together, so the error branches of a lookup do not
  occur.
\<close>

section \<open>Kubernetes objects\<close>

record Namespace =
  ns_Meta :: ObjectMeta

record ServicePort =
  sp_Name :: string
  sp_AppProtocol :: "string option"
  sp_Port :: int

record K8sService =
  ks_Meta :: ObjectMeta
  ks_ClusterIP :: string
  ks_Selector :: "(string, string) gomap"
  ks_Ports :: "ServicePort list"

record ServiceAccount =
  ksa_Meta :: ObjectMeta

record Pod =
  pod_Meta :: ObjectMeta
  pod_ServiceAccountName :: string
  pod_PodIPs :: "string list"

record EndpointAddress =
  ea_IP :: string
  ea_Hostname :: string

record EndpointPort =
  epo_Name :: string
  epo_Port :: int

record EndpointSubset =
  es_Addresses :: "EndpointAddress list"
  es_Ports :: "EndpointPort list"

record Endpoints =
  eps_Meta :: ObjectMeta
  eps_Subsets :: "EndpointSubset list"

record NamespacedName =
  nn_Namespace :: string
  nn_Name :: string

definition NamespacedName_String :: "NamespacedName \<Rightarrow> string" where
  "NamespacedName_String n = nn_Namespace n @ ''/'' @ nn_Name n"

definition ClusterIPNone :: string where
  "ClusterIPNone = ''None''"


section \<open>Caches\<close>

type_synonym 'a cache = "(string, 'a) gomap"

definition cache_List :: "'a cache \<Rightarrow> 'a list" where
  "cache_List c = map snd c"

definition cache_GetByKey :: "'a cache \<Rightarrow> string \<Rightarrow> 'a option" where
  "cache_GetByKey c k = gm_get c k"

text \<open>The key function of client-go: \<open>namespace/name\<close>, or the name of a cluster-wide object.\<close>

definition meta_key :: "ObjectMeta \<Rightarrow> string" where
  "meta_key m = (if om_Namespace m = '''' then om_Name m else om_Namespace m @ ''/'' @ om_Name m)"

definition cache_wf :: "('a \<Rightarrow> ObjectMeta) \<Rightarrow> 'a cache \<Rightarrow> bool" where
  "cache_wf meta c \<longleftrightarrow> gm_wf c \<and> (\<forall>(k, v) \<in> set c. k = meta_key (meta v))"

record KubeClient =
  kc_Namespaces :: "Namespace cache"
  kc_Services :: "K8sService cache"
  kc_ServiceAccounts :: "ServiceAccount cache"
  kc_Pods :: "Pod cache"
  kc_Endpoints :: "Endpoints cache"
  kc_selectorMatches :: "(string, string) gomap \<Rightarrow> (string, string) gomap \<Rightarrow> bool"


section \<open>Listing and looking up\<close>

definition IsMonitoredNamespace :: "KubeClient \<Rightarrow> string \<Rightarrow> bool" where
  "IsMonitoredNamespace c namespace \<longleftrightarrow> cache_GetByKey (kc_Namespaces c) namespace \<noteq> None"

definition ListMonitoredNamespaces :: "KubeClient \<Rightarrow> string list" where
  "ListMonitoredNamespaces c = map (\<lambda>ns. om_Name (ns_Meta ns)) (cache_List (kc_Namespaces c))"

definition GetNamespace :: "KubeClient \<Rightarrow> string \<Rightarrow> Namespace option" where
  "GetNamespace c ns = cache_GetByKey (kc_Namespaces c) ns"

definition GetService :: "KubeClient \<Rightarrow> MeshService \<Rightarrow> K8sService option" where
  "GetService c svc = cache_GetByKey (kc_Services c) (NamespacedKey svc)"

definition ListServices :: "KubeClient \<Rightarrow> K8sService list" where
  "ListServices c =
     filter (\<lambda>svc. IsMonitoredNamespace c (om_Namespace (ks_Meta svc))) (cache_List (kc_Services c))"

definition ListServiceAccounts :: "KubeClient \<Rightarrow> ServiceAccount list" where
  "ListServiceAccounts c =
     filter (\<lambda>sa. IsMonitoredNamespace c (om_Namespace (ksa_Meta sa))) (cache_List (kc_ServiceAccounts c))"

definition ListPods :: "KubeClient \<Rightarrow> Pod list" where
  "ListPods c =
     filter (\<lambda>pod. IsMonitoredNamespace c (om_Namespace (pod_Meta pod))) (cache_List (kc_Pods c))"

definition GetEndpoints :: "KubeClient \<Rightarrow> MeshService \<Rightarrow> Endpoints option" where
  "GetEndpoints c svc = cache_GetByKey (kc_Endpoints c) (NamespacedKey svc)"


section \<open>Hostnames (util.go)\<close>

text \<open>The package variable \<open>trustDomain\<close>, initially \<open>cluster.local\<close>, is an argument.\<close>

definition SetTrustDomain :: "string \<Rightarrow> string \<Rightarrow> string" where
  "SetTrustDomain domain trustDomain = (if length domain > 0 then domain else trustDomain)"

fun trustDomainHostnames :: "string \<Rightarrow> uint16 \<Rightarrow> string list \<Rightarrow> string list" where
  "trustDomainHostnames hostname port [] = []"
| "trustDomainHostnames hostname port (seg # segs) =
     (if length seg = 0 then trustDomainHostnames hostname port segs
      else
        let hostname' = hostname @ ''.'' @ seg in
        hostname' # (hostname' @ '':'' @ utoa port) # trustDomainHostnames hostname' port segs)"

definition GetHostnamesForService :: "string \<Rightarrow> MeshService \<Rightarrow> bool \<Rightarrow> string list" where
  "GetHostnamesForService trustDomain svc localNamespace =
     (let n = ms_Name svc; nns = n @ ''.'' @ ms_Namespace svc; port = '':'' @ utoa (ms_Port svc) in
      (if localNamespace then [n, n @ port] else []) @
      [nns, nns @ port, nns @ ''.svc'', nns @ ''.svc'' @ port] @
      trustDomainHostnames (nns @ ''.svc'') (ms_Port svc) (go_split CHR ''.'' trustDomain))"

text \<open>The service and the subdomain of a hostname. A nil controller is \<open>None\<close>.\<close>

definition splitHostName :: "KubeClient option \<Rightarrow> string \<Rightarrow> string \<times> string" where
  "splitHostName c host0 =
     (let host = hd (go_split CHR '':'' host0) in
      case go_split CHR ''.'' host of
        [svc] \<Rightarrow> (svc, '''')
      | [p1, p2] \<Rightarrow>
          (case c of
             None \<Rightarrow> (p1, '''')
           | Some kc \<Rightarrow> if GetNamespace kc p2 = None then (p2, p1) else (p1, ''''))
      | [p1, p2, tld] \<Rightarrow>
          (case c of
             None \<Rightarrow> if tld = ''svc'' then (p1, '''') else (p2, p1)
           | Some kc \<Rightarrow> if GetNamespace kc tld = None then (p1, '''') else (p2, p1))
      | [p1, p2, _, _] \<Rightarrow> (p2, p1)
      | [p1, _, _, _, _] \<Rightarrow> (p1, '''')
      | [p1, p2, _, _, _, _] \<Rightarrow> (p2, p1)
      | p1 # _ \<Rightarrow> (p1, ''''))"

definition GetServiceFromHostname :: "KubeClient option \<Rightarrow> string \<Rightarrow> string" where
  "GetServiceFromHostname c host = fst (splitHostName c host)"

definition GetSubdomainFromHostname :: "KubeClient option \<Rightarrow> string \<Rightarrow> string" where
  "GetSubdomainFromHostname c host = snd (splitHostName c host)"

text \<open>An error, \<open>None\<close>, for a name that is not of the form \<open>namespace/name\<close>.\<close>

definition NamespacedNameFrom :: "string \<Rightarrow> NamespacedName option" where
  "NamespacedNameFrom name =
     (case go_split CHR ''/'' name of
        [ns, n] \<Rightarrow> Some \<lparr>nn_Namespace = ns, nn_Name = n\<rparr>
      | _ \<Rightarrow> None)"

definition IsHeadlessService :: "K8sService \<Rightarrow> bool" where
  "IsHeadlessService svc \<longleftrightarrow> length (ks_ClusterIP svc) = 0 \<or> ks_ClusterIP svc = ClusterIPNone"


section \<open>Services, ports and pods\<close>

text \<open>\<open>uint16(x)\<close> of a Go integer: the low sixteen bits.\<close>

definition to_uint16 :: "int \<Rightarrow> uint16" where
  "to_uint16 x = of_int x"

definition to_uint32 :: "int \<Rightarrow> uint32" where
  "to_uint32 x = of_int x"

datatype K8sError =
    ErrServiceNotFound
  | ErrDidNotFindPodForUUID
  | ErrMoreThanOnePodForUUID
  | ErrNamespaceDoesNotMatchProxy
  | ErrServiceAccountDoesNotMatchProxy
  | ErrServiceNotInCache
  | ErrEndpointsNotInCache
  | ErrPortNameNotFound

fun targetPortInSubset :: "string \<Rightarrow> nat \<Rightarrow> EndpointPort list \<Rightarrow> uint16 option" where
  "targetPortInSubset endpointName n [] = None"
| "targetPortInSubset endpointName n (port # ports) =
     (if endpointName = '''' \<or> n = 1 then Some (to_uint16 (epo_Port port))
      else if epo_Name port = endpointName then Some (to_uint16 (epo_Port port))
      else targetPortInSubset endpointName n ports)"

fun targetPortInSubsets :: "string \<Rightarrow> EndpointSubset list \<Rightarrow> uint16 option" where
  "targetPortInSubsets endpointName [] = None"
| "targetPortInSubsets endpointName (sub # subsets) =
     (case targetPortInSubset endpointName (length (es_Ports sub)) (es_Ports sub) of
        Some p \<Rightarrow> Some p
      | None \<Rightarrow> targetPortInSubsets endpointName subsets)"

text \<open>The result is zero when no port matches.\<close>

definition GetTargetPortFromEndpoints :: "string \<Rightarrow> Endpoints \<Rightarrow> uint16" where
  "GetTargetPortFromEndpoints endpointName endpoints =
     (case targetPortInSubsets endpointName (eps_Subsets endpoints) of Some p \<Rightarrow> p | None \<Rightarrow> 0)"

definition protocolFromPortName :: "string \<Rightarrow> string" where
  "protocolFromPortName name =
     (case find (\<lambda>p. has_prefix name (p @ ''-'')) SupportedProtocolsInMesh of
        Some p \<Rightarrow> p | None \<Rightarrow> ProtocolHTTP)"

definition meshServicesForPort :: "KubeClient \<Rightarrow> K8sService \<Rightarrow> ServicePort \<Rightarrow> MeshService list" where
  "meshServicesForPort c svc portSpec =
     (let protocol = (case sp_AppProtocol portSpec of
            Some p \<Rightarrow> p | None \<Rightarrow> protocolFromPortName (sp_Name portSpec));
          meshSvc0 = \<lparr>ms_Namespace = om_Namespace (ks_Meta svc), ms_Name = om_Name (ks_Meta svc),
            ms_Port = to_uint16 (sp_Port portSpec), ms_TargetPort = 0, ms_Protocol = protocol,
            ms_ServiceImportUID = ''''\<rparr>;
          endpoints = GetEndpoints c meshSvc0 in
      case endpoints of
        None \<Rightarrow> [meshSvc0]
      | Some eps \<Rightarrow>
          let meshSvc = meshSvc0\<lparr>ms_TargetPort := GetTargetPortFromEndpoints (sp_Name portSpec) eps\<rparr> in
          if \<not> IsHeadlessService svc then [meshSvc]
          else
            let subdomained =
              [meshSvc\<lparr>ms_Name := ea_Hostname address @ ''.'' @ om_Name (ks_Meta svc)\<rparr>.
                 sub \<leftarrow> eps_Subsets eps, address \<leftarrow> es_Addresses sub, ea_Hostname address \<noteq> ''''] in
            if subdomained = [] then [meshSvc] else subdomained)"

definition ServiceToMeshServices :: "KubeClient \<Rightarrow> K8sService \<Rightarrow> MeshService list" where
  "ServiceToMeshServices c svc = concat (map (meshServicesForPort c svc) (ks_Ports svc))"

definition GetTargetPortForServicePort ::
  "KubeClient \<Rightarrow> NamespacedName \<Rightarrow> uint16 \<Rightarrow> K8sError + uint16" where
  "GetTargetPortForServicePort c namespacedSvc port =
     (case cache_GetByKey (kc_Services c) (NamespacedName_String namespacedSvc) of
        None \<Rightarrow> Inl ErrServiceNotInCache
      | Some svc \<Rightarrow>
          let portName = (case find (\<lambda>ps. to_uint16 (sp_Port ps) = port) (ks_Ports svc) of
                Some ps \<Rightarrow> sp_Name ps | None \<Rightarrow> '''') in
          case cache_GetByKey (kc_Endpoints c) (NamespacedName_String namespacedSvc) of
            None \<Rightarrow> Inl ErrEndpointsNotInCache
          | Some eps \<Rightarrow>
              (case find (\<lambda>p. epo_Name p = portName) (concat (map es_Ports (eps_Subsets eps))) of
                 Some p \<Rightarrow> Inr (to_uint16 (epo_Port p))
               | None \<Rightarrow> Inl ErrPortNameNotFound))"

text \<open>
  The service accounts of the pods that a service selects; the set is listed in an unspecified
  order, given by \<open>iter\<close>.
\<close>

definition serviceAccountsOfService :: "KubeClient \<Rightarrow> K8sService \<Rightarrow> K8sServiceAccount list" where
  "serviceAccountsOfService c k8sSvc =
     set_adds
       [\<lparr>sa_Namespace = om_Namespace (pod_Meta pod), sa_Name = pod_ServiceAccountName pod\<rparr>.
          pod \<leftarrow> ListPods c, length (ks_Selector k8sSvc) \<noteq> 0,
          kc_selectorMatches c (ks_Selector k8sSvc) (om_Labels (pod_Meta pod))] []"

definition ListServiceIdentitiesForService ::
  "KubeClient \<Rightarrow> (K8sServiceAccount list \<Rightarrow> K8sServiceAccount list) \<Rightarrow> MeshService \<Rightarrow>
     K8sError + K8sServiceAccount list" where
  "ListServiceIdentitiesForService c iter svc =
     (case GetService c svc of
        None \<Rightarrow> Inl ErrServiceNotFound
      | Some k8sSvc \<Rightarrow> Inr (iter (serviceAccountsOfService c k8sSvc)))"

record Proxy =
  proxy_UUID :: string
  proxy_Identity :: ServiceIdentity

text \<open>The outer option is the panic of \<open>ToK8sServiceAccount\<close>.\<close>

definition GetPodForProxy :: "KubeClient \<Rightarrow> Proxy \<Rightarrow> (K8sError + Pod) option" where
  "GetPodForProxy c proxy =
     do {
       svcAccount \<leftarrow> ToK8sServiceAccount (proxy_Identity proxy);
       Some (case filter (\<lambda>pod. gm_get (om_Labels (pod_Meta pod)) SidecarUniqueIDLabelName
                    = Some (proxy_UUID proxy)) (ListPods c) of
           [] \<Rightarrow> Inl ErrDidNotFindPodForUUID
         | [pod] \<Rightarrow>
             if om_Namespace (pod_Meta pod) \<noteq> sa_Namespace svcAccount
             then Inl ErrNamespaceDoesNotMatchProxy
             else if pod_ServiceAccountName pod \<noteq> sa_Name svcAccount
             then Inl ErrServiceAccountDoesNotMatchProxy
             else Inr pod
         | _ \<Rightarrow> Inl ErrMoreThanOnePodForUUID)
     }"


section \<open>Lemmas\<close>

lemma cache_List_GetByKey:
  assumes "cache_wf meta c"
  shows "v \<in> set (cache_List c) \<longleftrightarrow> cache_GetByKey c (meta_key (meta v)) = Some v"
proof
  assume "v \<in> set (cache_List c)"
  then obtain k where "(k, v) \<in> set c" by (auto simp: cache_List_def)
  then show "cache_GetByKey c (meta_key (meta v)) = Some v"
    using assms gm_get_in [of c] by (fastforce simp: cache_wf_def cache_GetByKey_def)
next
  assume "cache_GetByKey c (meta_key (meta v)) = Some v"
  then have "(meta_key (meta v), v) \<in> set c"
    by (simp add: cache_GetByKey_def gm_get_def map_of_SomeD)
  then show "v \<in> set (cache_List c)" by (force simp: cache_List_def)
qed

lemma GetNamespace_monitored: "GetNamespace c ns = None \<longleftrightarrow> \<not> IsMonitoredNamespace c ns"
  by (simp add: GetNamespace_def IsMonitoredNamespace_def)

lemma ListServices_iff:
  "svc \<in> set (ListServices c) \<longleftrightarrow>
   svc \<in> set (cache_List (kc_Services c)) \<and> IsMonitoredNamespace c (om_Namespace (ks_Meta svc))"
  by (auto simp: ListServices_def)

lemma ListPods_iff:
  "pod \<in> set (ListPods c) \<longleftrightarrow>
   pod \<in> set (cache_List (kc_Pods c)) \<and> IsMonitoredNamespace c (om_Namespace (pod_Meta pod))"
  by (auto simp: ListPods_def)

text \<open>The port of a hostname does not matter.\<close>

lemma splitHostName_port:
  "CHR '':'' \<notin> set h \<Longrightarrow> splitHostName c (h @ CHR '':'' # p) = splitHostName c h"
  by (simp add: splitHostName_def go_split_Cons go_split_none)

lemma splitHostName_plain:
  assumes "CHR ''.'' \<notin> set n" "CHR '':'' \<notin> set n" "CHR ''.'' \<notin> set ns" "CHR '':'' \<notin> set ns"
  shows "splitHostName c n = (n, '''')"
    and "splitHostName (Some kc) (n @ CHR ''.'' # ns) =
      (if GetNamespace kc ns = None then (ns, n) else (n, ''''))"
    and "splitHostName (Some kc) (n @ CHR ''.'' # ns @ ''.svc'') =
      (if GetNamespace kc ''svc'' = None then (n, '''') else (ns, n))"
    and "splitHostName c (n @ CHR ''.'' # ns @ ''.svc.cluster'') = (ns, n)"
    and "splitHostName c (n @ CHR ''.'' # ns @ ''.svc.cluster.local'') = (n, '''')"
  using assms by (simp_all add: splitHostName_def go_split_Cons go_split_none)

lemma splitHostName_base: "splitHostName c host = splitHostName c (hd (go_split CHR '':'' host))"
proof -
  have "hd (go_split CHR '':'' host) \<in> set (go_split CHR '':'' host)" by simp
  then have "CHR '':'' \<notin> set (hd (go_split CHR '':'' host))" by (rule go_split_pieces)
  then show ?thesis by (simp add: splitHostName_def go_split_none)
qed

lemma hostnames_cluster_local:
  "GetHostnamesForService ''cluster.local'' svc True =
     (let n = ms_Name svc; d = n @ CHR ''.'' # ms_Namespace svc in
      concat (map (\<lambda>h. [h, h @ CHR '':'' # utoa (ms_Port svc)])
        [n, d, d @ ''.svc'', d @ ''.svc.cluster'', d @ ''.svc.cluster.local'']))"
  by (simp add: GetHostnamesForService_def Let_def)

lemma in_pairs: "x \<in> set (concat (map (\<lambda>h. [h, f h]) B)) \<longleftrightarrow> (\<exists>h \<in> set B. x = h \<or> x = f h)"
  by (induction B) auto

lemma hd_split_port: "x = h \<or> x = h @ c # p \<Longrightarrow> c \<notin> set h \<Longrightarrow> hd (go_split c x) = h"
  by (auto simp: go_split_none go_split_Cons)

lemma hostnames_base:
  assumes "host \<in> set (GetHostnamesForService ''cluster.local'' svc True)"
    and "CHR '':'' \<notin> set (ms_Name svc)" "CHR '':'' \<notin> set (ms_Namespace svc)"
  shows "hd (go_split CHR '':'' host) \<in>
    (let n = ms_Name svc; d = n @ CHR ''.'' # ms_Namespace svc in
     {n, d, d @ ''.svc'', d @ ''.svc.cluster'', d @ ''.svc.cluster.local''})"
proof -
  define B where "B = (let n = ms_Name svc; d = n @ CHR ''.'' # ms_Namespace svc in
    [n, d, d @ ''.svc'', d @ ''.svc.cluster'', d @ ''.svc.cluster.local''])"
  have colon: "\<forall>h \<in> set B. CHR '':'' \<notin> set h"
    using assms(2,3) by (simp add: B_def Let_def)
  have "GetHostnamesForService ''cluster.local'' svc True =
      concat (map (\<lambda>h. [h, h @ CHR '':'' # utoa (ms_Port svc)]) B)"
    by (simp only: hostnames_cluster_local B_def Let_def)
  with assms(1) have "\<exists>h \<in> set B. host = h \<or> host = h @ CHR '':'' # utoa (ms_Port svc)"
    by (simp only: in_pairs)
  then obtain h where h: "h \<in> set B" "host = h \<or> host = h @ CHR '':'' # utoa (ms_Port svc)" by blast
  have "hd (go_split CHR '':'' host) = h"
    using h(2) by (rule hd_split_port) (use colon h(1) in blast)
  with h(1) show ?thesis by (simp add: B_def Let_def)
qed

text \<open>Every mesh service built from a Kubernetes service points back to it.\<close>

lemma meshServicesForPort_origin:
  assumes "ms \<in> set (meshServicesForPort c svc portSpec)"
  shows "ms_Namespace ms = om_Namespace (ks_Meta svc)"
    and "ms_Name ms = om_Name (ks_Meta svc) \<or> (\<exists>h. ms_Name ms = h @ ''.'' @ om_Name (ks_Meta svc))"
    and "ms_Port ms = to_uint16 (sp_Port portSpec)"
    and "ms_ServiceImportUID ms = ''''"
  using assms by (auto simp: meshServicesForPort_def Let_def split: option.splits if_splits)

lemma meshServicesForPort_NamespacedKey:
  assumes "ms \<in> set (meshServicesForPort c svc portSpec)" and "CHR ''.'' \<notin> set (om_Name (ks_Meta svc))"
  shows "NamespacedKey ms = om_Namespace (ks_Meta svc) @ ''/'' @ om_Name (ks_Meta svc)"
proof -
  note o = meshServicesForPort_origin [OF assms(1)]
  have "ProviderKey ms = om_Name (ks_Meta svc)"
    using o(2) assms(2) by (auto simp: ProviderKey_def go_split_none last_go_split)
  with o(1) show ?thesis by (simp add: NamespacedKey_def)
qed

lemma ServiceToMeshServices_iff:
  "ms \<in> set (ServiceToMeshServices c svc) \<longleftrightarrow>
   (\<exists>portSpec \<in> set (ks_Ports svc). ms \<in> set (meshServicesForPort c svc portSpec))"
  by (auto simp: ServiceToMeshServices_def)

lemma ServiceToMeshServices_key:
  assumes "ms \<in> set (ServiceToMeshServices c svc)"
    and "CHR ''.'' \<notin> set (om_Name (ks_Meta svc))" and "om_Namespace (ks_Meta svc) \<noteq> ''''"
  shows "NamespacedKey ms = meta_key (ks_Meta svc)" and "ms_Namespace ms = om_Namespace (ks_Meta svc)"
  using assms meshServicesForPort_NamespacedKey meshServicesForPort_origin(1)
  by (auto simp: ServiceToMeshServices_iff meta_key_def)

lemma GetService_mesh_service:
  assumes "cache_wf ks_Meta (kc_Services c)" and "svc \<in> set (cache_List (kc_Services c))"
    and "ms \<in> set (ServiceToMeshServices c svc)"
    and "CHR ''.'' \<notin> set (om_Name (ks_Meta svc))" and "om_Namespace (ks_Meta svc) \<noteq> ''''"
  shows "GetService c ms = Some svc"
  using cache_List_GetByKey [OF assms(1), of svc] ServiceToMeshServices_key [OF assms(3-5)] assms(2)
  by (simp add: GetService_def)

lemma meshServicesForPort_nonempty: "meshServicesForPort c svc portSpec \<noteq> []"
  by (simp add: meshServicesForPort_def Let_def split: option.splits)


section \<open>Properties\<close>

text \<open>
  C22. The hostnames of a service under the default trust domain, read back by \<open>splitHostName\<close>
  with a controller that monitors its namespace and no namespace called \<open>svc\<close>: every hostname,
  with or without port, gives the service and no subdomain, except \<open>name.namespace.svc.cluster\<close>
  (with or without port), which is taken for a pod \<open>name\<close> of a service named like the namespace.
\<close>

theorem hostnames_split:
  assumes "CHR ''.'' \<notin> set (ms_Name svc) \<and> CHR '':'' \<notin> set (ms_Name svc)"
    and "CHR ''.'' \<notin> set (ms_Namespace svc) \<and> CHR '':'' \<notin> set (ms_Namespace svc)"
    and "GetNamespace kc (ms_Namespace svc) \<noteq> None" and "GetNamespace kc ''svc'' = None"
    and "host \<in> set (GetHostnamesForService ''cluster.local'' svc True)"
  shows "splitHostName (Some kc) host =
    (if hd (go_split CHR '':'' host) = ms_Name svc @ ''.'' @ ms_Namespace svc @ ''.svc.cluster''
     then (ms_Namespace svc, ms_Name svc) else (ms_Name svc, ''''))"
  using hostnames_base [OF assms(5)] assms(1-4)
  by (subst splitHostName_base) (auto simp: Let_def splitHostName_plain)

definition sample_meta :: "string \<Rightarrow> string \<Rightarrow> ObjectMeta" where
  "sample_meta ns n = zero_ObjectMeta\<lparr>om_Namespace := ns, om_Name := n\<rparr>"

definition sample_service :: K8sService where
  "sample_service = \<lparr>ks_Meta = sample_meta ''shop'' ''db'', ks_ClusterIP = ''None'',
     ks_Selector = [(''app'', ''db'')],
     ks_Ports = [\<lparr>sp_Name = ''tcp-sql'', sp_AppProtocol = None, sp_Port = 3306\<rparr>]\<rparr>"

definition sample_client :: KubeClient where
  "sample_client =
     \<lparr>kc_Namespaces = [(''shop'', \<lparr>ns_Meta = sample_meta '''' ''shop''\<rparr>)],
      kc_Services = [(''shop/db'', sample_service)],
      kc_ServiceAccounts = [],
      kc_Pods = [(''shop/db-0'', \<lparr>pod_Meta = (sample_meta ''shop'' ''db-0'')
           \<lparr>om_Labels := [(''app'', ''db''), (''osm-proxy-uuid'', ''u1'')]\<rparr>,
         pod_ServiceAccountName = ''sql'', pod_PodIPs = [''10.0.0.7'']\<rparr>)],
      kc_Endpoints = [(''shop/db'', \<lparr>eps_Meta = sample_meta ''shop'' ''db'',
         eps_Subsets = [\<lparr>es_Addresses = [\<lparr>ea_IP = ''10.0.0.7'', ea_Hostname = ''db-0''\<rparr>],
            es_Ports = [\<lparr>epo_Name = ''tcp-sql'', epo_Port = 13306\<rparr>]\<rparr>]\<rparr>)],
      kc_selectorMatches = (\<lambda>sel ls. list_all (\<lambda>(k, v). gm_get ls k = Some v) sel)\<rparr>"

theorem hostnames_split_witness:
  "splitHostName (Some sample_client) ''web.shop.svc.cluster.local'' = (''web'', '''') \<and>
   splitHostName (Some sample_client) ''web.shop.svc.cluster'' = (''shop'', ''web'')"
  using hostnames_split [where kc = sample_client and host = "''web.shop.svc.cluster.local''"
      and svc = "\<lparr>ms_Namespace = ''shop'', ms_Name = ''web'', ms_Port = 80, ms_TargetPort = 80,
        ms_Protocol = ''http'', ms_ServiceImportUID = ''''\<rparr>"]
    hostnames_split [where kc = sample_client and host = "''web.shop.svc.cluster''"
      and svc = "\<lparr>ms_Namespace = ''shop'', ms_Name = ''web'', ms_Port = 80, ms_TargetPort = 80,
        ms_Protocol = ''http'', ms_ServiceImportUID = ''''\<rparr>"]
  by (simp add: hostnames_cluster_local Let_def GetNamespace_def sample_client_def
      cache_GetByKey_def gm_get_def)

text \<open>
  The mesh services built from a cached Kubernetes service lead back to it: they keep its
  namespace, looking one up gives the service itself, and any two of them are siblings. There is
  at least one for every port.
\<close>

theorem mesh_services_lead_back:
  assumes "cache_wf ks_Meta (kc_Services c)" and "svc \<in> set (cache_List (kc_Services c))"
    and "CHR ''.'' \<notin> set (om_Name (ks_Meta svc))" and "om_Namespace (ks_Meta svc) \<noteq> ''''"
  shows "(\<forall>ms \<in> set (ServiceToMeshServices c svc).
      GetService c ms = Some svc \<and> ms_Namespace ms = om_Namespace (ks_Meta svc) \<and>
      (\<forall>ms' \<in> set (ServiceToMeshServices c svc). SiblingTo ms ms')) \<and>
    (\<forall>portSpec \<in> set (ks_Ports svc). \<exists>ms \<in> set (ServiceToMeshServices c svc).
      ms_Port ms = to_uint16 (sp_Port portSpec))"
proof -
  have "\<forall>ms \<in> set (ServiceToMeshServices c svc).
      GetService c ms = Some svc \<and> ms_Namespace ms = om_Namespace (ks_Meta svc) \<and>
      (\<forall>ms' \<in> set (ServiceToMeshServices c svc). SiblingTo ms ms')"
    using assms(3,4) GetService_mesh_service [OF assms(1,2)]
    by (simp add: ServiceToMeshServices_key SiblingTo_def)
  moreover have "\<exists>ms \<in> set (ServiceToMeshServices c svc). ms_Port ms = to_uint16 (sp_Port portSpec)"
    if p: "portSpec \<in> set (ks_Ports svc)" for portSpec
  proof -
    obtain ms where "ms \<in> set (meshServicesForPort c svc portSpec)"
      using meshServicesForPort_nonempty [of c svc portSpec] by fastforce
    with p meshServicesForPort_origin(3) [OF this] show ?thesis
      by (intro bexI [of _ ms]) (auto simp: ServiceToMeshServices_iff)
  qed
  ultimately show ?thesis by blast
qed

theorem mesh_services_lead_back_witness:
  "\<exists>ms \<in> set (ServiceToMeshServices sample_client sample_service).
     ms_Port ms = 3306 \<and> GetService sample_client ms = Some sample_service"
proof -
  have "cache_wf ks_Meta (kc_Services sample_client)"
    "sample_service \<in> set (cache_List (kc_Services sample_client))"
    by (simp_all add: sample_client_def sample_service_def sample_meta_def cache_wf_def gm_wf_def
        meta_key_def cache_List_def)
  moreover have "CHR ''.'' \<notin> set (om_Name (ks_Meta sample_service))"
    "om_Namespace (ks_Meta sample_service) \<noteq> ''''"
    by (simp_all add: sample_service_def sample_meta_def)
  ultimately show ?thesis
    using mesh_services_lead_back [of sample_client sample_service]
    by (auto simp: sample_service_def to_uint16_def)
qed

text \<open>
  The pods that carry the UUID of a proxy: those the cache holds under their own key, in a monitored
  namespace and with the UUID as the label the injector sets.
\<close>

definition carries_uuid :: "KubeClient \<Rightarrow> string \<Rightarrow> Pod \<Rightarrow> bool" where
  "carries_uuid c uuid pod \<longleftrightarrow>
     cache_GetByKey (kc_Pods c) (meta_key (pod_Meta pod)) = Some pod \<and>
     cache_GetByKey (kc_Namespaces c) (om_Namespace (pod_Meta pod)) \<noteq> None \<and>
     gm_get (om_Labels (pod_Meta pod)) ''osm-proxy-uuid'' = Some uuid"

lemma distinct_cache_List:
  assumes "cache_wf meta c"
  shows "distinct (cache_List c)"
proof -
  have "map (\<lambda>v. meta_key (meta v)) (map snd c) = map fst c"
    using assms by (auto simp: cache_wf_def case_prod_beta)
  moreover have "distinct (map fst c)" using assms by (simp add: cache_wf_def gm_wf_def)
  ultimately have "distinct (map (\<lambda>v. meta_key (meta v)) (map snd c))" by (simp only:)
  then show ?thesis unfolding cache_List_def by (simp only: distinct_map)
qed

lemma pods_with_uuid:
  fixes c uuid
  defines "pods \<equiv> filter (\<lambda>pod. gm_get (om_Labels (pod_Meta pod)) SidecarUniqueIDLabelName = Some uuid) (ListPods c)"
  assumes "cache_wf pod_Meta (kc_Pods c)"
  shows "distinct pods" and "set pods = {pod. carries_uuid c uuid pod}"
  using assms(2) distinct_cache_List [OF assms(2)] cache_List_GetByKey [OF assms(2)]
  by (auto simp: pods_def ListPods_def carries_uuid_def IsMonitoredNamespace_def SidecarUniqueIDLabelName_def)

lemma not_singleton: "p \<in> A \<Longrightarrow> q \<in> A \<Longrightarrow> p \<noteq> q \<Longrightarrow> \<not> (\<forall>x. x \<in> A \<longleftrightarrow> x = y)"
  by metis

text \<open>
  C20. Looking up the pod of a proxy, whose certificate has the identity of a service account: the
  lookup returns a pod exactly when this is the only one of a monitored namespace with the UUID of the
  proxy as its label and it runs in the namespace and under the account of the certificate. The errors
  tell the other cases apart: no pod has the label, two pods have it, the one that has it is in another
  namespace, or it is in the right namespace but runs under another account.
\<close>

theorem GetPodForProxy_iff:
  assumes "cache_wf pod_Meta (kc_Pods c)"
    and "sa_plain sa" and "proxy_Identity proxy = ToServiceIdentity sa"
  shows "\<exists>res. GetPodForProxy c proxy = Some res \<and>
    (\<forall>pod. res = Inr pod \<longleftrightarrow> (\<forall>pod'. carries_uuid c (proxy_UUID proxy) pod' \<longleftrightarrow> pod' = pod) \<and>
       om_Namespace (pod_Meta pod) = sa_Namespace sa \<and> pod_ServiceAccountName pod = sa_Name sa) \<and>
    (res = Inl ErrDidNotFindPodForUUID \<longleftrightarrow> \<not> (\<exists>pod. carries_uuid c (proxy_UUID proxy) pod)) \<and>
    (res = Inl ErrMoreThanOnePodForUUID \<longleftrightarrow>
       (\<exists>pod pod'. carries_uuid c (proxy_UUID proxy) pod \<and> carries_uuid c (proxy_UUID proxy) pod' \<and> pod \<noteq> pod')) \<and>
    (res = Inl ErrNamespaceDoesNotMatchProxy \<longleftrightarrow>
       (\<exists>pod. (\<forall>pod'. carries_uuid c (proxy_UUID proxy) pod' \<longleftrightarrow> pod' = pod) \<and>
          om_Namespace (pod_Meta pod) \<noteq> sa_Namespace sa)) \<and>
    (res = Inl ErrServiceAccountDoesNotMatchProxy \<longleftrightarrow>
       (\<exists>pod. (\<forall>pod'. carries_uuid c (proxy_UUID proxy) pod' \<longleftrightarrow> pod' = pod) \<and>
          om_Namespace (pod_Meta pod) = sa_Namespace sa \<and> pod_ServiceAccountName pod \<noteq> sa_Name sa))"
proof -
  let ?pods = "filter (\<lambda>pod. gm_get (om_Labels (pod_Meta pod)) SidecarUniqueIDLabelName = Some (proxy_UUID proxy)) (ListPods c)"
  have carries: "carries_uuid c (proxy_UUID proxy) pod \<longleftrightarrow> pod \<in> set ?pods" for pod
    unfolding pods_with_uuid(2) [OF assms(1)] by simp
  have sa: "ToK8sServiceAccount (proxy_Identity proxy) = Some sa"
    using assms(2,3) by (simp add: ToK8sServiceAccount_inverse)
  consider "?pods = []" | pod where "?pods = [pod]" | p q ps where "?pods = p # q # ps" "p \<noteq> q"
  proof (cases "?pods")
    case (Cons p ps)
    with pods_with_uuid(1) [OF assms(1), of "proxy_UUID proxy"] that show ?thesis by (cases ps) auto
  qed (use that in blast)
  then show ?thesis
  proof cases
    case 1
    then show ?thesis unfolding carries GetPodForProxy_def sa by simp
  next
    case (2 pod)
    then show ?thesis unfolding carries GetPodForProxy_def sa by auto
  next
    case (3 p q ps)
    then have two: "p \<in> set ?pods" "q \<in> set ?pods" by simp_all
    have "\<not> (\<forall>pod'. pod' \<in> set ?pods \<longleftrightarrow> pod' = pod)" for pod
      using two 3(2) by (rule not_singleton)
    with two show ?thesis unfolding carries GetPodForProxy_def sa using 3 by auto
  qed
qed

theorem GetPodForProxy_iff_witness:
  "\<exists>pod. GetPodForProxy sample_client \<lparr>proxy_UUID = ''u1'', proxy_Identity = ''sql.shop''\<rparr> = Some (Inr pod) \<and>
     om_Name (pod_Meta pod) = ''db-0''"
proof -
  let ?pod = "\<lparr>pod_Meta = (sample_meta ''shop'' ''db-0'')\<lparr>om_Labels := [(''app'', ''db''), (''osm-proxy-uuid'', ''u1'')]\<rparr>,
    pod_ServiceAccountName = ''sql'', pod_PodIPs = [''10.0.0.7'']\<rparr>"
  let ?sa = "\<lparr>sa_Namespace = ''shop'', sa_Name = ''sql''\<rparr>"
  let ?proxy = "\<lparr>proxy_UUID = ''u1'', proxy_Identity = ''sql.shop''\<rparr>"
  have wf: "cache_wf pod_Meta (kc_Pods sample_client)"
    by (simp add: sample_client_def sample_meta_def cache_wf_def gm_wf_def meta_key_def)
  have sa: "sa_plain ?sa" "proxy_Identity ?proxy = ToServiceIdentity ?sa"
    by (simp_all add: sa_plain_def ToServiceIdentity_def New_def)
  have "carries_uuid sample_client ''u1'' pod \<longleftrightarrow> pod = ?pod" for pod
    by (auto simp: carries_uuid_def sample_client_def sample_meta_def cache_GetByKey_def gm_get_def meta_key_def
        split: if_splits)
  with GetPodForProxy_iff [OF wf sa] show ?thesis
    by (intro exI [of _ ?pod]) (auto simp: sample_meta_def)
qed

end
