(* ===== verification/Policy_Client.thy ===== *)
theory Policy_Client
  imports K8s_Client
begin

text \<open>
  The policy client (\<open>src/pkg/policy/client.go\<close>, \<open>types.go\<close>) over the caches of the policy API, and the
  conflict detection used on admission (\<open>src/pkg/policy/conflicts.go\<close>). Reading a secret from the
  API server (\<open>GetEgressSourceSecret\<close>) is I/O and not modelled.

  \<open>GetUpstreamTrafficSetting\<close> dereferences \<open>options.MeshService\<close> when it compares with a listed
  resource; its outer option is \<open>None\<close> when that pointer is nil and the code panics.
\<close>

definition kindSvcAccount :: string where
  "kindSvcAccount = ''ServiceAccount''"

record PolicyClient =
  pc_EgressGateways :: "EgressGateway cache"
  pc_Egresses :: "Egress cache"
  pc_IngressBackends :: "IngressBackend cache"
  pc_Retries :: "Retry cache"
  pc_AccessControls :: "AccessControl cache"
  pc_UpstreamTrafficSettings :: "UpstreamTrafficSetting cache"
  pc_kubeController :: KubeClient

record UpstreamTrafficSettingGetOpt =
  uo_MeshService :: "MeshService option"
  uo_NamespacedName :: "NamespacedName option"
  uo_Host :: string

definition ListEgressGateways :: "PolicyClient \<Rightarrow> EgressGateway list" where
  "ListEgressGateways c = cache_List (pc_EgressGateways c)"

text \<open>A policy is listed once for every source that matches.\<close>

definition ListEgressPoliciesForSourceIdentity :: "PolicyClient \<Rightarrow> K8sServiceAccount \<Rightarrow> Egress list" where
  "ListEgressPoliciesForSourceIdentity c source =
     [egressPolicy.
        egressPolicy \<leftarrow> cache_List (pc_Egresses c),
        IsMonitoredNamespace (pc_kubeController c) (om_Namespace (eg_Meta egressPolicy)),
        sourceSpec \<leftarrow> egs_Sources (eg_Spec egressPolicy),
        ess_Kind sourceSpec = kindSvcAccount \<and> ess_Name sourceSpec = sa_Name source \<and>
          ess_Namespace sourceSpec = sa_Namespace source]"

definition backend_matches :: "string \<Rightarrow> PortSpec \<Rightarrow> MeshService \<Rightarrow> bool" where
  "backend_matches name port svc \<longleftrightarrow>
     name = ms_Name svc \<and> ps_Number port = int (unat (ms_TargetPort svc))"

definition GetIngressBackendPolicy :: "PolicyClient \<Rightarrow> MeshService \<Rightarrow> IngressBackend option" where
  "GetIngressBackendPolicy c svc =
     find (\<lambda>ingressBackend.
         om_Namespace (ib_Meta ingressBackend) = ms_Namespace svc \<and>
         list_ex (\<lambda>backend. backend_matches (be_Name backend) (be_Port backend) svc)
           (ibs_Backends (ib_Spec ingressBackend)))
       (cache_List (pc_IngressBackends c))"

definition ListRetryPolicies :: "PolicyClient \<Rightarrow> K8sServiceAccount \<Rightarrow> Retry list" where
  "ListRetryPolicies c source =
     filter (\<lambda>retry. let s = rts_Source (rt_Spec retry) in
         rsd_Kind s = kindSvcAccount \<and> rsd_Name s = sa_Name source \<and> rsd_Namespace s = sa_Namespace source)
       (cache_List (pc_Retries c))"

definition GetAccessControlPolicy :: "PolicyClient \<Rightarrow> MeshService \<Rightarrow> AccessControl option" where
  "GetAccessControlPolicy c svc =
     find (\<lambda>acl.
         om_Namespace (ac_Meta acl) = ms_Namespace svc \<and>
         list_ex (\<lambda>backend. backend_matches (acb_Name backend) (acb_Port backend) svc)
           (acsp_Backends (ac_Spec acl)))
       (cache_List (pc_AccessControls c))"

fun upstreamTrafficSettingLoop ::
  "MeshService option \<Rightarrow> string \<Rightarrow> UpstreamTrafficSetting list \<Rightarrow> UpstreamTrafficSetting option option" where
  "upstreamTrafficSettingLoop svc host [] = Some None"
| "upstreamTrafficSettingLoop svc host (uts # rest) =
     (if uts_Host (uts_Spec uts) = host then Some (Some uts)
      else case svc of
        None \<Rightarrow> None
      | Some ms \<Rightarrow>
          if om_Namespace (uts_Meta uts) = ms_Namespace ms \<and> uts_Host (uts_Spec uts) = FQDN ms
          then Some (Some uts) else upstreamTrafficSettingLoop svc host rest)"

definition GetUpstreamTrafficSetting ::
  "PolicyClient \<Rightarrow> UpstreamTrafficSettingGetOpt \<Rightarrow> UpstreamTrafficSetting option option" where
  "GetUpstreamTrafficSetting c options =
     (if uo_MeshService options = None \<and> uo_NamespacedName options = None \<and> uo_Host options = ''''
      then Some None
      else case uo_NamespacedName options of
        Some nn \<Rightarrow> Some (cache_GetByKey (pc_UpstreamTrafficSettings c) (NamespacedName_String nn))
      | None \<Rightarrow>
          upstreamTrafficSettingLoop (uo_MeshService options) (uo_Host options)
            (cache_List (pc_UpstreamTrafficSettings c)))"

text \<open>The option the catalog passes for a mesh service.\<close>

definition uts_for_service :: "PolicyClient \<Rightarrow> MeshService \<Rightarrow> UpstreamTrafficSetting option option" where
  "uts_for_service c svc = GetUpstreamTrafficSetting c
     \<lparr>uo_MeshService = Some svc, uo_NamespacedName = None, uo_Host = ''''\<rparr>"


section \<open>Conflicts\<close>

text \<open>The error messages name the backend and the two resources; \<open>iter\<close> orders the set of keys.\<close>

datatype BackendConflict = BackendConflict string string string

definition conflicting_keys :: "(string \<times> int) list \<Rightarrow> (string \<times> int) list \<Rightarrow> (string \<times> int) list" where
  "conflicting_keys xs ys = filter (\<lambda>k. k \<in> set ys) (set_adds xs [])"

definition DetectIngressBackendConflicts ::
  "((string \<times> int) list \<Rightarrow> (string \<times> int) list) \<Rightarrow> IngressBackend \<Rightarrow> IngressBackend \<Rightarrow> BackendConflict list" where
  "DetectIngressBackendConflicts iter x y =
     (let keys = (\<lambda>ib. map (\<lambda>b. (be_Name b, ps_Number (be_Port b))) (ibs_Backends (ib_Spec ib))) in
      map (\<lambda>(name, port). BackendConflict name (om_Name (ib_Meta x)) (om_Name (ib_Meta y)))
        (iter (conflicting_keys (keys x) (keys y))))"

definition DetectAccessControlConflicts ::
  "((string \<times> int) list \<Rightarrow> (string \<times> int) list) \<Rightarrow> AccessControl \<Rightarrow> AccessControl \<Rightarrow> BackendConflict list" where
  "DetectAccessControlConflicts iter x y =
     (let keys = (\<lambda>ac. map (\<lambda>b. (acb_Name b, ps_Number (acb_Port b))) (acsp_Backends (ac_Spec ac))) in
      map (\<lambda>(name, port). BackendConflict name (om_Name (ac_Meta x)) (om_Name (ac_Meta y)))
        (iter (conflicting_keys (keys x) (keys y))))"


section \<open>Lemmas\<close>

lemma set_conflicting_keys: "set (conflicting_keys xs ys) = set xs \<inter> set ys"
  by (auto simp: conflicting_keys_def)

lemma upstreamTrafficSettingLoop_Some:
  "upstreamTrafficSettingLoop (Some ms) host xs =
     Some (find (\<lambda>uts. uts_Host (uts_Spec uts) = host \<or>
        om_Namespace (uts_Meta uts) = ms_Namespace ms \<and> uts_Host (uts_Spec uts) = FQDN ms) xs)"
  by (induction xs) auto

lemma upstreamTrafficSettingLoop_None:
  "upstreamTrafficSettingLoop None host xs =
     (case xs of [] \<Rightarrow> Some None
      | uts # _ \<Rightarrow> if uts_Host (uts_Spec uts) = host then Some (Some uts) else None)"
  by (cases xs) auto

lemma uts_for_service_eq:
  "uts_for_service c svc = Some (find (\<lambda>uts. uts_Host (uts_Spec uts) = '''' \<or>
      om_Namespace (uts_Meta uts) = ms_Namespace svc \<and> uts_Host (uts_Spec uts) = FQDN svc)
      (cache_List (pc_UpstreamTrafficSettings c)))"
  by (simp add: uts_for_service_def GetUpstreamTrafficSetting_def upstreamTrafficSettingLoop_Some)

text \<open>Two ingress backends that match the same service have a common key.\<close>

lemma ingress_common_key:
  assumes "list_ex (\<lambda>b. backend_matches (be_Name b) (be_Port b) svc) (ibs_Backends (ib_Spec x))"
    and "list_ex (\<lambda>b. backend_matches (be_Name b) (be_Port b) svc) (ibs_Backends (ib_Spec y))"
    and "\<And>ks. set (iter ks) = set ks"
  shows "DetectIngressBackendConflicts iter x y \<noteq> []"
proof -
  let ?keys = "\<lambda>ib. map (\<lambda>b. (be_Name b, ps_Number (be_Port b))) (ibs_Backends (ib_Spec ib))"
  let ?k = "(ms_Name svc, int (unat (ms_TargetPort svc)))"
  have "?k \<in> set (?keys x)" "?k \<in> set (?keys y)"
    using assms(1,2) by (force simp: list_ex_iff backend_matches_def)+
  then have "?k \<in> set (iter (conflicting_keys (?keys x) (?keys y)))"
    by (simp add: assms(3) set_conflicting_keys)
  then have "iter (conflicting_keys (?keys x) (?keys y)) \<noteq> []" by force
  then show ?thesis by (simp add: DetectIngressBackendConflicts_def Let_def)
qed


section \<open>Properties\<close>

text \<open>
  C24. When no two ingress backend policies of a namespace conflict, which the admission check
  enforces, the policy found for a service is the only one that names it: the result does not
  depend on the order in which the cache lists the policies.
\<close>

theorem ingress_backend_policy_unique:
  assumes "\<forall>x \<in> set (cache_List (pc_IngressBackends c)). \<forall>y \<in> set (cache_List (pc_IngressBackends c)).
      x \<noteq> y \<and> om_Namespace (ib_Meta x) = om_Namespace (ib_Meta y) \<longrightarrow>
        DetectIngressBackendConflicts iter x y = []"
    and "\<forall>ks. set (iter ks) = set ks"
  shows "GetIngressBackendPolicy c svc = Some ib \<longleftrightarrow>
    ib \<in> set (cache_List (pc_IngressBackends c)) \<and>
    om_Namespace (ib_Meta ib) = ms_Namespace svc \<and>
    (\<exists>backend \<in> set (ibs_Backends (ib_Spec ib)).
       be_Name backend = ms_Name svc \<and> ps_Number (be_Port backend) = int (unat (ms_TargetPort svc)))"
    (is "_ \<longleftrightarrow> ?in ib \<and> ?ns ib \<and> ?be ib")
proof -
  let ?P = "\<lambda>ib. ?ns ib \<and> list_ex (\<lambda>b. backend_matches (be_Name b) (be_Port b) svc) (ibs_Backends (ib_Spec ib))"
  have P: "?P x \<longleftrightarrow> ?ns x \<and> ?be x" for x
    by (auto simp: list_ex_iff backend_matches_def)
  have eq: "GetIngressBackendPolicy c svc = find ?P (cache_List (pc_IngressBackends c))"
    by (simp add: GetIngressBackendPolicy_def)
  have uniq: "y = x" if "?in x" "?P x" "?in y" "?P y" for x y
    using that assms ingress_common_key [of svc y x iter] by metis
  have "GetIngressBackendPolicy c svc = Some ib" if "?in ib" "?P ib"
    unfolding eq using that uniq by (intro find_unique) blast+
  moreover have "?in ib \<and> ?P ib" if "GetIngressBackendPolicy c svc = Some ib"
    using that unfolding eq by (blast dest: find_SomeD)
  ultimately show ?thesis unfolding P by blast
qed

definition sample_backend :: "string \<Rightarrow> string \<Rightarrow> int \<Rightarrow> IngressBackend" where
  "sample_backend name svc port =
     \<lparr>ib_Meta = sample_meta ''shop'' name,
      ib_Spec = \<lparr>ibs_Backends = [\<lparr>be_Name = svc, be_Port = \<lparr>ps_Number = port, ps_Protocol = ''http''\<rparr>,
        be_TLS = None\<rparr>], ibs_Sources = [], ibs_Matches = []\<rparr>,
      ib_Status = \<lparr>ibst_CurrentStatus = '''', ibst_Reason = ''''\<rparr>\<rparr>"

definition sample_policies :: PolicyClient where
  "sample_policies =
     \<lparr>pc_EgressGateways = [], pc_Egresses = [],
      pc_IngressBackends = [(''shop/a'', sample_backend ''a'' ''web'' 80), (''shop/b'', sample_backend ''b'' ''web'' 81)],
      pc_Retries = [], pc_AccessControls = [],
      pc_UpstreamTrafficSettings =
        [(''shop/u'', zero_UpstreamTrafficSetting\<lparr>uts_Meta := sample_meta ''shop'' ''u'',
            uts_Spec := (uts_Spec zero_UpstreamTrafficSetting)\<lparr>uts_Host := ''db.shop.svc.cluster.local''\<rparr>\<rparr>)],
      pc_kubeController = sample_client\<rparr>"

theorem ingress_backend_policy_unique_witness:
  "GetIngressBackendPolicy sample_policies
     (zero_MeshService\<lparr>ms_Namespace := ''shop'', ms_Name := ''web'', ms_TargetPort := 81\<rparr>) =
   Some (sample_backend ''b'' ''web'' 81)"
  using ingress_backend_policy_unique [of sample_policies id
      "zero_MeshService\<lparr>ms_Namespace := ''shop'', ms_Name := ''web'', ms_TargetPort := 81\<rparr>"
      "sample_backend ''b'' ''web'' 81"]
  by (simp add: sample_policies_def sample_backend_def sample_meta_def cache_List_def
      DetectIngressBackendConflicts_def conflicting_keys_def set_add_def)

text \<open>
  \<open>GetUpstreamTrafficSetting\<close> by host alone, as the admission check calls it, panics whenever
  the first listed resource has another host. By mesh service it never panics and finds the first
  resource for the service, but a resource with an empty host is taken for every service.
\<close>

theorem upstream_traffic_setting_host_panics:
  "(\<forall>uts rest host. cache_List (pc_UpstreamTrafficSettings c) = uts # rest \<and> host \<noteq> '''' \<and>
       uts_Host (uts_Spec uts) \<noteq> host \<longrightarrow>
     GetUpstreamTrafficSetting c \<lparr>uo_MeshService = None, uo_NamespacedName = None, uo_Host = host\<rparr> = None) \<and>
   GetUpstreamTrafficSetting c \<lparr>uo_MeshService = Some svc, uo_NamespacedName = None, uo_Host = ''''\<rparr> =
     Some (find (\<lambda>uts. uts_Host (uts_Spec uts) = '''' \<or>
        om_Namespace (uts_Meta uts) = ms_Namespace svc \<and> uts_Host (uts_Spec uts) = FQDN svc)
        (cache_List (pc_UpstreamTrafficSettings c)))"
  by (simp add: GetUpstreamTrafficSetting_def upstreamTrafficSettingLoop_None
      upstreamTrafficSettingLoop_Some)

theorem upstream_traffic_setting_host_panics_witness:
  "GetUpstreamTrafficSetting sample_policies
     \<lparr>uo_MeshService = None, uo_NamespacedName = None, uo_Host = ''web.shop.svc.cluster.local''\<rparr> = None"
  using upstream_traffic_setting_host_panics [of sample_policies]
  by (simp add: sample_policies_def cache_List_def)

end
