(* ===== verification/Smi.thy ===== *)
theory Smi
  imports K8s_Client
begin

text \<open>
  The SMI client (\<open>src/pkg/smi/client.go\<close>, \<open>types.go\<close>): listing traffic targets, traffic splits and
  route specifications of the monitored namespaces. The SMI resources are library types of which
  the fields the code reads are kept; \<open>Spec.Matches\<close> of an HTTP route group and the headers of a match
  are compared with nil or copied into values that are compared with \<open>reflect.DeepEqual\<close>, so nil
  is kept apart from empty.
\<close>

definition ServiceAccountKind :: string where
  "ServiceAccountKind = ''ServiceAccount''"

definition HTTPRouteGroupKind :: string where
  "HTTPRouteGroupKind = ''HTTPRouteGroup''"

definition TCPRouteKind :: string where
  "TCPRouteKind = ''TCPRoute''"

record IdentityBindingSubject =
  ibj_Kind :: string
  ibj_Name :: string
  ibj_Namespace :: string

record TrafficTargetRule =
  ttu_Kind :: string
  ttu_Name :: string
  ttu_Matches :: "string list"

record TrafficTarget =
  tt_Meta :: ObjectMeta
  tt_Destination :: IdentityBindingSubject
  tt_Sources :: "IdentityBindingSubject list"
  tt_Rules :: "TrafficTargetRule list"

record HTTPMatch =
  hm_Name :: string
  hm_PathRegex :: string
  hm_Methods :: "string list"
  hm_Headers :: "(string \<rightharpoonup> string) option"

record HTTPRouteGroup =
  hrg_Meta :: ObjectMeta
  hrg_Matches :: "HTTPMatch list option"

record TCPRoute =
  tcr_Meta :: ObjectMeta
  tcr_Ports :: "int list"

record TrafficSplitBackend =
  tsb_Service :: string
  tsb_Weight :: int

record TrafficSplit =
  ts_Meta :: ObjectMeta
  ts_Service :: string
  ts_Backends :: "TrafficSplitBackend list"
  ts_Matches :: "TypedLocalObjectReference list"

record SmiClient =
  smi_TrafficTargets :: "TrafficTarget cache"
  smi_HTTPRouteGroups :: "HTTPRouteGroup cache"
  smi_TCPRoutes :: "TCPRoute cache"
  smi_TrafficSplits :: "TrafficSplit cache"
  smi_kubeController :: KubeClient


section \<open>Options of the listers\<close>

record TrafficTargetListOpt =
  tto_Destination :: K8sServiceAccount

definition zero_K8sServiceAccount :: K8sServiceAccount where
  "zero_K8sServiceAccount = \<lparr>sa_Namespace = '''', sa_Name = ''''\<rparr>"

type_synonym TrafficTargetListOption = "TrafficTargetListOpt \<Rightarrow> TrafficTargetListOpt"

definition WithTrafficTargetDestination :: "K8sServiceAccount \<Rightarrow> TrafficTargetListOption" where
  "WithTrafficTargetDestination d o1 = o1\<lparr>tto_Destination := d\<rparr>"

record TrafficSplitListOpt =
  tso_ApexService :: MeshService
  tso_BackendService :: MeshService
  tso_KubeController :: "KubeClient option"

type_synonym TrafficSplitListOption = "TrafficSplitListOpt \<Rightarrow> TrafficSplitListOpt"

definition WithTrafficSplitApexService :: "MeshService \<Rightarrow> TrafficSplitListOption" where
  "WithTrafficSplitApexService s o1 = o1\<lparr>tso_ApexService := s\<rparr>"

definition WithTrafficSplitBackendService :: "MeshService \<Rightarrow> TrafficSplitListOption" where
  "WithTrafficSplitBackendService s o1 = o1\<lparr>tso_BackendService := s\<rparr>"

definition WithKubeController :: "KubeClient \<Rightarrow> TrafficSplitListOption" where
  "WithKubeController c o1 = o1\<lparr>tso_KubeController := Some c\<rparr>"


section \<open>Traffic splits\<close>

definition FilterTrafficSplit ::
  "TrafficSplit option \<Rightarrow> TrafficSplitListOption list \<Rightarrow> TrafficSplit option" where
  "FilterTrafficSplit trafficSplit options =
     (case trafficSplit of
        None \<Rightarrow> None
      | Some split \<Rightarrow>
          let opts = fold (\<lambda>opt opts. opt opts) options
                \<lparr>tso_ApexService = zero_MeshService, tso_BackendService = zero_MeshService,
                 tso_KubeController = None\<rparr>;
              apex = tso_ApexService opts; backendService = tso_BackendService opts in
          if ms_Name apex \<noteq> '''' \<and>
             (ms_Namespace apex \<noteq> om_Namespace (ts_Meta split) \<or>
              ms_Name apex \<noteq> GetServiceFromHostname (tso_KubeController opts) (ts_Service split))
          then None
          else if ms_Name backendService \<noteq> '''' \<and>
             (om_Namespace (ts_Meta split) \<noteq> ms_Namespace backendService \<or>
              \<not> list_ex (\<lambda>backend. tsb_Service backend = ms_Name backendService) (ts_Backends split))
          then None
          else Some split)"

text \<open>
  The code appends the option that sets the controller to the options again in every iteration;
  setting it more than once is the same as setting it once.
\<close>

definition ListTrafficSplits :: "SmiClient \<Rightarrow> TrafficSplitListOption list \<Rightarrow> TrafficSplit list" where
  "ListTrafficSplits c options =
     List.map_filter
       (\<lambda>trafficSplit. FilterTrafficSplit (Some trafficSplit)
          (options @ [WithKubeController (smi_kubeController c)]))
       (filter (\<lambda>trafficSplit. IsMonitoredNamespace (smi_kubeController c) (om_Namespace (ts_Meta trafficSplit)))
          (cache_List (smi_TrafficSplits c)))"


section \<open>Route specifications\<close>

definition ListHTTPTrafficSpecs :: "SmiClient \<Rightarrow> HTTPRouteGroup list" where
  "ListHTTPTrafficSpecs c =
     filter (\<lambda>routeGroup. IsMonitoredNamespace (smi_kubeController c) (om_Namespace (hrg_Meta routeGroup)))
       (cache_List (smi_HTTPRouteGroups c))"

definition GetHTTPRouteGroup :: "SmiClient \<Rightarrow> string \<Rightarrow> HTTPRouteGroup option" where
  "GetHTTPRouteGroup c namespacedName =
     (case cache_GetByKey (smi_HTTPRouteGroups c) namespacedName of
        Some route \<Rightarrow>
          if \<not> IsMonitoredNamespace (smi_kubeController c) (om_Namespace (hrg_Meta route)) then None
          else Some route
      | None \<Rightarrow> None)"

definition ListTCPTrafficSpecs :: "SmiClient \<Rightarrow> TCPRoute list" where
  "ListTCPTrafficSpecs c =
     filter (\<lambda>tcpRoute. IsMonitoredNamespace (smi_kubeController c) (om_Namespace (tcr_Meta tcpRoute)))
       (cache_List (smi_TCPRoutes c))"

definition GetTCPRoute :: "SmiClient \<Rightarrow> string \<Rightarrow> TCPRoute option" where
  "GetTCPRoute c namespacedName =
     (case cache_GetByKey (smi_TCPRoutes c) namespacedName of
        Some route \<Rightarrow>
          if \<not> IsMonitoredNamespace (smi_kubeController c) (om_Namespace (tcr_Meta route)) then None
          else Some route
      | None \<Rightarrow> None)"


section \<open>Traffic targets\<close>

definition hasValidRules :: "TrafficTargetRule list \<Rightarrow> bool" where
  "hasValidRules rules \<longleftrightarrow>
     length rules \<noteq> 0 \<and>
     list_all (\<lambda>rule. ttu_Kind rule = HTTPRouteGroupKind \<or> ttu_Kind rule = TCPRouteKind) rules"

definition isValidTrafficTarget :: "TrafficTarget \<Rightarrow> bool" where
  "isValidTrafficTarget trafficTarget \<longleftrightarrow>
     om_Namespace (tt_Meta trafficTarget) = ibj_Namespace (tt_Destination trafficTarget) \<and>
     hasValidRules (tt_Rules trafficTarget)"

definition FilterTrafficTarget ::
  "TrafficTarget option \<Rightarrow> TrafficTargetListOption list \<Rightarrow> TrafficTarget option" where
  "FilterTrafficTarget trafficTarget options =
     (case trafficTarget of
        None \<Rightarrow> None
      | Some t \<Rightarrow>
          let opts = fold (\<lambda>opt opts. opt opts) options \<lparr>tto_Destination = zero_K8sServiceAccount\<rparr>;
              d = tto_Destination opts in
          if sa_Name d \<noteq> '''' \<and>
             (sa_Namespace d \<noteq> ibj_Namespace (tt_Destination t) \<or> sa_Name d \<noteq> ibj_Name (tt_Destination t))
          then None else Some t)"

definition ListTrafficTargets :: "SmiClient \<Rightarrow> TrafficTargetListOption list \<Rightarrow> TrafficTarget list" where
  "ListTrafficTargets c options =
     filter (\<lambda>trafficTarget.
         IsMonitoredNamespace (smi_kubeController c) (om_Namespace (tt_Meta trafficTarget)) \<and>
         isValidTrafficTarget trafficTarget \<and>
         FilterTrafficTarget (Some trafficTarget) options \<noteq> None)
       (cache_List (smi_TrafficTargets c))"

definition smi_ListServiceAccounts :: "SmiClient \<Rightarrow> K8sServiceAccount list" where
  "smi_ListServiceAccounts c =
     concat (map (\<lambda>trafficTarget.
         map (\<lambda>source. \<lparr>sa_Namespace = ibj_Namespace source, sa_Name = ibj_Name source\<rparr>)
           (filter (\<lambda>source. IsMonitoredNamespace (smi_kubeController c) (ibj_Namespace source))
             (tt_Sources trafficTarget)) @
         [\<lparr>sa_Namespace = ibj_Namespace (tt_Destination trafficTarget),
           sa_Name = ibj_Name (tt_Destination trafficTarget)\<rparr>])
       (filter (\<lambda>trafficTarget.
           IsMonitoredNamespace (smi_kubeController c) (om_Namespace (tt_Meta trafficTarget)) \<and>
           isValidTrafficTarget trafficTarget)
         (cache_List (smi_TrafficTargets c))))"


section \<open>Lemmas\<close>

lemma ListTrafficTargets_all:
  "t \<in> set (ListTrafficTargets c []) \<longleftrightarrow>
   t \<in> set (cache_List (smi_TrafficTargets c)) \<and>
   IsMonitoredNamespace (smi_kubeController c) (om_Namespace (tt_Meta t)) \<and> isValidTrafficTarget t"
  by (auto simp: ListTrafficTargets_def FilterTrafficTarget_def zero_K8sServiceAccount_def)

text \<open>With an empty destination name the destination filter is switched off.\<close>

lemma ListTrafficTargets_destination:
  "t \<in> set (ListTrafficTargets c [WithTrafficTargetDestination d]) \<longleftrightarrow>
   t \<in> set (ListTrafficTargets c []) \<and>
   (sa_Name d = '''' \<or>
    ibj_Namespace (tt_Destination t) = sa_Namespace d \<and> ibj_Name (tt_Destination t) = sa_Name d)"
  by (auto simp: ListTrafficTargets_def FilterTrafficTarget_def zero_K8sServiceAccount_def
      WithTrafficTargetDestination_def)

lemma ListHTTPTrafficSpecs_iff:
  "g \<in> set (ListHTTPTrafficSpecs c) \<longleftrightarrow>
   g \<in> set (cache_List (smi_HTTPRouteGroups c)) \<and>
   IsMonitoredNamespace (smi_kubeController c) (om_Namespace (hrg_Meta g))"
  by (auto simp: ListHTTPTrafficSpecs_def)

lemma FilterTrafficSplit_SomeD: "FilterTrafficSplit (Some x) os = Some s \<Longrightarrow> x = s"
  by (simp add: FilterTrafficSplit_def Let_def split: if_splits)

lemma ListTrafficSplits_iff:
  "s \<in> set (ListTrafficSplits c options) \<longleftrightarrow>
   s \<in> set (cache_List (smi_TrafficSplits c)) \<and>
   IsMonitoredNamespace (smi_kubeController c) (om_Namespace (ts_Meta s)) \<and>
   FilterTrafficSplit (Some s) (options @ [WithKubeController (smi_kubeController c)]) = Some s"
  unfolding ListTrafficSplits_def set_map_filter set_filter mem_Collect_eq
  using FilterTrafficSplit_SomeD by (metis (mono_tags, lifting) mem_Collect_eq)

text \<open>The splits whose apex is the given service, and those which have it as a backend.\<close>

lemma ListTrafficSplits_apex:
  "ms_Name svc \<noteq> '''' \<Longrightarrow>
   s \<in> set (ListTrafficSplits c [WithTrafficSplitApexService svc]) \<longleftrightarrow>
   s \<in> set (cache_List (smi_TrafficSplits c)) \<and>
   IsMonitoredNamespace (smi_kubeController c) (om_Namespace (ts_Meta s)) \<and>
   om_Namespace (ts_Meta s) = ms_Namespace svc \<and>
   GetServiceFromHostname (Some (smi_kubeController c)) (ts_Service s) = ms_Name svc"
  by (auto simp: ListTrafficSplits_iff FilterTrafficSplit_def WithTrafficSplitApexService_def
      WithKubeController_def zero_MeshService_def Let_def)

lemma ListTrafficSplits_backend:
  "ms_Name svc \<noteq> '''' \<Longrightarrow>
   s \<in> set (ListTrafficSplits c [WithTrafficSplitBackendService svc]) \<longleftrightarrow>
   s \<in> set (cache_List (smi_TrafficSplits c)) \<and>
   IsMonitoredNamespace (smi_kubeController c) (om_Namespace (ts_Meta s)) \<and>
   om_Namespace (ts_Meta s) = ms_Namespace svc \<and>
   (\<exists>backend \<in> set (ts_Backends s). tsb_Service backend = ms_Name svc)"
  by (auto simp: ListTrafficSplits_iff FilterTrafficSplit_def WithTrafficSplitBackendService_def
      WithKubeController_def zero_MeshService_def Let_def list_ex_iff)

lemma GetTCPRoute_Some:
  "GetTCPRoute c n = Some r \<longleftrightarrow>
   cache_GetByKey (smi_TCPRoutes c) n = Some r \<and>
   IsMonitoredNamespace (smi_kubeController c) (om_Namespace (tcr_Meta r))"
  by (auto simp: GetTCPRoute_def split: option.splits)

end
