(* ===== verification/Multicluster.thy ===== *)
theory Multicluster
  imports K8s_Client
begin

text \<open>
  The multi-cluster client (\<open>src/pkg/multicluster\<close>) over the service imports, service exports, global
  traffic policies and ingress classes (\<open>src/pkg/apis/multicluster/v1alpha1\<close>; the session affinity
  configuration of an import, a third-party type that nothing reads, is left out). It presents imported
  services as Kubernetes services, pods and endpoints. Of these synthetic objects the fields read
  by the callers are kept. A nil map of cluster keys is the empty one: only its length and lookups
  are used.
\<close>

section \<open>Resources\<close>

type_synonym LoadBalancerType = string

definition ActiveActiveLbType :: LoadBalancerType where
  "ActiveActiveLbType = ''ActiveActive''"

definition LocalityLbType :: LoadBalancerType where
  "LocalityLbType = ''Locality''"

definition FailOverLbType :: LoadBalancerType where
  "FailOverLbType = ''FailOver''"

record LbTarget =
  lbt_ClusterKey :: string
  lbt_Weight :: "int option"

record GlobalTrafficPolicy =
  gtp_Meta :: ObjectMeta
  gtp_LbType :: LoadBalancerType
  gtp_LoadBalanceTarget :: "LbTarget list"

record ImportTarget =
  it_Host :: string
  it_IP :: string
  it_Port :: int
  it_Path :: string

record ImportEndpoint =
  ie_ClusterKey :: string
  ie_Target :: ImportTarget

record ImportPort =
  ip_Name :: string
  ip_Protocol :: string
  ip_AppProtocol :: "string option"
  ip_Port :: int
  ip_Endpoints :: "ImportEndpoint list"

record ClusterStatus =
  cs_Cluster :: string
  cs_Addresses :: "string list"

record ServiceImport =
  si_Meta :: ObjectMeta
  si_Ports :: "ImportPort list"
  si_IPs :: "string list"
  si_Type :: string
  si_SessionAffinity :: string
  si_ServiceAccountName :: string
  si_Clusters :: "ClusterStatus list"

record ServiceExportRule =
  ser_PortNumber :: int
  ser_Path :: string
  ser_PathType :: "string option"

record Condition =
  cond_Type :: string
  cond_Status :: string

record PathRewrite =
  pr_From :: string
  pr_To :: string

record ServiceExport =
  sx_Meta :: ObjectMeta
  sx_PathRewrite :: "PathRewrite option"
  sx_SessionSticky :: bool
  sx_LoadBalancer :: string
  sx_Rules :: "ServiceExportRule list"
  sx_TargetClusters :: "string list"
  sx_ServiceAccountName :: string
  sx_Conditions :: "Condition list"

record IngressClass =
  ic_Meta :: ObjectMeta

record MulticlusterClient =
  mcl_ServiceImports :: "ServiceImport cache"
  mcl_ServiceExports :: "ServiceExport cache"
  mcl_GlobalTrafficPolicies :: "GlobalTrafficPolicy cache"
  mcl_IngressClasses :: "IngressClass cache"
  mcl_selectorMatches :: "(string, string) gomap \<Rightarrow> (string, string) gomap \<Rightarrow> bool"

definition AnyServiceAccount :: string where
  "AnyServiceAccount = ''*''"

definition import_annotation :: "string \<Rightarrow> string \<Rightarrow> int \<Rightarrow> string" where
  "import_annotation kind ip port = ''flomesh.io/ServiceImport/'' @ kind @ ''/'' @ ip @ ''/'' @ itoa_int port"

definition ServiceImportClusterKeyAnnotation :: "string \<Rightarrow> int \<Rightarrow> string" where
  "ServiceImportClusterKeyAnnotation = import_annotation ''ClusterKey''"

definition ServiceImportContextPathAnnotation :: "string \<Rightarrow> int \<Rightarrow> string" where
  "ServiceImportContextPathAnnotation = import_annotation ''ContextPath''"

definition ServiceImportLBTypeAnnotation :: "string \<Rightarrow> int \<Rightarrow> string" where
  "ServiceImportLBTypeAnnotation = import_annotation ''LBType''"

definition ServiceImportLBWeightAnnotation :: "string \<Rightarrow> int \<Rightarrow> string" where
  "ServiceImportLBWeightAnnotation = import_annotation ''LBWeight''"


section \<open>Global traffic policies (traffic_policy.go)\<close>

definition getGlobalTrafficPolicy :: "MulticlusterClient \<Rightarrow> MeshService \<Rightarrow> GlobalTrafficPolicy option" where
  "getGlobalTrafficPolicy c svc = cache_GetByKey (mcl_GlobalTrafficPolicies c) (NamespacedKey svc)"

definition isLocality :: "MulticlusterClient \<Rightarrow> MeshService \<Rightarrow> bool" where
  "isLocality c svc =
     (case getGlobalTrafficPolicy c svc of
        Some gtp \<Rightarrow> gtp_LbType gtp = LocalityLbType
      | None \<Rightarrow> True)"

definition lbt_weight_or_0 :: "LbTarget \<Rightarrow> int" where
  "lbt_weight_or_0 lbt = (case lbt_Weight lbt of Some w \<Rightarrow> w | None \<Rightarrow> 0)"

definition getServiceTrafficPolicy ::
  "MulticlusterClient \<Rightarrow> MeshService \<Rightarrow> LoadBalancerType \<times> (string, int) gomap" where
  "getServiceTrafficPolicy c svc =
     (case getGlobalTrafficPolicy c svc of
        Some gtp \<Rightarrow>
          (gtp_LbType gtp,
           fold (\<lambda>lbt clusterKeys. gm_put clusterKeys (lbt_ClusterKey lbt) (lbt_weight_or_0 lbt))
             (gtp_LoadBalanceTarget gtp) [])
      | None \<Rightarrow> (LocalityLbType, []))"

text \<open>The results \<open>aa\<close>, \<open>fo\<close>, \<open>lc\<close>, \<open>weight\<close> and \<open>clusterKeys\<close>.\<close>

definition GetLbWeightForService ::
  "MulticlusterClient \<Rightarrow> MeshService \<Rightarrow> bool \<times> bool \<times> bool \<times> int \<times> (string, int) gomap" where
  "GetLbWeightForService c svc =
     (case getGlobalTrafficPolicy c svc of
        None \<Rightarrow> (False, False, True, 0, [])
      | Some gtp \<Rightarrow>
          if gtp_LbType gtp = ActiveActiveLbType then
            (if gtp_LoadBalanceTarget gtp = [] then (True, False, False, ClusterWeightAcceptAll, [])
             else case find (\<lambda>lbt. ms_ServiceImportUID svc = lbt_ClusterKey lbt) (gtp_LoadBalanceTarget gtp) of
               Some lbt \<Rightarrow> (True, False, False, lbt_weight_or_0 lbt, [(lbt_ClusterKey lbt, lbt_weight_or_0 lbt)])
             | None \<Rightarrow> (True, False, False, 0, []))
          else if gtp_LbType gtp = FailOverLbType then
            (False, True, False, ClusterWeightFailOver,
             fold (\<lambda>lbt clusterKeys. gm_put clusterKeys (lbt_ClusterKey lbt) ClusterWeightFailOver)
               (gtp_LoadBalanceTarget gtp) [])
          else (False, False, True, 0, []))"


section \<open>Imported services (service_import.go)\<close>

definition imported_service :: "ServiceImport \<Rightarrow> string \<Rightarrow> string \<Rightarrow> ServicePort list \<Rightarrow> K8sService" where
  "imported_service importedService uid clusterIP ports =
     \<lparr>ks_Meta = zero_ObjectMeta\<lparr>om_UID := uid, om_Namespace := om_Namespace (si_Meta importedService),
        om_Name := om_Name (si_Meta importedService)\<rparr>,
      ks_ClusterIP = clusterIP, ks_Selector = [(''app'', om_Name (si_Meta importedService))],
      ks_Ports = ports\<rparr>"

definition imported_port :: "ImportPort \<Rightarrow> ServicePort" where
  "imported_port port = \<lparr>sp_Name = ip_Name port, sp_AppProtocol = ip_AppProtocol port, sp_Port = ip_Port port\<rparr>"

definition mcs_GetService :: "MulticlusterClient \<Rightarrow> MeshService \<Rightarrow> K8sService option" where
  "mcs_GetService c svc =
     (if isLocality c svc then None
      else case cache_GetByKey (mcl_ServiceImports c) (NamespacedKey svc) of
        None \<Rightarrow> None
      | Some importedService \<Rightarrow>
          (case find (\<lambda>port. equal_fold (om_Name (si_Meta importedService)) (ms_Name svc) \<and>
                 to_uint16 (ip_Port port) = ms_Port svc \<and> length (ip_Endpoints port) > 0)
               (si_Ports importedService) of
             None \<Rightarrow> None
           | Some port \<Rightarrow>
               Some (case find (\<lambda>endpoint. ms_TargetPort svc = to_uint16 (it_Port (ie_Target endpoint)))
                      (ip_Endpoints port) of
                   Some endpoint \<Rightarrow>
                     imported_service importedService (om_UID (si_Meta importedService))
                       (it_IP (ie_Target endpoint)) [imported_port port]
                 | None \<Rightarrow>
                     imported_service importedService (om_UID (si_Meta importedService)) '''' [])))"

definition mcs_ListServices :: "MulticlusterClient \<Rightarrow> K8sService list" where
  "mcs_ListServices c =
     [imported_service importedService (ie_ClusterKey endpoint) (it_IP (ie_Target endpoint)) [imported_port port].
        importedService \<leftarrow> cache_List (mcl_ServiceImports c),
        \<not> isLocality c (zero_MeshService\<lparr>ms_Namespace := om_Namespace (si_Meta importedService),
            ms_Name := om_Name (si_Meta importedService)\<rparr>),
        port \<leftarrow> si_Ports importedService,
        endpoint \<leftarrow> ip_Endpoints port]"

definition mcs_GetNamespace :: "MulticlusterClient \<Rightarrow> string \<Rightarrow> Namespace option" where
  "mcs_GetNamespace c ns =
     (case find (\<lambda>importedService. equal_fold (om_Namespace (si_Meta importedService)) ns)
          (cache_List (mcl_ServiceImports c)) of
        Some importedService \<Rightarrow>
          Some \<lparr>ns_Meta = zero_ObjectMeta\<lparr>om_Name := om_Namespace (si_Meta importedService)\<rparr>\<rparr>
      | None \<Rightarrow> None)"

definition mcs_ListPods :: "MulticlusterClient \<Rightarrow> Pod list" where
  "mcs_ListPods c =
     [\<lparr>pod_Meta = zero_ObjectMeta\<lparr>om_Namespace := om_Namespace (si_Meta importedService),
          om_Name := it_Host (ie_Target endpoint),
          om_Labels := [(''app'', om_Name (si_Meta importedService))]\<rparr>,
        pod_ServiceAccountName = si_ServiceAccountName importedService,
        pod_PodIPs = [it_IP (ie_Target endpoint)]\<rparr>.
        importedService \<leftarrow> cache_List (mcl_ServiceImports c),
        port \<leftarrow> si_Ports importedService,
        endpoint \<leftarrow> ip_Endpoints port]"

text \<open>The endpoints of a port that serve the target port and, if clusters are listed, one of them.\<close>

definition selected_endpoints :: "MeshService \<Rightarrow> (string, int) gomap \<Rightarrow> ImportPort \<Rightarrow> ImportEndpoint list" where
  "selected_endpoints svc clusterKeys port =
     filter (\<lambda>endpoint.
         \<not> (ms_TargetPort svc > 0 \<and> ms_TargetPort svc \<noteq> to_uint16 (it_Port (ie_Target endpoint))) \<and>
         (length clusterKeys > 0 \<longrightarrow> gm_get clusterKeys (ie_ClusterKey endpoint) \<noteq> None))
       (ip_Endpoints port)"

definition import_annotations ::
  "LoadBalancerType \<Rightarrow> (string, int) gomap \<Rightarrow> ImportEndpoint \<Rightarrow> (string, string) gomap \<Rightarrow> (string, string) gomap" where
  "import_annotations lbType clusterKeys endpoint m =
     (let t = ie_Target endpoint;
          lbWeight = (if length clusterKeys > 0
            then (case gm_get clusterKeys (ie_ClusterKey endpoint) of Some w \<Rightarrow> w | None \<Rightarrow> 0) else 0);
          m1 = gm_put m (ServiceImportClusterKeyAnnotation (it_IP t) (it_Port t)) (ie_ClusterKey endpoint);
          m2 = gm_put m1 (ServiceImportContextPathAnnotation (it_IP t) (it_Port t)) (it_Path t);
          m3 = gm_put m2 (ServiceImportLBTypeAnnotation (it_IP t) (it_Port t)) lbType in
      gm_put m3 (ServiceImportLBWeightAnnotation (it_IP t) (it_Port t)) (itoa_int lbWeight))"

definition mcs_GetEndpoints :: "MulticlusterClient \<Rightarrow> MeshService \<Rightarrow> Endpoints option" where
  "mcs_GetEndpoints c svc =
     (let (lbType, clusterKeys) = getServiceTrafficPolicy c svc in
      if lbType = LocalityLbType then None
      else case cache_GetByKey (mcl_ServiceImports c) (NamespacedKey svc) of
        None \<Rightarrow> None
      | Some importedService \<Rightarrow>
          (case find (\<lambda>port. equal_fold (om_Name (si_Meta importedService)) (ms_Name svc) \<and>
                 (ms_Port svc = 0 \<or> ms_Port svc = to_uint16 (ip_Port port)) \<and> length (ip_Endpoints port) > 0)
               (si_Ports importedService) of
             None \<Rightarrow> None
           | Some port \<Rightarrow>
               let chosen = selected_endpoints svc clusterKeys port in
               Some \<lparr>eps_Meta = zero_ObjectMeta\<lparr>om_Namespace := om_Namespace (si_Meta importedService),
                   om_Name := om_Name (si_Meta importedService),
                   om_Annotations := fold (import_annotations lbType clusterKeys) chosen []\<rparr>,
                 eps_Subsets = map (\<lambda>endpoint.
                   \<lparr>es_Addresses = [\<lparr>ea_IP = it_IP (ie_Target endpoint), ea_Hostname = it_Host (ie_Target endpoint)\<rparr>],
                    es_Ports = [\<lparr>epo_Name = ip_Name port, epo_Port = it_Port (ie_Target endpoint)\<rparr>]\<rparr>) chosen\<rparr>))"

definition mcs_ListServiceIdentitiesForService ::
  "MulticlusterClient \<Rightarrow> (K8sServiceAccount list \<Rightarrow> K8sServiceAccount list) \<Rightarrow> MeshService \<Rightarrow>
     K8sError + K8sServiceAccount list" where
  "mcs_ListServiceIdentitiesForService c iter svc =
     (case mcs_GetService c svc of
        None \<Rightarrow> Inl ErrServiceNotFound
      | Some k8sSvc \<Rightarrow>
          Inr (iter (set_adds
            [\<lparr>sa_Namespace = om_Namespace (pod_Meta pod), sa_Name = pod_ServiceAccountName pod\<rparr>.
               pod \<leftarrow> mcs_ListPods c, length (ks_Selector k8sSvc) \<noteq> 0,
               mcl_selectorMatches c (ks_Selector k8sSvc) (om_Labels (pod_Meta pod))] [])))"

text \<open>The target ports of a service port, with whether they are active (as opposed to fail-over).\<close>

definition mcs_GetTargetPortForServicePort ::
  "MulticlusterClient \<Rightarrow> NamespacedName \<Rightarrow> uint16 \<Rightarrow> (uint16, bool) gomap" where
  "mcs_GetTargetPortForServicePort c namespacedSvc port =
     (let svc = zero_MeshService\<lparr>ms_Namespace := nn_Namespace namespacedSvc, ms_Name := nn_Name namespacedSvc\<rparr>;
          (aa, fo, lc, weight, clusterKeys) = GetLbWeightForService c svc in
      if lc then []
      else case cache_GetByKey (mcl_ServiceImports c) (NamespacedKey svc) of
        None \<Rightarrow> []
      | Some importedService \<Rightarrow>
          fold (\<lambda>endpoint targetPorts. gm_put targetPorts (to_uint16 (it_Port (ie_Target endpoint))) aa)
            (concat (map (\<lambda>svcPort.
                filter (\<lambda>endpoint. length clusterKeys > 0 \<longrightarrow>
                    gm_get clusterKeys (ie_ClusterKey endpoint) \<noteq> None) (ip_Endpoints svcPort))
              (filter (\<lambda>svcPort. equal_fold (om_Name (si_Meta importedService)) (nn_Name namespacedSvc) \<and>
                  to_uint16 (ip_Port svcPort) = port) (si_Ports importedService)))) [])"


section \<open>Exported services and ingress controllers\<close>

definition GetExportedRule :: "MulticlusterClient \<Rightarrow> MeshService \<Rightarrow> ServiceExportRule option" where
  "GetExportedRule c svc =
     (case cache_GetByKey (mcl_ServiceExports c) (NamespacedKey svc) of
        None \<Rightarrow> None
      | Some exportedService \<Rightarrow>
          if list_ex (\<lambda>condition. (cond_Type condition = ''Valid'' \<and> cond_Status condition \<noteq> ''True'') \<or>
               (cond_Type condition = ''Conflict'' \<and> cond_Status condition \<noteq> ''False''))
             (sx_Conditions exportedService)
          then None
          else find (\<lambda>rule. to_uint16 (ser_PortNumber rule) = ms_Port svc) (sx_Rules exportedService))"

definition ingress_class_namespace :: "(string, string) gomap \<Rightarrow> string option" where
  "ingress_class_namespace annotations =
     (case filter (\<lambda>ns. ns \<noteq> None \<and> ns \<noteq> Some '''')
        (map (gm_get annotations) [''meta.flomesh.io/fsm-namespace'',
           ''meta.flomesh.io/erie-canal-namespace'', ''meta.flomesh.io/namespace'']) of
        [] \<Rightarrow> None | ns # _ \<Rightarrow> ns)"

definition GetIngressControllerServices :: "MulticlusterClient \<Rightarrow> MeshService list" where
  "GetIngressControllerServices c =
     List.map_filter (\<lambda>ingressClass.
         let annotations = om_Annotations (ic_Meta ingressClass) in
         case ingress_class_namespace annotations of
           None \<Rightarrow> None
         | Some ns \<Rightarrow>
             (case gm_get annotations ''meta.flomesh.io/ingress-pipy-svc'' of
                Some svc \<Rightarrow>
                  if length svc > 0 then Some (zero_MeshService\<lparr>ms_Namespace := ns, ms_Name := svc\<rparr>) else None
              | None \<Rightarrow> None))
       (cache_List (mcl_IngressClasses c))"


section \<open>Lemmas\<close>

lemma gm_get_fold_put_const:
  "gm_get (fold (\<lambda>x m. gm_put m (f x) v) xs m0) k = (if k \<in> f ` set xs then Some v else gm_get m0 k)"
  by (induction xs arbitrary: m0) (auto simp: gm_get_put)

lemma keys_fold_put:
  "fst ` set (fold (\<lambda>x m. gm_put m (f x) (g x)) xs m0) = fst ` set m0 \<union> f ` set xs"
  by (induction xs arbitrary: m0) (auto simp: gm_put_keys)

lemma gm_get_None_keys: "gm_get m k = None \<longleftrightarrow> k \<notin> fst ` set m"
  by (simp add: gm_get_def map_of_eq_None_iff)

text \<open>The clusters that a global traffic policy lists.\<close>

lemma getServiceTrafficPolicy_keys:
  "getGlobalTrafficPolicy c svc = Some gtp \<Longrightarrow>
   fst (getServiceTrafficPolicy c svc) = gtp_LbType gtp \<and>
   fst ` set (snd (getServiceTrafficPolicy c svc)) = lbt_ClusterKey ` set (gtp_LoadBalanceTarget gtp)"
  by (simp add: getServiceTrafficPolicy_def keys_fold_put)

lemma isLocality_no_endpoints: "isLocality c svc \<Longrightarrow> mcs_GetEndpoints c svc = None"
  by (auto simp: isLocality_def mcs_GetEndpoints_def getServiceTrafficPolicy_def split: option.splits)

lemma mcs_GetEndpoints_origin:
  assumes "mcs_GetEndpoints c svc = Some eps" and "sub \<in> set (eps_Subsets eps)"
  obtains importedService port endpoint gtp where
    "cache_GetByKey (mcl_ServiceImports c) (NamespacedKey svc) = Some importedService"
    "port \<in> set (si_Ports importedService)" "endpoint \<in> set (ip_Endpoints port)"
    "getGlobalTrafficPolicy c svc = Some gtp" "gtp_LbType gtp \<noteq> LocalityLbType"
    "gtp_LoadBalanceTarget gtp = [] \<or> ie_ClusterKey endpoint \<in> lbt_ClusterKey ` set (gtp_LoadBalanceTarget gtp)"
    "ms_TargetPort svc = 0 \<or> ms_TargetPort svc = to_uint16 (it_Port (ie_Target endpoint))"
    "es_Ports sub = [\<lparr>epo_Name = ip_Name port, epo_Port = it_Port (ie_Target endpoint)\<rparr>]"
proof -
  have "\<not> isLocality c svc" using assms(1) isLocality_no_endpoints [of c svc] by auto
  then obtain gtp where g: "getGlobalTrafficPolicy c svc = Some gtp"
    by (auto simp: isLocality_def split: option.splits)
  define keys where "keys = snd (getServiceTrafficPolicy c svc)"
  from getServiceTrafficPolicy_keys [OF g] have
    k: "getServiceTrafficPolicy c svc = (gtp_LbType gtp, keys)"
      "fst ` set keys = lbt_ClusterKey ` set (gtp_LoadBalanceTarget gtp)"
    by (auto simp: keys_def prod_eq_iff)
  from assms(1) k(1) obtain imp port where
    imp: "gtp_LbType gtp \<noteq> LocalityLbType"
      "cache_GetByKey (mcl_ServiceImports c) (NamespacedKey svc) = Some imp"
    and find: "find (\<lambda>port. equal_fold (om_Name (si_Meta imp)) (ms_Name svc) \<and>
        (ms_Port svc = 0 \<or> ms_Port svc = to_uint16 (ip_Port port)) \<and> length (ip_Endpoints port) > 0)
      (si_Ports imp) = Some port"
    and eps: "eps_Subsets eps = map (\<lambda>endpoint.
        \<lparr>es_Addresses = [\<lparr>ea_IP = it_IP (ie_Target endpoint), ea_Hostname = it_Host (ie_Target endpoint)\<rparr>],
         es_Ports = [\<lparr>epo_Name = ip_Name port, epo_Port = it_Port (ie_Target endpoint)\<rparr>]\<rparr>)
      (selected_endpoints svc keys port)"
    by (auto simp: mcs_GetEndpoints_def Let_def split: option.splits if_splits)
  from assms(2) eps obtain e where e: "e \<in> set (selected_endpoints svc keys port)"
    "es_Ports sub = [\<lparr>epo_Name = ip_Name port, epo_Port = it_Port (ie_Target e)\<rparr>]" by auto
  have "gtp_LoadBalanceTarget gtp = [] \<or> ie_ClusterKey e \<in> lbt_ClusterKey ` set (gtp_LoadBalanceTarget gtp)"
    using e(1) k(2) by (auto simp: selected_endpoints_def gm_get_None_keys)
  moreover have "ms_TargetPort svc = 0 \<or> ms_TargetPort svc = to_uint16 (it_Port (ie_Target e))"
    "e \<in> set (ip_Endpoints port)"
    using e(1) by (auto simp: selected_endpoints_def word_gt_0)
  moreover have "port \<in> set (si_Ports imp)" using find_SomeD [OF find] by blast
  ultimately show thesis using that imp g e(2) by blast
qed

lemma mcs_target_ports_active:
  assumes "getGlobalTrafficPolicy c (zero_MeshService\<lparr>ms_Namespace := nn_Namespace nn, ms_Name := nn_Name nn\<rparr>) = Some gtp"
    and "gtp_LbType gtp = ActiveActiveLbType"
    and "'''' \<notin> lbt_ClusterKey ` set (gtp_LoadBalanceTarget gtp)"
    and "cache_GetByKey (mcl_ServiceImports c)
      (NamespacedKey (zero_MeshService\<lparr>ms_Namespace := nn_Namespace nn, ms_Name := nn_Name nn\<rparr>)) = Some imp"
    and "om_Name (si_Meta imp) = nn_Name nn"
  shows "gm_get (mcs_GetTargetPortForServicePort c nn port) tp =
    (if \<exists>svcPort \<in> set (si_Ports imp). to_uint16 (ip_Port svcPort) = port \<and>
        (\<exists>e \<in> set (ip_Endpoints svcPort). to_uint16 (it_Port (ie_Target e)) = tp)
     then Some True else None)"
proof -
  have "find (\<lambda>lbt. '''' = lbt_ClusterKey lbt) (gtp_LoadBalanceTarget gtp) = None"
    using assms(3) by (force simp: find_None_iff)
  then have "\<exists>w. GetLbWeightForService c
      (zero_MeshService\<lparr>ms_Namespace := nn_Namespace nn, ms_Name := nn_Name nn\<rparr>) = (True, False, False, w, [])"
    using assms(1,2) by (auto simp: GetLbWeightForService_def zero_MeshService_def)
  then have eq: "mcs_GetTargetPortForServicePort c nn port =
      fold (\<lambda>e m. gm_put m (to_uint16 (it_Port (ie_Target e))) True)
        (concat (map ip_Endpoints (filter (\<lambda>svcPort. to_uint16 (ip_Port svcPort) = port) (si_Ports imp)))) []"
    using assms(4,5) by (auto simp: mcs_GetTargetPortForServicePort_def Let_def)
  show ?thesis unfolding eq gm_get_fold_put_const by (rule if_cong) force+
qed


section \<open>Properties\<close>

text \<open>
  For an active-active policy that lists some clusters, the target ports offered to traffic
  splits include those of every imported endpoint, also of clusters that are not listed, while the
  endpoints of the service are only those of the listed clusters: traffic can be given to a port
  that has no endpoints.
\<close>

theorem active_active_clusters_ignored:
  assumes "getGlobalTrafficPolicy c (zero_MeshService\<lparr>ms_Namespace := nn_Namespace nn, ms_Name := nn_Name nn\<rparr>) = Some gtp"
    and "gtp_LbType gtp = ActiveActiveLbType"
    and "gtp_LoadBalanceTarget gtp \<noteq> [] \<and> '''' \<notin> lbt_ClusterKey ` set (gtp_LoadBalanceTarget gtp)"
    and "cache_GetByKey (mcl_ServiceImports c)
      (NamespacedKey (zero_MeshService\<lparr>ms_Namespace := nn_Namespace nn, ms_Name := nn_Name nn\<rparr>)) = Some imp"
    and "om_Name (si_Meta imp) = nn_Name nn"
    and "svcPort \<in> set (si_Ports imp)" and "endpoint \<in> set (ip_Endpoints svcPort)"
  shows "gm_get (mcs_GetTargetPortForServicePort c nn (to_uint16 (ip_Port svcPort)))
      (to_uint16 (it_Port (ie_Target endpoint))) = Some True \<and>
    (\<forall>ms eps. NamespacedKey ms =
        NamespacedKey (zero_MeshService\<lparr>ms_Namespace := nn_Namespace nn, ms_Name := nn_Name nn\<rparr>) \<and>
      mcs_GetEndpoints c ms = Some eps \<longrightarrow>
      (\<forall>sub \<in> set (eps_Subsets eps). \<exists>port \<in> set (si_Ports imp). \<exists>e \<in> set (ip_Endpoints port).
         ie_ClusterKey e \<in> lbt_ClusterKey ` set (gtp_LoadBalanceTarget gtp) \<and>
         es_Ports sub = [\<lparr>epo_Name = ip_Name port, epo_Port = it_Port (ie_Target e)\<rparr>]))"
proof (intro conjI allI impI ballI)
  show "gm_get (mcs_GetTargetPortForServicePort c nn (to_uint16 (ip_Port svcPort)))
      (to_uint16 (it_Port (ie_Target endpoint))) = Some True"
    using mcs_target_ports_active [OF assms(1,2) _ assms(4,5)] assms(3,6,7) by auto
next
  fix ms eps sub
  assume ms: "NamespacedKey ms =
        NamespacedKey (zero_MeshService\<lparr>ms_Namespace := nn_Namespace nn, ms_Name := nn_Name nn\<rparr>) \<and>
      mcs_GetEndpoints c ms = Some eps" and sub: "sub \<in> set (eps_Subsets eps)"
  then have g: "getGlobalTrafficPolicy c ms = Some gtp"
    "cache_GetByKey (mcl_ServiceImports c) (NamespacedKey ms) = Some imp"
    using assms(1,4) by (simp_all add: getGlobalTrafficPolicy_def)
  from ms sub show "\<exists>port \<in> set (si_Ports imp). \<exists>e \<in> set (ip_Endpoints port).
      ie_ClusterKey e \<in> lbt_ClusterKey ` set (gtp_LoadBalanceTarget gtp) \<and>
      es_Ports sub = [\<lparr>epo_Name = ip_Name port, epo_Port = it_Port (ie_Target e)\<rparr>]"
    by (elim conjE mcs_GetEndpoints_origin) (use g assms(3) in auto)
qed

definition sample_import :: ServiceImport where
  "sample_import = \<lparr>si_Meta = sample_meta ''shop'' ''web'', si_Ports =
     [\<lparr>ip_Name = ''http'', ip_Protocol = ''TCP'', ip_AppProtocol = None, ip_Port = 80, ip_Endpoints =
        [\<lparr>ie_ClusterKey = ''c1'', ie_Target = \<lparr>it_Host = '''', it_IP = ''10.1.0.1'', it_Port = 8080, it_Path = ''/''\<rparr>\<rparr>,
         \<lparr>ie_ClusterKey = ''c2'', ie_Target = \<lparr>it_Host = '''', it_IP = ''10.2.0.1'', it_Port = 9090, it_Path = ''/''\<rparr>\<rparr>]\<rparr>],
     si_IPs = [], si_Type = ''ClusterSetIP'', si_SessionAffinity = ''None'', si_ServiceAccountName = ''*'',
     si_Clusters = []\<rparr>"

definition sample_multicluster :: MulticlusterClient where
  "sample_multicluster =
     \<lparr>mcl_ServiceImports = [(''shop/web'', sample_import)], mcl_ServiceExports = [],
      mcl_GlobalTrafficPolicies = [(''shop/web'', \<lparr>gtp_Meta = sample_meta ''shop'' ''web'',
         gtp_LbType = ''ActiveActive'', gtp_LoadBalanceTarget = [\<lparr>lbt_ClusterKey = ''c1'', lbt_Weight = Some 100\<rparr>]\<rparr>)],
      mcl_IngressClasses = [],
      mcl_selectorMatches = (\<lambda>sel ls. list_all (\<lambda>(k, v). gm_get ls k = Some v) sel)\<rparr>"

theorem active_active_clusters_ignored_witness:
  "gm_get (mcs_GetTargetPortForServicePort sample_multicluster \<lparr>nn_Namespace = ''shop'', nn_Name = ''web''\<rparr> 80)
     9090 = Some True"
  using active_active_clusters_ignored [of sample_multicluster "\<lparr>nn_Namespace = ''shop'', nn_Name = ''web''\<rparr>"
      "\<lparr>gtp_Meta = sample_meta ''shop'' ''web'', gtp_LbType = ''ActiveActive'',
        gtp_LoadBalanceTarget = [\<lparr>lbt_ClusterKey = ''c1'', lbt_Weight = Some 100\<rparr>]\<rparr>"
      sample_import "hd (si_Ports sample_import)" "ip_Endpoints (hd (si_Ports sample_import)) ! 1"]
  by (simp add: sample_multicluster_def getGlobalTrafficPolicy_def cache_GetByKey_def gm_get_def
      NamespacedKey_def ProviderKey_def zero_MeshService_def ActiveActiveLbType_def sample_import_def
      sample_meta_def to_uint16_def)

end
