(* ===== verification/Providers.thy ===== *)
theory Providers
  imports Smi Multicluster
begin

text \<open>
  The two providers of services and endpoints: the Kubernetes provider
  (\<open>src/pkg/providers/kube/client.go\<close>) over the Kubernetes client, and the multi-cluster provider
  (\<open>src/pkg/providers/fsm/client.go\<close>) over the multi-cluster client. Both implement the interfaces
  \<open>service.Provider\<close> and \<open>endpoint.Provider\<close>; the locale \<open>service_provider\<close> states what the catalog
  relies on, and both implementations are instances of it. An operation that converts an identity
  to a service account panics on a malformed identity and returns an option.
\<close>

locale service_provider =
  fixes services_for :: "ServiceIdentity \<Rightarrow> MeshService list option"
    and services :: "MeshService list"
  assumes services_for_listed: "services_for si = Some ss \<Longrightarrow> set ss \<subseteq> set services"
    and services_for_distinct: "services_for si = Some ss \<Longrightarrow> distinct ss"
    and services_for_defined: "services_for si = None \<longleftrightarrow> ToK8sServiceAccount si = None"
begin

lemma services_for_account:
  assumes "sa_plain sa"
  obtains ss where "services_for (ToServiceIdentity sa) = Some ss" "distinct ss" "set ss \<subseteq> set services"
proof -
  from assms have "services_for (ToServiceIdentity sa) \<noteq> None"
    by (simp add: services_for_defined ToK8sServiceAccount_inverse)
  then show thesis using that services_for_listed services_for_distinct by blast
qed

end


section \<open>Kubernetes provider\<close>

definition kube_providerName :: string where
  "kube_providerName = ''kubernetes''"

definition kube_ListEndpointsForService :: "KubeClient \<Rightarrow> MeshService \<Rightarrow> Endpoint list" where
  "kube_ListEndpointsForService c svc =
     (case GetEndpoints c svc of
        None \<Rightarrow> []
      | Some kubernetesEndpoints \<Rightarrow>
          [zero_Endpoint\<lparr>ep_IP := ip, ep_Port := to_uint32 (epo_Port port)\<rparr>.
             kubernetesEndpoint \<leftarrow> eps_Subsets kubernetesEndpoints,
             port \<leftarrow> es_Ports kubernetesEndpoint,
             \<not> (ms_TargetPort svc \<noteq> 0 \<and> epo_Port port \<noteq> int (unat (ms_TargetPort svc))),
             address \<leftarrow> es_Addresses kubernetesEndpoint,
             \<not> (Subdomain svc \<noteq> '''' \<and> Subdomain svc \<noteq> ea_Hostname address),
             Some ip \<leftarrow> [ParseIP (ea_IP address)]])"

text \<open>The addresses of a pod up to the first that does not parse.\<close>

fun parse_pod_ips :: "string list \<Rightarrow> IP list" where
  "parse_pod_ips [] = []"
| "parse_pod_ips (s # ss) = (case ParseIP s of None \<Rightarrow> [] | Some ip \<Rightarrow> ip # parse_pod_ips ss)"

definition kube_ListEndpointsForIdentity :: "KubeClient \<Rightarrow> ServiceIdentity \<Rightarrow> Endpoint list option" where
  "kube_ListEndpointsForIdentity c serviceIdentity =
     do {
       sa \<leftarrow> ToK8sServiceAccount serviceIdentity;
       Some [zero_Endpoint\<lparr>ep_IP := ip\<rparr>.
         pod \<leftarrow> ListPods c,
         om_Namespace (pod_Meta pod) = sa_Namespace sa,
         pod_ServiceAccountName pod = sa_Name sa,
         ip \<leftarrow> parse_pod_ips (pod_PodIPs pod)]
     }"

definition kube_getServicesByLabels ::
  "KubeClient \<Rightarrow> (string, string) gomap \<Rightarrow> string \<Rightarrow> MeshService list" where
  "kube_getServicesByLabels c podLabels targetNamespace =
     concat (map (ServiceToMeshServices c)
       (filter (\<lambda>svc. om_Namespace (ks_Meta svc) = targetNamespace \<and> length (ks_Selector svc) \<noteq> 0 \<and>
           kc_selectorMatches c (ks_Selector svc) podLabels) (ListServices c)))"

definition kube_GetServicesForServiceIdentity :: "KubeClient \<Rightarrow> ServiceIdentity \<Rightarrow> MeshService list option" where
  "kube_GetServicesForServiceIdentity c svcIdentity =
     do {
       svcAccount \<leftarrow> ToK8sServiceAccount svcIdentity;
       Some (fold (\<lambda>pod meshServices.
           set_adds (kube_getServicesByLabels c (om_Labels (pod_Meta pod)) (om_Namespace (pod_Meta pod)))
             meshServices)
         (filter (\<lambda>pod. om_Namespace (pod_Meta pod) = sa_Namespace svcAccount \<and>
             pod_ServiceAccountName pod = sa_Name svcAccount) (ListPods c)) [])
     }"

definition kube_GetResolvableEndpointsForService :: "KubeClient \<Rightarrow> MeshService \<Rightarrow> Endpoint list" where
  "kube_GetResolvableEndpointsForService c svc =
     (case GetService c svc of
        None \<Rightarrow> []
      | Some kubeService \<Rightarrow>
          if length (ks_ClusterIP kubeService) = 0 \<or> ks_ClusterIP kubeService = ClusterIPNone
          then kube_ListEndpointsForService c svc
          else case ParseIP (ks_ClusterIP kubeService) of
            None \<Rightarrow> []
          | Some ip \<Rightarrow> map (\<lambda>svcPort. zero_Endpoint\<lparr>ep_IP := ip, ep_Port := to_uint32 (sp_Port svcPort)\<rparr>)
              (ks_Ports kubeService))"

definition kube_ListServices :: "KubeClient \<Rightarrow> MeshService list" where
  "kube_ListServices c = concat (map (ServiceToMeshServices c) (ListServices c))"

definition kube_ListServiceIdentitiesForService ::
  "KubeClient \<Rightarrow> (K8sServiceAccount list \<Rightarrow> K8sServiceAccount list) \<Rightarrow> MeshService \<Rightarrow> ServiceIdentity list" where
  "kube_ListServiceIdentitiesForService c iter svc =
     (case ListServiceIdentitiesForService c iter svc of
        Inl err \<Rightarrow> []
      | Inr serviceAccounts \<Rightarrow> map ToServiceIdentity serviceAccounts)"


section \<open>Multi-cluster provider\<close>

definition fsm_providerName :: string where
  "fsm_providerName = ''flomesh''"

text \<open>
  \<open>strconv.ParseUint(s, 10, 32)\<close>, whose error is discarded: zero for text that is not a number, the
  largest 32-bit value for a number that is too large.
\<close>

fun parse_uint_loop :: "nat \<Rightarrow> nat \<Rightarrow> string \<Rightarrow> nat" where
  "parse_uint_loop maxVal n [] = n"
| "parse_uint_loop maxVal n (c # cs) =
     (if \<not> is_digit c then 0
      else if n * 10 + digit_value c > maxVal then maxVal
      else parse_uint_loop maxVal (n * 10 + digit_value c) cs)"

definition ParseUint32 :: "string \<Rightarrow> uint32" where
  "ParseUint32 s = of_nat (parse_uint_loop 4294967295 0 s)"

definition annotation :: "(string, string) gomap \<Rightarrow> string \<Rightarrow> string" where
  "annotation m k = (case gm_get m k of Some v \<Rightarrow> v | None \<Rightarrow> '''')"

definition fsm_ListEndpointsForService :: "MulticlusterClient \<Rightarrow> MeshService \<Rightarrow> Endpoint list" where
  "fsm_ListEndpointsForService c svc =
     (case mcs_GetEndpoints c svc of
        None \<Rightarrow> []
      | Some kubernetesEndpoints \<Rightarrow>
          let note = annotation (om_Annotations (eps_Meta kubernetesEndpoints)) in
          [zero_Endpoint\<lparr>ep_IP := ip, ep_Port := to_uint32 (epo_Port port),
             ep_ClusterKey := note (ServiceImportClusterKeyAnnotation (ea_IP address) (epo_Port port)),
             ep_LBType := note (ServiceImportLBTypeAnnotation (ea_IP address) (epo_Port port)),
             ep_Weight := ParseUint32 (note (ServiceImportLBWeightAnnotation (ea_IP address) (epo_Port port))),
             ep_Path := note (ServiceImportContextPathAnnotation (ea_IP address) (epo_Port port))\<rparr>.
             kubernetesEndpoint \<leftarrow> eps_Subsets kubernetesEndpoints,
             port \<leftarrow> es_Ports kubernetesEndpoint,
             \<not> (ms_TargetPort svc \<noteq> 0 \<and> epo_Port port \<noteq> int (unat (ms_TargetPort svc))),
             address \<leftarrow> es_Addresses kubernetesEndpoint,
             \<not> (Subdomain svc \<noteq> '''' \<and> Subdomain svc \<noteq> ea_Hostname address),
             Some ip \<leftarrow> [ParseIP (ea_IP address)]])"

definition fsm_ListEndpointsForIdentity :: "MulticlusterClient \<Rightarrow> ServiceIdentity \<Rightarrow> Endpoint list option" where
  "fsm_ListEndpointsForIdentity c serviceIdentity =
     do {
       sa \<leftarrow> ToK8sServiceAccount serviceIdentity;
       Some [zero_Endpoint\<lparr>ep_IP := ip\<rparr>.
         pod \<leftarrow> mcs_ListPods c,
         om_Namespace (pod_Meta pod) = sa_Namespace sa,
         pod_ServiceAccountName pod = sa_Name sa \<or> pod_ServiceAccountName pod = AnyServiceAccount,
         ip \<leftarrow> parse_pod_ips (pod_PodIPs pod)]
     }"

definition fsm_meshServicesForPort :: "MulticlusterClient \<Rightarrow> K8sService \<Rightarrow> ServicePort \<Rightarrow> MeshService list" where
  "fsm_meshServicesForPort c svc portSpec =
     (let protocol = (case sp_AppProtocol portSpec of
            Some p \<Rightarrow> p | None \<Rightarrow> protocolFromPortName (sp_Name portSpec));
          meshSvc = \<lparr>ms_Namespace = om_Namespace (ks_Meta svc), ms_Name = om_Name (ks_Meta svc),
            ms_Port = to_uint16 (sp_Port portSpec), ms_TargetPort = 0, ms_Protocol = protocol,
            ms_ServiceImportUID = om_UID (ks_Meta svc)\<rparr> in
      case mcs_GetEndpoints c meshSvc of
        None \<Rightarrow> []
      | Some endpoints \<Rightarrow>
          [meshSvc\<lparr>ms_TargetPort := to_uint16 (epo_Port port)\<rparr>.
             sub \<leftarrow> eps_Subsets endpoints, port \<leftarrow> es_Ports sub])"

definition fsm_ServiceToMeshServices :: "MulticlusterClient \<Rightarrow> K8sService \<Rightarrow> MeshService list" where
  "fsm_ServiceToMeshServices c svc = concat (map (fsm_meshServicesForPort c svc) (ks_Ports svc))"

definition fsm_getServicesByLabels ::
  "MulticlusterClient \<Rightarrow> (string, string) gomap \<Rightarrow> string \<Rightarrow> MeshService list" where
  "fsm_getServicesByLabels c podLabels targetNamespace =
     concat (map (fsm_ServiceToMeshServices c)
       (filter (\<lambda>svc. om_Namespace (ks_Meta svc) = targetNamespace \<and> length (ks_Selector svc) \<noteq> 0 \<and>
           mcl_selectorMatches c (ks_Selector svc) podLabels) (mcs_ListServices c)))"

definition fsm_GetServicesForServiceIdentity :: "MulticlusterClient \<Rightarrow> ServiceIdentity \<Rightarrow> MeshService list option" where
  "fsm_GetServicesForServiceIdentity c svcIdentity =
     do {
       svcAccount \<leftarrow> ToK8sServiceAccount svcIdentity;
       Some (fold (\<lambda>pod meshServices.
           set_adds (fsm_getServicesByLabels c (om_Labels (pod_Meta pod)) (om_Namespace (pod_Meta pod)))
             meshServices)
         (filter (\<lambda>pod. om_Namespace (pod_Meta pod) = sa_Namespace svcAccount \<and>
             (pod_ServiceAccountName pod = sa_Name svcAccount \<or>
              pod_ServiceAccountName pod = AnyServiceAccount)) (mcs_ListPods c)) [])
     }"

definition fsm_GetResolvableEndpointsForService :: "MulticlusterClient \<Rightarrow> MeshService \<Rightarrow> Endpoint list" where
  "fsm_GetResolvableEndpointsForService c svc =
     (case mcs_GetService c svc of
        None \<Rightarrow> []
      | Some kubeService \<Rightarrow>
          if length (ks_ClusterIP kubeService) = 0 \<or> ks_ClusterIP kubeService = ClusterIPNone
          then fsm_ListEndpointsForService c svc
          else case ParseIP (ks_ClusterIP kubeService) of
            None \<Rightarrow> []
          | Some ip \<Rightarrow> map (\<lambda>svcPort. zero_Endpoint\<lparr>ep_IP := ip, ep_Port := to_uint32 (sp_Port svcPort),
                ep_ClusterKey := fsm_providerName\<rparr>) (ks_Ports kubeService))"

definition fsm_ListServices :: "MulticlusterClient \<Rightarrow> MeshService list" where
  "fsm_ListServices c = concat (map (fsm_ServiceToMeshServices c) (mcs_ListServices c))"

definition fsm_ListServiceIdentitiesForService ::
  "MulticlusterClient \<Rightarrow> (K8sServiceAccount list \<Rightarrow> K8sServiceAccount list) \<Rightarrow> MeshService \<Rightarrow> ServiceIdentity list" where
  "fsm_ListServiceIdentitiesForService c iter svc =
     (case mcs_ListServiceIdentitiesForService c iter svc of
        Inl err \<Rightarrow> []
      | Inr serviceAccounts \<Rightarrow> map ToServiceIdentity serviceAccounts)"


section \<open>The interfaces\<close>

definition kube_endpoint_provider :: "KubeClient \<Rightarrow> EndpointProvider" where
  "kube_endpoint_provider c =
     \<lparr>epp_ListEndpointsForService = kube_ListEndpointsForService c,
      epp_ListEndpointsForIdentity = kube_ListEndpointsForIdentity c,
      epp_GetResolvableEndpointsForService = kube_GetResolvableEndpointsForService c,
      epp_GetID = kube_providerName\<rparr>"

definition kube_service_provider ::
  "KubeClient \<Rightarrow> (K8sServiceAccount list \<Rightarrow> K8sServiceAccount list) \<Rightarrow> ServiceProvider" where
  "kube_service_provider c iter =
     \<lparr>svp_GetServicesForServiceIdentity = kube_GetServicesForServiceIdentity c,
      svp_ListServices = kube_ListServices c,
      svp_ListServiceIdentitiesForService = kube_ListServiceIdentitiesForService c iter,
      svp_GetID = kube_providerName\<rparr>"

definition fsm_endpoint_provider :: "MulticlusterClient \<Rightarrow> EndpointProvider" where
  "fsm_endpoint_provider c =
     \<lparr>epp_ListEndpointsForService = fsm_ListEndpointsForService c,
      epp_ListEndpointsForIdentity = fsm_ListEndpointsForIdentity c,
      epp_GetResolvableEndpointsForService = fsm_GetResolvableEndpointsForService c,
      epp_GetID = fsm_providerName\<rparr>"

definition fsm_service_provider ::
  "MulticlusterClient \<Rightarrow> (K8sServiceAccount list \<Rightarrow> K8sServiceAccount list) \<Rightarrow> ServiceProvider" where
  "fsm_service_provider c iter =
     \<lparr>svp_GetServicesForServiceIdentity = fsm_GetServicesForServiceIdentity c,
      svp_ListServices = fsm_ListServices c,
      svp_ListServiceIdentitiesForService = fsm_ListServiceIdentitiesForService c iter,
      svp_GetID = fsm_providerName\<rparr>"


section \<open>Lemmas\<close>

lemma fold_set_adds:
  "set (fold (\<lambda>x out. set_adds (f x) out) xs out) = (\<Union>x \<in> set xs. set (f x)) \<union> set out"
  by (induction xs arbitrary: out) auto

lemma distinct_fold_set_adds:
  "distinct out \<Longrightarrow> distinct (fold (\<lambda>x out. set_adds (f x) out) xs out)"
  by (induction xs arbitrary: out) auto

interpretation kube: service_provider "kube_GetServicesForServiceIdentity c" "kube_ListServices c" for c
proof
  fix si ss
  assume ss: "kube_GetServicesForServiceIdentity c si = Some ss"
  show "set ss \<subseteq> set (kube_ListServices c)"
    using ss by (auto simp: kube_GetServicesForServiceIdentity_def kube_ListServices_def
        kube_getServicesByLabels_def fold_set_adds bind_eq_Some_conv)
  show "distinct ss"
    using ss by (auto simp: kube_GetServicesForServiceIdentity_def bind_eq_Some_conv
        intro: distinct_fold_set_adds)
next
  fix si
  show "kube_GetServicesForServiceIdentity c si = None \<longleftrightarrow> ToK8sServiceAccount si = None"
    by (simp add: kube_GetServicesForServiceIdentity_def bind_eq_None_conv)
qed

interpretation fsm: service_provider "fsm_GetServicesForServiceIdentity c" "fsm_ListServices c" for c
proof
  fix si ss
  assume ss: "fsm_GetServicesForServiceIdentity c si = Some ss"
  show "set ss \<subseteq> set (fsm_ListServices c)"
    using ss by (auto simp: fsm_GetServicesForServiceIdentity_def fsm_ListServices_def
        fsm_getServicesByLabels_def fold_set_adds bind_eq_Some_conv)
  show "distinct ss"
    using ss by (auto simp: fsm_GetServicesForServiceIdentity_def bind_eq_Some_conv
        intro: distinct_fold_set_adds)
next
  fix si
  show "fsm_GetServicesForServiceIdentity c si = None \<longleftrightarrow> ToK8sServiceAccount si = None"
    by (simp add: fsm_GetServicesForServiceIdentity_def bind_eq_None_conv)
qed


text \<open>Membership in the lists the providers return.\<close>

lemma kube_services_iff:
  "kube_GetServicesForServiceIdentity c si = Some ss \<Longrightarrow> ToK8sServiceAccount si = Some sa \<Longrightarrow>
   ms \<in> set ss \<longleftrightarrow>
     (\<exists>pod \<in> set (ListPods c). om_Namespace (pod_Meta pod) = sa_Namespace sa \<and>
        pod_ServiceAccountName pod = sa_Name sa \<and>
        (\<exists>svc \<in> set (ListServices c). om_Namespace (ks_Meta svc) = om_Namespace (pod_Meta pod) \<and>
           ks_Selector svc \<noteq> [] \<and> kc_selectorMatches c (ks_Selector svc) (om_Labels (pod_Meta pod)) \<and>
           ms \<in> set (ServiceToMeshServices c svc)))"
proof -
  assume "kube_GetServicesForServiceIdentity c si = Some ss" "ToK8sServiceAccount si = Some sa"
  then have ss: "ss = fold (\<lambda>pod meshServices.
      set_adds (kube_getServicesByLabels c (om_Labels (pod_Meta pod)) (om_Namespace (pod_Meta pod))) meshServices)
    (filter (\<lambda>pod. om_Namespace (pod_Meta pod) = sa_Namespace sa \<and>
        pod_ServiceAccountName pod = sa_Name sa) (ListPods c)) []"
    by (simp add: kube_GetServicesForServiceIdentity_def)
  show ?thesis
    unfolding ss fold_set_adds Un_iff UN_iff kube_getServicesByLabels_def loop_mem Bex_def length_0_conv
    by (simp only: list.set empty_iff simp_thms) blast
qed

lemma serviceAccountsOfService_iff:
  "sa \<in> set (serviceAccountsOfService c svc) \<longleftrightarrow>
   ks_Selector svc \<noteq> [] \<and>
   (\<exists>pod \<in> set (ListPods c). kc_selectorMatches c (ks_Selector svc) (om_Labels (pod_Meta pod)) \<and>
      sa = \<lparr>sa_Namespace = om_Namespace (pod_Meta pod), sa_Name = pod_ServiceAccountName pod\<rparr>)"
  unfolding serviceAccountsOfService_def set_set_adds loop_mem by auto

lemma kube_endpoints_iff:
  "ep \<in> set (kube_ListEndpointsForService c svc) \<longleftrightarrow>
   (\<exists>eps sub port address ip. GetEndpoints c svc = Some eps \<and> sub \<in> set (eps_Subsets eps) \<and>
      port \<in> set (es_Ports sub) \<and> address \<in> set (es_Addresses sub) \<and>
      (ms_TargetPort svc = 0 \<or> epo_Port port = int (unat (ms_TargetPort svc))) \<and>
      (Subdomain svc = '''' \<or> Subdomain svc = ea_Hostname address) \<and>
      ParseIP (ea_IP address) = Some ip \<and>
      ep = zero_Endpoint\<lparr>ep_IP := ip, ep_Port := to_uint32 (epo_Port port)\<rparr>)"
proof (cases "GetEndpoints c svc")
  case (Some eps)
  have "(\<exists>x \<in> set [ParseIP s]. e \<in> set (case x of None \<Rightarrow> [] | Some ip \<Rightarrow> [g ip])) \<longleftrightarrow>
      (\<exists>ip. ParseIP s = Some ip \<and> e = g ip)" for s and e :: Endpoint and g
    by (cases "ParseIP s") auto
  with Some show ?thesis
    unfolding kube_ListEndpointsForService_def option.case loop_mem by simp blast
qed (simp add: kube_ListEndpointsForService_def)

lemma kube_identity_endpoints_iff:
  "kube_ListEndpointsForIdentity c si = Some eps \<Longrightarrow> ToK8sServiceAccount si = Some sa \<Longrightarrow>
   ep \<in> set eps \<longleftrightarrow>
     (\<exists>pod \<in> set (ListPods c). om_Namespace (pod_Meta pod) = sa_Namespace sa \<and>
        pod_ServiceAccountName pod = sa_Name sa \<and>
        (\<exists>ip \<in> set (parse_pod_ips (pod_PodIPs pod)). ep = zero_Endpoint\<lparr>ep_IP := ip\<rparr>))"
proof -
  assume "kube_ListEndpointsForIdentity c si = Some eps" and sa: "ToK8sServiceAccount si = Some sa"
  then have "eps = [zero_Endpoint\<lparr>ep_IP := ip\<rparr>.
      pod \<leftarrow> ListPods c, om_Namespace (pod_Meta pod) = sa_Namespace sa,
      pod_ServiceAccountName pod = sa_Name sa, ip \<leftarrow> parse_pod_ips (pod_PodIPs pod)]"
    by (simp add: kube_ListEndpointsForIdentity_def)
  then show ?thesis unfolding loop_mem by auto
qed

lemma fsm_identity_endpoints_iff:
  "fsm_ListEndpointsForIdentity c si = Some eps \<Longrightarrow> ToK8sServiceAccount si = Some sa \<Longrightarrow>
   ep \<in> set eps \<longleftrightarrow>
     (\<exists>pod \<in> set (mcs_ListPods c). om_Namespace (pod_Meta pod) = sa_Namespace sa \<and>
        (pod_ServiceAccountName pod = sa_Name sa \<or> pod_ServiceAccountName pod = AnyServiceAccount) \<and>
        (\<exists>ip \<in> set (parse_pod_ips (pod_PodIPs pod)). ep = zero_Endpoint\<lparr>ep_IP := ip\<rparr>))"
proof -
  assume "fsm_ListEndpointsForIdentity c si = Some eps" and sa: "ToK8sServiceAccount si = Some sa"
  then have "eps = [zero_Endpoint\<lparr>ep_IP := ip\<rparr>.
      pod \<leftarrow> mcs_ListPods c, om_Namespace (pod_Meta pod) = sa_Namespace sa,
      pod_ServiceAccountName pod = sa_Name sa \<or> pod_ServiceAccountName pod = AnyServiceAccount,
      ip \<leftarrow> parse_pod_ips (pod_PodIPs pod)]"
    by (simp add: fsm_ListEndpointsForIdentity_def)
  then show ?thesis unfolding loop_mem by auto
qed

lemma unat_to_uint32_port: "unat (to_uint32 (int (unat (p :: uint16)))) = unat p"
proof -
  have "unat p < 2 ^ LENGTH(16)" by (rule unsigned_less)
  then have "unat p mod 2 ^ LENGTH(32) = unat p" by simp
  moreover have "to_uint32 (int (unat p)) = word_of_nat (unat p)"
    by (simp only: to_uint32_def of_int_of_nat_eq)
  ultimately show ?thesis by (simp only: unat_of_nat)
qed

lemma unat_to_uint32_uint: "unat (to_uint32 (uint (p :: uint16))) = unat p"
  using unat_to_uint32_port [of p] by simp


section \<open>Properties\<close>

text \<open>
  C21. Services and identities agree in the Kubernetes provider: when a service is listed for the
  identity of a service account, that identity is listed for the service. The names of the cached
  services contain no dot, as Kubernetes enforces.
\<close>

theorem service_identity_duality:
  assumes "cache_wf ks_Meta (kc_Services c)"
    and "\<forall>svc \<in> set (cache_List (kc_Services c)).
      CHR ''.'' \<notin> set (om_Name (ks_Meta svc)) \<and> om_Namespace (ks_Meta svc) \<noteq> ''''"
    and "\<forall>accounts. set (iter accounts) = set accounts"
    and "sa_plain sa"
    and "kube_GetServicesForServiceIdentity c (ToServiceIdentity sa) = Some services"
    and "ms \<in> set services"
  shows "ToServiceIdentity sa \<in> set (kube_ListServiceIdentitiesForService c iter ms)"
proof -
  have "ToK8sServiceAccount (ToServiceIdentity sa) = Some sa"
    using assms(4) by (rule ToK8sServiceAccount_inverse)
  with kube_services_iff [OF assms(5)] assms(6) obtain pod svc where
    pod: "pod \<in> set (ListPods c)" "om_Namespace (pod_Meta pod) = sa_Namespace sa"
      "pod_ServiceAccountName pod = sa_Name sa"
    and svc: "svc \<in> set (ListServices c)" "ks_Selector svc \<noteq> []"
      "kc_selectorMatches c (ks_Selector svc) (om_Labels (pod_Meta pod))"
      "ms \<in> set (ServiceToMeshServices c svc)" by auto
  have "svc \<in> set (cache_List (kc_Services c))" using svc(1) by (simp add: ListServices_iff)
  then have "GetService c ms = Some svc"
    using GetService_mesh_service [OF assms(1) _ svc(4)] assms(2) by blast
  moreover have "sa = \<lparr>sa_Namespace = om_Namespace (pod_Meta pod), sa_Name = pod_ServiceAccountName pod\<rparr>"
    using pod(2,3) by simp
  then have "sa \<in> set (serviceAccountsOfService c svc)"
    using serviceAccountsOfService_iff [of sa c svc] svc(2,3) pod(1) by blast
  ultimately show ?thesis
    using assms(3)
    by (simp add: kube_ListServiceIdentitiesForService_def ListServiceIdentitiesForService_def)
qed

theorem service_identity_duality_witness:
  "''sql.shop'' \<in> set (kube_ListServiceIdentitiesForService sample_client rev
     (zero_MeshService\<lparr>ms_Namespace := ''shop'', ms_Name := ''db-0.db'', ms_Port := 3306,
        ms_TargetPort := 13306, ms_Protocol := ''tcp''\<rparr>))"
proof -
  let ?sa = "\<lparr>sa_Namespace = ''shop'', sa_Name = ''sql''\<rparr>"
  let ?ms = "zero_MeshService\<lparr>ms_Namespace := ''shop'', ms_Name := ''db-0.db'', ms_Port := 3306,
        ms_TargetPort := 13306, ms_Protocol := ''tcp''\<rparr>"
  have wf: "cache_wf ks_Meta (kc_Services sample_client)"
    "\<forall>svc \<in> set (cache_List (kc_Services sample_client)).
      CHR ''.'' \<notin> set (om_Name (ks_Meta svc)) \<and> om_Namespace (ks_Meta svc) \<noteq> ''''"
    by (simp_all add: sample_client_def sample_service_def sample_meta_def cache_wf_def gm_wf_def
        meta_key_def cache_List_def)
  have sa: "sa_plain ?sa" "ToServiceIdentity ?sa = ''sql.shop''"
    by (simp_all add: sa_plain_def ToServiceIdentity_def New_def)
  have "kube_GetServicesForServiceIdentity sample_client ''sql.shop'' = Some [?ms]"
    by code_simp
  with service_identity_duality [of sample_client rev ?sa "[?ms]" ?ms] wf sa show ?thesis by simp
qed

text \<open>
  The identities of a service are those of all pods of the monitored namespaces whose labels
  match its selector: the namespace of the pod is not compared with that of the service, although a
  Kubernetes service selects pods of its own namespace only.
\<close>

theorem service_identities_any_namespace:
  assumes "GetService c ms = Some svc" and "ks_Selector svc \<noteq> []"
    and "\<forall>accounts. set (iter accounts) = set accounts"
  shows "set (kube_ListServiceIdentitiesForService c iter ms) =
    {New (pod_ServiceAccountName pod) (om_Namespace (pod_Meta pod)) | pod.
       pod \<in> set (cache_List (kc_Pods c)) \<and> IsMonitoredNamespace c (om_Namespace (pod_Meta pod)) \<and>
       kc_selectorMatches c (ks_Selector svc) (om_Labels (pod_Meta pod))}"
proof -
  let ?P = "\<lambda>pod. pod \<in> set (cache_List (kc_Pods c)) \<and> IsMonitoredNamespace c (om_Namespace (pod_Meta pod)) \<and>
       kc_selectorMatches c (ks_Selector svc) (om_Labels (pod_Meta pod))"
  let ?f = "\<lambda>pod. \<lparr>sa_Namespace = om_Namespace (pod_Meta pod), sa_Name = pod_ServiceAccountName pod\<rparr>"
  have "set (kube_ListServiceIdentitiesForService c iter ms) =
      ToServiceIdentity ` set (serviceAccountsOfService c svc)"
    using assms(1,3)
    by (simp add: kube_ListServiceIdentitiesForService_def ListServiceIdentitiesForService_def)
  moreover have "sa \<in> set (serviceAccountsOfService c svc) \<longleftrightarrow> sa \<in> ?f ` Collect ?P" for sa
    by (simp only: serviceAccountsOfService_iff ListPods_iff image_iff mem_Collect_eq Bex_def)
      (use assms(2) in blast)
  then have "set (serviceAccountsOfService c svc) = ?f ` Collect ?P" by (rule set_eqI)
  ultimately show ?thesis
    by (simp add: image_image setcompr_eq_image ToServiceIdentity_def)
qed

definition sample_two_namespaces :: KubeClient where
  "sample_two_namespaces = sample_client
     \<lparr>kc_Namespaces := (''evil'', \<lparr>ns_Meta = sample_meta '''' ''evil''\<rparr>) # kc_Namespaces sample_client,
      kc_Pods := [(''evil/x'', \<lparr>pod_Meta = (sample_meta ''evil'' ''x'')\<lparr>om_Labels := [(''app'', ''db'')]\<rparr>,
         pod_ServiceAccountName = ''mallory'', pod_PodIPs = []\<rparr>)]\<rparr>"

theorem service_identities_any_namespace_witness:
  "''mallory.evil'' \<in> set (kube_ListServiceIdentitiesForService sample_two_namespaces id
     (zero_MeshService\<lparr>ms_Namespace := ''shop'', ms_Name := ''db''\<rparr>))"
proof -
  have "GetService sample_two_namespaces (zero_MeshService\<lparr>ms_Namespace := ''shop'', ms_Name := ''db''\<rparr>) =
      Some sample_service"
    by (simp add: sample_two_namespaces_def sample_client_def GetService_def cache_GetByKey_def gm_get_def
        NamespacedKey_def ProviderKey_def zero_MeshService_def)
  from service_identities_any_namespace [OF this, of id] show ?thesis
    by (simp add: sample_service_def sample_two_namespaces_def sample_client_def sample_meta_def
        zero_ObjectMeta_def cache_List_def IsMonitoredNamespace_def cache_GetByKey_def gm_get_def New_def)
qed

text \<open>
  The endpoints of a service are on its target port: a listed endpoint of either provider has
  the target port of the mesh service, when the latter is known.
\<close>

theorem endpoints_on_target_port:
  assumes "ms_TargetPort svc \<noteq> 0"
    and "ep \<in> set (kube_ListEndpointsForService c svc) \<union> set (fsm_ListEndpointsForService mc svc)"
  shows "unat (ep_Port ep) = unat (ms_TargetPort svc)"
  using assms(2)
proof
  assume "ep \<in> set (kube_ListEndpointsForService c svc)"
  with assms(1) show ?thesis by (auto simp: kube_endpoints_iff unat_to_uint32_uint)
next
  assume "ep \<in> set (fsm_ListEndpointsForService mc svc)"
  with assms(1) obtain p where "ep_Port ep = to_uint32 p" "p = int (unat (ms_TargetPort svc))"
    by (auto simp: fsm_ListEndpointsForService_def Let_def split: option.splits if_splits)
  then show ?thesis by (simp add: unat_to_uint32_uint)
qed

lemma sample_ip: "ParseIP ''10.0.0.7'' = Some (v4InV6Prefix @ [10, 0, 0, 7])"
proof -
  have "dotted [10, 0, 0, 7] = ''10.0.0.7''" by code_simp
  with ParseIP_dotted [of 10 0 0 7] show ?thesis by simp
qed

lemma sample_endpoints:
  "kube_ListEndpointsForService sample_client
     (zero_MeshService\<lparr>ms_Namespace := ''shop'', ms_Name := ''db'', ms_TargetPort := 13306\<rparr>) =
   [zero_Endpoint\<lparr>ep_IP := v4InV6Prefix @ [10, 0, 0, 7], ep_Port := 13306\<rparr>]"
proof -
  let ?ms = "zero_MeshService\<lparr>ms_Namespace := ''shop'', ms_Name := ''db'', ms_TargetPort := 13306\<rparr>"
  have "GetEndpoints sample_client ?ms = Some (snd (hd (kc_Endpoints sample_client)))" "Subdomain ?ms = ''''"
    by code_simp+
  then show ?thesis
    by (simp add: kube_ListEndpointsForService_def sample_client_def sample_ip to_uint32_def)
qed

theorem endpoints_on_target_port_witness:
  "let svc = zero_MeshService\<lparr>ms_Namespace := ''shop'', ms_Name := ''db'', ms_TargetPort := 13306\<rparr> in
   \<exists>ep \<in> set (kube_ListEndpointsForService sample_client svc). unat (ep_Port ep) = unat (ms_TargetPort svc)"
proof -
  let ?ms = "zero_MeshService\<lparr>ms_Namespace := ''shop'', ms_Name := ''db'', ms_TargetPort := 13306\<rparr>"
  let ?ep = "zero_Endpoint\<lparr>ep_IP := v4InV6Prefix @ [10, 0, 0, 7], ep_Port := 13306\<rparr>"
  have mem: "?ep \<in> set (kube_ListEndpointsForService sample_client ?ms)" by (simp add: sample_endpoints)
  with endpoints_on_target_port [of ?ms ?ep sample_client sample_multicluster]
  have "unat (ep_Port ?ep) = unat (ms_TargetPort ?ms)" by simp
  with mem show ?thesis unfolding Let_def by blast
qed

end
