(* ===== verification/Go_Time.thy ===== *)
theory Go_Time
  imports Osm_Prelude
begin

text \<open>
  The part of Go's package \<open>time\<close> that the control plane uses: durations, which are 64-bit numbers of
  nanoseconds, and \<open>time.ParseDuration\<close>. The parser computes the fractional part of a term in
  floating point; that product is the parameter \<open>frac\<close>, with arguments the digits after the point, the
  number of these digits and the unit.
\<close>

section \<open>Durations\<close>

type_synonym fraction = "nat \<Rightarrow> nat \<Rightarrow> nat \<Rightarrow> nat"

definition Millisecond :: int where
  "Millisecond = 1000000"

definition Second :: int where
  "Second = 1000 * Millisecond"

definition Minute :: int where
  "Minute = 60 * Second"

definition Hour :: int where
  "Hour = 60 * Minute"

lemmas duration_units = Millisecond_def Second_def Minute_def Hour_def

definition unitMap :: "(string, nat) gomap" where
  "unitMap = [(''ns'', 1), (''us'', 1000), ([CHR 0xC2, CHR 0xB5, CHR ''s''], 1000),
     ([CHR 0xCE, CHR 0xBC, CHR ''s''], 1000), (''ms'', 1000000), (''s'', 1000000000),
     (''m'', 60000000000), (''h'', 3600000000000)]"

definition is_digit :: "char \<Rightarrow> bool" where
  "is_digit c \<longleftrightarrow> 48 \<le> (of_char c :: nat) \<and> (of_char c :: nat) \<le> 57"

fun leadingInt :: "nat \<Rightarrow> string \<Rightarrow> (nat \<times> string) option" where
  "leadingInt x [] = Some (x, [])"
| "leadingInt x (c # s) =
     (if \<not> is_digit c then Some (x, c # s)
      else if 2 ^ 63 div 10 < x then None
      else let y = x * 10 + digit_value c in if 2 ^ 63 < y then None else leadingInt y s)"

text \<open>The digits after the point: their value, how many of them counted, and the rest.\<close>

fun leadingFraction :: "bool \<Rightarrow> nat \<Rightarrow> nat \<Rightarrow> string \<Rightarrow> nat \<times> nat \<times> string" where
  "leadingFraction overflow x k [] = (x, k, [])"
| "leadingFraction overflow x k (c # s) =
     (if \<not> is_digit c then (x, k, c # s)
      else if overflow then leadingFraction True x k s
      else if (2 ^ 63 - 1) div 10 < x then leadingFraction True x k s
      else let y = x * 10 + digit_value c in
        if 2 ^ 63 < y then leadingFraction True x k s else leadingFraction False y (Suc k) s)"

definition is_unit_char :: "char \<Rightarrow> bool" where
  "is_unit_char c \<longleftrightarrow> \<not> (c = CHR ''.'' \<or> is_digit c)"

text \<open>One term of a duration, for instance \<open>1.5h\<close>: its value in nanoseconds and the rest of the string.\<close>

definition durationTerm :: "fraction \<Rightarrow> string \<Rightarrow> (nat \<times> string) option" where
  "durationTerm frac s =
     (if s = [] \<or> \<not> (hd s = CHR ''.'' \<or> is_digit (hd s)) then None
      else do {
        (v, s1) \<leftarrow> leadingInt 0 s;
        let pre = length s \<noteq> length s1;
        let (f, k, s2, post) =
          (if s1 \<noteq> [] \<and> hd s1 = CHR ''.''
           then let (f, k, s2) = leadingFraction False 0 0 (tl s1) in (f, k, s2, length (tl s1) \<noteq> length s2)
           else (0, 0, s1, False));
        if \<not> pre \<and> \<not> post then None
        else do {
          let u = takeWhile is_unit_char s2;
          if u = [] then None
          else do {
            unit \<leftarrow> gm_get unitMap u;
            if 2 ^ 63 div unit < v then None
            else do {
              let v1 = v * unit + (if 0 < f then frac f k unit else 0);
              if 0 < f \<and> 2 ^ 63 < v1 then None else Some (v1, dropWhile is_unit_char s2)
            }
          }
        }
      })"

lemma leadingInt_length: "leadingInt x s = Some (v, r) \<Longrightarrow> length r \<le> length s"
  by (induction x s rule: leadingInt.induct) (auto simp: Let_def split: if_splits)

lemma leadingFraction_length: "leadingFraction o' x k s = (f, k', r) \<Longrightarrow> length r \<le> length s"
  by (induction o' x k s rule: leadingFraction.induct) (auto simp: Let_def le_SucI split: if_splits)

lemma dropWhile_shorter: "takeWhile P s \<noteq> [] \<Longrightarrow> length (dropWhile P s) < length s"
  by (cases s) (auto simp: less_Suc_eq_le length_dropWhile_le split: if_splits)

lemma durationTerm_shorter:
  assumes "durationTerm frac s = Some (v, r)"
  shows "length r < length s"
proof -
  from assms obtain v1 s1 s2 where t: "leadingInt 0 s = Some (v1, s1)"
    "s2 = s1 \<or> (\<exists>f k. leadingFraction False 0 0 (tl s1) = (f, k, s2))"
    "takeWhile is_unit_char s2 \<noteq> []" "r = dropWhile is_unit_char s2"
    by (auto simp: durationTerm_def Let_def split: if_splits bind_splits prod.splits)
  from t(2) have "length s2 \<le> length s1"
    by (auto dest!: leadingFraction_length)
  also have "\<dots> \<le> length s" using leadingInt_length t(1) by blast
  finally show ?thesis using dropWhile_shorter [OF t(3)] t(4) by simp
qed

text \<open>The terms are summed in 64 bits. Every term is non-empty, so the loop ends.\<close>

function durationTerms :: "fraction \<Rightarrow> nat \<Rightarrow> string \<Rightarrow> nat option" where
  "durationTerms frac d s =
     (if s = [] then Some d
      else case durationTerm frac s of
        None \<Rightarrow> None
      | Some (v, s') \<Rightarrow> if 2 ^ 63 < d + v then None else durationTerms frac (d + v) s')"
  by pat_completeness auto
termination
  by (relation "measure (\<lambda>(frac, d, s). length s)") (auto dest: durationTerm_shorter)

declare durationTerms.simps [simp del]

definition ParseDuration :: "fraction \<Rightarrow> string \<Rightarrow> int option" where
  "ParseDuration frac s =
     (let neg = (s \<noteq> [] \<and> hd s = CHR ''-'');
          s1 = (if s \<noteq> [] \<and> (hd s = CHR ''-'' \<or> hd s = CHR ''+'') then tl s else s) in
      if s1 = ''0'' then Some 0
      else if s1 = [] then None
      else case durationTerms frac 0 s1 of
        None \<Rightarrow> None
      | Some d \<Rightarrow> if neg then Some (- int d) else if 2 ^ 63 - 1 < d then None else Some (int d))"


section \<open>Lemmas\<close>

lemma durationTerms_bound: "d \<le> 2 ^ 63 \<Longrightarrow> durationTerms frac d s = Some e \<Longrightarrow> e \<le> 2 ^ 63"
proof (induction frac d s rule: durationTerms.induct)
  case (1 frac d s)
  from "1.prems"(2) have "(s = [] \<and> e = d) \<or> (s \<noteq> [] \<and> (\<exists>v r. durationTerm frac s = Some (v, r) \<and>
      \<not> 2 ^ 63 < d + v \<and> durationTerms frac (d + v) r = Some e))"
    by (subst (asm) durationTerms.simps) (auto split: if_splits option.splits)
  with "1.prems"(1) "1.IH" show ?case by auto
qed

text \<open>A parsed duration fits in 64 bits.\<close>

lemma ParseDuration_range:
  assumes "ParseDuration frac s = Some d"
  shows "- (2 ^ 63) \<le> d \<and> d < 2 ^ 63"
  using assms durationTerms_bound [of 0 frac]
  by (auto simp: ParseDuration_def Let_def split: if_splits option.splits)

lemma is_digit_digit: "n < 10 \<Longrightarrow> is_digit (digit n)"
  by (simp add: is_digit_def of_char_digit)

lemma ParseDuration_fraction_free: "ParseDuration frac ''10s'' = Some (10 * Second)"
  by (simp add: ParseDuration_def durationTerms.simps durationTerm_def is_digit_def is_unit_char_def Let_def
      digit_value_def unitMap_def gm_get_def Second_def Millisecond_def)

end
