(* ===== verification/Mesh_Config.thy ===== *)
theory Mesh_Config
  imports Policy_Api
begin

text \<open>
  The MeshConfig resource (\<open>src/pkg/apis/config/v1alpha2/mesh_config.go\<close>), a record per struct. Some
  fields are pointers whose identity matters, because the message broker compares structs that
  contain them with \<open>!=\<close>: a pointer is \<open>NilPtr\<close> or an address with the value stored there, and \<open>ptr_eq\<close>
  is Go's comparison. The compute resources of a container are kept as the text of their quantities.
\<close>

section \<open>Pointers\<close>

datatype 'a ptr = NilPtr | PtrTo nat 'a

fun ptr_eq :: "'a ptr \<Rightarrow> 'a ptr \<Rightarrow> bool" where
  "ptr_eq NilPtr NilPtr = True"
| "ptr_eq (PtrTo a x) (PtrTo b y) = (a = b)"
| "ptr_eq p q = False"

fun deref :: "'a ptr \<Rightarrow> 'a option" where
  "deref NilPtr = None"
| "deref (PtrTo a x) = Some x"


section \<open>The resource\<close>

record LocalDNSProxy =
  ldp_Enable :: bool
  ldp_PrimaryUpstreamDNSServerIPAddr :: string
  ldp_SecondaryUpstreamDNSServerIPAddr :: string

record SidecarDriverSpec =
  sds_SidecarName :: string
  sds_SidecarImage :: string
  sds_SidecarWindowsImage :: string
  sds_InitContainerImage :: string
  sds_ProxyServerPort :: uint32
  sds_SidecarDisabledMTLS :: bool

record ResourceRequirements =
  rr_Limits :: "(string, string) gomap"
  rr_Requests :: "(string, string) gomap"

record SidecarSpec =
  scs_EnablePrivilegedInitContainer :: bool
  scs_LogLevel :: string
  scs_SidecarClass :: string
  scs_SidecarImage :: string
  scs_SidecarWindowsImage :: string
  scs_InitContainerImage :: string
  scs_SidecarDrivers :: "SidecarDriverSpec list"
  scs_MaxDataPlaneConnections :: int
  scs_ConfigResyncInterval :: string
  scs_SidecarTimeout :: int
  scs_Resources :: ResourceRequirements
  scs_TLSMinProtocolVersion :: string
  scs_TLSMaxProtocolVersion :: string
  scs_CipherSuites :: "string list"
  scs_ECDHCurves :: "string list"
  scs_LocalProxyMode :: string
  scs_LocalDNSProxy :: LocalDNSProxy

record ExternalAuthzSpec =
  eas_Enable :: bool
  eas_Address :: string
  eas_Port :: uint16
  eas_StatPrefix :: string
  eas_Timeout :: string
  eas_FailureModeAllow :: bool

record TrafficSpec =
  trs_InterceptionMode :: string
  trs_EnableEgress :: bool
  trs_OutboundIPRangeExclusionList :: "string list"
  trs_OutboundIPRangeInclusionList :: "string list"
  trs_OutboundPortExclusionList :: "int list"
  trs_InboundPortExclusionList :: "int list"
  trs_EnablePermissiveTrafficPolicyMode :: bool
  trs_InboundExternalAuthorization :: ExternalAuthzSpec
  trs_NetworkInterfaceExclusionList :: "string list"
  trs_HTTP1PerRequestLoadBalancing :: bool
  trs_HTTP2PerRequestLoadBalancing :: bool

text \<open>The ports of the collectors are signed 16-bit numbers.\<close>

type_synonym int16 = "16 word"

record TracingSpec =
  tcg_Enable :: bool
  tcg_Port :: int16
  tcg_Address :: string
  tcg_Endpoint :: string
  tcg_SampledFraction :: "string ptr"

record RemoteLoggingSpec =
  rls_Enable :: bool
  rls_Level :: uint16
  rls_Port :: int16
  rls_Address :: string
  rls_Endpoint :: string
  rls_Authorization :: string
  rls_SampledFraction :: "string ptr"

record ObservabilitySpec =
  obs_OSMLogLevel :: string
  obs_EnableDebugServer :: bool
  obs_Tracing :: TracingSpec
  obs_RemoteLogging :: RemoteLoggingSpec

record IngressGatewayCertSpec =
  igc_SubjectAltNames :: "string list"
  igc_ValidityDuration :: string
  igc_Secret :: SecretReference

record CertificateSpec =
  cts_ServiceCertValidityDuration :: string
  cts_CertKeyBitSize :: int
  cts_IngressGateway :: "IngressGatewayCertSpec option"

record FeatureFlags =
  ff_EnableWASMStats :: bool
  ff_EnableEgressPolicy :: bool
  ff_EnableSnapshotCacheMode :: bool
  ff_EnableAsyncProxyServiceMapping :: bool
  ff_EnableIngressBackendPolicy :: bool
  ff_EnableAccessControlPolicy :: bool
  ff_EnableAccessCertPolicy :: bool
  ff_EnableSidecarActiveHealthChecks :: bool
  ff_EnableRetryPolicy :: bool
  ff_EnablePluginPolicy :: bool

record RepoServerSpec =
  rss_IPAddr :: string
  rss_Codebase :: string

record ClusterPropertySpec =
  cps_Name :: string
  cps_Value :: string

record ClusterSetSpec =
  css_Properties :: "ClusterPropertySpec list"

record config_PluginChainSpec =
  cpc_Plugin :: string
  cpc_Priority :: float32
  cpc_Disable :: bool

record PluginChainsSpec =
  pcs_InboundTCPChains :: "config_PluginChainSpec option list"
  pcs_InboundHTTPChains :: "config_PluginChainSpec option list"
  pcs_OutboundTCPChains :: "config_PluginChainSpec option list"
  pcs_OutboundHTTPChains :: "config_PluginChainSpec option list"

record MeshConfigSpec =
  mcs_ClusterSet :: ClusterSetSpec
  mcs_Sidecar :: SidecarSpec
  mcs_RepoServer :: RepoServerSpec
  mcs_Traffic :: TrafficSpec
  mcs_Observability :: ObservabilitySpec
  mcs_Certificate :: CertificateSpec
  mcs_FeatureFlags :: FeatureFlags
  mcs_PluginChains :: PluginChainsSpec

record MeshConfig =
  mcf_Meta :: ObjectMeta
  mcf_Spec :: MeshConfigSpec


section \<open>Zero values\<close>

definition zero_SidecarSpec :: SidecarSpec where
  "zero_SidecarSpec =
     \<lparr>scs_EnablePrivilegedInitContainer = False, scs_LogLevel = '''', scs_SidecarClass = '''', scs_SidecarImage = '''',
      scs_SidecarWindowsImage = '''', scs_InitContainerImage = '''', scs_SidecarDrivers = [],
      scs_MaxDataPlaneConnections = 0, scs_ConfigResyncInterval = '''', scs_SidecarTimeout = 0,
      scs_Resources = \<lparr>rr_Limits = [], rr_Requests = []\<rparr>, scs_TLSMinProtocolVersion = '''',
      scs_TLSMaxProtocolVersion = '''', scs_CipherSuites = [], scs_ECDHCurves = [], scs_LocalProxyMode = '''',
      scs_LocalDNSProxy = \<lparr>ldp_Enable = False, ldp_PrimaryUpstreamDNSServerIPAddr = '''',
        ldp_SecondaryUpstreamDNSServerIPAddr = ''''\<rparr>\<rparr>"

definition zero_TrafficSpec :: TrafficSpec where
  "zero_TrafficSpec =
     \<lparr>trs_InterceptionMode = '''', trs_EnableEgress = False, trs_OutboundIPRangeExclusionList = [],
      trs_OutboundIPRangeInclusionList = [], trs_OutboundPortExclusionList = [], trs_InboundPortExclusionList = [],
      trs_EnablePermissiveTrafficPolicyMode = False,
      trs_InboundExternalAuthorization = \<lparr>eas_Enable = False, eas_Address = '''', eas_Port = 0, eas_StatPrefix = '''',
        eas_Timeout = '''', eas_FailureModeAllow = False\<rparr>,
      trs_NetworkInterfaceExclusionList = [], trs_HTTP1PerRequestLoadBalancing = False,
      trs_HTTP2PerRequestLoadBalancing = False\<rparr>"

definition zero_ObservabilitySpec :: ObservabilitySpec where
  "zero_ObservabilitySpec =
     \<lparr>obs_OSMLogLevel = '''', obs_EnableDebugServer = False,
      obs_Tracing = \<lparr>tcg_Enable = False, tcg_Port = 0, tcg_Address = '''', tcg_Endpoint = '''', tcg_SampledFraction = NilPtr\<rparr>,
      obs_RemoteLogging = \<lparr>rls_Enable = False, rls_Level = 0, rls_Port = 0, rls_Address = '''', rls_Endpoint = '''',
        rls_Authorization = '''', rls_SampledFraction = NilPtr\<rparr>\<rparr>"

definition zero_FeatureFlags :: FeatureFlags where
  "zero_FeatureFlags =
     \<lparr>ff_EnableWASMStats = False, ff_EnableEgressPolicy = False, ff_EnableSnapshotCacheMode = False,
      ff_EnableAsyncProxyServiceMapping = False, ff_EnableIngressBackendPolicy = False,
      ff_EnableAccessControlPolicy = False, ff_EnableAccessCertPolicy = False,
      ff_EnableSidecarActiveHealthChecks = False, ff_EnableRetryPolicy = False, ff_EnablePluginPolicy = False\<rparr>"

definition zero_MeshConfig :: MeshConfig where
  "zero_MeshConfig =
     \<lparr>mcf_Meta = zero_ObjectMeta,
      mcf_Spec = \<lparr>mcs_ClusterSet = \<lparr>css_Properties = []\<rparr>, mcs_Sidecar = zero_SidecarSpec,
        mcs_RepoServer = \<lparr>rss_IPAddr = '''', rss_Codebase = ''''\<rparr>, mcs_Traffic = zero_TrafficSpec,
        mcs_Observability = zero_ObservabilitySpec,
        mcs_Certificate = \<lparr>cts_ServiceCertValidityDuration = '''', cts_CertKeyBitSize = 0, cts_IngressGateway = None\<rparr>,
        mcs_FeatureFlags = zero_FeatureFlags,
        mcs_PluginChains = \<lparr>pcs_InboundTCPChains = [], pcs_InboundHTTPChains = [], pcs_OutboundTCPChains = [],
          pcs_OutboundHTTPChains = []\<rparr>\<rparr>\<rparr>"

end
