(* ===== verification/Plugin.thy ===== *)
theory Plugin
  imports K8s_Client
begin

text \<open>
  The plugin resources (\<open>src/pkg/apis/plugin/v1alpha1\<close>), the client over their informer caches
  (\<open>src/pkg/plugin\<close>) and the plugin policies handed to the sidecar drivers
  (\<open>src/pkg/trafficpolicy/plugin_types.go\<close>). A raw extension is its bytes; a \<open>float32\<close> is its bit
  pattern; a label selector keeps its required labels and its expressions.
\<close>

section \<open>Resources\<close>

record PluginSpec =
  pls_Priority :: "float32 option"
  pls_Script :: string

record PluginStatus =
  plst_CurrentStatus :: string
  plst_Reason :: string

record PluginResource =
  pl_Meta :: ObjectMeta
  pl_Spec :: PluginSpec
  pl_Status :: PluginStatus

record LabelSelectorRequirement =
  lsr_Key :: string
  lsr_Operator :: string
  lsr_Values :: "string list"

record LabelSelector =
  lbs_MatchLabels :: "(string, string) gomap"
  lbs_MatchExpressions :: "LabelSelectorRequirement list"

record ChainPluginSpec =
  cpl_Name :: string
  cpl_Plugins :: "string list"

record ChainSelectorSpec =
  csl_PodSelector :: "LabelSelector option"
  csl_NamespaceSelector :: "LabelSelector option"

record PluginChainSpec =
  pch_Chains :: "ChainPluginSpec list"
  pch_Selectors :: ChainSelectorSpec

record PluginChainResource =
  pc_Meta :: ObjectMeta
  pc_Spec :: PluginChainSpec

record ObjectReference =
  obr_Kind :: string
  obr_Namespace :: string
  obr_Name :: string

record PluginConfigSpec =
  pcf_Plugin :: string
  pcf_DestinationRefs :: "ObjectReference list"
  pcf_Config :: string

record PluginConfigResource =
  pcr_Meta :: ObjectMeta
  pcr_Spec :: PluginConfigSpec


section \<open>The client\<close>

record PluginClient =
  plc_Plugins :: "PluginResource cache"
  plc_PluginConfigs :: "PluginConfigResource cache"
  plc_PluginChains :: "PluginChainResource cache"

definition plugin_GetPlugins :: "PluginClient \<Rightarrow> PluginResource list" where
  "plugin_GetPlugins c = cache_List (plc_Plugins c)"

definition plugin_GetPluginConfigs :: "PluginClient \<Rightarrow> PluginConfigResource list" where
  "plugin_GetPluginConfigs c = cache_List (plc_PluginConfigs c)"

definition plugin_GetPluginChains :: "PluginClient \<Rightarrow> PluginChainResource list" where
  "plugin_GetPluginChains c = cache_List (plc_PluginChains c)"


section \<open>Plugin policies\<close>

record Plugin =
  plg_Name :: string
  plg_Priority :: float32
  plg_Script :: string
  plg_BuildIn :: bool

record PluginChain =
  plch_Spec :: PluginChainSpec
  plch_Name :: string
  plch_Namespace :: string

record PluginConfig =
  plcf_Spec :: PluginConfigSpec
  plcf_Name :: string
  plcf_Namespace :: string

end
