(* ===== verification/Config_Client.thy ===== *)
theory Config_Client
  imports Go_Time Mesh_Config Plugin Constants
begin

text \<open>
  The configurator (\<open>src/pkg/configurator/client.go\<close>, \<open>methods.go\<close>): the settings of the MeshConfig
  resource, with the defaults that apply when the resource or a field is missing. The client reads
  the informer cache; the process environment and the two floating-point routines of the standard
  library are fields of the record \<open>ProcessEnv\<close>. \<open>GetMeshConfigJSON\<close>, which prints the resource, and the
  metrics handler are left out.
\<close>

section \<open>State\<close>

record ProcessEnv =
  env_Getenv :: "string \<Rightarrow> string"
  env_fraction :: fraction
  env_ParseFloat :: "string \<Rightarrow> float32 option"

record ConfigClient =
  cc_osmNamespace :: string
  cc_meshConfigName :: string
  cc_MeshConfigs :: "MeshConfig cache"
  cc_env :: ProcessEnv

definition getMeshConfigCacheKey :: "ConfigClient \<Rightarrow> string" where
  "getMeshConfigCacheKey c = cc_osmNamespace c @ ''/'' @ cc_meshConfigName c"

definition getMeshConfig :: "ConfigClient \<Rightarrow> MeshConfig" where
  "getMeshConfig c =
     (case cache_GetByKey (cc_MeshConfigs c) (getMeshConfigCacheKey c) of
        None \<Rightarrow> zero_MeshConfig
      | Some meshConfig \<Rightarrow> meshConfig)"

abbreviation config_spec :: "ConfigClient \<Rightarrow> MeshConfigSpec" where
  "config_spec c \<equiv> mcf_Spec (getMeshConfig c)"

definition defaultServiceCertValidityDuration :: duration where
  "defaultServiceCertValidityDuration = 24 * Hour"

definition defaultIngressGatewayCertValidityDuration :: duration where
  "defaultIngressGatewayCertValidityDuration = 24 * Hour"

definition defaultCertKeyBitSize :: int where
  "defaultCertKeyBitSize = 2048"

definition minCertKeyBitSize :: int where
  "minCertKeyBitSize = 2048"

definition maxCertKeyBitSize :: int where
  "maxCertKeyBitSize = 4096"


section \<open>Traffic\<close>

definition GetOSMNamespace :: "ConfigClient \<Rightarrow> string" where
  "GetOSMNamespace c = cc_osmNamespace c"

definition GetTrafficInterceptionMode :: "ConfigClient \<Rightarrow> string" where
  "GetTrafficInterceptionMode c = trs_InterceptionMode (mcs_Traffic (config_spec c))"

definition IsPermissiveTrafficPolicyMode :: "ConfigClient \<Rightarrow> bool" where
  "IsPermissiveTrafficPolicyMode c = trs_EnablePermissiveTrafficPolicyMode (mcs_Traffic (config_spec c))"

definition IsEgressEnabled :: "ConfigClient \<Rightarrow> bool" where
  "IsEgressEnabled c = trs_EnableEgress (mcs_Traffic (config_spec c))"

record ExtAuthConfig =
  eac_Enable :: bool
  eac_Address :: string
  eac_Port :: uint16
  eac_StatPrefix :: string
  eac_AuthzTimeout :: duration
  eac_FailureModeAllow :: bool

definition GetInboundExternalAuthConfig :: "ConfigClient \<Rightarrow> ExtAuthConfig" where
  "GetInboundExternalAuthConfig c =
     (let a = trs_InboundExternalAuthorization (mcs_Traffic (config_spec c)) in
      \<lparr>eac_Enable = eas_Enable a, eac_Address = eas_Address a, eac_Port = eas_Port a, eac_StatPrefix = eas_StatPrefix a,
       eac_AuthzTimeout = (case ParseDuration (env_fraction (cc_env c)) (eas_Timeout a) of
          None \<Rightarrow> 1 * Second | Some d \<Rightarrow> d),
       eac_FailureModeAllow = eas_FailureModeAllow a\<rparr>)"

definition GetFeatureFlags :: "ConfigClient \<Rightarrow> FeatureFlags" where
  "GetFeatureFlags c = mcs_FeatureFlags (config_spec c)"


section \<open>Observability\<close>

definition IsDebugServerEnabled :: "ConfigClient \<Rightarrow> bool" where
  "IsDebugServerEnabled c = obs_EnableDebugServer (mcs_Observability (config_spec c))"

definition GetOSMLogLevel :: "ConfigClient \<Rightarrow> string" where
  "GetOSMLogLevel c = obs_OSMLogLevel (mcs_Observability (config_spec c))"

abbreviation config_tracing :: "ConfigClient \<Rightarrow> TracingSpec" where
  "config_tracing c \<equiv> obs_Tracing (mcs_Observability (config_spec c))"

abbreviation config_logging :: "ConfigClient \<Rightarrow> RemoteLoggingSpec" where
  "config_logging c \<equiv> obs_RemoteLogging (mcs_Observability (config_spec c))"

definition IsTracingEnabled :: "ConfigClient \<Rightarrow> bool" where
  "IsTracingEnabled c = tcg_Enable (config_tracing c)"

definition GetTracingHost :: "ConfigClient \<Rightarrow> string" where
  "GetTracingHost c =
     (let tracingAddress = tcg_Address (config_tracing c) in
      if tracingAddress \<noteq> '''' then tracingAddress
      else DefaultTracingHost @ ''.'' @ GetOSMNamespace c @ ''.svc.cluster.local'')"

text \<open>The conversion of a signed 16-bit port to 32 bits extends the sign.\<close>

definition GetTracingPort :: "ConfigClient \<Rightarrow> uint32" where
  "GetTracingPort c =
     (let tracingPort = tcg_Port (config_tracing c) in
      if tracingPort \<noteq> 0 then scast tracingPort else DefaultTracingPort)"

definition GetTracingEndpoint :: "ConfigClient \<Rightarrow> string" where
  "GetTracingEndpoint c =
     (let tracingEndpoint = tcg_Endpoint (config_tracing c) in
      if tracingEndpoint \<noteq> '''' then tracingEndpoint else DefaultTracingEndpoint)"

text \<open>The bit pattern of the 32-bit floating point number 1.\<close>

definition float32_one :: float32 where
  "float32_one = 0x3F800000"

definition sampledFraction :: "ConfigClient \<Rightarrow> string ptr \<Rightarrow> float32" where
  "sampledFraction c p =
     (case deref p of
        None \<Rightarrow> float32_one
      | Some s \<Rightarrow> if 0 < length s then (case env_ParseFloat (cc_env c) s of Some v \<Rightarrow> v | None \<Rightarrow> float32_one)
                else float32_one)"

definition GetTracingSampledFraction :: "ConfigClient \<Rightarrow> float32" where
  "GetTracingSampledFraction c = sampledFraction c (tcg_SampledFraction (config_tracing c))"

definition IsRemoteLoggingEnabled :: "ConfigClient \<Rightarrow> bool" where
  "IsRemoteLoggingEnabled c = rls_Enable (config_logging c)"

definition GetRemoteLoggingLevel :: "ConfigClient \<Rightarrow> uint16" where
  "GetRemoteLoggingLevel c = rls_Level (config_logging c)"

definition GetRemoteLoggingHost :: "ConfigClient \<Rightarrow> string" where
  "GetRemoteLoggingHost c = rls_Address (config_logging c)"

definition GetRemoteLoggingPort :: "ConfigClient \<Rightarrow> uint32" where
  "GetRemoteLoggingPort c =
     (let remoteLoggingPort = rls_Port (config_logging c) in
      if remoteLoggingPort \<noteq> 0 then scast remoteLoggingPort else 0)"

definition GetRemoteLoggingEndpoint :: "ConfigClient \<Rightarrow> string" where
  "GetRemoteLoggingEndpoint c = rls_Endpoint (config_logging c)"

definition GetRemoteLoggingAuthorization :: "ConfigClient \<Rightarrow> string" where
  "GetRemoteLoggingAuthorization c = rls_Authorization (config_logging c)"

definition GetRemoteLoggingSampledFraction :: "ConfigClient \<Rightarrow> float32" where
  "GetRemoteLoggingSampledFraction c = sampledFraction c (rls_SampledFraction (config_logging c))"



section \<open>Sidecar\<close>

abbreviation config_sidecar :: "ConfigClient \<Rightarrow> SidecarSpec" where
  "config_sidecar c \<equiv> mcs_Sidecar (config_spec c)"

definition IsLocalDNSProxyEnabled :: "ConfigClient \<Rightarrow> bool" where
  "IsLocalDNSProxyEnabled c = ldp_Enable (scs_LocalDNSProxy (config_sidecar c))"

definition GetLocalDNSProxyPrimaryUpstream :: "ConfigClient \<Rightarrow> string" where
  "GetLocalDNSProxyPrimaryUpstream c = ldp_PrimaryUpstreamDNSServerIPAddr (scs_LocalDNSProxy (config_sidecar c))"

definition GetLocalDNSProxySecondaryUpstream :: "ConfigClient \<Rightarrow> string" where
  "GetLocalDNSProxySecondaryUpstream c = ldp_SecondaryUpstreamDNSServerIPAddr (scs_LocalDNSProxy (config_sidecar c))"

definition GetMaxDataPlaneConnections :: "ConfigClient \<Rightarrow> int" where
  "GetMaxDataPlaneConnections c = scs_MaxDataPlaneConnections (config_sidecar c)"

definition GetSidecarTimeout :: "ConfigClient \<Rightarrow> int" where
  "GetSidecarTimeout c = (let timeout = scs_SidecarTimeout (config_sidecar c) in if timeout \<le> 0 then 60 else timeout)"

definition GetSidecarLogLevel :: "ConfigClient \<Rightarrow> string" where
  "GetSidecarLogLevel c =
     (let logLevel = scs_LogLevel (config_sidecar c) in if logLevel \<noteq> '''' then logLevel else DefaultSidecarLogLevel)"

definition GetSidecarClass :: "ConfigClient \<Rightarrow> string" where
  "GetSidecarClass c =
     (let cls = scs_SidecarClass (config_sidecar c);
          cls1 = (if cls = '''' then env_Getenv (cc_env c) ''OSM_DEFAULT_SIDECAR_CLASS'' else cls) in
      if cls1 = '''' then SidecarClassPipy else cls1)"

text \<open>The driver of the configured class: the first whose name equals it without regard to case.\<close>

definition sidecarDriver :: "ConfigClient \<Rightarrow> SidecarDriverSpec option" where
  "sidecarDriver c =
     find (\<lambda>driver. equal_fold (to_lower (scs_SidecarClass (config_sidecar c))) (to_lower (sds_SidecarName driver)))
       (scs_SidecarDrivers (config_sidecar c))"

definition imageOrDefault :: "ConfigClient \<Rightarrow> string \<Rightarrow> (SidecarDriverSpec \<Rightarrow> string) \<Rightarrow> string \<Rightarrow> string" where
  "imageOrDefault c configured driverImage variable =
     (let image = (if length configured = 0
             then (case sidecarDriver c of Some driver \<Rightarrow> driverImage driver | None \<Rightarrow> configured) else configured) in
      if length image = 0 then env_Getenv (cc_env c) variable else image)"

definition GetSidecarImage :: "ConfigClient \<Rightarrow> string" where
  "GetSidecarImage c = imageOrDefault c (scs_SidecarImage (config_sidecar c)) sds_SidecarImage ''OSM_DEFAULT_SIDECAR_IMAGE''"

definition GetSidecarWindowsImage :: "ConfigClient \<Rightarrow> string" where
  "GetSidecarWindowsImage c =
     imageOrDefault c (scs_SidecarWindowsImage (config_sidecar c)) sds_SidecarWindowsImage ''OSM_DEFAULT_SIDECAR_WINDOWS_IMAGE''"

definition GetInitContainerImage :: "ConfigClient \<Rightarrow> string" where
  "GetInitContainerImage c =
     imageOrDefault c (scs_InitContainerImage (config_sidecar c)) sds_InitContainerImage ''OSM_DEFAULT_INIT_CONTAINER_IMAGE''"

definition GetProxyServerPort :: "ConfigClient \<Rightarrow> uint32" where
  "GetProxyServerPort c = (case sidecarDriver c of Some driver \<Rightarrow> sds_ProxyServerPort driver | None \<Rightarrow> ProxyServerPort)"

definition GetSidecarDisabledMTLS :: "ConfigClient \<Rightarrow> bool" where
  "GetSidecarDisabledMTLS c = (case sidecarDriver c of Some driver \<Rightarrow> sds_SidecarDisabledMTLS driver | None \<Rightarrow> False)"

definition IsPrivilegedInitContainer :: "ConfigClient \<Rightarrow> bool" where
  "IsPrivilegedInitContainer c = scs_EnablePrivilegedInitContainer (config_sidecar c)"

definition GetProxyResources :: "ConfigClient \<Rightarrow> ResourceRequirements" where
  "GetProxyResources c = scs_Resources (config_sidecar c)"

definition GetConfigResyncInterval :: "ConfigClient \<Rightarrow> duration" where
  "GetConfigResyncInterval c =
     (case ParseDuration (env_fraction (cc_env c)) (scs_ConfigResyncInterval (config_sidecar c)) of None \<Rightarrow> 0 | Some d \<Rightarrow> d)"


section \<open>Repository server\<close>

definition GetRepoServerIPAddr :: "ConfigClient \<Rightarrow> string" where
  "GetRepoServerIPAddr c =
     (let ipAddr = env_Getenv (cc_env c) ''OSM_REPO_SERVER_IPADDR'';
          ipAddr1 = (if length ipAddr = 0 then rss_IPAddr (mcs_RepoServer (config_spec c)) else ipAddr) in
      if length ipAddr1 = 0 then ''127.0.0.1'' else ipAddr1)"

definition trim_prefix :: "string \<Rightarrow> string \<Rightarrow> string" where
  "trim_prefix s p = (if has_prefix s p then drop (length p) s else s)"

definition GetRepoServerCodebase :: "ConfigClient \<Rightarrow> string" where
  "GetRepoServerCodebase c =
     (let codebase = env_Getenv (cc_env c) ''OSM_REPO_SERVER_CODEBASE'';
          codebase1 = (if length codebase = 0 then rss_Codebase (mcs_RepoServer (config_spec c)) else codebase);
          codebase2 = (if 0 < length codebase1 \<and> has_suffix codebase1 ''/'' then trim_suffix codebase1 ''/'' else codebase1) in
      if 0 < length codebase2 \<and> has_prefix codebase2 ''/'' then trim_prefix codebase2 ''/'' else codebase2)"


section \<open>Certificates\<close>

abbreviation config_cert :: "ConfigClient \<Rightarrow> CertificateSpec" where
  "config_cert c \<equiv> mcs_Certificate (config_spec c)"

definition GetServiceCertValidityPeriod :: "ConfigClient \<Rightarrow> duration" where
  "GetServiceCertValidityPeriod c =
     (case ParseDuration (env_fraction (cc_env c)) (cts_ServiceCertValidityDuration (config_cert c)) of
        None \<Rightarrow> defaultServiceCertValidityDuration
      | Some d \<Rightarrow> d)"

definition GetIngressGatewayCertValidityPeriod :: "ConfigClient \<Rightarrow> duration" where
  "GetIngressGatewayCertValidityPeriod c =
     (case cts_IngressGateway (config_cert c) of
        None \<Rightarrow> defaultIngressGatewayCertValidityDuration
      | Some spec \<Rightarrow>
          (case ParseDuration (env_fraction (cc_env c)) (igc_ValidityDuration spec) of
             None \<Rightarrow> defaultServiceCertValidityDuration
           | Some d \<Rightarrow> d))"

definition GetCertKeyBitSize :: "ConfigClient \<Rightarrow> int" where
  "GetCertKeyBitSize c =
     (let bitSize = cts_CertKeyBitSize (config_cert c) in
      if bitSize < minCertKeyBitSize \<or> bitSize > maxCertKeyBitSize then defaultCertKeyBitSize else bitSize)"


section \<open>Plugin chains\<close>

text \<open>The plugins of one chain that are not disabled; a nil entry panics.\<close>

fun globalChain :: "config_PluginChainSpec option list \<Rightarrow> Plugin list option" where
  "globalChain [] = Some []"
| "globalChain (None # ps) = None"
| "globalChain (Some plugin # ps) =
     (if cpc_Disable plugin then globalChain ps
      else map_option ((#) \<lparr>plg_Name = cpc_Plugin plugin, plg_Priority = cpc_Priority plugin, plg_Script = '''',
          plg_BuildIn = True\<rparr>) (globalChain ps))"

definition GetGlobalPluginChains :: "ConfigClient \<Rightarrow> (string, Plugin list) gomap option" where
  "GetGlobalPluginChains c =
     do {
       let spec = mcs_PluginChains (config_spec c);
       inboundTCPChains \<leftarrow> globalChain (pcs_InboundTCPChains spec);
       inboundHTTPChains \<leftarrow> globalChain (pcs_InboundHTTPChains spec);
       outboundTCPChains \<leftarrow> globalChain (pcs_OutboundTCPChains spec);
       outboundHTTPChains \<leftarrow> globalChain (pcs_OutboundHTTPChains spec);
       Some [(''inbound-tcp'', inboundTCPChains), (''inbound-http'', inboundHTTPChains),
         (''outbound-tcp'', outboundTCPChains), (''outbound-http'', outboundHTTPChains)]
     }"



section \<open>Lemmas\<close>

lemma globalChain_Some:
  "globalChain ps = Some qs \<Longrightarrow> list_all plg_BuildIn qs \<and>
     map plg_Name qs = map cpc_Plugin (filter (\<lambda>p. \<not> cpc_Disable p) (map the ps))"
  by (induction ps arbitrary: qs rule: globalChain.induct) (auto split: if_splits)

lemma globalChain_total: "globalChain ps = None \<longleftrightarrow> None \<in> set ps"
  by (induction ps rule: globalChain.induct) auto

text \<open>The chains of the resource under the names their mount points have in the sidecar.\<close>

definition config_chains :: "ConfigClient \<Rightarrow> (string \<times> config_PluginChainSpec option list) list" where
  "config_chains c =
     (let spec = mcs_PluginChains (config_spec c) in
      [(''inbound-tcp'', pcs_InboundTCPChains spec), (''inbound-http'', pcs_InboundHTTPChains spec),
       (''outbound-tcp'', pcs_OutboundTCPChains spec), (''outbound-http'', pcs_OutboundHTTPChains spec)])"

lemma global_chains_total:
  "GetGlobalPluginChains c = None \<longleftrightarrow> (\<exists>(name, ps) \<in> set (config_chains c). None \<in> set ps)"
  by (auto simp: GetGlobalPluginChains_def config_chains_def Let_def globalChain_total bind_eq_None_conv)

lemma global_chains_enabled:
  assumes "GetGlobalPluginChains c = Some pcm" and "(name, ps) \<in> set (config_chains c)"
  shows "globalChain ps = Some (gm_slice pcm name)"
  using assms by (auto simp: GetGlobalPluginChains_def config_chains_def Let_def gm_slice_def gm_get_def split: bind_splits)

lemma scast_uint: "uint (scast (p :: int16) :: uint32) = sint p mod 2 ^ 32"
proof -
  have "uint (scast p :: uint32) = uint (word_of_int (sint p) :: uint32)" by (simp only: scast_eq)
  also have "\<dots> = sint p mod 2 ^ 32" by (simp only: uint_word_of_int) simp
  finally show ?thesis .
qed

lemma sint16_range: "- (2 ^ 15) \<le> sint (p :: int16)" "sint p < 2 ^ 15"
  using sint_ge [of p] sint_lt [of p] by simp_all

lemma scast_port: "0 \<le> sint (p :: int16) \<Longrightarrow> uint (scast p :: uint32) = sint p"
  using sint16_range [of p] by (simp add: scast_uint)

lemma scast_negative_port:
  assumes "sint (p :: int16) < 0"
  shows "2 ^ 32 - 2 ^ 15 \<le> uint (scast p :: uint32)"
proof -
  have "sint p mod 2 ^ 32 = (sint p + 2 ^ 32) mod 2 ^ 32" by simp
  also have "\<dots> = sint p + 2 ^ 32" using assms sint16_range [of p] by (intro mod_pos_pos_trivial) auto
  finally have "sint p mod 2 ^ 32 = sint p + 2 ^ 32" .
  then show ?thesis using sint16_range [of p] by (simp add: scast_uint)
qed


lemma port_in_range: "uint (scast (p :: int16) :: uint32) < 2 ^ 16 \<longleftrightarrow> 0 \<le> sint p"
proof
  show "uint (scast p :: uint32) < 2 ^ 16" if "0 \<le> sint p"
    using scast_port [OF that] sint16_range(2) [of p] by simp
  show "0 \<le> sint p" if *: "uint (scast p :: uint32) < 2 ^ 16"
  proof (rule ccontr)
    assume "\<not> 0 \<le> sint p"
    then have "2 ^ 32 - 2 ^ 15 \<le> uint (scast p :: uint32)" by (intro scast_negative_port) simp
    with * show False by simp
  qed
qed


section \<open>Properties\<close>

text \<open>
  C36. Which settings are checked and which are taken from the MeshConfig unchecked. A certificate key
  has between 2048 and 4096 bits and the sidecar timeout is positive, whatever the resource says. The
  ports of the tracing and of the logging collector are port numbers exactly when the resource has no
  negative one, because they are widened from 16 to 32 bits with their sign, and the port of the proxy
  server is a port number when those of all drivers in the resource are. Reading the plugin chains
  panics exactly when one of the four has a nil entry; otherwise each lists the plugins of the resource
  that are not disabled, in their order and marked as built in.
\<close>

theorem config_in_range:
  "2048 \<le> GetCertKeyBitSize c \<and> GetCertKeyBitSize c \<le> 4096 \<and> 0 < GetSidecarTimeout c \<and>
   (uint (GetTracingPort c) < 2 ^ 16 \<longleftrightarrow> 0 \<le> sint (tcg_Port (config_tracing c))) \<and>
   (uint (GetRemoteLoggingPort c) < 2 ^ 16 \<longleftrightarrow> 0 \<le> sint (rls_Port (config_logging c))) \<and>
   ((\<forall>d \<in> set (scs_SidecarDrivers (config_sidecar c)). uint (sds_ProxyServerPort d) < 2 ^ 16) \<longrightarrow>
      uint (GetProxyServerPort c) < 2 ^ 16) \<and>
   (GetGlobalPluginChains c = None \<longleftrightarrow> (\<exists>(name, ps) \<in> set (config_chains c). None \<in> set ps)) \<and>
   (\<forall>pcm name ps. GetGlobalPluginChains c = Some pcm \<and> (name, ps) \<in> set (config_chains c) \<longrightarrow>
      list_all plg_BuildIn (gm_slice pcm name) \<and>
      map plg_Name (gm_slice pcm name) = map cpc_Plugin (filter (\<lambda>p. \<not> cpc_Disable p) (map the ps)))"
proof -
  have key: "2048 \<le> GetCertKeyBitSize c" "GetCertKeyBitSize c \<le> 4096" "0 < GetSidecarTimeout c"
    by (auto simp: GetCertKeyBitSize_def GetSidecarTimeout_def Let_def minCertKeyBitSize_def
        maxCertKeyBitSize_def defaultCertKeyBitSize_def)
  have tracing: "uint (GetTracingPort c) < 2 ^ 16 \<longleftrightarrow> 0 \<le> sint (tcg_Port (config_tracing c))"
    by (simp add: GetTracingPort_def Let_def DefaultTracingPort_def port_in_range [simplified])
  have logging: "uint (GetRemoteLoggingPort c) < 2 ^ 16 \<longleftrightarrow> 0 \<le> sint (rls_Port (config_logging c))"
    by (simp add: GetRemoteLoggingPort_def Let_def port_in_range [simplified])
  have proxy: "uint (GetProxyServerPort c) < 2 ^ 16"
    if "\<forall>d \<in> set (scs_SidecarDrivers (config_sidecar c)). uint (sds_ProxyServerPort d) < 2 ^ 16"
    using that by (cases "sidecarDriver c")
      (auto simp: GetProxyServerPort_def ProxyServerPort_def sidecarDriver_def dest!: find_SomeD)
  have chains: "list_all plg_BuildIn (gm_slice pcm name) \<and>
      map plg_Name (gm_slice pcm name) = map cpc_Plugin (filter (\<lambda>p. \<not> cpc_Disable p) (map the ps))"
    if "GetGlobalPluginChains c = Some pcm \<and> (name, ps) \<in> set (config_chains c)" for pcm name ps
    using global_chains_enabled that globalChain_Some by blast
  show ?thesis using key tracing logging proxy chains global_chains_total by blast
qed


definition sample_process :: ProcessEnv where
  "sample_process = \<lparr>env_Getenv = (\<lambda>_. ''''), env_fraction = (\<lambda>_ _ _. 0), env_ParseFloat = (\<lambda>_. None)\<rparr>"

definition sample_config :: MeshConfig where
  "sample_config = zero_MeshConfig\<lparr>mcf_Spec := (mcf_Spec zero_MeshConfig)\<lparr>mcs_Observability :=
     zero_ObservabilitySpec\<lparr>obs_Tracing := (obs_Tracing zero_ObservabilitySpec)\<lparr>tcg_Port := - 1\<rparr>\<rparr>\<rparr>\<rparr>"

definition sample_config_client :: ConfigClient where
  "sample_config_client = \<lparr>cc_osmNamespace = ''osm'', cc_meshConfigName = ''mesh'',
     cc_MeshConfigs = [(''osm/mesh'', sample_config)], cc_env = sample_process\<rparr>"

theorem config_in_range_witness:
  "\<not> uint (GetTracingPort sample_config_client) < 2 ^ 16 \<and> uint (GetProxyServerPort sample_config_client) < 2 ^ 16 \<and>
   GetGlobalPluginChains sample_config_client \<noteq> None"
proof -
  have sample: "config_spec sample_config_client = mcf_Spec sample_config"
    by (simp add: getMeshConfig_def cache_GetByKey_def gm_get_def sample_config_client_def getMeshConfigCacheKey_def)
  have "sint (tcg_Port (config_tracing sample_config_client)) < 0"
    unfolding sample by (simp add: sample_config_def zero_MeshConfig_def zero_SidecarSpec_def)
  moreover have "scs_SidecarDrivers (config_sidecar sample_config_client) = []"
    unfolding sample by (simp add: sample_config_def zero_MeshConfig_def zero_SidecarSpec_def)
  moreover have "\<not> (\<exists>(name, ps) \<in> set (config_chains sample_config_client). None \<in> set ps)"
    unfolding config_chains_def sample by (simp add: sample_config_def zero_MeshConfig_def zero_SidecarSpec_def)
  ultimately show ?thesis using config_in_range [of sample_config_client] by auto
qed

text \<open>
  The driver is looked up under the class in the resource, not under the class \<open>GetSidecarClass\<close> falls back
  to: without a class in the resource the settings of every named driver are ignored.
\<close>

lemma default_class_has_no_driver:
  assumes "scs_SidecarClass (config_sidecar c) = ''''" and "\<forall>d \<in> set (scs_SidecarDrivers (config_sidecar c)). sds_SidecarName d \<noteq> ''''"
  shows "GetProxyServerPort c = ProxyServerPort" and "\<not> GetSidecarDisabledMTLS c"
proof -
  have "sidecarDriver c = None"
    using assms by (auto simp: sidecarDriver_def find_None_iff equal_fold_def to_lower_def)
  then show "GetProxyServerPort c = ProxyServerPort" "\<not> GetSidecarDisabledMTLS c"
    by (simp_all add: GetProxyServerPort_def GetSidecarDisabledMTLS_def)
qed

end
