(* ===== verification/Catalog.thy ===== *)
theory Catalog
  imports Traffic_Merge Policy_Client Providers Config_Client
begin

text \<open>
  The state of the mesh catalog (\<open>src/pkg/catalog/types.go\<close>) and its small queries: services and
  endpoints over the registered providers (\<open>service.go\<close>, \<open>endpoint.go\<close>), retry policies (\<open>retry.go\<close>),
  plugins (\<open>plugin.go\<close>) and the identities that SMI traffic targets let talk to each other (\<open>traffictarget.go\<close>).

  The catalog holds its controllers behind interfaces. The service and endpoint providers, of which
  there are several, are records of operations; of the other controllers there is one
  implementation each, whose state the catalog holds here. The configurator is the record of the
  settings the catalog reads. The trust domain of the certificate manager and the trust domain of
  the package \<open>k8s\<close>, a package variable, are two fields. A query that converts an identity to a
  service account panics on a malformed identity: \<open>None\<close>.
\<close>

section \<open>State\<close>

record Configurator =
  cfg_IsPermissiveTrafficPolicyMode :: bool
  cfg_IsEgressEnabled :: bool
  cfg_GetFeatureFlags :: FeatureFlags

text \<open>The configurator over the MeshConfig resource.\<close>

definition configurator_of :: "ConfigClient \<Rightarrow> Configurator" where
  "configurator_of c = \<lparr>cfg_IsPermissiveTrafficPolicyMode = IsPermissiveTrafficPolicyMode c,
     cfg_IsEgressEnabled = IsEgressEnabled c, cfg_GetFeatureFlags = GetFeatureFlags c\<rparr>"

text \<open>Without a MeshConfig the mesh enforces SMI policies, blocks egress and has every optional feature off.\<close>

lemma missing_mesh_config:
  "cache_GetByKey (cc_MeshConfigs c) (getMeshConfigCacheKey c) = None \<Longrightarrow>
     configurator_of c = \<lparr>cfg_IsPermissiveTrafficPolicyMode = False, cfg_IsEgressEnabled = False,
       cfg_GetFeatureFlags = zero_FeatureFlags\<rparr>"
  by (simp add: configurator_of_def IsPermissiveTrafficPolicyMode_def IsEgressEnabled_def GetFeatureFlags_def
      getMeshConfig_def zero_MeshConfig_def zero_TrafficSpec_def)

record MeshCatalog =
  mc_endpointsProviders :: "EndpointProvider list"
  mc_serviceProviders :: "ServiceProvider list"
  mc_meshSpec :: SmiClient
  mc_configurator :: Configurator
  mc_trustDomain :: string
  mc_hostTrustDomain :: string
  mc_kubeController :: KubeClient
  mc_policyController :: PolicyClient
  mc_pluginController :: PluginClient
  mc_multiclusterController :: MulticlusterClient

definition GetTrustDomain :: "MeshCatalog \<Rightarrow> string" where
  "GetTrustDomain mc = mc_trustDomain mc"

abbreviation permissive :: "MeshCatalog \<Rightarrow> bool" where
  "permissive mc \<equiv> cfg_IsPermissiveTrafficPolicyMode (mc_configurator mc)"

abbreviation featureFlags :: "MeshCatalog \<Rightarrow> FeatureFlags" where
  "featureFlags mc \<equiv> cfg_GetFeatureFlags (mc_configurator mc)"

text \<open>A loop that appends what a call returns and stops when a call panics.\<close>

definition concat_opt :: "('a \<Rightarrow> 'b list option) \<Rightarrow> 'a list \<Rightarrow> 'b list option" where
  "concat_opt f xs = map_option concat (those (map f xs))"

lemma concat_opt_simps [simp]:
  "concat_opt f [] = Some []"
  "concat_opt f (x # xs) = do { ys \<leftarrow> f x; zs \<leftarrow> concat_opt f xs; Some (ys @ zs) }"
  by (simp add: concat_opt_def, cases "those (map f xs)") (auto simp: concat_opt_def split: option.splits)

lemma concat_opt_None: "concat_opt f xs = None \<longleftrightarrow> (\<exists>x \<in> set xs. f x = None)"
  by (induction xs) (auto split: Option.bind_splits)

lemma concat_opt_mem:
  "concat_opt f xs = Some ys \<Longrightarrow> y \<in> set ys \<longleftrightarrow> (\<exists>x \<in> set xs. \<exists>l. f x = Some l \<and> y \<in> set l)"
  by (induction xs arbitrary: ys) (auto split: Option.bind_splits)

lemma concat_opt_Some: "(\<And>x. x \<in> set xs \<Longrightarrow> f x = Some (g x)) \<Longrightarrow> concat_opt f xs = Some (concat (map g xs))"
  by (induction xs) simp_all

text \<open>The setting for a service never panics (\<open>uts_for_service_eq\<close>): its service pointer is set.\<close>

definition upstreamTrafficSettingFor :: "MeshCatalog \<Rightarrow> MeshService \<Rightarrow> UpstreamTrafficSetting option" where
  "upstreamTrafficSettingFor mc svc =
     (case uts_for_service (mc_policyController mc) svc of Some uts \<Rightarrow> uts | None \<Rightarrow> None)"

lemma upstreamTrafficSettingFor_total:
  "uts_for_service (mc_policyController mc) svc = Some (upstreamTrafficSettingFor mc svc)"
  by (simp add: upstreamTrafficSettingFor_def uts_for_service_eq)


section \<open>Services (service.go)\<close>

definition getServicesForServiceIdentity :: "MeshCatalog \<Rightarrow> ServiceIdentity \<Rightarrow> MeshService list option" where
  "getServicesForServiceIdentity mc svcIdentity =
     concat_opt (\<lambda>provider. svp_GetServicesForServiceIdentity provider svcIdentity) (mc_serviceProviders mc)"

definition catalog_ListServiceIdentitiesForService :: "MeshCatalog \<Rightarrow> MeshService \<Rightarrow> ServiceIdentity list" where
  "catalog_ListServiceIdentitiesForService mc svc =
     concat (map (\<lambda>provider. svp_ListServiceIdentitiesForService provider svc) (mc_serviceProviders mc))"

definition listMeshServices :: "MeshCatalog \<Rightarrow> MeshService list" where
  "listMeshServices mc = concat (map svp_ListServices (mc_serviceProviders mc))"


section \<open>Traffic targets (traffictarget.go)\<close>

datatype trafficDirection = inbound | outbound

datatype CatalogError = ErrNoTrafficSpecFoundForTrafficPolicy

definition trafficTargetIdentityToSvcAccount :: "IdentityBindingSubject \<Rightarrow> K8sServiceAccount" where
  "trafficTargetIdentityToSvcAccount identitySubject =
     \<lparr>sa_Namespace = ibj_Namespace identitySubject, sa_Name = ibj_Name identitySubject\<rparr>"

definition trafficTargetIdentityToServiceIdentity :: "IdentityBindingSubject \<Rightarrow> ServiceIdentity" where
  "trafficTargetIdentityToServiceIdentity identitySubject =
     ToServiceIdentity (trafficTargetIdentityToSvcAccount identitySubject)"

text \<open>\<open>iter\<close> orders the keys of the map.\<close>

definition trafficTargetIdentitiesToSvcAccounts ::
  "(K8sServiceAccount list \<Rightarrow> K8sServiceAccount list) \<Rightarrow> IdentityBindingSubject list \<Rightarrow> K8sServiceAccount list" where
  "trafficTargetIdentitiesToSvcAccounts iter identities =
     iter (set_adds (map trafficTargetIdentityToSvcAccount identities) [])"

text \<open>The accounts one traffic target contributes, in the order the code adds them to the set.\<close>

definition directionalAccounts :: "trafficDirection \<Rightarrow> K8sServiceAccount \<Rightarrow> TrafficTarget \<Rightarrow> K8sServiceAccount list" where
  "directionalAccounts direction svcAccount trafficTarget =
     (let destination = tt_Destination trafficTarget;
          sources = filter (\<lambda>source. ibj_Kind source = ServiceAccountKind) (tt_Sources trafficTarget) in
      if ibj_Kind destination \<noteq> ServiceAccountKind then []
      else case direction of
        inbound \<Rightarrow>
          if ibj_Name destination \<noteq> sa_Name svcAccount \<or> ibj_Namespace destination \<noteq> sa_Namespace svcAccount
          then [] else map trafficTargetIdentityToSvcAccount sources
      | outbound \<Rightarrow>
          map (\<lambda>source. trafficTargetIdentityToSvcAccount destination)
            (filter (\<lambda>source. \<not> (ibj_Name source \<noteq> sa_Name svcAccount \<or>
               ibj_Namespace source \<noteq> sa_Namespace svcAccount)) sources))"

text \<open>\<open>iter\<close> is the order in which the set of accounts is drained.\<close>

definition getAllowedDirectionalServiceAccounts ::
  "MeshCatalog \<Rightarrow> (K8sServiceAccount list \<Rightarrow> K8sServiceAccount list) \<Rightarrow> ServiceIdentity \<Rightarrow> trafficDirection \<Rightarrow>
     ServiceIdentity list option" where
  "getAllowedDirectionalServiceAccounts mc iter svcIdentity direction =
     do {
       svcAccount \<leftarrow> ToK8sServiceAccount svcIdentity;
       let allowed = fold (\<lambda>trafficTarget. set_adds (directionalAccounts direction svcAccount trafficTarget))
             (ListTrafficTargets (mc_meshSpec mc) []) [];
       Some (map ToServiceIdentity (iter allowed))
     }"

definition ListInboundServiceIdentities ::
  "MeshCatalog \<Rightarrow> (K8sServiceAccount list \<Rightarrow> K8sServiceAccount list) \<Rightarrow> ServiceIdentity \<Rightarrow> ServiceIdentity list option" where
  "ListInboundServiceIdentities mc iter upstream = getAllowedDirectionalServiceAccounts mc iter upstream inbound"

definition ListOutboundServiceIdentities ::
  "MeshCatalog \<Rightarrow> (K8sServiceAccount list \<Rightarrow> K8sServiceAccount list) \<Rightarrow> ServiceIdentity \<Rightarrow> ServiceIdentity list option" where
  "ListOutboundServiceIdentities mc iter downstream = getAllowedDirectionalServiceAccounts mc iter downstream outbound"

definition toUint16Slice :: "int list \<Rightarrow> uint16 list" where
  "toUint16Slice ports = map to_uint16 ports"

fun tcpRouteMatchesLoop :: "SmiClient \<Rightarrow> string \<Rightarrow> TrafficTargetRule list \<Rightarrow> CatalogError + TCPRouteMatch list" where
  "tcpRouteMatchesLoop c ns [] = Inr []"
| "tcpRouteMatchesLoop c ns (rule # rules) =
     (if ttu_Kind rule \<noteq> TCPRouteKind then tcpRouteMatchesLoop c ns rules
      else case GetTCPRoute c (ns @ ''/'' @ ttu_Name rule) of
        None \<Rightarrow> Inl ErrNoTrafficSpecFoundForTrafficPolicy
      | Some tcpRoute \<Rightarrow>
          (case tcpRouteMatchesLoop c ns rules of
             Inl err \<Rightarrow> Inl err
           | Inr matches \<Rightarrow> Inr (\<lparr>trm_Ports = toUint16Slice (tcr_Ports tcpRoute)\<rparr> # matches)))"

definition getTCPRouteMatchesFromTrafficTarget :: "MeshCatalog \<Rightarrow> TrafficTarget \<Rightarrow> CatalogError + TCPRouteMatch list" where
  "getTCPRouteMatchesFromTrafficTarget mc trafficTarget =
     tcpRouteMatchesLoop (mc_meshSpec mc) (om_Namespace (tt_Meta trafficTarget)) (tt_Rules trafficTarget)"

text \<open>A traffic target whose TCP routes cannot be found is logged and left out; no error is returned.\<close>

definition ListInboundTrafficTargetsWithRoutes :: "MeshCatalog \<Rightarrow> ServiceIdentity \<Rightarrow> TrafficTargetWithRoutes list" where
  "ListInboundTrafficTargetsWithRoutes mc upstream =
     (if permissive mc then []
      else List.map_filter
        (\<lambda>t. if ToServiceIdentity (trafficTargetIdentityToSvcAccount (tt_Destination t)) \<noteq> upstream then None
          else case getTCPRouteMatchesFromTrafficTarget mc t of
            Inl err \<Rightarrow> None
          | Inr tcpRouteMatches \<Rightarrow>
              Some \<lparr>ttr_Name = om_Namespace (tt_Meta t) @ ''/'' @ om_Name (tt_Meta t),
                ttr_Destination = trafficTargetIdentityToServiceIdentity (tt_Destination t),
                ttr_Sources = map trafficTargetIdentityToServiceIdentity (tt_Sources t),
                ttr_TCPRouteMatches = tcpRouteMatches\<rparr>)
        (ListTrafficTargets (mc_meshSpec mc) []))"


section \<open>Endpoints (endpoint.go)\<close>

definition listEndpointsForService :: "MeshCatalog \<Rightarrow> MeshService \<Rightarrow> Endpoint list" where
  "listEndpointsForService mc svc =
     concat (map (\<lambda>provider. epp_ListEndpointsForService provider svc) (mc_endpointsProviders mc))"

definition getDNSResolvableServiceEndpoints :: "MeshCatalog \<Rightarrow> MeshService \<Rightarrow> Endpoint list" where
  "getDNSResolvableServiceEndpoints mc svc =
     concat (map (\<lambda>provider. epp_GetResolvableEndpointsForService provider svc) (mc_endpointsProviders mc))"

definition listEndpointsForServiceIdentity :: "MeshCatalog \<Rightarrow> ServiceIdentity \<Rightarrow> Endpoint list option" where
  "listEndpointsForServiceIdentity mc serviceIdentity =
     concat_opt (\<lambda>provider. epp_ListEndpointsForIdentity provider serviceIdentity) (mc_endpointsProviders mc)"

definition endpointsByIP :: "Endpoint list \<Rightarrow> (string, Endpoint list) gomap" where
  "endpointsByIP eps = fold (\<lambda>ep m. gm_append m (IP_String (ep_IP ep)) [ep]) eps []"

definition ListAllowedUpstreamEndpointsForService ::
  "MeshCatalog \<Rightarrow> (K8sServiceAccount list \<Rightarrow> K8sServiceAccount list) \<Rightarrow> ServiceIdentity \<Rightarrow> MeshService \<Rightarrow>
     Endpoint list option" where
  "ListAllowedUpstreamEndpointsForService mc iter downstreamIdentity upstreamSvc =
     (let outboundEndpoints = listEndpointsForService mc upstreamSvc in
      if length outboundEndpoints = 0 then Some []
      else if permissive mc then Some outboundEndpoints
      else
        let outboundEndpointsSet = endpointsByIP outboundEndpoints in
        do {
          identities \<leftarrow> ListOutboundServiceIdentities mc iter downstreamIdentity;
          concat_opt
            (\<lambda>destSvcIdentity. map_option
               (\<lambda>eps. concat (map (\<lambda>ep. gm_slice outboundEndpointsSet (IP_String (ep_IP ep))) eps))
               (listEndpointsForServiceIdentity mc destSvcIdentity))
            identities
        })"


section \<open>Retry policies (retry.go)\<close>

definition GetRetryPolicy :: "MeshCatalog \<Rightarrow> ServiceIdentity \<Rightarrow> MeshService \<Rightarrow> RetryPolicySpec option option" where
  "GetRetryPolicy mc downstreamIdentity upstreamSvc =
     (if \<not> ff_EnableRetryPolicy (featureFlags mc) then Some None
      else do {
        src \<leftarrow> ToK8sServiceAccount downstreamIdentity;
        Some (map_option (\<lambda>(retryCRD, dest). rts_RetryPolicy (rt_Spec retryCRD))
          (find (\<lambda>(retryCRD, dest). \<not> (rsd_Kind dest \<noteq> ''Service'') \<and>
               SiblingTo upstreamSvc (zero_MeshService\<lparr>ms_Name := rsd_Name dest, ms_Namespace := rsd_Namespace dest\<rparr>))
             [(retryCRD, dest). retryCRD \<leftarrow> ListRetryPolicies (mc_policyController mc) src,
                dest \<leftarrow> rts_Destinations (rt_Spec retryCRD)]))
      })"



section \<open>Plugins (plugin.go)\<close>

definition GetPlugins :: "MeshCatalog \<Rightarrow> Plugin list" where
  "GetPlugins mc =
     (if \<not> ff_EnablePluginPolicy (featureFlags mc) then []
      else map (\<lambda>plugin. \<lparr>plg_Name = om_Name (pl_Meta plugin),
            plg_Priority = (case pls_Priority (pl_Spec plugin) of Some p \<Rightarrow> p | None \<Rightarrow> 0),
            plg_Script = pls_Script (pl_Spec plugin), plg_BuildIn = False\<rparr>)
         (plugin_GetPlugins (mc_pluginController mc)))"

definition GetPluginConfigs :: "MeshCatalog \<Rightarrow> PluginConfig list" where
  "GetPluginConfigs mc =
     (if \<not> ff_EnablePluginPolicy (featureFlags mc) then []
      else map (\<lambda>pluginConfig. \<lparr>plcf_Spec = pcr_Spec pluginConfig, plcf_Name = om_Name (pcr_Meta pluginConfig),
            plcf_Namespace = om_Namespace (pcr_Meta pluginConfig)\<rparr>)
         (plugin_GetPluginConfigs (mc_pluginController mc)))"

definition GetPluginChains :: "MeshCatalog \<Rightarrow> PluginChain list" where
  "GetPluginChains mc =
     (if \<not> ff_EnablePluginPolicy (featureFlags mc) then []
      else map (\<lambda>pluginChain. \<lparr>plch_Spec = pc_Spec pluginChain, plch_Name = om_Name (pc_Meta pluginChain),
            plch_Namespace = om_Namespace (pc_Meta pluginChain)\<rparr>)
         (plugin_GetPluginChains (mc_pluginController mc)))"


section \<open>Lemmas\<close>

text \<open>An identity with a single dot is the identity of one service account only.\<close>

lemma ToServiceIdentity_plain_inject:
  assumes "sa_plain sb"
  shows "ToServiceIdentity sa = ToServiceIdentity sb \<longleftrightarrow> sa = sb"
proof
  assume eq: "ToServiceIdentity sa = ToServiceIdentity sb"
  have n: "count_list (ToServiceIdentity s) CHR ''.'' =
      Suc (count_list (sa_Name s) CHR ''.'' + count_list (sa_Namespace s) CHR ''.'')" for s
    by (simp add: ToServiceIdentity_def New_def count_list_append)
  from assms have "count_list (sa_Name sb) CHR ''.'' + count_list (sa_Namespace sb) CHR ''.'' = 0"
    by (simp add: sa_plain_def count_list_0_iff)
  with eq n [of sa] n [of sb] have "sa_plain sa"
    by (simp add: sa_plain_def count_list_0_iff)
  with eq assms show "sa = sb" by (simp add: ToServiceIdentity_inject)
qed simp

text \<open>What a traffic target promises: the source may call the destination.\<close>

definition target_allows :: "TrafficTarget \<Rightarrow> K8sServiceAccount \<Rightarrow> K8sServiceAccount \<Rightarrow> bool" where
  "target_allows t src dst \<longleftrightarrow>
     ibj_Kind (tt_Destination t) = ServiceAccountKind \<and>
     trafficTargetIdentityToSvcAccount (tt_Destination t) = dst \<and>
     (\<exists>source \<in> set (tt_Sources t). ibj_Kind source = ServiceAccountKind \<and>
        trafficTargetIdentityToSvcAccount source = src)"

lemma subject_account_eq:
  "trafficTargetIdentityToSvcAccount i = sa \<longleftrightarrow> ibj_Name i = sa_Name sa \<and> ibj_Namespace i = sa_Namespace sa"
  by (cases sa) (auto simp: trafficTargetIdentityToSvcAccount_def)

lemma directionalAccounts_mem:
  "x \<in> set (directionalAccounts inbound sa t) \<longleftrightarrow> target_allows t x sa"
  "x \<in> set (directionalAccounts outbound sa t) \<longleftrightarrow> target_allows t sa x"
  unfolding directionalAccounts_def target_allows_def Let_def subject_account_eq [of _ sa]
  by (simp_all add: image_iff) blast+

lemma fold_set_adds_mem:
  "x \<in> set (fold (\<lambda>t. set_adds (f t)) ts out) \<longleftrightarrow> x \<in> set out \<or> (\<exists>t \<in> set ts. x \<in> set (f t))"
  by (induction ts arbitrary: out) auto

lemma directional_identities:
  assumes "\<forall>xs. set (iter xs) = set xs" and "sa_plain sa" and "sa_plain sb"
  shows "\<exists>ids. getAllowedDirectionalServiceAccounts mc iter (ToServiceIdentity sa) direction = Some ids \<and>
    (ToServiceIdentity sb \<in> set ids \<longleftrightarrow>
      (\<exists>t \<in> set (ListTrafficTargets (mc_meshSpec mc) []). sb \<in> set (directionalAccounts direction sa t)))"
proof -
  let ?allowed = "fold (\<lambda>t. set_adds (directionalAccounts direction sa t)) (ListTrafficTargets (mc_meshSpec mc) []) []"
  have "ToServiceIdentity sb \<in> ToServiceIdentity ` X \<longleftrightarrow> sb \<in> X" for X
    using ToServiceIdentity_plain_inject [OF assms(3)] by (metis (no_types, lifting) image_iff)
  then have "ToServiceIdentity sb \<in> set (map ToServiceIdentity (iter ?allowed)) \<longleftrightarrow> sb \<in> set ?allowed"
    using assms(1) by simp
  also have "\<dots> \<longleftrightarrow> (\<exists>t \<in> set (ListTrafficTargets (mc_meshSpec mc) []). sb \<in> set (directionalAccounts direction sa t))"
    by (simp add: fold_set_adds_mem)
  finally show ?thesis
    by (simp add: getAllowedDirectionalServiceAccounts_def ToK8sServiceAccount_inverse [OF assms(2)])
qed

lemma endpointsByIP_slice:
  "gm_slice (fold (\<lambda>ep m. gm_append m (IP_String (ep_IP ep)) [ep]) eps m) k =
   gm_slice m k @ filter (\<lambda>ep. IP_String (ep_IP ep) = k) eps"
  by (induction eps arbitrary: m) (auto simp: gm_slice_append)

lemma gm_slice_endpointsByIP [simp]:
  "gm_slice (endpointsByIP eps) k = filter (\<lambda>ep. IP_String (ep_IP ep) = k) eps"
  by (simp add: endpointsByIP_def endpointsByIP_slice)


lemma allowed_endpoints_iff:
  assumes "\<not> permissive mc" and "ListAllowedUpstreamEndpointsForService mc iter downstream svc = Some eps"
    and "ListOutboundServiceIdentities mc iter downstream = Some ids"
  shows "ep \<in> set eps \<longleftrightarrow> ep \<in> set (listEndpointsForService mc svc) \<and>
    (\<exists>i \<in> set ids. \<exists>l. listEndpointsForServiceIdentity mc i = Some l \<and>
       (\<exists>ep' \<in> set l. IP_String (ep_IP ep') = IP_String (ep_IP ep)))"
proof (cases "listEndpointsForService mc svc = []")
  case False
  let ?f = "\<lambda>i. map_option (\<lambda>eps'. concat (map (\<lambda>ep. gm_slice (endpointsByIP (listEndpointsForService mc svc))
    (IP_String (ep_IP ep))) eps')) (listEndpointsForServiceIdentity mc i)"
  from assms False have "concat_opt ?f ids = Some eps"
    by (simp add: ListAllowedUpstreamEndpointsForService_def Let_def)
  from concat_opt_mem [OF this, of ep] have "ep \<in> set eps \<longleftrightarrow> (\<exists>i \<in> set ids. \<exists>l. ?f i = Some l \<and> ep \<in> set l)" .
  moreover have "(\<exists>l. ?f i = Some l \<and> ep \<in> set l) \<longleftrightarrow> ep \<in> set (listEndpointsForService mc svc) \<and>
      (\<exists>l. listEndpointsForServiceIdentity mc i = Some l \<and> (\<exists>ep' \<in> set l. IP_String (ep_IP ep') = IP_String (ep_IP ep)))" for i
    by (cases "listEndpointsForServiceIdentity mc i") (auto, metis)
  ultimately show ?thesis by blast
qed (use assms in \<open>simp add: ListAllowedUpstreamEndpointsForService_def\<close>)


section \<open>Properties\<close>

text \<open>
  C8. Inbound and outbound identities are dual: an account is listed as an upstream of another
  exactly when the other is listed as its downstream, and exactly when a valid traffic target of a
  monitored namespace names the two as destination and source.
\<close>

theorem traffic_target_identities_dual:
  assumes "\<forall>xs. set (iter xs) = set xs" and "\<forall>xs. set (iter' xs) = set xs"
    and "sa_plain downstream" and "sa_plain upstream"
  shows "\<exists>ins outs.
    ListInboundServiceIdentities mc iter (ToServiceIdentity upstream) = Some ins \<and>
    ListOutboundServiceIdentities mc iter' (ToServiceIdentity downstream) = Some outs \<and>
    (ToServiceIdentity downstream \<in> set ins \<longleftrightarrow> ToServiceIdentity upstream \<in> set outs) \<and>
    (ToServiceIdentity upstream \<in> set outs \<longleftrightarrow>
      (\<exists>t \<in> set (cache_List (smi_TrafficTargets (mc_meshSpec mc))).
         IsMonitoredNamespace (smi_kubeController (mc_meshSpec mc)) (om_Namespace (tt_Meta t)) \<and>
         isValidTrafficTarget t \<and> target_allows t downstream upstream))"
proof -
  let ?targets = "set (ListTrafficTargets (mc_meshSpec mc) [])"
  obtain ins where ins: "ListInboundServiceIdentities mc iter (ToServiceIdentity upstream) = Some ins"
    "ToServiceIdentity downstream \<in> set ins \<longleftrightarrow> (\<exists>t \<in> ?targets. target_allows t downstream upstream)"
    using directional_identities [OF assms(1,4,3), of mc inbound]
    by (auto simp: ListInboundServiceIdentities_def directionalAccounts_mem)
  obtain outs where outs: "ListOutboundServiceIdentities mc iter' (ToServiceIdentity downstream) = Some outs"
    "ToServiceIdentity upstream \<in> set outs \<longleftrightarrow> (\<exists>t \<in> ?targets. target_allows t downstream upstream)"
    using directional_identities [OF assms(2,3,4), of mc outbound]
    by (auto simp: ListOutboundServiceIdentities_def directionalAccounts_mem)
  from ins outs show ?thesis
    by (intro exI [of _ ins] exI [of _ outs]) (auto simp: ListTrafficTargets_all)
qed

text \<open>The sample mesh: the account \<open>client.shop\<close> may reach \<open>sql.shop\<close> on any route of a group.\<close>

definition sample_target :: TrafficTarget where
  "sample_target =
     \<lparr>tt_Meta = sample_meta ''shop'' ''t'',
      tt_Destination = \<lparr>ibj_Kind = ''ServiceAccount'', ibj_Name = ''sql'', ibj_Namespace = ''shop''\<rparr>,
      tt_Sources = [\<lparr>ibj_Kind = ''ServiceAccount'', ibj_Name = ''client'', ibj_Namespace = ''shop''\<rparr>],
      tt_Rules = [\<lparr>ttu_Kind = ''HTTPRouteGroup'', ttu_Name = ''g'', ttu_Matches = [''get'']\<rparr>]\<rparr>"

definition sample_smi :: SmiClient where
  "sample_smi =
     \<lparr>smi_TrafficTargets = [(''shop/t'', sample_target)],
      smi_HTTPRouteGroups = [(''shop/g'', \<lparr>hrg_Meta = sample_meta ''shop'' ''g'',
         hrg_Matches = Some [\<lparr>hm_Name = ''get'', hm_PathRegex = ''/q'', hm_Methods = [''GET''], hm_Headers = None\<rparr>]\<rparr>)],
      smi_TCPRoutes = [], smi_TrafficSplits = [], smi_kubeController = sample_client\<rparr>"

definition sample_flags :: FeatureFlags where
  "sample_flags =
     \<lparr>ff_EnableWASMStats = False, ff_EnableEgressPolicy = True, ff_EnableSnapshotCacheMode = False,
      ff_EnableAsyncProxyServiceMapping = False, ff_EnableIngressBackendPolicy = True,
      ff_EnableAccessControlPolicy = True, ff_EnableAccessCertPolicy = False,
      ff_EnableSidecarActiveHealthChecks = False, ff_EnableRetryPolicy = True, ff_EnablePluginPolicy = False\<rparr>"

definition sample_catalog :: "bool \<Rightarrow> MeshCatalog" where
  "sample_catalog permissiveMode =
     \<lparr>mc_endpointsProviders = [kube_endpoint_provider sample_client],
      mc_serviceProviders = [kube_service_provider sample_client id],
      mc_meshSpec = sample_smi,
      mc_configurator = \<lparr>cfg_IsPermissiveTrafficPolicyMode = permissiveMode, cfg_IsEgressEnabled = False,
         cfg_GetFeatureFlags = sample_flags\<rparr>,
      mc_trustDomain = ''cluster.local'', mc_hostTrustDomain = ''cluster.local'',
      mc_kubeController = sample_client, mc_policyController = sample_policies,
      mc_pluginController = \<lparr>plc_Plugins = [], plc_PluginConfigs = [], plc_PluginChains = []\<rparr>,
      mc_multiclusterController = sample_multicluster\<rparr>"

lemma sample_targets: "ListTrafficTargets sample_smi [] = [sample_target]"
  by code_simp

theorem traffic_target_identities_dual_witness:
  "\<exists>ins. ListInboundServiceIdentities (sample_catalog False) rev ''sql.shop'' = Some ins \<and> ''client.shop'' \<in> set ins"
proof -
  let ?up = "\<lparr>sa_Namespace = ''shop'', sa_Name = ''sql''\<rparr>"
  let ?down = "\<lparr>sa_Namespace = ''shop'', sa_Name = ''client''\<rparr>"
  have "ToServiceIdentity ?up = ''sql.shop''" "ToServiceIdentity ?down = ''client.shop''"
    "sa_plain ?up" "sa_plain ?down"
    by (simp_all add: sa_plain_def ToServiceIdentity_def New_def)
  moreover have "IsMonitoredNamespace sample_client ''shop''" "isValidTrafficTarget sample_target"
    "target_allows sample_target ?down ?up" "om_Namespace (tt_Meta sample_target) = ''shop''"
    by (code_simp, code_simp, simp add: target_allows_def sample_target_def ServiceAccountKind_def
        trafficTargetIdentityToSvcAccount_def, code_simp)
  ultimately show ?thesis
    using traffic_target_identities_dual [of rev id ?down ?up "sample_catalog False"]
    by (auto simp: sample_catalog_def sample_smi_def cache_List_def)
qed


text \<open>
  The addresses at which the two providers find the pods of an account: the Kubernetes provider among
  the monitored pods, the multi-cluster provider among the pods it makes up for imported services, which
  may run under any account.
\<close>

definition pod_has_address :: "Pod \<Rightarrow> string \<Rightarrow> bool" where
  "pod_has_address pod addr \<longleftrightarrow> (\<exists>ip \<in> set (parse_pod_ips (pod_PodIPs pod)). IP_String ip = addr)"

definition runs_at :: "KubeClient \<Rightarrow> MulticlusterClient \<Rightarrow> K8sServiceAccount \<Rightarrow> string \<Rightarrow> bool" where
  "runs_at kc mcc acct addr \<longleftrightarrow>
     (\<exists>pod \<in> set (ListPods kc). om_Namespace (pod_Meta pod) = sa_Namespace acct \<and>
        pod_ServiceAccountName pod = sa_Name acct \<and> pod_has_address pod addr) \<or>
     (\<exists>pod \<in> set (mcs_ListPods mcc). om_Namespace (pod_Meta pod) = sa_Namespace acct \<and>
        (pod_ServiceAccountName pod = sa_Name acct \<or> pod_ServiceAccountName pod = AnyServiceAccount) \<and>
        pod_has_address pod addr)"

lemma endpoints_of_pods:
  "(\<exists>ep. (\<exists>pod \<in> A. N pod \<and> M pod \<and> (\<exists>ip \<in> set (parse_pod_ips (pod_PodIPs pod)). ep = zero_Endpoint\<lparr>ep_IP := ip\<rparr>)) \<and>
      IP_String (ep_IP ep) = addr) \<longleftrightarrow>
   (\<exists>pod \<in> A. N pod \<and> M pod \<and> pod_has_address pod addr)" (is "?l \<longleftrightarrow> ?r")
proof
  assume ?l
  then obtain pod ip where "pod \<in> A" "N pod" "M pod" "ip \<in> set (parse_pod_ips (pod_PodIPs pod))" "IP_String ip = addr"
    by auto
  then show ?r unfolding pod_has_address_def by blast
next
  assume ?r
  then obtain pod ip where "pod \<in> A" "N pod" "M pod" "ip \<in> set (parse_pod_ips (pod_PodIPs pod))" "IP_String ip = addr"
    unfolding pod_has_address_def by blast
  moreover from this have "IP_String (ep_IP (zero_Endpoint\<lparr>ep_IP := ip\<rparr>)) = addr" by simp
  ultimately show ?l by blast
qed

lemma identity_endpoints_run:
  assumes "mc_endpointsProviders mc = [kube_endpoint_provider kc, fsm_endpoint_provider mcc]"
    and "sa_plain acct"
  shows "\<exists>l. listEndpointsForServiceIdentity mc (ToServiceIdentity acct) = Some l \<and>
    (\<forall>addr. (\<exists>ep \<in> set l. IP_String (ep_IP ep) = addr) \<longleftrightarrow> runs_at kc mcc acct addr)"
proof -
  note sa = ToK8sServiceAccount_inverse [OF assms(2)]
  obtain k f where k: "kube_ListEndpointsForIdentity kc (ToServiceIdentity acct) = Some k"
    and f: "fsm_ListEndpointsForIdentity mcc (ToServiceIdentity acct) = Some f"
    by (simp add: kube_ListEndpointsForIdentity_def fsm_ListEndpointsForIdentity_def sa)
  have "listEndpointsForServiceIdentity mc (ToServiceIdentity acct) = Some (k @ f)"
    using assms(1) k f
    by (simp add: listEndpointsForServiceIdentity_def kube_endpoint_provider_def fsm_endpoint_provider_def)
  moreover have "(\<exists>ep \<in> set k. IP_String (ep_IP ep) = addr) \<longleftrightarrow>
      (\<exists>pod \<in> set (ListPods kc). om_Namespace (pod_Meta pod) = sa_Namespace acct \<and>
        pod_ServiceAccountName pod = sa_Name acct \<and> pod_has_address pod addr)" for addr
    using endpoints_of_pods [where addr = addr] kube_identity_endpoints_iff [OF k sa] by (simp add: Bex_def)
  moreover have "(\<exists>ep \<in> set f. IP_String (ep_IP ep) = addr) \<longleftrightarrow>
      (\<exists>pod \<in> set (mcs_ListPods mcc). om_Namespace (pod_Meta pod) = sa_Namespace acct \<and>
        (pod_ServiceAccountName pod = sa_Name acct \<or> pod_ServiceAccountName pod = AnyServiceAccount) \<and>
        pod_has_address pod addr)" for addr
    using endpoints_of_pods [where addr = addr] fsm_identity_endpoints_iff [OF f sa] by (simp add: Bex_def)
  ultimately show ?thesis by (intro exI [of _ "k @ f"]) (simp only: runs_at_def set_append bex_Un simp_thms)
qed

text \<open>
  C6. The endpoints a client is given for an upstream service, with the two providers of the
  controller: the function returns, and it lists exactly the endpoints either provider has for the
  service, in SMI mode only those at whose address one of the providers finds a pod of an account that
  a valid traffic target lets the client call.
\<close>

theorem allowed_endpoints_authorized:
  assumes "mc_endpointsProviders mc = [kube_endpoint_provider kc, fsm_endpoint_provider mcc]"
    and "\<forall>xs. set (iter xs) = set xs" and "sa_plain downstream"
    and "\<forall>t \<in> set (ListTrafficTargets (mc_meshSpec mc) []). sa_plain (trafficTargetIdentityToSvcAccount (tt_Destination t))"
  shows "\<exists>eps. ListAllowedUpstreamEndpointsForService mc iter (ToServiceIdentity downstream) svc = Some eps \<and>
    (\<forall>ep. ep \<in> set eps \<longleftrightarrow>
       (ep \<in> set (kube_ListEndpointsForService kc svc) \<or> ep \<in> set (fsm_ListEndpointsForService mcc svc)) \<and>
       (permissive mc \<or>
        (\<exists>t \<in> set (ListTrafficTargets (mc_meshSpec mc) []). \<exists>upstream.
           target_allows t downstream upstream \<and> runs_at kc mcc upstream (IP_String (ep_IP ep)))))"
proof -
  let ?targets = "ListTrafficTargets (mc_meshSpec mc) []"
  let ?allowed = "fold (\<lambda>t. set_adds (directionalAccounts outbound downstream t)) ?targets []"
  let ?list = "ListAllowedUpstreamEndpointsForService mc iter (ToServiceIdentity downstream) svc"
  have ids: "ListOutboundServiceIdentities mc iter (ToServiceIdentity downstream) =
      Some (map ToServiceIdentity (iter ?allowed))"
    using assms(3) by (simp add: ListOutboundServiceIdentities_def getAllowedDirectionalServiceAccounts_def
        ToK8sServiceAccount_inverse)
  have svc: "ep \<in> set (listEndpointsForService mc svc) \<longleftrightarrow>
      ep \<in> set (kube_ListEndpointsForService kc svc) \<or> ep \<in> set (fsm_ListEndpointsForService mcc svc)" for ep
    using assms(1) by (simp add: listEndpointsForService_def kube_endpoint_provider_def fsm_endpoint_provider_def)
  have allowed: "acct \<in> set (iter ?allowed) \<longleftrightarrow> (\<exists>t \<in> set ?targets. target_allows t downstream acct)" for acct
    using assms(2) by (simp add: fold_set_adds_mem directionalAccounts_mem)
  have plain: "sa_plain acct" if "acct \<in> set (iter ?allowed)" for acct
    using that assms(4) unfolding allowed by (auto simp: target_allows_def)
  have runs: "(\<exists>l. listEndpointsForServiceIdentity mc (ToServiceIdentity acct) = Some l \<and>
      (\<exists>ep' \<in> set l. IP_String (ep_IP ep') = addr)) \<longleftrightarrow> runs_at kc mcc acct addr"
    if "acct \<in> set (iter ?allowed)" for acct addr
    using identity_endpoints_run [OF assms(1) plain [OF that]] by (elim exE conjE) simp
  have defined: "listEndpointsForServiceIdentity mc (ToServiceIdentity acct) \<noteq> None"
    if "acct \<in> set (iter ?allowed)" for acct
    using identity_endpoints_run [OF assms(1) plain [OF that]] by auto
  have "?list \<noteq> None"
    unfolding ListAllowedUpstreamEndpointsForService_def Let_def ids
    using defined by (simp del: not_None_eq add: concat_opt_None)
  then obtain eps where eps: "?list = Some eps" by blast
  show ?thesis
  proof (cases "permissive mc")
    case True
    with eps have "set eps = set (listEndpointsForService mc svc)"
      by (auto simp: ListAllowedUpstreamEndpointsForService_def Let_def split: if_splits)
    with eps True svc show ?thesis by simp
  next
    case False
    from allowed_endpoints_iff [OF False eps ids] runs
    have exact: "ep \<in> set eps \<longleftrightarrow> ep \<in> set (listEndpointsForService mc svc) \<and>
        (\<exists>acct \<in> set (iter ?allowed). runs_at kc mcc acct (IP_String (ep_IP ep)))" for ep by auto
    show ?thesis
    proof (intro exI conjI allI)
      show "?list = Some eps" by (rule eps)
      show "ep \<in> set eps \<longleftrightarrow>
          (ep \<in> set (kube_ListEndpointsForService kc svc) \<or> ep \<in> set (fsm_ListEndpointsForService mcc svc)) \<and>
          (permissive mc \<or> (\<exists>t \<in> set ?targets. \<exists>upstream.
             target_allows t downstream upstream \<and> runs_at kc mcc upstream (IP_String (ep_IP ep))))" for ep
        unfolding exact svc using False allowed by blast
    qed
  qed
qed

theorem allowed_endpoints_authorized_witness:
  "\<exists>eps. ListAllowedUpstreamEndpointsForService ((sample_catalog False)\<lparr>mc_endpointsProviders :=
       [kube_endpoint_provider sample_client, fsm_endpoint_provider sample_multicluster]\<rparr>) rev ''client.shop''
     (zero_MeshService\<lparr>ms_Namespace := ''shop'', ms_Name := ''db'', ms_TargetPort := 13306\<rparr>) = Some eps \<and>
     zero_Endpoint\<lparr>ep_IP := v4InV6Prefix @ [10, 0, 0, 7], ep_Port := 13306\<rparr> \<in> set eps"
proof -
  let ?mc = "(sample_catalog False)\<lparr>mc_endpointsProviders :=
    [kube_endpoint_provider sample_client, fsm_endpoint_provider sample_multicluster]\<rparr>"
  let ?svc = "zero_MeshService\<lparr>ms_Namespace := ''shop'', ms_Name := ''db'', ms_TargetPort := 13306\<rparr>"
  let ?down = "\<lparr>sa_Namespace = ''shop'', sa_Name = ''client''\<rparr>"
  let ?up = "\<lparr>sa_Namespace = ''shop'', sa_Name = ''sql''\<rparr>"
  let ?ep = "zero_Endpoint\<lparr>ep_IP := v4InV6Prefix @ [10, 0, 0, 7], ep_Port := 13306\<rparr>"
  have down: "ToServiceIdentity ?down = ''client.shop''" "sa_plain ?down"
    by (simp_all add: sa_plain_def ToServiceIdentity_def New_def)
  have targets: "ListTrafficTargets (mc_meshSpec ?mc) [] = [sample_target]"
    by (simp add: sample_targets sample_catalog_def)
  have plain: "sa_plain (trafficTargetIdentityToSvcAccount (tt_Destination sample_target))" by code_simp
  have "target_allows sample_target ?down ?up"
    by (simp add: target_allows_def sample_target_def ServiceAccountKind_def trafficTargetIdentityToSvcAccount_def)
  moreover have "ListPods sample_client = map snd (kc_Pods sample_client)" by code_simp
  then have "runs_at sample_client sample_multicluster ?up (IP_String (ep_IP ?ep))"
    by (simp add: runs_at_def pod_has_address_def sample_client_def sample_meta_def sample_ip)
  moreover have "?ep \<in> set (kube_ListEndpointsForService sample_client ?svc)" by (simp add: sample_endpoints)
  ultimately show ?thesis
    using allowed_endpoints_authorized [of ?mc sample_client sample_multicluster rev ?down ?svc] down plain targets
    by auto
qed

end
