(* ===== verification/Catalog_Inbound.thy ===== *)
theory Catalog_Inbound
  imports Catalog
begin

text \<open>
  Inbound traffic policies of the catalog (\<open>src/pkg/catalog/inbound_traffic_policies.go\<close>): which
  principals may reach an upstream service on which routes. The rules made from one traffic target
  are fresh, and \<open>MergeRules\<close> updates only rules of the list it returns, so the value model of
  \<open>MergeRules\<close> applies.
\<close>

section \<open>Routes of SMI route groups\<close>

definition getTrafficSpecName :: "string \<Rightarrow> string \<Rightarrow> string \<Rightarrow> TrafficSpecName" where
  "getTrafficSpecName trafficSpecKind trafficSpecNamespace trafficSpecName =
     trafficSpecKind @ ''/'' @ trafficSpecNamespace @ ''/'' @ trafficSpecName"

text \<open>A match of a route group; a missing path or a missing list of methods is a wildcard.\<close>

definition smiRouteMatch :: "HTTPMatch \<Rightarrow> HTTPRouteMatch" where
  "smiRouteMatch m =
     \<lparr>hrm_Path = (if hm_PathRegex m = '''' then RegexMatchAll else hm_PathRegex m),
      hrm_PathMatchType = PathMatchRegex,
      hrm_Methods = (if length (hm_Methods m) = 0 then [WildcardHTTPMethod] else hm_Methods m),
      hrm_Headers = hm_Headers m\<rparr>"

type_synonym route_table = "(TrafficSpecName, (TrafficSpecMatchName, HTTPRouteMatch) gomap) gomap"

definition getHTTPPathsPerRoute :: "MeshCatalog \<Rightarrow> route_table" where
  "getHTTPPathsPerRoute mc =
     fold (\<lambda>trafficSpecs routePolicies.
         case hrg_Matches trafficSpecs of
           None \<Rightarrow> routePolicies
         | Some matches \<Rightarrow>
             gm_put routePolicies
               (getTrafficSpecName HTTPRouteGroupKind (om_Namespace (hrg_Meta trafficSpecs)) (om_Name (hrg_Meta trafficSpecs)))
               (fold (\<lambda>m routes. gm_put routes (hm_Name m) (smiRouteMatch m)) matches []))
       (ListHTTPTrafficSpecs (mc_meshSpec mc)) []"

text \<open>Reading the inner map of an absent key reads a nil map: nothing is found.\<close>

definition route_lookup :: "route_table \<Rightarrow> TrafficSpecName \<Rightarrow> TrafficSpecMatchName \<Rightarrow> HTTPRouteMatch option" where
  "route_lookup table specName matchName =
     (case gm_get table specName of None \<Rightarrow> None | Some routes \<Rightarrow> gm_get routes matchName)"

definition routesFromRules :: "MeshCatalog \<Rightarrow> TrafficTargetRule list \<Rightarrow> string \<Rightarrow> HTTPRouteMatch list" where
  "routesFromRules mc rules trafficTargetNamespace =
     (let specMatchRoute = getHTTPPathsPerRoute mc in
      if length specMatchRoute = 0 then []
      else concat (map (\<lambda>rule. List.map_filter
          (route_lookup specMatchRoute (getTrafficSpecName HTTPRouteGroupKind trafficTargetNamespace (ttu_Name rule)))
          (ttu_Matches rule)) rules))"


section \<open>Inbound policies\<close>

definition localCluster :: "MeshService \<Rightarrow> WeightedCluster" where
  "localCluster svc = \<lparr>wc_ClusterName = SidecarLocalClusterName svc, wc_Weight = ClusterWeightAcceptAll\<rparr>"

definition getRoutingRulesFromTrafficTarget ::
  "MeshCatalog \<Rightarrow> TrafficTarget \<Rightarrow> WeightedCluster \<Rightarrow> UpstreamTrafficSetting option \<Rightarrow> Rule list" where
  "getRoutingRulesFromTrafficTarget mc trafficTarget routingCluster upstreamTrafficSetting =
     (let httpRouteMatches = routesFromRules mc (tt_Rules trafficTarget) (om_Namespace (tt_Meta trafficTarget));
          allowedDownstreamPrincipals =
            (\<lambda>source. K8sServiceAccount_AsPrincipal (trafficTargetIdentityToSvcAccount source) (GetTrustDomain mc)) `
              set (tt_Sources trafficTarget) in
      map (\<lambda>httpRouteMatch.
          \<lparr>rule_Route = NewRouteWeightedCluster httpRouteMatch [routingCluster] upstreamTrafficSetting,
           rule_AllowedPrincipals = allowedDownstreamPrincipals\<rparr>) httpRouteMatches)"

definition buildInboundHTTPPolicyFromTrafficTarget ::
  "MeshCatalog \<Rightarrow> MeshService \<Rightarrow> TrafficTarget list \<Rightarrow> UpstreamTrafficSetting option \<Rightarrow> InboundTrafficPolicy" where
  "buildInboundHTTPPolicyFromTrafficTarget mc upstreamSvc trafficTargets upstreamTrafficSetting =
     (let hostnames = GetHostnamesForService (mc_hostTrustDomain mc) upstreamSvc True;
          routingRules = fold (\<lambda>trafficTarget routingRules. MergeRules routingRules
             (getRoutingRulesFromTrafficTarget mc trafficTarget (localCluster upstreamSvc) upstreamTrafficSetting))
             trafficTargets [] in
      (NewInboundTrafficPolicy (FQDN upstreamSvc) hostnames upstreamTrafficSetting)\<lparr>itp_Rules := routingRules\<rparr>)"

definition getInboundTrafficPoliciesForUpstream ::
  "MeshCatalog \<Rightarrow> MeshService \<Rightarrow> bool \<Rightarrow> TrafficTarget list \<Rightarrow> UpstreamTrafficSetting option \<Rightarrow> InboundTrafficPolicy" where
  "getInboundTrafficPoliciesForUpstream mc upstreamSvc permissiveMode trafficTargets upstreamTrafficSetting =
     (if permissiveMode then
        (NewInboundTrafficPolicy (FQDN upstreamSvc)
           (GetHostnamesForService (mc_hostTrustDomain mc) upstreamSvc True) upstreamTrafficSetting)
        \<lparr>itp_Rules :=
           [\<lparr>rule_Route = NewRouteWeightedCluster WildCardRouteMatch [localCluster upstreamSvc] upstreamTrafficSetting,
             rule_AllowedPrincipals = {WildcardPrincipal}\<rparr>]\<rparr>
      else buildInboundHTTPPolicyFromTrafficTarget mc upstreamSvc trafficTargets upstreamTrafficSetting)"

text \<open>The apex services of the splits that have the service as a backend, with its ports.\<close>

definition apexServices :: "MeshCatalog \<Rightarrow> MeshService \<Rightarrow> MeshService list" where
  "apexServices mc svc =
     map (\<lambda>split.
         let svcName = GetServiceFromHostname (Some (mc_kubeController mc)) (ts_Service split);
             subdomain = GetSubdomainFromHostname (Some (mc_kubeController mc)) (ts_Service split) in
         \<lparr>ms_Namespace = ms_Namespace svc,
          ms_Name = (if subdomain \<noteq> '''' then subdomain @ ''.'' @ svcName else svcName),
          ms_Port = ms_Port svc, ms_TargetPort = ms_TargetPort svc, ms_Protocol = ms_Protocol svc,
          ms_ServiceImportUID = ''''\<rparr>)
       (ListTrafficSplits (mc_meshSpec mc) [WithTrafficSplitBackendService svc])"

definition getUpstreamServicesIncludeApex :: "MeshCatalog \<Rightarrow> MeshService list \<Rightarrow> MeshService list" where
  "getUpstreamServicesIncludeApex mc upstreamServices =
     fold (\<lambda>svc allServices. set_adds (svc # apexServices mc svc) allServices) upstreamServices []"

definition is_tcp_protocol :: "string \<Rightarrow> bool" where
  "is_tcp_protocol p \<longleftrightarrow> p = ProtocolTCP \<or> p = ProtocolTCPServerFirst"

text \<open>The body of the loop over the upstream services, on the policy under construction.\<close>

definition inboundServiceStep ::
  "MeshCatalog \<Rightarrow> TrafficTarget list \<Rightarrow> MeshService list \<Rightarrow> MeshService \<Rightarrow>
     InboundMeshTrafficPolicy \<Rightarrow> InboundMeshTrafficPolicy" where
  "inboundServiceStep mc trafficTargets upstreamServices upstreamSvc acc =
     (let clusterConfigForSvc =
            \<lparr>mcc_Name = SidecarLocalClusterName upstreamSvc, mcc_Service = upstreamSvc,
             mcc_Address = LocalhostIPAddress, mcc_Port = ucast (ms_TargetPort upstreamSvc),
             mcc_EnableSidecarActiveHealthChecks = False, mcc_UpstreamTrafficSetting = None\<rparr>;
          upstreamTrafficSetting = upstreamTrafficSettingFor mc upstreamSvc;
          trafficMatchForUpstreamSvc = zero_TrafficMatch
            \<lparr>tm_Name := InboundTrafficMatchName upstreamSvc,
             tm_DestinationPort := int (unat (ms_TargetPort upstreamSvc)),
             tm_DestinationProtocol := ms_Protocol upstreamSvc,
             tm_ServerNames := [ServerName upstreamSvc],
             tm_Cluster := SidecarLocalClusterName upstreamSvc,
             tm_RateLimit := (case upstreamTrafficSetting of None \<Rightarrow> None
                              | Some uts \<Rightarrow> uts_RateLimit (uts_Spec uts))\<rparr>;
          acc1 = acc\<lparr>imp_ClustersConfigs := imp_ClustersConfigs acc @ [clusterConfigForSvc],
             imp_TrafficMatches := imp_TrafficMatches acc @
               (if upstreamSvc \<in> set upstreamServices then [trafficMatchForUpstreamSvc] else [])\<rparr> in
      if is_tcp_protocol (ms_Protocol upstreamSvc) then acc1
      else acc1\<lparr>imp_HTTPRouteConfigsPerPort :=
             gm_append (imp_HTTPRouteConfigsPerPort acc) (int (unat (ms_TargetPort upstreamSvc)))
               [getInboundTrafficPoliciesForUpstream mc upstreamSvc (permissive mc) trafficTargets
                  upstreamTrafficSetting]\<rparr>)"

definition GetInboundMeshTrafficPolicy ::
  "MeshCatalog \<Rightarrow> ServiceIdentity \<Rightarrow> MeshService list \<Rightarrow> InboundMeshTrafficPolicy option" where
  "GetInboundMeshTrafficPolicy mc upstreamIdentity upstreamServices =
     do {
       trafficTargets \<leftarrow>
         (if permissive mc then Some []
          else do {
            sa \<leftarrow> ToK8sServiceAccount upstreamIdentity;
            Some (ListTrafficTargets (mc_meshSpec mc) [WithTrafficTargetDestination sa])
          });
       Some (fold (inboundServiceStep mc trafficTargets upstreamServices)
         (getUpstreamServicesIncludeApex mc upstreamServices)
         \<lparr>imp_TrafficMatches = [], imp_HTTPRouteConfigsPerPort = [], imp_ClustersConfigs = []\<rparr>)
     }"



section \<open>Lemmas\<close>

lemma gm_get_fold_put_opt:
  "gm_get (fold (\<lambda>x m. case f x of None \<Rightarrow> m | Some y \<Rightarrow> gm_put m (k x) (g y)) xs m) key =
     (case find (\<lambda>x. f x \<noteq> None \<and> k x = key) (rev xs) of Some x \<Rightarrow> map_option g (f x) | None \<Rightarrow> gm_get m key)"
proof (induction xs rule: rev_induct)
  case (snoc x xs)
  then show ?case by (cases "f x"; cases "k x = key") (auto simp: gm_get_put)
qed simp

text \<open>The route a rule of a traffic target stands for, looked up in the cache of route groups.\<close>

definition smi_route :: "SmiClient \<Rightarrow> string \<Rightarrow> string \<Rightarrow> string \<Rightarrow> HTTPRouteMatch option" where
  "smi_route c ns groupName matchName =
     (case GetHTTPRouteGroup c (ns @ ''/'' @ groupName) of
        None \<Rightarrow> None
      | Some g \<Rightarrow>
          (case hrg_Matches g of
             None \<Rightarrow> None
           | Some ms \<Rightarrow> map_option smiRouteMatch (find (\<lambda>m. hm_Name m = matchName) (rev ms))))"

definition route_groups_wf :: "SmiClient \<Rightarrow> bool" where
  "route_groups_wf c \<longleftrightarrow> cache_wf hrg_Meta (smi_HTTPRouteGroups c) \<and>
     (\<forall>g \<in> set (cache_List (smi_HTTPRouteGroups c)). om_Namespace (hrg_Meta g) \<noteq> '''')"

lemma GetHTTPRouteGroup_iff:
  assumes "route_groups_wf c"
  shows "GetHTTPRouteGroup c k = Some g \<longleftrightarrow> g \<in> set (ListHTTPTrafficSpecs c) \<and> meta_key (hrg_Meta g) = k"
proof -
  have wf: "cache_wf hrg_Meta (smi_HTTPRouteGroups c)" using assms by (simp add: route_groups_wf_def)
  have "cache_GetByKey (smi_HTTPRouteGroups c) k = Some g \<longleftrightarrow>
      g \<in> set (cache_List (smi_HTTPRouteGroups c)) \<and> meta_key (hrg_Meta g) = k"
  proof
    assume *: "cache_GetByKey (smi_HTTPRouteGroups c) k = Some g"
    then have "(k, g) \<in> set (smi_HTTPRouteGroups c)"
      using wf by (simp add: cache_wf_def cache_GetByKey_def gm_get_in)
    with wf have "k = meta_key (hrg_Meta g)" by (auto simp: cache_wf_def)
    with * cache_List_GetByKey [OF wf] show "g \<in> set (cache_List (smi_HTTPRouteGroups c)) \<and> meta_key (hrg_Meta g) = k"
      by simp
  qed (use cache_List_GetByKey [OF wf] in auto)
  then show ?thesis
    by (auto simp: GetHTTPRouteGroup_def ListHTTPTrafficSpecs_iff split: option.splits if_splits)
qed

lemma table_route:
  assumes wf: "route_groups_wf (mc_meshSpec mc)"
  shows "route_lookup (getHTTPPathsPerRoute mc) (getTrafficSpecName HTTPRouteGroupKind ns groupName) matchName =
    smi_route (mc_meshSpec mc) ns groupName matchName"
proof -
  let ?c = "mc_meshSpec mc"
  let ?k = "ns @ ''/'' @ groupName"
  let ?name = "\<lambda>g. getTrafficSpecName HTTPRouteGroupKind (om_Namespace (hrg_Meta g)) (om_Name (hrg_Meta g))"
  let ?P = "\<lambda>g. hrg_Matches g \<noteq> None \<and> ?name g = getTrafficSpecName HTTPRouteGroupKind ns groupName"
  let ?routes = "\<lambda>ms. fold (\<lambda>m routes. gm_put routes (hm_Name m) (smiRouteMatch m)) ms []"
  have get: "gm_get (getHTTPPathsPerRoute mc) (getTrafficSpecName HTTPRouteGroupKind ns groupName) =
      (case find ?P (rev (ListHTTPTrafficSpecs ?c)) of Some g \<Rightarrow> map_option ?routes (hrg_Matches g) | None \<Rightarrow> None)"
    unfolding getHTTPPathsPerRoute_def gm_get_fold_put_opt gm_get_Nil by (rule refl)
  have key: "?name g = getTrafficSpecName HTTPRouteGroupKind ns groupName \<longleftrightarrow> meta_key (hrg_Meta g) = ?k"
    if "g \<in> set (ListHTTPTrafficSpecs ?c)" for g
    using that wf by (auto simp: route_groups_wf_def ListHTTPTrafficSpecs_iff meta_key_def getTrafficSpecName_def)
  show ?thesis
  proof (cases "GetHTTPRouteGroup ?c ?k")
    case None
    then have "find ?P (rev (ListHTTPTrafficSpecs ?c)) = None"
      using GetHTTPRouteGroup_iff [OF wf, of ?k] key by (auto simp: find_None_iff)
    with get None show ?thesis by (simp add: route_lookup_def smi_route_def)
  next
    case (Some g)
    have g: "g \<in> set (ListHTTPTrafficSpecs ?c)" "meta_key (hrg_Meta g) = ?k"
      using Some GetHTTPRouteGroup_iff [OF wf] by auto
    have uniq: "y = g" if "y \<in> set (ListHTTPTrafficSpecs ?c)" "?P y" for y
      using that key [of y] GetHTTPRouteGroup_iff [OF wf, of ?k y] Some by simp
    show ?thesis
    proof (cases "hrg_Matches g")
      case None
      then have "find ?P (rev (ListHTTPTrafficSpecs ?c)) = None"
        using uniq by (fastforce simp: find_None_iff)
      with get None Some show ?thesis by (simp add: route_lookup_def smi_route_def)
    next
      case (Some ms)
      have "find ?P (rev (ListHTTPTrafficSpecs ?c)) = Some g"
        using g key [OF g(1)] Some by (intro find_unique uniq) simp_all
      with get Some \<open>GetHTTPRouteGroup ?c ?k = Some g\<close> show ?thesis
        by (simp add: route_lookup_def smi_route_def gm_get_fold_put split: option.splits)
    qed
  qed
qed


lemma routesFromRules_mem:
  assumes "route_groups_wf (mc_meshSpec mc)"
  shows "m \<in> set (routesFromRules mc rules ns) \<longleftrightarrow>
    (\<exists>rule \<in> set rules. \<exists>matchName \<in> set (ttu_Matches rule).
       smi_route (mc_meshSpec mc) ns (ttu_Name rule) matchName = Some m)"
proof (cases "getHTTPPathsPerRoute mc = []")
  case True
  then have "smi_route (mc_meshSpec mc) ns g n = None" for g n
    using table_route [OF assms, of ns g n] by (simp add: route_lookup_def)
  with True show ?thesis by (simp add: routesFromRules_def)
next
  case False
  then show ?thesis
    by (simp add: routesFromRules_def Let_def set_map_filter table_route [OF assms])
qed

text \<open>What one traffic target grants: its routes to the principals of its sources.\<close>

definition target_grants ::
  "MeshCatalog \<Rightarrow> MeshService \<Rightarrow> TrafficTarget \<Rightarrow> RouteWeightedClusters \<Rightarrow> string \<Rightarrow> bool" where
  "target_grants mc svc t route who \<longleftrightarrow>
     (\<exists>source \<in> set (tt_Sources t).
        who = AsPrincipal (New (ibj_Name source) (ibj_Namespace source)) (mc_trustDomain mc)) \<and>
     (\<exists>rule \<in> set (tt_Rules t). \<exists>matchName \<in> set (ttu_Matches rule). \<exists>m.
        smi_route (mc_meshSpec mc) (om_Namespace (tt_Meta t)) (ttu_Name rule) matchName = Some m \<and>
        route = NewRouteWeightedCluster m [localCluster svc] (upstreamTrafficSettingFor mc svc))"

lemma target_rules_allow:
  assumes "route_groups_wf (mc_meshSpec mc)"
  shows "allows (getRoutingRulesFromTrafficTarget mc t (localCluster svc) (upstreamTrafficSettingFor mc svc)) route who \<longleftrightarrow>
    target_grants mc svc t route who"
proof -
  let ?p = "\<lambda>source. AsPrincipal (New (ibj_Name source) (ibj_Namespace source)) (mc_trustDomain mc)"
  let ?R = "\<lambda>m. NewRouteWeightedCluster m [localCluster svc] (upstreamTrafficSettingFor mc svc)"
  have pr: "K8sServiceAccount_AsPrincipal (trafficTargetIdentityToSvcAccount source) (GetTrustDomain mc) = ?p source" for source
    by (simp add: K8sServiceAccount_AsPrincipal_def ToServiceIdentity_def trafficTargetIdentityToSvcAccount_def GetTrustDomain_def)
  have "allows (getRoutingRulesFromTrafficTarget mc t (localCluster svc) (upstreamTrafficSettingFor mc svc)) route who \<longleftrightarrow>
      who \<in> ?p ` set (tt_Sources t) \<and>
      (\<exists>m \<in> set (routesFromRules mc (tt_Rules t) (om_Namespace (tt_Meta t))). route = ?R m)"
    unfolding getRoutingRulesFromTrafficTarget_def Let_def pr grants_def by auto
  also have "\<dots> \<longleftrightarrow> target_grants mc svc t route who"
    unfolding target_grants_def Bex_def routesFromRules_mem [OF assms] image_iff by blast
  finally show ?thesis .
qed

definition inboundPolicy :: "MeshCatalog \<Rightarrow> TrafficTarget list \<Rightarrow> MeshService \<Rightarrow> InboundTrafficPolicy" where
  "inboundPolicy mc trafficTargets svc = getInboundTrafficPoliciesForUpstream mc svc (permissive mc) trafficTargets
     (upstreamTrafficSettingFor mc svc)"

lemma inboundPolicy_rules:
  assumes "\<not> permissive mc" and "route_groups_wf (mc_meshSpec mc)"
  shows "allows (itp_Rules (inboundPolicy mc ts svc)) route who \<longleftrightarrow> (\<exists>t \<in> set ts. target_grants mc svc t route who)"
    and "distinct (map rule_Route (itp_Rules (inboundPolicy mc ts svc)))"
proof -
  let ?rules = "\<lambda>t. getRoutingRulesFromTrafficTarget mc t (localCluster svc) (upstreamTrafficSettingFor mc svc)"
  have fold: "itp_Rules (inboundPolicy mc ts svc) = fold (\<lambda>rs acc. MergeRules acc rs) (map ?rules ts) []"
    using assms(1) by (simp add: inboundPolicy_def getInboundTrafficPoliciesForUpstream_def
        buildInboundHTTPPolicyFromTrafficTarget_def Let_def fold_map comp_def)
  show "allows (itp_Rules (inboundPolicy mc ts svc)) route who \<longleftrightarrow> (\<exists>t \<in> set ts. target_grants mc svc t route who)"
    unfolding fold fold_MergeRules_allows using target_rules_allow [OF assms(2)] by (simp add: grants_def)
  show "distinct (map rule_Route (itp_Rules (inboundPolicy mc ts svc)))"
    unfolding fold by (rule fold_MergeRules_distinct) simp
qed

lemma inboundPolicy_name:
  "itp_Name (inboundPolicy mc ts svc) = FQDN svc"
  "itp_Hostnames (inboundPolicy mc ts svc) = GetHostnamesForService (mc_hostTrustDomain mc) svc True"
  by (simp_all add: inboundPolicy_def getInboundTrafficPoliciesForUpstream_def
      buildInboundHTTPPolicyFromTrafficTarget_def NewInboundTrafficPolicy_def Let_def)

lemma inbound_fold:
  fixes mc ts svcs0
  defines "step \<equiv> inboundServiceStep mc ts svcs0"
  shows "gm_slice (imp_HTTPRouteConfigsPerPort (fold step svcs acc)) port =
      gm_slice (imp_HTTPRouteConfigsPerPort acc) port @
      map (inboundPolicy mc ts)
        (filter (\<lambda>svc. \<not> is_tcp_protocol (ms_Protocol svc) \<and> int (unat (ms_TargetPort svc)) = port) svcs)"
    and "map tm_Name (imp_TrafficMatches (fold step svcs acc)) =
      map tm_Name (imp_TrafficMatches acc) @ map InboundTrafficMatchName (filter (\<lambda>svc. svc \<in> set svcs0) svcs)"
    and "map mcc_Service (imp_ClustersConfigs (fold step svcs acc)) = map mcc_Service (imp_ClustersConfigs acc) @ svcs"
  unfolding step_def
  by (induction svcs arbitrary: acc)
    (auto simp: inboundServiceStep_def inboundPolicy_def Let_def gm_slice_append)

lemma fold_set_adds_distinct: "distinct out \<Longrightarrow> distinct (fold (\<lambda>x. set_adds (f x)) xs out)"
  by (induction xs arbitrary: out) (simp_all del: set_adds_simps)

lemma getUpstreamServicesIncludeApex_set:
  "set (getUpstreamServicesIncludeApex mc svcs) = set svcs \<union> (\<Union>svc \<in> set svcs. set (apexServices mc svc))"
  "distinct (getUpstreamServicesIncludeApex mc svcs)"
  unfolding getUpstreamServicesIncludeApex_def
  by (rule set_eqI, unfold fold_set_adds_mem, auto intro!: fold_set_adds_distinct simp del: set_adds_simps)


text \<open>Which policy a service gets, and whom it allows.\<close>

lemma inbound_service_policy:
  assumes "\<not> permissive mc" and "ToK8sServiceAccount upstream = Some sa"
    and "GetInboundMeshTrafficPolicy mc upstream services = Some pol"
    and "svc \<in> set services" and "\<not> is_tcp_protocol (ms_Protocol svc)"
  shows "inboundPolicy mc (ListTrafficTargets (mc_meshSpec mc) [WithTrafficTargetDestination sa]) svc \<in>
    set (gm_slice (imp_HTTPRouteConfigsPerPort pol) (int (unat (ms_TargetPort svc))))"
proof -
  from assms(1-3) have pol: "pol = fold
      (inboundServiceStep mc (ListTrafficTargets (mc_meshSpec mc) [WithTrafficTargetDestination sa]) services)
      (getUpstreamServicesIncludeApex mc services)
      \<lparr>imp_TrafficMatches = [], imp_HTTPRouteConfigsPerPort = [], imp_ClustersConfigs = []\<rparr>"
    by (simp add: GetInboundMeshTrafficPolicy_def)
  have "svc \<in> set (getUpstreamServicesIncludeApex mc services)"
    using assms(4) by (simp add: getUpstreamServicesIncludeApex_set)
  with assms(5) show ?thesis unfolding pol inbound_fold(1) by simp
qed

lemma inbound_service_allows:
  assumes "\<not> permissive mc" and "route_groups_wf (mc_meshSpec mc)" and "sa_Name sa \<noteq> ''''"
  shows "allows (itp_Rules (inboundPolicy mc (ListTrafficTargets (mc_meshSpec mc) [WithTrafficTargetDestination sa]) svc)) route who \<longleftrightarrow>
    (\<exists>t \<in> set (ListTrafficTargets (mc_meshSpec mc) []).
       trafficTargetIdentityToSvcAccount (tt_Destination t) = sa \<and> target_grants mc svc t route who)"
  unfolding inboundPolicy_rules(1) [OF assms(1,2)] Bex_def ListTrafficTargets_destination subject_account_eq
  using assms(3) by blast



section \<open>Properties\<close>

text \<open>
  C2. Authorization is exact: in SMI mode the inbound policy of an HTTP service of the upstream
  allows a principal on a route exactly when a valid traffic target of a monitored namespace has
  the upstream account as destination, a source with that principal, and a rule whose match is
  found in a route group of the target's own namespace. There is one rule per route.
\<close>

theorem inbound_authorization:
  assumes "\<not> permissive mc" and "route_groups_wf (mc_meshSpec mc)"
    and "ToK8sServiceAccount upstream = Some sa" and "sa_Name sa \<noteq> ''''"
    and "GetInboundMeshTrafficPolicy mc upstream services = Some pol"
    and "svc \<in> set services" and "\<not> is_tcp_protocol (ms_Protocol svc)"
  shows "\<exists>policy \<in> set (gm_slice (imp_HTTPRouteConfigsPerPort pol) (int (unat (ms_TargetPort svc)))).
    itp_Name policy = FQDN svc \<and> distinct (map rule_Route (itp_Rules policy)) \<and>
    (\<forall>route who. allows (itp_Rules policy) route who \<longleftrightarrow>
      (\<exists>t \<in> set (cache_List (smi_TrafficTargets (mc_meshSpec mc))).
         IsMonitoredNamespace (smi_kubeController (mc_meshSpec mc)) (om_Namespace (tt_Meta t)) \<and>
         isValidTrafficTarget t \<and> trafficTargetIdentityToSvcAccount (tt_Destination t) = sa \<and>
         target_grants mc svc t route who))"
proof -
  let ?ts = "ListTrafficTargets (mc_meshSpec mc) [WithTrafficTargetDestination sa]"
  have "allows (itp_Rules (inboundPolicy mc ?ts svc)) route who \<longleftrightarrow>
      (\<exists>t \<in> set (cache_List (smi_TrafficTargets (mc_meshSpec mc))).
         IsMonitoredNamespace (smi_kubeController (mc_meshSpec mc)) (om_Namespace (tt_Meta t)) \<and>
         isValidTrafficTarget t \<and> trafficTargetIdentityToSvcAccount (tt_Destination t) = sa \<and>
         target_grants mc svc t route who)" for route who
    unfolding inbound_service_allows [OF assms(1,2,4)] using ListTrafficTargets_all by blast
  with inbound_service_policy [OF assms(1,3,5-7)] inboundPolicy_rules(2) [OF assms(1,2)] inboundPolicy_name(1)
  show ?thesis by blast
qed

definition sample_http_service :: MeshService where
  "sample_http_service = zero_MeshService\<lparr>ms_Namespace := ''shop'', ms_Name := ''db'', ms_Port := 80,
     ms_TargetPort := 8080, ms_Protocol := ''http''\<rparr>"

lemma sample_route_groups_wf: "route_groups_wf sample_smi"
  by (simp add: route_groups_wf_def sample_smi_def cache_wf_def gm_wf_def cache_List_def meta_key_def sample_meta_def)

theorem inbound_authorization_witness:
  "\<exists>pol. GetInboundMeshTrafficPolicy (sample_catalog False) ''sql.shop'' [sample_http_service] = Some pol \<and>
     (\<exists>policy \<in> set (gm_slice (imp_HTTPRouteConfigsPerPort pol) 8080).
        (\<exists>route. allows (itp_Rules policy) route ''client.shop.cluster.local'') \<and>
        \<not> (\<exists>route. allows (itp_Rules policy) route ''other.shop.cluster.local''))"
proof -
  have tcp: "\<not> is_tcp_protocol (ms_Protocol sample_http_service)" "int (unat (ms_TargetPort sample_http_service)) = 8080"
    by (simp_all add: is_tcp_protocol_def sample_http_service_def protocol_defs)
  have sa: "ToK8sServiceAccount ''sql.shop'' = Some \<lparr>sa_Namespace = ''shop'', sa_Name = ''sql''\<rparr>" by code_simp
  then have "GetInboundMeshTrafficPolicy (sample_catalog False) ''sql.shop'' [sample_http_service] \<noteq> None"
    by (simp add: GetInboundMeshTrafficPolicy_def)
  then obtain pol where pol: "GetInboundMeshTrafficPolicy (sample_catalog False) ''sql.shop'' [sample_http_service] = Some pol"
    by blast
  have "smi_route sample_smi ''shop'' ''g'' ''get'' \<noteq> None" by code_simp
  then obtain m where m: "smi_route sample_smi ''shop'' ''g'' ''get'' = Some m" by blast
  have grants: "target_grants (sample_catalog False) sample_http_service sample_target
      (NewRouteWeightedCluster m [localCluster sample_http_service]
        (upstreamTrafficSettingFor (sample_catalog False) sample_http_service)) ''client.shop.cluster.local''"
    "\<not> target_grants (sample_catalog False) sample_http_service sample_target route ''other.shop.cluster.local''" for route
    using m by (simp_all add: target_grants_def sample_target_def sample_catalog_def sample_meta_def New_def
        AsPrincipal_def IsWildcard_def WildcardServiceIdentity_def)
  have t: "IsMonitoredNamespace sample_client ''shop''" "isValidTrafficTarget sample_target"
    "trafficTargetIdentityToSvcAccount (tt_Destination sample_target) = \<lparr>sa_Namespace = ''shop'', sa_Name = ''sql''\<rparr>"
    "om_Namespace (tt_Meta sample_target) = ''shop''"
    by code_simp+
  from inbound_authorization [OF _ _ sa _ pol _ tcp(1)] obtain policy where
    "policy \<in> set (gm_slice (imp_HTTPRouteConfigsPerPort pol) 8080)"
    "\<And>route who. allows (itp_Rules policy) route who \<longleftrightarrow>
       target_grants (sample_catalog False) sample_http_service sample_target route who"
    unfolding tcp(2) using t sample_route_groups_wf
    by (auto simp: sample_catalog_def sample_smi_def cache_List_def)
  with grants pol show ?thesis by blast
qed


text \<open>
  C18. The inbound policy covers each upstream service once: the clusters are those of the given
  services and of the apex services of the splits they back, without repetition; there is a traffic
  match for each given service and none for an apex service that is not given; every route
  configuration of a port belongs to one of these services, is for its target port and is not TCP.
\<close>

theorem inbound_policy_structure:
  assumes "GetInboundMeshTrafficPolicy mc upstream services = Some pol"
  shows "distinct (map mcc_Service (imp_ClustersConfigs pol)) \<and>
    mcc_Service ` set (imp_ClustersConfigs pol) = set services \<union> (\<Union>svc \<in> set services. set (apexServices mc svc)) \<and>
    map tm_Name (imp_TrafficMatches pol) =
      map InboundTrafficMatchName (filter (\<lambda>svc. svc \<in> set services) (map mcc_Service (imp_ClustersConfigs pol))) \<and>
    (\<forall>port. map itp_Name (gm_slice (imp_HTTPRouteConfigsPerPort pol) port) =
      map FQDN (filter (\<lambda>svc. \<not> is_tcp_protocol (ms_Protocol svc) \<and> int (unat (ms_TargetPort svc)) = port)
        (map mcc_Service (imp_ClustersConfigs pol))))"
proof -
  from assms obtain ts where "pol = fold (inboundServiceStep mc ts services)
      (getUpstreamServicesIncludeApex mc services)
      \<lparr>imp_TrafficMatches = [], imp_HTTPRouteConfigsPerPort = [], imp_ClustersConfigs = []\<rparr>"
    by (auto simp: GetInboundMeshTrafficPolicy_def split: Option.bind_splits)
  note fold = inbound_fold [of mc ts services "getUpstreamServicesIncludeApex mc services"
      "\<lparr>imp_TrafficMatches = [], imp_HTTPRouteConfigsPerPort = [], imp_ClustersConfigs = []\<rparr>", folded this]
  have all: "map mcc_Service (imp_ClustersConfigs pol) = getUpstreamServicesIncludeApex mc services"
    using fold(3) by simp
  then have "mcc_Service ` set (imp_ClustersConfigs pol) = set (getUpstreamServicesIncludeApex mc services)"
    by (metis set_map)
  with fold(1,2) all show ?thesis
    by (simp add: getUpstreamServicesIncludeApex_set inboundPolicy_name comp_def)
qed

theorem inbound_policy_structure_witness:
  "\<exists>pol. GetInboundMeshTrafficPolicy (sample_catalog True) ''sql.shop'' [sample_http_service, sample_http_service] = Some pol \<and>
     map itp_Name (gm_slice (imp_HTTPRouteConfigsPerPort pol) 8080) = [''db.shop.svc.cluster.local''] \<and>
     length (imp_TrafficMatches pol) = 1"
proof -
  have "GetInboundMeshTrafficPolicy (sample_catalog True) ''sql.shop'' [sample_http_service, sample_http_service] \<noteq> None"
    by (simp add: GetInboundMeshTrafficPolicy_def sample_catalog_def)
  then obtain pol where pol: "GetInboundMeshTrafficPolicy (sample_catalog True) ''sql.shop''
      [sample_http_service, sample_http_service] = Some pol" by blast
  note st = inbound_policy_structure [OF pol]
  have "apexServices (sample_catalog True) sample_http_service = []" by code_simp
  with st have d: "distinct (map mcc_Service (imp_ClustersConfigs pol))"
    "set (map mcc_Service (imp_ClustersConfigs pol)) = {sample_http_service}" by simp_all
  then have all: "map mcc_Service (imp_ClustersConfigs pol) = [sample_http_service]"
    by (metis distinct_card card.empty card.insert finite.emptyI empty_iff length_0_conv length_Suc_conv
        list.set_intros(1) One_nat_def singletonD)
  from st have "map tm_Name (imp_TrafficMatches pol) = [InboundTrafficMatchName sample_http_service]"
    "map itp_Name (gm_slice (imp_HTTPRouteConfigsPerPort pol) 8080) = [FQDN sample_http_service]"
    unfolding all by (simp_all add: sample_http_service_def is_tcp_protocol_def protocol_defs)
  moreover have "FQDN sample_http_service = ''db.shop.svc.cluster.local''" by code_simp
  ultimately show ?thesis using pol by (metis length_map One_nat_def length_Cons list.size(3))
qed

end
