(* ===== verification/Catalog_Egress.thy ===== *)
theory Catalog_Egress
  imports Catalog_Inbound
begin

text \<open>
  Egress policies of the catalog (\<open>src/pkg/catalog/egress.go\<close>) and egress gateways
  (\<open>egress_gateway.go\<close>). The hash of the deduplication (a third-party library) and the order in
  which its maps are drained are arguments.
\<close>

section \<open>Egress gateways\<close>

definition gatewayConfig :: "MeshCatalog \<Rightarrow> GatewayBindingSubject \<Rightarrow> EgressGatewayConfig option" where
  "gatewayConfig mc gateway =
     (let egressGatewayMeshSvc = zero_MeshService\<lparr>ms_Name := gbs_Service gateway, ms_Namespace := gbs_Namespace gateway\<rparr> in
      case GetService (mc_kubeController mc) egressGatewayMeshSvc of
        None \<Rightarrow> None
      | Some egressGatewaySvc \<Rightarrow>
          let mode = (case gm_get (om_Annotations (ks_Meta egressGatewaySvc)) EgressGatewayModeAnnotation of
                None \<Rightarrow> EgressGatewayModeHTTP2Tunnel
              | Some m \<Rightarrow> if EgressGatewayModeHTTP2Tunnel \<noteq> m \<and> EgressGatewayModeSock5 \<noteq> m
                         then EgressGatewayModeHTTP2Tunnel else m) in
          Some \<lparr>egc_Service = gbs_Service gateway, egc_Namespace = gbs_Namespace gateway, egc_Mode = mode,
             egc_Weight = gbs_Weight gateway, egc_Endpoints = listEndpointsForService mc egressGatewayMeshSvc\<rparr>)"

definition gatewayRule :: "MeshCatalog \<Rightarrow> EgressGateway \<Rightarrow> EgressPolicyGatewayRule \<Rightarrow> EgressGatewayRule" where
  "gatewayRule mc egressGateway rule =
     \<lparr>egr_Name = om_Name (egw_Meta egressGateway), egr_Namespace = om_Namespace (egw_Meta egressGateway),
      egr_EgressPolicies = map (\<lambda>egress. \<lparr>epc_Name = ebs_Name egress, epc_Namespace = ebs_Namespace egress\<rparr>)
        (epg_EgressPolicies rule),
      egr_EgressGateways = List.map_filter (gatewayConfig mc) (epg_EgressGateways rule)\<rparr>"

definition GetEgressGatewayPolicy :: "MeshCatalog \<Rightarrow> EgressGatewayPolicy option" where
  "GetEgressGatewayPolicy mc =
     (let egressGateways = ListEgressGateways (mc_policyController mc) in
      if length egressGateways > 0 then
        Some \<lparr>egp_Global = concat (map (\<lambda>egressGateway.
                case egw_GlobalEgressGateways (egw_Spec egressGateway) of
                  None \<Rightarrow> [] | Some globals \<Rightarrow> List.map_filter (gatewayConfig mc) globals) egressGateways),
              egp_Rules = concat (map (\<lambda>egressGateway.
                map (gatewayRule mc egressGateway) (egw_EgressPolicyGatewayRules (egw_Spec egressGateway))) egressGateways)\<rparr>
      else None)"

text \<open>The first gateway, with its index, one of whose rules binds the policy.\<close>

definition binds_egress :: "Egress \<Rightarrow> EgressPolicyGatewayRule \<Rightarrow> bool" where
  "binds_egress egressPolicy rule \<longleftrightarrow>
     list_ex (\<lambda>egress. equal_fold (ebs_Namespace egress) (om_Namespace (eg_Meta egressPolicy)) \<and>
        equal_fold (ebs_Name egress) (om_Name (eg_Meta egressPolicy))) (epg_EgressPolicies rule)"

definition getGatewayForEgress :: "MeshCatalog \<Rightarrow> Egress option \<Rightarrow> string option" where
  "getGatewayForEgress mc egressPolicy =
     (case egressPolicy of
        None \<Rightarrow> None
      | Some policy \<Rightarrow>
          let egressGateways = ListEgressGateways (mc_policyController mc) in
          if length egressGateways = 0 then None
          else
            case find (\<lambda>(idx, egressGateway).
                list_ex (binds_egress policy) (egw_EgressPolicyGatewayRules (egw_Spec egressGateway)))
              (enumerate 0 egressGateways) of
              Some (idx, egressGateway) \<Rightarrow>
                Some (om_Namespace (egw_Meta egressGateway) @ ''.'' @ om_Name (egw_Meta egressGateway) @ ''.'' @ itoa idx)
            | None \<Rightarrow>
                if list_ex (\<lambda>egressGateway. egw_GlobalEgressGateways (egw_Spec egressGateway) \<noteq> None) egressGateways
                then Some ''*'' else None)"


section \<open>Egress policies\<close>

definition upstreamTrafficSettingKind :: string where
  "upstreamTrafficSettingKind = ''UpstreamTrafficSetting''"

definition policy_SchemeGroupVersion :: string where
  "policy_SchemeGroupVersion = ''policy.openservicemesh.io/v1alpha1''"

text \<open>The group of the SMI route specifications is a constant of the SMI library.\<close>

definition smiSpecs_SchemeGroupVersion :: string where
  "smiSpecs_SchemeGroupVersion = ''specs.smi-spec.io/v1alpha4''"

datatype EgressError = ErrUpstreamTrafficSettingNotFound NamespacedName string string

definition getEgressSourceMTLS :: "Egress option \<Rightarrow> K8sServiceAccount \<Rightarrow> EgressSourceMTLSSpec option" where
  "getEgressSourceMTLS egressPolicy source =
     (case egressPolicy of
        None \<Rightarrow> None
      | Some policy \<Rightarrow>
          (case find (\<lambda>sourceSpec. ess_Name sourceSpec = sa_Name source \<and> ess_Namespace sourceSpec = sa_Namespace source)
             (egs_Sources (eg_Spec policy)) of
             None \<Rightarrow> None | Some sourceSpec \<Rightarrow> ess_MTLS sourceSpec))"

definition getUpstreamTrafficSettingForEgress ::
  "MeshCatalog \<Rightarrow> Egress option \<Rightarrow> EgressError + UpstreamTrafficSetting option" where
  "getUpstreamTrafficSettingForEgress mc egressPolicy =
     (case egressPolicy of
        None \<Rightarrow> Inr None
      | Some policy \<Rightarrow>
          (case find (\<lambda>m. ref_APIGroup m = Some policy_SchemeGroupVersion \<and> ref_Kind m = upstreamTrafficSettingKind)
             (egs_Matches (eg_Spec policy)) of
             None \<Rightarrow> Inr None
           | Some m \<Rightarrow>
               let namespacedName = \<lparr>nn_Namespace = om_Namespace (eg_Meta policy), nn_Name = ref_Name m\<rparr> in
               (case GetUpstreamTrafficSetting (mc_policyController mc)
                   \<lparr>uo_MeshService = None, uo_NamespacedName = Some namespacedName, uo_Host = ''''\<rparr> of
                  Some (Some uts) \<Rightarrow> Inr (Some uts)
                | _ \<Rightarrow> Inl (ErrUpstreamTrafficSettingNotFound namespacedName
                         (om_Namespace (eg_Meta policy)) (om_Name (eg_Meta policy))))))"

definition getHTTPRouteMatchesFromHTTPRouteGroup :: "HTTPRouteGroup option \<Rightarrow> HTTPRouteMatch list" where
  "getHTTPRouteMatchesFromHTTPRouteGroup httpRouteGroup =
     (case httpRouteGroup of
        None \<Rightarrow> []
      | Some g \<Rightarrow> (case hrg_Matches g of None \<Rightarrow> [] | Some ms \<Rightarrow> map smiRouteMatch ms))"

definition is_http_route_ref :: "TypedLocalObjectReference \<Rightarrow> bool" where
  "is_http_route_ref m \<longleftrightarrow> ref_APIGroup m = Some smiSpecs_SchemeGroupVersion \<and> ref_Kind m = HTTPRouteGroupKind"

definition egressRouteMatches :: "MeshCatalog \<Rightarrow> Egress \<Rightarrow> HTTPRouteMatch list" where
  "egressRouteMatches mc egressPolicy =
     (let refs = filter is_http_route_ref (egs_Matches (eg_Spec egressPolicy)) in
      concat (map (\<lambda>m. getHTTPRouteMatchesFromHTTPRouteGroup
         (GetHTTPRouteGroup (mc_meshSpec mc) (om_Namespace (eg_Meta egressPolicy) @ ''/'' @ ref_Name m))) refs) @
      (if refs = [] then [WildCardRouteMatch] else []))"

definition buildHTTPRouteConfigs ::
  "MeshCatalog \<Rightarrow> Egress option \<Rightarrow> int \<Rightarrow> UpstreamTrafficSetting option \<Rightarrow> EgressSourceMTLSSpec option \<Rightarrow>
     EgressHTTPRouteConfig list \<times> EgressClusterConfig list" where
  "buildHTTPRouteConfigs mc egressPolicy port upstreamTrafficSetting sourceMTLS =
     (case egressPolicy of
        None \<Rightarrow> ([], [])
      | Some policy \<Rightarrow>
          let allowedDestinationIPRanges =
                set_adds (filter (\<lambda>ipRange. ParseCIDR ipRange \<noteq> None) (egs_IPAddresses (eg_Spec policy))) [];
              httpRouteMatches = egressRouteMatches mc policy;
              hostnameWithPort = (\<lambda>host. host @ '':'' @ itoa_int port) in
          (map (\<lambda>host.
              \<lparr>ehc_Name = host, ehc_Hostnames = [host, hostnameWithPort host],
               ehc_RoutingRules = map (\<lambda>m.
                 \<lparr>ehr_Route =
                    \<lparr>rwc_HTTPRouteMatch = m,
                     rwc_WeightedClusters = {\<lparr>wc_ClusterName = hostnameWithPort host, wc_Weight = ClusterWeightAcceptAll\<rparr>},
                     rwc_RetryPolicy = None, rwc_RateLimit = None\<rparr>,
                  ehr_AllowedDestinationIPRanges = allowedDestinationIPRanges\<rparr>) httpRouteMatches\<rparr>)
             (egs_Hosts (eg_Spec policy)),
           map (\<lambda>host.
              \<lparr>ecc_Name = hostnameWithPort host, ecc_Host = host, ecc_Port = port,
               ecc_UpstreamTrafficSetting = upstreamTrafficSetting, ecc_SourceMTLS = sourceMTLS\<rparr>)
             (egs_Hosts (eg_Spec policy))))"


text \<open>The body of the loop over the ports of a policy, on the policy under construction.\<close>

definition egressPortStep ::
  "MeshCatalog \<Rightarrow> Egress \<Rightarrow> UpstreamTrafficSetting option \<Rightarrow> string option \<Rightarrow> EgressSourceMTLSSpec option \<Rightarrow>
     PortSpec \<Rightarrow> EgressTrafficPolicy \<Rightarrow> EgressTrafficPolicy" where
  "egressPortStep mc egress upstreamTrafficSetting egressGateway sourceMTLS portSpec acc =
     (let protocol = to_lower (ps_Protocol portSpec); n = ps_Number portSpec;
          portMatch = zero_TrafficMatch
            \<lparr>tm_Name := GetEgressTrafficMatchName n (ps_Protocol portSpec), tm_DestinationPort := n,
             tm_DestinationProtocol := ps_Protocol portSpec, tm_EgressGateWay := egressGateway\<rparr>;
          portCluster = \<lparr>ecc_Name = itoa_int n, ecc_Host = '''', ecc_Port = n,
             ecc_UpstreamTrafficSetting = upstreamTrafficSetting, ecc_SourceMTLS = sourceMTLS\<rparr> in
      if protocol = ProtocolHTTP then
        let (httpRouteConfigs, httpClusterConfigs) =
              buildHTTPRouteConfigs mc (Some egress) n upstreamTrafficSetting sourceMTLS in
        acc\<lparr>etp_HTTPRouteConfigsPerPort := gm_append (etp_HTTPRouteConfigsPerPort acc) n httpRouteConfigs,
            etp_ClustersConfigs := etp_ClustersConfigs acc @ httpClusterConfigs,
            etp_TrafficMatches := etp_TrafficMatches acc @ [portMatch]\<rparr>
      else if protocol = ProtocolTCP \<or> protocol = ProtocolTCPServerFirst then
        acc\<lparr>etp_ClustersConfigs := etp_ClustersConfigs acc @ [portCluster],
            etp_TrafficMatches := etp_TrafficMatches acc @
              [portMatch\<lparr>tm_DestinationIPRanges := egs_IPAddresses (eg_Spec egress), tm_Cluster := itoa_int n\<rparr>]\<rparr>
      else if protocol = ProtocolHTTPS then
        acc\<lparr>etp_ClustersConfigs := etp_ClustersConfigs acc @ [portCluster],
            etp_TrafficMatches := etp_TrafficMatches acc @
              [portMatch\<lparr>tm_DestinationIPRanges := egs_IPAddresses (eg_Spec egress),
                 tm_ServerNames := egs_Hosts (eg_Spec egress), tm_Cluster := itoa_int n\<rparr>]\<rparr>
      else acc)"

definition egressStep :: "MeshCatalog \<Rightarrow> K8sServiceAccount \<Rightarrow> Egress \<Rightarrow> EgressTrafficPolicy \<Rightarrow> EgressTrafficPolicy" where
  "egressStep mc sa egress acc =
     (case getUpstreamTrafficSettingForEgress mc (Some egress) of
        Inl err \<Rightarrow> acc
      | Inr upstreamTrafficSetting \<Rightarrow>
          fold (egressPortStep mc egress upstreamTrafficSetting (getGatewayForEgress mc (Some egress))
              (getEgressSourceMTLS (Some egress) sa))
            (egs_Ports (eg_Spec egress)) acc)"

type_synonym ('e, 'h) dedup_env =
  "((TrafficMatch \<Rightarrow> 'e + 'h) \<times> (('h \<times> TrafficMatch) list \<Rightarrow> ('h \<times> TrafficMatch) list)) \<times>
   ((EgressClusterConfig \<Rightarrow> 'e + 'h) \<times> (('h \<times> EgressClusterConfig) list \<Rightarrow> ('h \<times> EgressClusterConfig) list))"

definition GetEgressTrafficPolicy ::
  "('e, 'h) dedup_env \<Rightarrow> MeshCatalog \<Rightarrow> ServiceIdentity \<Rightarrow> ('e + EgressTrafficPolicy option) option" where
  "GetEgressTrafficPolicy env mc serviceIdentity =
     (if \<not> ff_EnableEgressPolicy (featureFlags mc) then Some (Inr None)
      else do {
        sa \<leftarrow> ToK8sServiceAccount serviceIdentity;
        let acc = fold (egressStep mc sa) (ListEgressPoliciesForSourceIdentity (mc_policyController mc) sa)
              \<lparr>etp_TrafficMatches = [], etp_HTTPRouteConfigsPerPort = [], etp_ClustersConfigs = []\<rparr>;
        Some (case env of ((hashT, iterT), (hashC, iterC)) \<Rightarrow>
          (case DeduplicateTrafficMatches hashT iterT (etp_TrafficMatches acc) of
             Inl err \<Rightarrow> Inl err
           | Inr trafficMatches \<Rightarrow>
               (case DeduplicateClusterConfigs hashC iterC (etp_ClustersConfigs acc) of
                  Inl err \<Rightarrow> Inl err
                | Inr clusterConfigs \<Rightarrow>
                    Inr (Some (acc\<lparr>etp_TrafficMatches := trafficMatches, etp_ClustersConfigs := clusterConfigs\<rparr>)))))
      })"



section \<open>Lemmas\<close>

definition egress_http_port :: "int \<Rightarrow> PortSpec \<Rightarrow> bool" where
  "egress_http_port port ps \<longleftrightarrow> to_lower (ps_Protocol ps) = ProtocolHTTP \<and> ps_Number ps = port"

lemma egressPortStep_routes:
  "gm_slice (etp_HTTPRouteConfigsPerPort (egressPortStep mc e uts gw mtls ps acc)) port =
   gm_slice (etp_HTTPRouteConfigsPerPort acc) port @
     (if egress_http_port port ps then fst (buildHTTPRouteConfigs mc (Some e) port uts mtls) else [])"
  by (simp add: egressPortStep_def Let_def egress_http_port_def gm_slice_append split: prod.splits)

lemma egressPorts_routes:
  "gm_slice (etp_HTTPRouteConfigsPerPort (fold (egressPortStep mc e uts gw mtls) pss acc)) port =
   gm_slice (etp_HTTPRouteConfigsPerPort acc) port @
     concat (map (\<lambda>ps. fst (buildHTTPRouteConfigs mc (Some e) port uts mtls)) (filter (egress_http_port port) pss))"
  by (induction pss arbitrary: acc) (simp_all add: egressPortStep_routes)

text \<open>What one egress policy contributes to a port.\<close>

definition egressRoutes :: "MeshCatalog \<Rightarrow> K8sServiceAccount \<Rightarrow> int \<Rightarrow> Egress \<Rightarrow> EgressHTTPRouteConfig list" where
  "egressRoutes mc sa port egress =
     (case getUpstreamTrafficSettingForEgress mc (Some egress) of
        Inl err \<Rightarrow> []
      | Inr uts \<Rightarrow> concat (map (\<lambda>ps. fst (buildHTTPRouteConfigs mc (Some egress) port uts (getEgressSourceMTLS (Some egress) sa)))
          (filter (egress_http_port port) (egs_Ports (eg_Spec egress)))))"

lemma egressStep_routes:
  "gm_slice (etp_HTTPRouteConfigsPerPort (egressStep mc sa e acc)) port =
   gm_slice (etp_HTTPRouteConfigsPerPort acc) port @ egressRoutes mc sa port e"
  by (simp add: egressStep_def egressRoutes_def egressPorts_routes split: sum.splits)

lemma egress_routes:
  "gm_slice (etp_HTTPRouteConfigsPerPort (fold (egressStep mc sa) es acc)) port =
   gm_slice (etp_HTTPRouteConfigsPerPort acc) port @ concat (map (egressRoutes mc sa port) es)"
  by (induction es arbitrary: acc) (simp_all add: egressStep_routes)

lemma GetEgressTrafficPolicy_routes:
  assumes "GetEgressTrafficPolicy env mc (ToServiceIdentity sa) = Some (Inr (Some pol))" and "sa_plain sa"
  shows "gm_slice (etp_HTTPRouteConfigsPerPort pol) port =
    concat (map (egressRoutes mc sa port) (ListEgressPoliciesForSourceIdentity (mc_policyController mc) sa))"
proof -
  let ?acc = "fold (egressStep mc sa) (ListEgressPoliciesForSourceIdentity (mc_policyController mc) sa)
              \<lparr>etp_TrafficMatches = [], etp_HTTPRouteConfigsPerPort = [], etp_ClustersConfigs = []\<rparr>"
  have "etp_HTTPRouteConfigsPerPort pol = etp_HTTPRouteConfigsPerPort ?acc"
    using assms by (auto simp: GetEgressTrafficPolicy_def ToK8sServiceAccount_inverse Let_def
        split: if_splits prod.splits sum.splits)
  then show ?thesis by (simp add: egress_routes)
qed

lemma ListEgressPolicies_mem:
  "e \<in> set (ListEgressPoliciesForSourceIdentity c sa) \<longleftrightarrow>
   e \<in> set (cache_List (pc_Egresses c)) \<and>
   IsMonitoredNamespace (pc_kubeController c) (om_Namespace (eg_Meta e)) \<and>
   (\<exists>s \<in> set (egs_Sources (eg_Spec e)). ess_Kind s = kindSvcAccount \<and> ess_Name s = sa_Name sa \<and>
      ess_Namespace s = sa_Namespace sa)"
  unfolding ListEgressPoliciesForSourceIdentity_def loop_mem by auto

lemma egressRoutes_mem:
  "c \<in> set (egressRoutes mc sa port e) \<longleftrightarrow>
   (\<exists>uts. getUpstreamTrafficSettingForEgress mc (Some e) = Inr uts \<and>
      list_ex (egress_http_port port) (egs_Ports (eg_Spec e)) \<and>
      c \<in> set (fst (buildHTTPRouteConfigs mc (Some e) port uts (getEgressSourceMTLS (Some e) sa))))"
  by (cases "getUpstreamTrafficSettingForEgress mc (Some e)") (auto simp: egressRoutes_def list_ex_iff)


section \<open>Properties\<close>

text \<open>
  C4. A sidecar may leave the mesh exactly by its own egress policies: a host is routed on a port
  for an identity exactly when an egress policy of a monitored namespace names the account among
  its sources, lists the port as an HTTP port and lists the host, and its reference to an upstream
  traffic setting, if any, is found. The routes of the host are those of the referenced route
  groups, or the wildcard route when none is referenced, all to the cluster of that host and port
  and restricted to the valid address ranges of the policy.
\<close>

theorem egress_hosts_exact:
  assumes "GetEgressTrafficPolicy env mc (ToServiceIdentity sa) = Some (Inr (Some pol))" and "sa_plain sa"
  shows "c \<in> set (gm_slice (etp_HTTPRouteConfigsPerPort pol) port) \<longleftrightarrow>
    (\<exists>e \<in> set (cache_List (pc_Egresses (mc_policyController mc))).
       IsMonitoredNamespace (pc_kubeController (mc_policyController mc)) (om_Namespace (eg_Meta e)) \<and>
       (\<exists>s \<in> set (egs_Sources (eg_Spec e)). ess_Kind s = kindSvcAccount \<and> ess_Name s = sa_Name sa \<and>
          ess_Namespace s = sa_Namespace sa) \<and>
       list_ex (egress_http_port port) (egs_Ports (eg_Spec e)) \<and>
       (\<exists>uts. getUpstreamTrafficSettingForEgress mc (Some e) = Inr uts) \<and>
       (\<exists>host \<in> set (egs_Hosts (eg_Spec e)).
          ehc_Name c = host \<and> ehc_Hostnames c = [host, host @ '':'' @ itoa_int port] \<and>
          map (\<lambda>r. rwc_HTTPRouteMatch (ehr_Route r)) (ehc_RoutingRules c) = egressRouteMatches mc e \<and>
          (\<forall>r \<in> set (ehc_RoutingRules c).
             r = \<lparr>ehr_Route = \<lparr>rwc_HTTPRouteMatch = rwc_HTTPRouteMatch (ehr_Route r),
                    rwc_WeightedClusters = {\<lparr>wc_ClusterName = host @ '':'' @ itoa_int port, wc_Weight = 100\<rparr>},
                    rwc_RetryPolicy = None, rwc_RateLimit = None\<rparr>,
                  ehr_AllowedDestinationIPRanges =
                    set_adds (filter (\<lambda>r. ParseCIDR r \<noteq> None) (egs_IPAddresses (eg_Spec e))) []\<rparr>)))"
proof -
  let ?route = "\<lambda>e host m. \<lparr>ehr_Route = \<lparr>rwc_HTTPRouteMatch = m,
                    rwc_WeightedClusters = {\<lparr>wc_ClusterName = host @ '':'' @ itoa_int port, wc_Weight = 100\<rparr>},
                    rwc_RetryPolicy = None, rwc_RateLimit = None\<rparr>,
                  ehr_AllowedDestinationIPRanges =
                    set_adds (filter (\<lambda>r. ParseCIDR r \<noteq> None) (egs_IPAddresses (eg_Spec e))) []\<rparr>"
  have cfg: "c \<in> set (fst (buildHTTPRouteConfigs mc (Some e) port uts mtls)) \<longleftrightarrow>
    (\<exists>host \<in> set (egs_Hosts (eg_Spec e)). ehc_Name c = host \<and> ehc_Hostnames c = [host, host @ '':'' @ itoa_int port] \<and>
       ehc_RoutingRules c = map (?route e host) (egressRouteMatches mc e))" for e uts mtls
    by (cases c) (auto simp: buildHTTPRouteConfigs_def Let_def ClusterWeightAcceptAll_def)
  have rules: "rs = map (?route e host) ms \<longleftrightarrow>
      map (\<lambda>r. rwc_HTTPRouteMatch (ehr_Route r)) rs = ms \<and>
      (\<forall>r \<in> set rs. r = ?route e host (rwc_HTTPRouteMatch (ehr_Route r)))" for rs ms e host
  proof
    assume *: "map (\<lambda>r. rwc_HTTPRouteMatch (ehr_Route r)) rs = ms \<and>
      (\<forall>r \<in> set rs. r = ?route e host (rwc_HTTPRouteMatch (ehr_Route r)))"
    then have "map (?route e host) ms = map (\<lambda>r. ?route e host (rwc_HTTPRouteMatch (ehr_Route r))) rs"
      by (auto simp: comp_def)
    also have "\<dots> = rs" using * by (intro map_idI) simp
    finally show "rs = map (?route e host) ms" by simp
  qed (auto simp: comp_def)
  have "c \<in> set (gm_slice (etp_HTTPRouteConfigsPerPort pol) port) \<longleftrightarrow>
      (\<exists>e. e \<in> set (ListEgressPoliciesForSourceIdentity (mc_policyController mc) sa) \<and> c \<in> set (egressRoutes mc sa port e))"
    unfolding GetEgressTrafficPolicy_routes [OF assms] by auto
  then show ?thesis
    unfolding egressRoutes_mem ListEgressPolicies_mem cfg rules Bex_def by blast
qed


definition sample_egress :: Egress where
  "sample_egress = \<lparr>eg_Meta = sample_meta ''shop'' ''e'', eg_Spec =
     \<lparr>egs_Sources = [\<lparr>ess_Kind = ''ServiceAccount'', ess_Name = ''client'', ess_Namespace = ''shop'', ess_MTLS = None\<rparr>],
      egs_Hosts = [''httpbin.org''], egs_IPAddresses = [],
      egs_Ports = [\<lparr>ps_Number = 80, ps_Protocol = ''http''\<rparr>], egs_Matches = []\<rparr>\<rparr>"

definition sample_egress_catalog :: "EgressGateway list \<Rightarrow> MeshCatalog" where
  "sample_egress_catalog gateways = (sample_catalog False)\<lparr>mc_policyController := sample_policies
     \<lparr>pc_Egresses := [(''shop/e'', sample_egress)],
      pc_EgressGateways := map (\<lambda>g. (meta_key (egw_Meta g), g)) gateways\<rparr>\<rparr>"

definition sample_env :: "(unit, TrafficMatch + EgressClusterConfig) dedup_env" where
  "sample_env = ((\<lambda>x. Inr (Inl x), id), (\<lambda>x. Inr (Inr x), id))"

lemma hash_into_no_error: "hash_into (\<lambda>x. Inr (h x)) xs m \<noteq> Inl e"
  by (induction xs arbitrary: m) auto

lemma Deduplicate_no_error:
  "DeduplicateTrafficMatches (\<lambda>x. Inr (h x)) iter ms \<noteq> Inl e"
  "DeduplicateClusterConfigs (\<lambda>x. Inr (h' x)) iter' cs \<noteq> Inl e"
  by (simp_all add: DeduplicateTrafficMatches_def DeduplicateClusterConfigs_def hash_into_no_error split: sum.splits)

lemma sample_egress_total:
  "\<exists>pol. GetEgressTrafficPolicy sample_env (sample_egress_catalog gs) ''client.shop'' = Some (Inr (Some pol))"
proof -
  have sa: "ToK8sServiceAccount ''client.shop'' = Some \<lparr>sa_Namespace = ''shop'', sa_Name = ''client''\<rparr>" by code_simp
  show ?thesis
    by (auto simp: GetEgressTrafficPolicy_def sa sample_env_def Deduplicate_no_error sample_egress_catalog_def sample_catalog_def
        sample_flags_def Let_def split: sum.splits)
qed

theorem egress_hosts_exact_witness:
  "\<exists>pol. GetEgressTrafficPolicy sample_env (sample_egress_catalog []) ''client.shop'' = Some (Inr (Some pol)) \<and>
     (\<exists>c \<in> set (gm_slice (etp_HTTPRouteConfigsPerPort pol) 80). ehc_Name c = ''httpbin.org'') \<and>
     gm_slice (etp_HTTPRouteConfigsPerPort pol) 8080 = []"
proof -
  let ?sa = "\<lparr>sa_Namespace = ''shop'', sa_Name = ''client''\<rparr>"
  have sa: "ToServiceIdentity ?sa = ''client.shop''" "sa_plain ?sa"
    by (simp_all add: sa_plain_def ToServiceIdentity_def New_def)
  obtain pol where pol: "GetEgressTrafficPolicy sample_env (sample_egress_catalog []) ''client.shop'' = Some (Inr (Some pol))"
    using sample_egress_total by blast
  note iff = egress_hosts_exact [of sample_env "sample_egress_catalog []" ?sa pol, unfolded sa(1), OF pol sa(2)]
  have port: "egress_http_port 80 \<lparr>ps_Number = 80, ps_Protocol = ''http''\<rparr>" by code_simp
  have mon: "IsMonitoredNamespace sample_client ''shop''" by code_simp
  have e: "cache_List (pc_Egresses (mc_policyController (sample_egress_catalog []))) = [sample_egress]"
    "pc_kubeController (mc_policyController (sample_egress_catalog [])) = sample_client"
    by (simp_all add: sample_egress_catalog_def cache_List_def sample_policies_def)
  let ?c = "hd (fst (buildHTTPRouteConfigs (sample_egress_catalog []) (Some sample_egress) 80 None None))"
  have "?c \<in> set (gm_slice (etp_HTTPRouteConfigsPerPort pol) 80)"
    unfolding iff e using port mon
    by (auto simp: sample_egress_def sample_meta_def kindSvcAccount_def buildHTTPRouteConfigs_def Let_def
        getUpstreamTrafficSettingForEgress_def ClusterWeightAcceptAll_def comp_def)
  moreover have "ehc_Name ?c = ''httpbin.org''"
    by (simp add: buildHTTPRouteConfigs_def sample_egress_def Let_def)
  moreover have "c \<notin> set (gm_slice (etp_HTTPRouteConfigsPerPort pol) 8080)" for c
    unfolding iff e by (simp add: sample_egress_def egress_http_port_def)
  then have "gm_slice (etp_HTTPRouteConfigsPerPort pol) 8080 = []" by (metis last_in_set)
  ultimately show ?thesis using pol by blast
qed

end
