(* ===== verification/Catalog_Outbound.thy ===== *)
theory Catalog_Outbound
  imports Catalog_Egress
begin

text \<open>
  Outbound traffic policies of the catalog (\<open>src/pkg/catalog/outbound_traffic_policies.go\<close>): the
  services a client may call, and how its traffic is spread over the clusters of a service or of
  the backends of a traffic split. The code ranges over a map of target ports and turns a set of
  addresses into a slice; both orders are arguments.
\<close>

section \<open>Services of an identity\<close>

text \<open>Each traffic target with a matching source contributes its destination's services once.\<close>

definition ListOutboundServicesForIdentity :: "MeshCatalog \<Rightarrow> ServiceIdentity \<Rightarrow> MeshService list option" where
  "ListOutboundServicesForIdentity mc serviceIdentity =
     (if permissive mc then Some (listMeshServices mc)
      else do {
        svcAccount \<leftarrow> ToK8sServiceAccount serviceIdentity;
        services \<leftarrow> those (map
          (\<lambda>t. getServicesForServiceIdentity mc
             (ToServiceIdentity \<lparr>sa_Namespace = ibj_Namespace (tt_Destination t), sa_Name = ibj_Name (tt_Destination t)\<rparr>))
          (filter (\<lambda>t. list_ex (\<lambda>source. \<not> (ibj_Name source \<noteq> sa_Name svcAccount \<or>
                 ibj_Namespace source \<noteq> sa_Namespace svcAccount)) (tt_Sources t))
             (ListTrafficTargets (mc_meshSpec mc) [])));
        Some (fold set_adds services [])
      })"


section \<open>Clusters and weights\<close>

text \<open>\<open>activeUpstreamClusters\<close>: the weight that is left is divided by the number of clusters left.\<close>

fun active_weights :: "int \<Rightarrow> ClusterName list \<Rightarrow> WeightedCluster list" where
  "active_weights totalWeight [] = []"
| "active_weights totalWeight (cn # cns) =
     (let weight = go_quot totalWeight (int (length (cn # cns))) in
      \<lparr>wc_ClusterName = cn, wc_Weight = weight\<rparr> # active_weights (totalWeight - weight) cns)"

definition activeUpstreamClusters ::
  "ClusterName list \<Rightarrow> TrafficSplitBackend \<Rightarrow> WeightedCluster list \<Rightarrow> WeightedCluster list" where
  "activeUpstreamClusters aas backend upstreamClusters = upstreamClusters @ active_weights (tsb_Weight backend) aas"

definition failOverUpstreamClusters :: "ClusterName list \<Rightarrow> WeightedCluster list \<Rightarrow> WeightedCluster list" where
  "failOverUpstreamClusters fos upstreamClusters =
     upstreamClusters @ map (\<lambda>cn. \<lparr>wc_ClusterName = cn, wc_Weight = ClusterWeightFailOver\<rparr>) fos"

definition mergeUpstreamClusters :: "MeshCatalog \<Rightarrow> MeshService \<Rightarrow> WeightedCluster list \<Rightarrow> WeightedCluster list" where
  "mergeUpstreamClusters mc meshSvc upstreamClusters =
     (let wc = \<lparr>wc_ClusterName = SidecarClusterName meshSvc, wc_Weight = ClusterWeightAcceptAll\<rparr> in
      upstreamClusters @
        [if IsMultiClusterService meshSvc then
           let (aa, fo, lc, weight, keys) = GetLbWeightForService (mc_multiclusterController mc) meshSvc in
           if aa \<and> weight > 0 then wc\<lparr>wc_Weight := weight\<rparr>
           else if fo then wc\<lparr>wc_Weight := ClusterWeightFailOver\<rparr> else wc
         else wc])"

type_synonym port_order = "(uint16 \<times> bool) list \<Rightarrow> (uint16 \<times> bool) list"

text \<open>The active and the fail-over clusters of a backend of a split; the local cluster comes first.\<close>

definition splitBackendClusters ::
  "MeshCatalog \<Rightarrow> port_order \<Rightarrow> MeshService \<Rightarrow> TrafficSplitBackend \<Rightarrow> ClusterName list \<times> ClusterName list" where
  "splitBackendClusters mc iter meshSvc backend =
     (let nn = \<lparr>nn_Namespace = ms_Namespace meshSvc, nn_Name = tsb_Service backend\<rparr>;
          backendMeshSvc = zero_MeshService\<lparr>ms_Namespace := ms_Namespace meshSvc, ms_Name := tsb_Service backend\<rparr>;
          locals = (case GetTargetPortForServicePort (mc_kubeController mc) nn (ms_Port meshSvc) of
              Inl err \<Rightarrow> []
            | Inr targetPort \<Rightarrow> [SidecarClusterName (backendMeshSvc\<lparr>ms_TargetPort := targetPort\<rparr>)]);
          remotes = filter (\<lambda>(cn, aa). cn \<notin> set locals)
            (map (\<lambda>(targetPort, aa).
                (SidecarClusterName (backendMeshSvc\<lparr>ms_Port := ms_Port meshSvc, ms_TargetPort := targetPort\<rparr>), aa))
              (iter (mcs_GetTargetPortForServicePort (mc_multiclusterController mc) nn (ms_Port meshSvc)))) in
      (locals @ map fst (filter snd remotes), map fst (filter (\<lambda>(cn, aa). \<not> aa) remotes)))"

definition mergeSplitUpstreamClusters ::
  "MeshCatalog \<Rightarrow> port_order \<Rightarrow> MeshService \<Rightarrow> TrafficSplitBackend \<Rightarrow> WeightedCluster list \<Rightarrow> WeightedCluster list" where
  "mergeSplitUpstreamClusters mc iter meshSvc backend upstreamClusters =
     (let (aas, fos) = splitBackendClusters mc iter meshSvc backend in
      failOverUpstreamClusters fos (activeUpstreamClusters aas backend upstreamClusters))"

text \<open>The first cluster of each name, with its weight or with weight 100.\<close>

definition add_cluster :: "WeightedCluster \<Rightarrow> WeightedCluster list \<Rightarrow> WeightedCluster list" where
  "add_cluster wc upstreamClusters =
     (if wc_ClusterName wc \<in> wc_ClusterName ` set upstreamClusters then upstreamClusters else upstreamClusters @ [wc])"

definition getWildCardRouteUpstreamClusters ::
  "bool \<Rightarrow> HTTPRouteMatchWithWeightedClusters list \<Rightarrow> WeightedCluster list" where
  "getWildCardRouteUpstreamClusters hasTrafficSplitWildCard routeMatches =
     (if hasTrafficSplitWildCard then
        fold add_cluster
          (concat (map hrw_UpstreamClusters (filter (\<lambda>routeMatch. \<not> hrw_HasSplitMatches routeMatch) routeMatches))) []
      else
        fold (\<lambda>wc. add_cluster (wc\<lparr>wc_Weight := ClusterWeightAcceptAll\<rparr>))
          (concat (map hrw_UpstreamClusters routeMatches)) [])"

text \<open>
  The routes of the groups a split refers to. A group is taken for the first reference with its
  name; the namespace of the group is not compared with that of the split.
\<close>

definition getSplitRouteMatches :: "MeshCatalog \<Rightarrow> TrafficSplit \<Rightarrow> HTTPRouteMatch list" where
  "getSplitRouteMatches mc split =
     concat (map (\<lambda>trafficSpecs.
         case hrg_Matches trafficSpecs of
           None \<Rightarrow> []
         | Some matches \<Rightarrow>
             if list_ex (\<lambda>m. ref_Name m = om_Name (hrg_Meta trafficSpecs)) (ts_Matches split)
             then map smiRouteMatch matches else [])
       (ListHTTPTrafficSpecs (mc_meshSpec mc)))"

definition isEgressService :: "MeshCatalog \<Rightarrow> MeshService \<Rightarrow> EgressTrafficPolicy \<Rightarrow> bool" where
  "isEgressService mc meshSvc egressPolicy =
     (let hostnames = GetHostnamesForService (mc_hostTrustDomain mc) meshSvc True in
      list_ex (\<lambda>(port, routeConfigs). list_ex (\<lambda>routeConfig.
          list_ex (\<lambda>host. list_ex (\<lambda>hostname. hostname = host) hostnames) (ehc_Hostnames routeConfig)) routeConfigs)
        (etp_HTTPRouteConfigsPerPort egressPolicy))"

text \<open>
  The egress policy is fetched at most once; \<open>egressPolicyGetted\<close> and \<open>egressPolicy\<close> are the state
  carried from one service to the next. The caller has converted the identity before, so that the
  conversion does not panic here.
\<close>

definition enableEgressSrviceForIdentity ::
  "('e, 'h) dedup_env \<Rightarrow> MeshCatalog \<Rightarrow> ServiceIdentity \<Rightarrow> bool \<Rightarrow> EgressTrafficPolicy option \<Rightarrow> MeshService \<Rightarrow>
     bool \<times> bool \<times> EgressTrafficPolicy option" where
  "enableEgressSrviceForIdentity env mc downstreamIdentity egressPolicyGetted egressPolicy meshSvc =
     (if cfg_IsEgressEnabled (mc_configurator mc) then (True, egressPolicyGetted, egressPolicy)
      else
        let policy = (if egressPolicyGetted then egressPolicy
              else case GetEgressTrafficPolicy env mc downstreamIdentity of
                Some (Inr p) \<Rightarrow> p | _ \<Rightarrow> None) in
        (case policy of None \<Rightarrow> False | Some p \<Rightarrow> isEgressService mc meshSvc p, True, policy))"



section \<open>The outbound policy\<close>

text \<open>Whether the service keeps a wildcard route of its own, and its route matches.\<close>

definition outboundRouteMatches ::
  "MeshCatalog \<Rightarrow> port_order \<Rightarrow> MeshService \<Rightarrow> bool \<times> HTTPRouteMatchWithWeightedClusters list" where
  "outboundRouteMatches mc iter meshSvc =
     (let trafficSplits = ListTrafficSplits (mc_meshSpec mc) [WithTrafficSplitApexService meshSvc] in
      if length trafficSplits > 0 then
        (list_ex (\<lambda>split. ts_Matches split = []) trafficSplits,
         map (\<lambda>split.
             \<lparr>hrw_UpstreamClusters = fold (mergeSplitUpstreamClusters mc iter meshSvc) (ts_Backends split) [],
              hrw_RouteMatches = (if length (ts_Matches split) > 0 then getSplitRouteMatches mc split else []),
              hrw_HasSplitMatches = length (ts_Matches split) > 0\<rparr>) trafficSplits)
      else
        (True, [\<lparr>hrw_UpstreamClusters = mergeUpstreamClusters mc meshSvc [], hrw_RouteMatches = [],
                 hrw_HasSplitMatches = False\<rparr>]))"

text \<open>An error of \<open>AddRoute\<close> is logged and the route left out.\<close>

definition addRouteOrSkip ::
  "RetryPolicySpec option \<Rightarrow> HTTPRouteMatch \<times> WeightedCluster list \<Rightarrow> OutboundTrafficPolicy \<Rightarrow> OutboundTrafficPolicy" where
  "addRouteOrSkip retryPolicy = (\<lambda>(route, clusters) out.
     (case AddRoute out route retryPolicy clusters of Inl err \<Rightarrow> out | Inr out' \<Rightarrow> out'))"

text \<open>The route configuration of a service; none when adding the wildcard route fails.\<close>

definition outboundRoutes ::
  "MeshCatalog \<Rightarrow> K8sServiceAccount \<Rightarrow> RetryPolicySpec option \<Rightarrow> MeshService \<Rightarrow>
     bool \<times> HTTPRouteMatchWithWeightedClusters list \<Rightarrow> OutboundTrafficPolicy option" where
  "outboundRoutes mc downstreamSvcAccount retryPolicy meshSvc = (\<lambda>(hasTrafficSplitWildCard, routeMatches).
     (let hostnames = GetHostnamesForService (mc_hostTrustDomain mc) meshSvc
            (sa_Namespace downstreamSvcAccount = ms_Namespace meshSvc);
          routes = concat (map (\<lambda>routeMatch. map (\<lambda>route. (route, hrw_UpstreamClusters routeMatch))
             (hrw_RouteMatches routeMatch)) routeMatches);
          hasWildCardRoute = list_ex (\<lambda>(route, clusters). hrm_Path route = RegexMatchAll) routes;
          out = fold (addRouteOrSkip retryPolicy) routes (NewOutboundTrafficPolicy (FQDN meshSvc) hostnames) in
      if hasWildCardRoute then Some out
      else case AddRoute out WildCardRouteMatch retryPolicy
          (getWildCardRouteUpstreamClusters hasTrafficSplitWildCard routeMatches) of
        Inl err \<Rightarrow> None | Inr out' \<Rightarrow> Some out'))"

record OutboundState =
  os_policy :: OutboundMeshTrafficPolicy
  os_egressPolicyGetted :: bool
  os_egressPolicy :: "EgressTrafficPolicy option"

text \<open>
  The body of the loop over the services. The retry policy cannot panic here: the identity has been
  converted before the loop.
\<close>

definition outboundServiceStep ::
  "('e, 'h) dedup_env \<Rightarrow> MeshCatalog \<Rightarrow> port_order \<Rightarrow> (string list \<Rightarrow> string list) \<Rightarrow> ServiceIdentity \<Rightarrow>
     K8sServiceAccount \<Rightarrow> MeshService \<Rightarrow> OutboundState \<Rightarrow> OutboundState" where
  "outboundServiceStep env mc iterPorts iterIPs downstreamIdentity downstreamSvcAccount meshSvc st =
     (let (egressEnabled, getted, egressPolicy) = enableEgressSrviceForIdentity env mc downstreamIdentity
            (os_egressPolicyGetted st) (os_egressPolicy st) meshSvc;
          monitoredNamespace = IsMonitoredNamespace (mc_kubeController mc) (ms_Namespace meshSvc);
          endpoints = getDNSResolvableServiceEndpoints mc meshSvc;
          destinationIPRanges = set_adds (map (\<lambda>endp. IP_String (ep_IP endp) @ ''/32'') endpoints) [];
          existIntraEndpoints = list_ex (\<lambda>endp. length (ep_ClusterKey endp) = 0 \<and>
             (monitoredNamespace \<or> egressEnabled)) endpoints;
          resolvableIPs = set_adds (map (\<lambda>endp. IP_String (ep_IP endp)) endpoints) [];
          pol = os_policy st;
          resolvable = (if \<not> existIntraEndpoints \<and> length resolvableIPs > 0
             then gm_put (omp_ServicesResolvableSet pol) (FQDN meshSvc) (iterIPs resolvableIPs)
             else omp_ServicesResolvableSet pol);
          clusterConfig = \<lparr>mcc_Name = SidecarClusterName meshSvc, mcc_Service = meshSvc, mcc_Address = '''', mcc_Port = 0,
             mcc_EnableSidecarActiveHealthChecks = ff_EnableSidecarActiveHealthChecks (featureFlags mc),
             mcc_UpstreamTrafficSetting = upstreamTrafficSettingFor mc meshSvc\<rparr>;
          (hasTrafficSplitWildCard, routeMatches) = outboundRouteMatches mc iterPorts meshSvc;
          trafficMatches = map (\<lambda>routeMatch. zero_TrafficMatch
             \<lparr>tm_Name := OutboundTrafficMatchName meshSvc, tm_DestinationPort := int (unat (ms_Port meshSvc)),
              tm_DestinationProtocol := ms_Protocol meshSvc, tm_DestinationIPRanges := destinationIPRanges,
              tm_WeightedClusters := hrw_UpstreamClusters routeMatch\<rparr>) routeMatches;
          pol1 = pol\<lparr>omp_ServicesResolvableSet := resolvable,
             omp_ClustersConfigs := omp_ClustersConfigs pol @ [clusterConfig],
             omp_TrafficMatches := omp_TrafficMatches pol @ trafficMatches\<rparr>;
          retryPolicy = (case GetRetryPolicy mc downstreamIdentity meshSvc of Some rp \<Rightarrow> rp | None \<Rightarrow> None);
          routeConfigs = (if is_tcp_protocol (ms_Protocol meshSvc) then None
             else outboundRoutes mc downstreamSvcAccount retryPolicy meshSvc (hasTrafficSplitWildCard, routeMatches)) in
      \<lparr>os_policy = (case routeConfigs of
           None \<Rightarrow> pol1
         | Some out \<Rightarrow> pol1\<lparr>omp_HTTPRouteConfigsPerPort :=
             gm_append (omp_HTTPRouteConfigsPerPort pol1) (int (unat (ms_Port meshSvc))) [out]\<rparr>),
       os_egressPolicyGetted = getted, os_egressPolicy = egressPolicy\<rparr>)"

definition GetOutboundMeshTrafficPolicy ::
  "('e, 'h) dedup_env \<Rightarrow> MeshCatalog \<Rightarrow> port_order \<Rightarrow> (string list \<Rightarrow> string list) \<Rightarrow> ServiceIdentity \<Rightarrow>
     OutboundMeshTrafficPolicy option" where
  "GetOutboundMeshTrafficPolicy env mc iterPorts iterIPs downstreamIdentity =
     do {
       downstreamSvcAccount \<leftarrow> ToK8sServiceAccount downstreamIdentity;
       services \<leftarrow> ListOutboundServicesForIdentity mc downstreamIdentity;
       Some (os_policy (fold (outboundServiceStep env mc iterPorts iterIPs downstreamIdentity downstreamSvcAccount) services
         \<lparr>os_policy = \<lparr>omp_TrafficMatches = [], omp_HTTPRouteConfigsPerPort = [], omp_ClustersConfigs = [],
            omp_ServicesResolvableSet = []\<rparr>,
          os_egressPolicyGetted = False, os_egressPolicy = None\<rparr>))
     }"



section \<open>Lemmas\<close>

lemma active_weights_sum: "cns \<noteq> [] \<Longrightarrow> sum_list (map wc_Weight (active_weights w cns)) = w"
proof (induction cns arbitrary: w)
  case (Cons cn cns)
  show ?case
  proof (cases "cns = []")
    case True
    then show ?thesis by (cases "w = 0") (simp_all add: Let_def go_quot_def sgn_if)
  next
    case False
    with Cons.IH show ?thesis by (simp add: Let_def)
  qed
qed simp

lemma active_weights_names [simp]: "map wc_ClusterName (active_weights w cns) = cns"
  by (induction cns arbitrary: w) (simp_all add: Let_def)

lemma active_weights_fair:
  assumes "0 \<le> q" and "q * int (length cns) \<le> w" and "w \<le> (q + 1) * int (length cns)"
    and "wc \<in> set (active_weights w cns)"
  shows "wc_Weight wc = q \<or> wc_Weight wc = q + 1"
  using assms
proof (induction cns arbitrary: w)
  case (Cons cn cns)
  let ?n = "int (length (cn # cns))"
  have n: "?n = int (length cns) + 1" "0 < ?n" by simp_all
  have "0 \<le> q * ?n" using Cons.prems(1) by simp
  with Cons.prems(2) have "0 \<le> w" by linarith
  then have quot: "go_quot w ?n = w div ?n" by (simp add: go_quot_nonneg)
  show ?case
  proof (cases "w = (q + 1) * ?n")
    case True
    then have d: "w div ?n = q + 1" using n(2) by simp
    have "w - (q + 1) = (q + 1) * int (length cns)" using True n(1) by (simp add: algebra_simps)
    with Cons.IH [of "w - (q + 1)"] Cons.prems quot d show ?thesis
      by (auto simp: Let_def algebra_simps)
  next
    case False
    with Cons.prems(2,3) n(2) have d: "w div ?n = q"
      by (intro int_div_pos_eq [where r = "w - ?n * q"]) (auto simp: algebra_simps)
    have "q * int (length cns) \<le> w - q" "w - q \<le> (q + 1) * int (length cns)"
      using Cons.prems(2,3) False n(1) by (auto simp: algebra_simps)
    with Cons.IH [of "w - q"] Cons.prems(1,4) quot d show ?thesis by (auto simp: Let_def)
  qed
qed simp


text \<open>Adding routes: the set of route matches grows by the added ones, whatever fails.\<close>

definition route_matches :: "OutboundTrafficPolicy \<Rightarrow> HTTPRouteMatch set" where
  "route_matches out = rwc_HTTPRouteMatch ` set (otp_Routes out)"

lemma route_for_None: "route_for out m = None \<longleftrightarrow> m \<notin> route_matches out"
  by (auto simp: route_for_def route_matches_def find_None_iff)

lemma AddRoute_matches:
  "AddRoute out m rp wcs = Inr out' \<Longrightarrow> route_matches out' = insert m (route_matches out)"
  "AddRoute out m rp wcs = Inl err \<Longrightarrow> m \<in> route_matches out"
proof -
  show "AddRoute out m rp wcs = Inr out' \<Longrightarrow> route_matches out' = insert m (route_matches out)"
  proof (cases "route_for out m")
    case (Some r)
    assume add: "AddRoute out m rp wcs = Inr out'"
    with AddRoute_Some [OF Some, of wcs rp] have
      "map rwc_HTTPRouteMatch (otp_Routes out') = map rwc_HTTPRouteMatch (otp_Routes out)"
      by (auto split: if_splits)
    then have "route_matches out' = route_matches out" by (metis route_matches_def set_map)
    with Some route_for_None [of out m] show ?thesis by auto
  qed (auto simp: AddRoute_None route_matches_def)
  show "AddRoute out m rp wcs = Inl err \<Longrightarrow> m \<in> route_matches out"
    using AddRoute_None [of out m rp wcs] route_for_None [of out m] by (cases "route_for out m") auto
qed

lemma AddRoute_new_clusters:
  assumes "route_for out m = None" and "AddRoute out m rp wcs = Inr out'"
  shows "\<exists>r. route_for out' m = Some r \<and> rwc_WeightedClusters r = set wcs"
  using assms unfolding AddRoute_None [OF assms(1)] by (auto simp: route_for_def find_key_append)

lemma addRouteOrSkip_matches:
  "route_matches (addRouteOrSkip rp (m, wcs) out) = insert m (route_matches out)"
  using AddRoute_matches [of out m rp wcs] by (auto simp: addRouteOrSkip_def split: sum.splits)

lemma addRouteOrSkip_unique: "routes_unique out \<Longrightarrow> routes_unique (addRouteOrSkip rp (m, wcs) out)"
  using AddRoute_unique [of out m rp wcs] by (auto simp: addRouteOrSkip_def split: sum.splits)

lemma addRoutes:
  "route_matches (fold (addRouteOrSkip rp) rs out) = route_matches out \<union> fst ` set rs"
  "routes_unique out \<Longrightarrow> routes_unique (fold (addRouteOrSkip rp) rs out)"
  by (induction rs arbitrary: out) (auto simp: addRouteOrSkip_matches addRouteOrSkip_unique)

lemma addRouteOrSkip_keeps [simp]:
  "otp_Hostnames (addRouteOrSkip rp r out) = otp_Hostnames out"
  "otp_Name (addRouteOrSkip rp r out) = otp_Name out"
  by (cases "AddRoute out (fst r) rp (snd r)"; auto simp: addRouteOrSkip_def case_prod_beta dest: AddRoute_keeps)+

lemma addRoutes_hosts:
  "otp_Hostnames (fold (addRouteOrSkip rp) rs out) = otp_Hostnames out"
  "otp_Name (fold (addRouteOrSkip rp) rs out) = otp_Name out"
  by (induction rs arbitrary: out) simp_all

lemma outboundRoutes_exact:
  assumes "routes = concat (map (\<lambda>rm. map (\<lambda>route. (route, hrw_UpstreamClusters rm)) (hrw_RouteMatches rm)) rms)"
  shows "\<exists>out. outboundRoutes mc sa rp svc (wild, rms) = Some out \<and> routes_unique out \<and> otp_Name out = FQDN svc \<and>
    otp_Hostnames out = GetHostnamesForService (mc_hostTrustDomain mc) svc (sa_Namespace sa = ms_Namespace svc) \<and>
    route_matches out = fst ` set routes \<union>
      (if \<exists>m \<in> fst ` set routes. hrm_Path m = RegexMatchAll then {} else {WildCardRouteMatch}) \<and>
    ((\<forall>m \<in> fst ` set routes. hrm_Path m \<noteq> RegexMatchAll) \<longrightarrow>
      (\<exists>r. route_for out WildCardRouteMatch = Some r \<and>
         rwc_WeightedClusters r = set (getWildCardRouteUpstreamClusters wild rms)))"
proof -
  let ?new = "NewOutboundTrafficPolicy (FQDN svc) (GetHostnamesForService (mc_hostTrustDomain mc) svc
      (sa_Namespace sa = ms_Namespace svc))"
  let ?out = "fold (addRouteOrSkip rp) routes ?new"
  let ?wild = "\<exists>m \<in> fst ` set routes. hrm_Path m = RegexMatchAll"
  have new: "route_matches ?new = {}" "routes_unique ?new" "otp_Name ?new = FQDN svc"
    "otp_Hostnames ?new = GetHostnamesForService (mc_hostTrustDomain mc) svc (sa_Namespace sa = ms_Namespace svc)"
    by (simp_all add: NewOutboundTrafficPolicy_def route_matches_def routes_unique_def)
  have out: "route_matches ?out = fst ` set routes" "routes_unique ?out" "otp_Name ?out = FQDN svc"
    "otp_Hostnames ?out = GetHostnamesForService (mc_hostTrustDomain mc) svc (sa_Namespace sa = ms_Namespace svc)"
    using new by (simp_all add: addRoutes addRoutes_hosts)
  have eq: "outboundRoutes mc sa rp svc (wild, rms) =
      (if ?wild then Some ?out
       else case AddRoute ?out WildCardRouteMatch rp (getWildCardRouteUpstreamClusters wild rms) of
         Inl err \<Rightarrow> None | Inr out' \<Rightarrow> Some out')"
    unfolding outboundRoutes_def assms Let_def prod.case by (simp add: list_ex_iff case_prod_beta)
  show ?thesis
  proof (cases ?wild)
    case True
    then show ?thesis using eq out by auto
  next
    case False
    have "hrm_Path WildCardRouteMatch = RegexMatchAll" by (simp add: WildCardRouteMatch_def)
    with False have none: "route_for ?out WildCardRouteMatch = None"
      unfolding route_for_None out(1) by blast
    then obtain out' where out': "AddRoute ?out WildCardRouteMatch rp (getWildCardRouteUpstreamClusters wild rms) = Inr out'"
      by (simp add: AddRoute_None)
    have res: "outboundRoutes mc sa rp svc (wild, rms) = Some out'" unfolding eq using out' False by simp
    have clusters: "\<exists>r. route_for out' WildCardRouteMatch = Some r \<and>
        rwc_WeightedClusters r = set (getWildCardRouteUpstreamClusters wild rms)"
      using none out' by (rule AddRoute_new_clusters)
    have "route_matches out' = fst ` set routes \<union> (if ?wild then {} else {WildCardRouteMatch})"
      using AddRoute_matches(1) [OF out'] out(1) False by simp
    with res clusters AddRoute_unique [OF out(2) out'] AddRoute_keeps [OF out'] out(3,4) show ?thesis by simp
  qed
qed


text \<open>The route configuration of a service, as the loop computes it.\<close>

definition outboundConfig ::
  "MeshCatalog \<Rightarrow> port_order \<Rightarrow> ServiceIdentity \<Rightarrow> K8sServiceAccount \<Rightarrow> MeshService \<Rightarrow> OutboundTrafficPolicy option" where
  "outboundConfig mc iterPorts si sa svc = outboundRoutes mc sa
     (case GetRetryPolicy mc si svc of Some rp \<Rightarrow> rp | None \<Rightarrow> None) svc (outboundRouteMatches mc iterPorts svc)"

lemma outboundServiceStep_policy:
  fixes env mc iterPorts iterIPs si sa svc st
  defines "pol' \<equiv> os_policy (outboundServiceStep env mc iterPorts iterIPs si sa svc st)"
  shows "map mcc_Service (omp_ClustersConfigs pol') = map mcc_Service (omp_ClustersConfigs (os_policy st)) @ [svc]"
    and "omp_TrafficMatches pol' = omp_TrafficMatches (os_policy st) @
      map (\<lambda>rm. zero_TrafficMatch
             \<lparr>tm_Name := OutboundTrafficMatchName svc, tm_DestinationPort := int (unat (ms_Port svc)),
              tm_DestinationProtocol := ms_Protocol svc,
              tm_DestinationIPRanges := set_adds (map (\<lambda>endp. IP_String (ep_IP endp) @ ''/32'') (getDNSResolvableServiceEndpoints mc svc)) [],
              tm_WeightedClusters := hrw_UpstreamClusters rm\<rparr>) (snd (outboundRouteMatches mc iterPorts svc))"
    and "gm_slice (omp_HTTPRouteConfigsPerPort pol') port = gm_slice (omp_HTTPRouteConfigsPerPort (os_policy st)) port @
      (if is_tcp_protocol (ms_Protocol svc) \<or> int (unat (ms_Port svc)) \<noteq> port then []
       else case outboundConfig mc iterPorts si sa svc of None \<Rightarrow> [] | Some out \<Rightarrow> [out])"
  unfolding pol'_def outboundServiceStep_def outboundConfig_def Let_def
  by (auto simp: gm_slice_append split: prod.splits option.splits)

lemma outbound_fold:
  fixes env mc iterPorts iterIPs si sa
  defines "step \<equiv> outboundServiceStep env mc iterPorts iterIPs si sa"
  shows "map mcc_Service (omp_ClustersConfigs (os_policy (fold step svcs st))) =
      map mcc_Service (omp_ClustersConfigs (os_policy st)) @ svcs"
    and "map tm_Name (omp_TrafficMatches (os_policy (fold step svcs st))) =
      map tm_Name (omp_TrafficMatches (os_policy st)) @
      concat (map (\<lambda>svc. map (\<lambda>rm. OutboundTrafficMatchName svc) (snd (outboundRouteMatches mc iterPorts svc))) svcs)"
    and "gm_slice (omp_HTTPRouteConfigsPerPort (os_policy (fold step svcs st))) port =
      gm_slice (omp_HTTPRouteConfigsPerPort (os_policy st)) port @
      List.map_filter (outboundConfig mc iterPorts si sa)
        (filter (\<lambda>svc. \<not> is_tcp_protocol (ms_Protocol svc) \<and> int (unat (ms_Port svc)) = port) svcs)"
  unfolding step_def
  by (induction svcs arbitrary: st)
    (auto simp: outboundServiceStep_policy comp_def List.map_filter_def split: option.splits)



section \<open>Properties\<close>

text \<open>
  C17. The weight of a backend of a traffic split is spread exactly and evenly over its active
  clusters: one weight per cluster, the weights add up to the weight of the backend, and no two of
  them differ by more than one.
\<close>

theorem split_weight_spread:
  assumes "aas \<noteq> []" and "0 \<le> tsb_Weight backend"
  shows "\<exists>added. activeUpstreamClusters aas backend upstreamClusters = upstreamClusters @ added \<and>
    map wc_ClusterName added = aas \<and> sum_list (map wc_Weight added) = tsb_Weight backend \<and>
    (\<forall>wc \<in> set added. wc_Weight wc \<in> {tsb_Weight backend div int (length aas), tsb_Weight backend div int (length aas) + 1})"
proof -
  let ?w = "tsb_Weight backend" and ?n = "int (length aas)"
  have n: "0 < ?n" using assms(1) by simp
  have "?w div ?n * ?n \<le> ?w" "?w \<le> (?w div ?n + 1) * ?n"
    using div_mult_mod_eq [of ?w ?n] pos_mod_sign [OF n, of ?w] pos_mod_bound [OF n, of ?w]
    by (simp_all only: distrib_right mult_1)
  moreover have "0 \<le> ?w div ?n" using n assms(2) by (simp add: pos_imp_zdiv_nonneg_iff)
  ultimately have "wc_Weight wc = ?w div ?n \<or> wc_Weight wc = ?w div ?n + 1" if "wc \<in> set (active_weights ?w aas)" for wc
    using active_weights_fair that by blast
  with active_weights_sum [OF assms(1)] show ?thesis
    by (intro exI [of _ "active_weights ?w aas"]) (simp add: activeUpstreamClusters_def)
qed

theorem split_weight_spread_witness:
  "\<exists>added. activeUpstreamClusters [''a'', ''b'', ''c''] \<lparr>tsb_Service = ''s'', tsb_Weight = 50\<rparr> [] = added \<and>
     sum_list (map wc_Weight added) = 50 \<and> (\<forall>wc \<in> set added. wc_Weight wc \<in> {16, 17})"
  using split_weight_spread [of "[''a'', ''b'', ''c'']" "\<lparr>tsb_Service = ''s'', tsb_Weight = 50\<rparr>" "[]"] by simp

text \<open>The route matches the traffic splits of a service name.\<close>

definition split_matches :: "MeshCatalog \<Rightarrow> MeshService \<Rightarrow> HTTPRouteMatch set" where
  "split_matches mc svc =
     (\<Union>split \<in> set (ListTrafficSplits (mc_meshSpec mc) [WithTrafficSplitApexService svc]). set (getSplitRouteMatches mc split))"

lemma outboundRouteMatches_splits:
  "(\<Union>rm \<in> set (snd (outboundRouteMatches mc iter svc)). set (hrw_RouteMatches rm)) = split_matches mc svc"
proof -
  have "getSplitRouteMatches mc split = []" if "ts_Matches split = []" for split
    using that by (auto simp: getSplitRouteMatches_def split: option.splits)
  then show ?thesis by (auto simp: outboundRouteMatches_def split_matches_def Let_def)
qed

text \<open>What the route configuration of a service for a client of a namespace is to be.\<close>

definition service_routed :: "MeshCatalog \<Rightarrow> K8sServiceAccount \<Rightarrow> MeshService \<Rightarrow> OutboundTrafficPolicy \<Rightarrow> bool" where
  "service_routed mc sa svc out \<longleftrightarrow>
     otp_Name out = FQDN svc \<and>
     otp_Hostnames out = GetHostnamesForService (mc_hostTrustDomain mc) svc (sa_Namespace sa = ms_Namespace svc) \<and>
     routes_unique out \<and>
     route_matches out = split_matches mc svc \<union>
       (if \<exists>m \<in> split_matches mc svc. hrm_Path m = RegexMatchAll then {} else {WildCardRouteMatch})"

lemma outboundConfig_routed:
  "\<exists>out. outboundConfig mc iterPorts si sa svc = Some out \<and> service_routed mc sa svc out"
proof -
  obtain wild rms where rms: "outboundRouteMatches mc iterPorts svc = (wild, rms)" by fastforce
  let ?routes = "concat (map (\<lambda>rm. map (\<lambda>route. (route, hrw_UpstreamClusters rm)) (hrw_RouteMatches rm)) rms)"
  have "fst ` set ?routes = (\<Union>rm \<in> set rms. set (hrw_RouteMatches rm))" by force
  then have ms: "fst ` set ?routes = split_matches mc svc"
    using outboundRouteMatches_splits [of mc iterPorts svc] rms by simp
  let ?rp = "case GetRetryPolicy mc si svc of Some rp \<Rightarrow> rp | None \<Rightarrow> None"
  from outboundRoutes_exact [OF refl, of mc sa ?rp svc wild rms] obtain out where
    "outboundRoutes mc sa ?rp svc (wild, rms) = Some out" "service_routed mc sa svc out"
    unfolding service_routed_def ms by blast
  then show ?thesis unfolding outboundConfig_def rms by blast
qed

lemma map_filter_all2:
  assumes "\<And>x. \<exists>y. f x = Some y \<and> P x y"
  shows "list_all2 P xs (List.map_filter f xs)"
proof (induction xs)
  case (Cons x xs)
  from assms obtain y where "f x = Some y" "P x y" by blast
  with Cons show ?case by (simp add: List.map_filter_def)
qed (simp add: List.map_filter_def)

text \<open>
  C9. The route configurations of the outbound policy, port by port: they are, one for one and in
  their order, those of the HTTP services of the port among the services the client may call. The
  configuration of a service has its fully qualified name and the host names under which a client of
  that namespace addresses it. It has one route for each route match of the traffic splits of the
  service and, unless one of these has the wildcard path, the route that matches every request. No
  service is dropped and no configuration is for anything else.
\<close>

theorem outbound_services_routed:
  assumes "ToK8sServiceAccount downstream = Some sa"
    and "GetOutboundMeshTrafficPolicy env mc iterPorts iterIPs downstream = Some pol"
  shows "\<exists>services. ListOutboundServicesForIdentity mc downstream = Some services \<and>
    map mcc_Service (omp_ClustersConfigs pol) = services \<and>
    (\<forall>port. list_all2 (service_routed mc sa)
       (filter (\<lambda>svc. \<not> is_tcp_protocol (ms_Protocol svc) \<and> int (unat (ms_Port svc)) = port) services)
       (gm_slice (omp_HTTPRouteConfigsPerPort pol) port))"
proof -
  let ?st = "\<lparr>os_policy = \<lparr>omp_TrafficMatches = [], omp_HTTPRouteConfigsPerPort = [], omp_ClustersConfigs = [],
            omp_ServicesResolvableSet = []\<rparr>, os_egressPolicyGetted = False, os_egressPolicy = None\<rparr>"
  from assms obtain services where services: "ListOutboundServicesForIdentity mc downstream = Some services"
    and pol: "pol = os_policy (fold (outboundServiceStep env mc iterPorts iterIPs downstream sa) services ?st)"
    by (auto simp: GetOutboundMeshTrafficPolicy_def split: Option.bind_splits)
  have "map mcc_Service (omp_ClustersConfigs pol) = services"
    unfolding pol outbound_fold(1) by simp
  moreover have "list_all2 (service_routed mc sa)
       (filter (\<lambda>svc. \<not> is_tcp_protocol (ms_Protocol svc) \<and> int (unat (ms_Port svc)) = port) services)
       (gm_slice (omp_HTTPRouteConfigsPerPort pol) port)" for port
    unfolding pol outbound_fold(3) using map_filter_all2 [OF outboundConfig_routed] by simp
  ultimately show ?thesis using services by blast
qed

definition sample_http_catalog :: MeshCatalog where
  "sample_http_catalog = (sample_catalog True)\<lparr>mc_serviceProviders := [kube_service_provider
     (sample_client\<lparr>kc_Services := [(''shop/db'', sample_service
        \<lparr>ks_Ports := [\<lparr>sp_Name = ''http-q'', sp_AppProtocol = None, sp_Port = 80\<rparr>]\<rparr>)]\<rparr>) id]\<rparr>"

theorem outbound_services_routed_witness:
  "\<exists>pol out. GetOutboundMeshTrafficPolicy sample_env sample_http_catalog id id ''client.shop'' = Some pol \<and>
     gm_slice (omp_HTTPRouteConfigsPerPort pol) 80 = [out] \<and> otp_Name out = ''db-0.db.shop.svc.cluster.local'' \<and>
     ''db-0.db'' \<in> set (otp_Hostnames out)"
proof -
  let ?svc = "\<lparr>ms_Namespace = ''shop'', ms_Name = ''db-0.db'', ms_Port = 80, ms_TargetPort = 13306,
    ms_Protocol = ''http'', ms_ServiceImportUID = ''''\<rparr>"
  let ?sa = "\<lparr>sa_Namespace = ''shop'', sa_Name = ''client''\<rparr>"
  have services: "ListOutboundServicesForIdentity sample_http_catalog ''client.shop'' = Some [?svc]" by code_simp
  have sa: "ToK8sServiceAccount ''client.shop'' = Some ?sa" by code_simp
  with services obtain pol where
    pol: "GetOutboundMeshTrafficPolicy sample_env sample_http_catalog id id ''client.shop'' = Some pol"
    by (simp add: GetOutboundMeshTrafficPolicy_def)
  have svc: "\<not> is_tcp_protocol ''http''" "FQDN ?svc = ''db-0.db.shop.svc.cluster.local''"
    "''db-0.db'' \<in> set (GetHostnamesForService (mc_hostTrustDomain sample_http_catalog) ?svc True)" by code_simp+
  have "list_all2 (service_routed sample_http_catalog ?sa) [?svc] (gm_slice (omp_HTTPRouteConfigsPerPort pol) 80)"
    using outbound_services_routed [OF sa pol] services svc(1) by (auto dest!: spec [of _ 80])
  then obtain out where "gm_slice (omp_HTTPRouteConfigsPerPort pol) 80 = [out]" "service_routed sample_http_catalog ?sa ?svc out"
    by (auto simp: list_all2_Cons1)
  then show ?thesis using pol svc by (auto simp: service_routed_def)
qed

text \<open>
  A route counts as the catch-all route by its path alone: the outbound policy of a service
  has the route that matches every request exactly when no route of its traffic splits has the
  wildcard path, or one of them is that route. A split whose route group matches on headers or
  methods only (an omitted path is the wildcard) leaves all other requests without a route.
\<close>

theorem catch_all_by_path_only:
  "\<exists>out. outboundRoutes mc sa rp svc (wild, rms) = Some out \<and>
     (WildCardRouteMatch \<in> route_matches out \<longleftrightarrow>
        WildCardRouteMatch \<in> (\<Union>rm \<in> set rms. set (hrw_RouteMatches rm)) \<or>
        (\<forall>rm \<in> set rms. \<forall>m \<in> set (hrw_RouteMatches rm). hrm_Path m \<noteq> RegexMatchAll))"
proof -
  let ?routes = "concat (map (\<lambda>rm. map (\<lambda>route. (route, hrw_UpstreamClusters rm)) (hrw_RouteMatches rm)) rms)"
  have ms: "fst ` set ?routes = (\<Union>rm \<in> set rms. set (hrw_RouteMatches rm))" by force
  from outboundRoutes_exact [OF refl, of mc sa rp svc wild rms] obtain out where
    "outboundRoutes mc sa rp svc (wild, rms) = Some out"
    "route_matches out = fst ` set ?routes \<union>
        (if \<exists>m \<in> fst ` set ?routes. hrm_Path m = RegexMatchAll then {} else {WildCardRouteMatch})" by blast
  then show ?thesis unfolding ms by (intro exI [of _ out]) auto
qed

theorem catch_all_by_path_only_witness:
  "\<exists>out. outboundRoutes (sample_catalog False) \<lparr>sa_Namespace = ''shop'', sa_Name = ''client''\<rparr> None sample_http_service
       (False, [\<lparr>hrw_UpstreamClusters = [], hrw_RouteMatches =
          [smiRouteMatch \<lparr>hm_Name = ''canary'', hm_PathRegex = '''', hm_Methods = [], hm_Headers = Some [''x-canary'' \<mapsto> ''1'']\<rparr>],
          hrw_HasSplitMatches = True\<rparr>]) = Some out \<and>
     WildCardRouteMatch \<notin> route_matches out"
  using catch_all_by_path_only [of "sample_catalog False" "\<lparr>sa_Namespace = ''shop'', sa_Name = ''client''\<rparr>" None
      sample_http_service False "[\<lparr>hrw_UpstreamClusters = [], hrw_RouteMatches =
          [smiRouteMatch \<lparr>hm_Name = ''canary'', hm_PathRegex = '''', hm_Methods = [], hm_Headers = Some [''x-canary'' \<mapsto> ''1'']\<rparr>],
          hrw_HasSplitMatches = True\<rparr>]"]
  by (auto simp: smiRouteMatch_def WildCardRouteMatch_def)


lemma those_mem: "those xs = Some ys \<Longrightarrow> y \<in> set ys \<longleftrightarrow> Some y \<in> set xs"
  by (induction xs arbitrary: ys) (auto split: option.splits)

lemma fold_set_adds_lists: "y \<in> set (fold set_adds ls out) \<longleftrightarrow> y \<in> set out \<or> (\<exists>l \<in> set ls. y \<in> set l)"
  using fold_set_adds_mem [of y "\<lambda>l. l" ls out] by (simp add: comp_def)

lemma ListOutboundServices_iff:
  assumes "\<not> permissive mc" and "sa_plain sa"
    and "ListOutboundServicesForIdentity mc (ToServiceIdentity sa) = Some services"
  shows "distinct services"
    and "svc \<in> set services \<longleftrightarrow>
      (\<exists>t \<in> set (ListTrafficTargets (mc_meshSpec mc) []).
         (\<exists>source \<in> set (tt_Sources t). trafficTargetIdentityToSvcAccount source = sa) \<and>
         (\<exists>l. getServicesForServiceIdentity mc (ToServiceIdentity (trafficTargetIdentityToSvcAccount (tt_Destination t))) = Some l \<and>
            svc \<in> set l))"
proof -
  let ?f = "\<lambda>t. getServicesForServiceIdentity mc (ToServiceIdentity (trafficTargetIdentityToSvcAccount (tt_Destination t)))"
  let ?P = "\<lambda>t. \<exists>source \<in> set (tt_Sources t). trafficTargetIdentityToSvcAccount source = sa"
  let ?ts = "ListTrafficTargets (mc_meshSpec mc) []"
  have P: "list_ex (\<lambda>source. ibj_Name source = sa_Name sa \<and> ibj_Namespace source = sa_Namespace sa) (tt_Sources t) \<longleftrightarrow> ?P t" for t
    by (simp add: list_ex_iff subject_account_eq)
  from assms obtain ls where ls: "those (map ?f (filter ?P ?ts)) = Some ls" and services: "services = fold set_adds ls []"
    by (auto simp: ListOutboundServicesForIdentity_def ToK8sServiceAccount_inverse P
        trafficTargetIdentityToSvcAccount_def [symmetric] split: Option.bind_splits)
  show "distinct services"
    unfolding services using fold_set_adds_distinct [of "[]" "\<lambda>l. l" ls] by (simp add: comp_def)
  have "svc \<in> set services \<longleftrightarrow> (\<exists>l. Some l \<in> ?f ` {t \<in> set ?ts. ?P t} \<and> svc \<in> set l)"
    unfolding services fold_set_adds_lists Bex_def those_mem [OF ls] by simp
  then show "svc \<in> set services \<longleftrightarrow> (\<exists>t \<in> set ?ts. ?P t \<and> (\<exists>l. ?f t = Some l \<and> svc \<in> set l))"
    by (auto simp: image_iff) metis+
qed


lemma provider_services_listed:
  "svp_GetServicesForServiceIdentity (kube_service_provider c iter) si = Some ss \<Longrightarrow>
     set ss \<subseteq> set (svp_ListServices (kube_service_provider c iter))"
  "svp_GetServicesForServiceIdentity (fsm_service_provider m iter) si = Some ss \<Longrightarrow>
     set ss \<subseteq> set (svp_ListServices (fsm_service_provider m iter))"
  using kube.services_for_listed fsm.services_for_listed
  by (simp_all add: kube_service_provider_def fsm_service_provider_def)

text \<open>
  C3. A client in SMI mode is offered a service, and offered it once, exactly when a valid traffic
  target has the client among its sources and the service belongs to the account of its
  destination; in either mode, with the Kubernetes and the multi-cluster provider, only services of
  the mesh are offered.
\<close>

theorem outbound_services_exact:
  assumes "ListOutboundServicesForIdentity mc (ToServiceIdentity sa) = Some services" and "sa_plain sa"
    and "mc_serviceProviders mc = [kube_service_provider c iter, fsm_service_provider m iter']"
  shows "set services \<subseteq> set (listMeshServices mc) \<and>
    (\<not> permissive mc \<longrightarrow> distinct services \<and>
      (\<forall>svc. svc \<in> set services \<longleftrightarrow>
        (\<exists>t \<in> set (ListTrafficTargets (mc_meshSpec mc) []).
           (\<exists>source \<in> set (tt_Sources t). trafficTargetIdentityToSvcAccount source = sa) \<and>
           (\<exists>l. getServicesForServiceIdentity mc (ToServiceIdentity (trafficTargetIdentityToSvcAccount (tt_Destination t))) = Some l \<and>
              svc \<in> set l))))"
proof (cases "permissive mc")
  case True
  with assms show ?thesis by (simp add: ListOutboundServicesForIdentity_def)
next
  case False
  note iff = ListOutboundServices_iff [OF False assms(2,1)]
  have "svc \<in> set (listMeshServices mc)"
    if "getServicesForServiceIdentity mc si = Some l" "svc \<in> set l" for si l svc
  proof -
    from that concat_opt_mem [of _ "mc_serviceProviders mc" l svc] obtain p ss where
      "p \<in> set (mc_serviceProviders mc)" "svp_GetServicesForServiceIdentity p si = Some ss" "svc \<in> set ss"
      by (auto simp: getServicesForServiceIdentity_def)
    moreover from this assms(3) have "set ss \<subseteq> set (svp_ListServices p)"
      using provider_services_listed(1) [of c iter si ss] provider_services_listed(2) [of m iter' si ss] by auto
    ultimately show ?thesis by (auto simp: listMeshServices_def)
  qed
  with iff(2) have "set services \<subseteq> set (listMeshServices mc)" by blast
  with iff show ?thesis by blast
qed

definition sample_two_providers :: MeshCatalog where
  "sample_two_providers = (sample_catalog False)\<lparr>mc_serviceProviders :=
     [kube_service_provider sample_client id, fsm_service_provider (sample_multicluster\<lparr>mcl_ServiceImports := []\<rparr>) id]\<rparr>"

theorem outbound_services_exact_witness:
  "\<exists>services. ListOutboundServicesForIdentity sample_two_providers ''client.shop'' = Some services \<and>
     services \<noteq> [] \<and> set services \<subseteq> set (listMeshServices sample_two_providers) \<and> distinct services"
proof -
  let ?sa = "\<lparr>sa_Namespace = ''shop'', sa_Name = ''client''\<rparr>"
  have sa: "ToServiceIdentity ?sa = ''client.shop''" "sa_plain ?sa"
    by (simp_all add: sa_plain_def ToServiceIdentity_def New_def)
  have "map_option (map ms_Name) (ListOutboundServicesForIdentity sample_two_providers ''client.shop'') = Some [''db-0.db'']"
    by code_simp
  then obtain services where s: "ListOutboundServicesForIdentity sample_two_providers ''client.shop'' = Some services"
    "services \<noteq> []" by auto
  have "\<not> permissive sample_two_providers"
    "mc_serviceProviders sample_two_providers = [kube_service_provider sample_client id, fsm_service_provider (sample_multicluster\<lparr>mcl_ServiceImports := []\<rparr>) id]"
    by (simp_all add: sample_two_providers_def sample_catalog_def)
  with outbound_services_exact [of sample_two_providers ?sa services sample_client id "sample_multicluster\<lparr>mcl_ServiceImports := []\<rparr>" id] sa s
  show ?thesis by auto
qed

end
