(* ===== verification/Catalog_Ingress.thy ===== *)
theory Catalog_Ingress
  imports Catalog_Outbound
begin

text \<open>
  Traffic that enters the mesh from outside: ingress backends (\<open>src/pkg/catalog/ingress.go\<close>), access
  control (\<open>access_control.go\<close>) and exported services (\<open>multi_cluster.go\<close>). Each handler writes the
  status of the resource it processes through the API server, whose own errors are only logged; the
  resource as written is the first component of its result. All rules a handler creates hold the
  same pointer to the set of principals that the loop goes on filling, so that each of them ends up
  with the final set.
\<close>

definition singeIPPrefixLen :: string where
  "singeIPPrefixLen = ''/32''"

section \<open>Sources\<close>

record PolicySource =
  src_Kind :: string
  src_Name :: string
  src_Namespace :: string

record SourceAcc =
  sac_IPRanges :: "string list"
  sac_IPSet :: "string set"
  sac_Principals :: "string set"

definition add_cidr :: "string \<Rightarrow> SourceAcc \<Rightarrow> SourceAcc" where
  "add_cidr cidr acc =
     (if cidr \<in> sac_IPSet acc then acc
      else acc\<lparr>sac_IPSet := insert cidr (sac_IPSet acc), sac_IPRanges := sac_IPRanges acc @ [cidr]\<rparr>)"

text \<open>The error carries the namespace and the name of the service that has no endpoints.\<close>

datatype IngressError = ErrNoSourceEndpoints string string

definition skipsClientCert :: "TLSSpec option \<Rightarrow> bool" where
  "skipsClientCert tls \<longleftrightarrow> (case tls of None \<Rightarrow> False | Some t \<Rightarrow> tls_SkipClientCertValidation t)"

definition addSource :: "MeshCatalog \<Rightarrow> TLSSpec option \<Rightarrow> PolicySource \<Rightarrow> SourceAcc \<Rightarrow> IngressError + SourceAcc" where
  "addSource mc tls source acc =
     (if src_Kind source = KindService then
        let endpoints = listEndpointsForService mc
              (zero_MeshService\<lparr>ms_Name := src_Name source, ms_Namespace := src_Namespace source\<rparr>) in
        if length endpoints = 0 then Inl (ErrNoSourceEndpoints (src_Namespace source) (src_Name source))
        else Inr (fold (\<lambda>ep. add_cidr (IP_String (ep_IP ep) @ singeIPPrefixLen)) endpoints acc)
      else if src_Kind source = KindIPRange then
        Inr (if ParseCIDR (src_Name source) = None then acc
             else acc\<lparr>sac_IPRanges := sac_IPRanges acc @ [src_Name source]\<rparr>)
      else if src_Kind source = KindAuthenticatedPrincipal then
        Inr (acc\<lparr>sac_Principals := insert
          (if skipsClientCert tls then WildcardServiceIdentity else src_Name source)
          (sac_Principals acc)\<rparr>)
      else Inr acc)"

fun addSources :: "MeshCatalog \<Rightarrow> TLSSpec option \<Rightarrow> PolicySource list \<Rightarrow> SourceAcc \<Rightarrow> IngressError + SourceAcc" where
  "addSources mc tls [] acc = Inr acc"
| "addSources mc tls (source # sources) acc =
     (case addSource mc tls source acc of Inl err \<Rightarrow> Inl err | Inr acc' \<Rightarrow> addSources mc tls sources acc')"

text \<open>
  The part of the loop body that ingress and access control share: the address ranges of a backend,
  and the principals, with the wildcard added for an HTTP port.
\<close>

definition backendSources ::
  "MeshCatalog \<Rightarrow> TLSSpec option \<Rightarrow> string \<Rightarrow> PolicySource list \<Rightarrow> string set \<Rightarrow> IngressError + string list \<times> string set" where
  "backendSources mc tls protocol sources sourcePrincipals =
     (case addSources mc tls sources \<lparr>sac_IPRanges = [], sac_IPSet = {}, sac_Principals = sourcePrincipals\<rparr> of
        Inl err \<Rightarrow> Inl err
      | Inr acc \<Rightarrow> Inr (sac_IPRanges acc,
          if equal_fold protocol ProtocolHTTP then insert WildcardPrincipal (sac_Principals acc) else sac_Principals acc))"

definition wildcardRoute :: "MeshService \<Rightarrow> RouteWeightedClusters" where
  "wildcardRoute svc = \<lparr>rwc_HTTPRouteMatch = WildCardRouteMatch, rwc_WeightedClusters = {localCluster svc},
     rwc_RetryPolicy = None, rwc_RateLimit = None\<rparr>"

definition sharedRules :: "RouteWeightedClusters list \<Rightarrow> string set \<Rightarrow> Rule list" where
  "sharedRules routes sourcePrincipals = map (\<lambda>route. \<lparr>rule_Route = route, rule_AllowedPrincipals = sourcePrincipals\<rparr>) routes"

definition committed :: IngressBackendStatus where
  "committed = \<lparr>ibst_CurrentStatus = ''committed'', ibst_Reason = ''successfully committed by the system''\<rparr>"

fun errorReason :: "IngressError \<Rightarrow> string" where
  "errorReason (ErrNoSourceEndpoints ns n) = ''endpoints not found for service '' @ ns @ ''/'' @ n"


section \<open>Ingress backends (ingress.go)\<close>

definition ingressSource :: "IngressSourceSpec \<Rightarrow> PolicySource" where
  "ingressSource s = \<lparr>src_Kind = is_Kind s, src_Name = is_Name s, src_Namespace = is_Namespace s\<rparr>"

definition settingRateLimit :: "UpstreamTrafficSetting option \<Rightarrow> RateLimitSpec option" where
  "settingRateLimit uts = (case uts of None \<Rightarrow> None | Some u \<Rightarrow> uts_RateLimit (uts_Spec u))"

definition ingressMatch :: "MeshCatalog \<Rightarrow> MeshService \<Rightarrow> BackendSpec \<Rightarrow> string list \<Rightarrow> IngressTrafficMatch" where
  "ingressMatch mc svc backend sourceIPRanges =
     \<lparr>itm_Name = IngressTrafficMatchName (ms_Name svc) (ms_Namespace svc)
        (to_uint16 (ps_Number (be_Port backend))) (ps_Protocol (be_Port backend)),
      itm_Port = to_uint32 (ps_Number (be_Port backend)), itm_Protocol = ps_Protocol (be_Port backend),
      itm_SourceIPRanges = sourceIPRanges, itm_TLS = be_TLS backend,
      itm_ServerNames = (case be_TLS backend of None \<Rightarrow> [] | Some t \<Rightarrow> tls_SNIHosts t),
      itm_SkipClientCertValidation = skipsClientCert (be_TLS backend),
      itm_RateLimit = settingRateLimit (upstreamTrafficSettingFor mc svc)\<rparr>"

fun ingressBackends ::
  "MeshCatalog \<Rightarrow> MeshService \<Rightarrow> PolicySource list \<Rightarrow> BackendSpec list \<Rightarrow>
     IngressTrafficMatch list \<times> RouteWeightedClusters list \<times> string set \<Rightarrow>
     IngressError + IngressTrafficMatch list \<times> RouteWeightedClusters list \<times> string set" where
  "ingressBackends mc svc sources [] acc = Inr acc"
| "ingressBackends mc svc sources (backend # backends) (trafficMatches, routes, sourcePrincipals) =
     (if be_Name backend \<noteq> ms_Name svc \<or> ps_Number (be_Port backend) \<noteq> int (unat (ms_TargetPort svc))
      then ingressBackends mc svc sources backends (trafficMatches, routes, sourcePrincipals)
      else
        case backendSources mc (be_TLS backend) (ps_Protocol (be_Port backend)) sources sourcePrincipals of
          Inl err \<Rightarrow> Inl err
        | Inr (sourceIPRanges, sourcePrincipals') \<Rightarrow>
            ingressBackends mc svc sources backends
              (trafficMatches @ [ingressMatch mc svc backend sourceIPRanges], routes @ [wildcardRoute svc], sourcePrincipals'))"

definition GetIngressTrafficPolicy ::
  "MeshCatalog \<Rightarrow> MeshService \<Rightarrow> IngressBackend option \<times> (IngressError + IngressTrafficPolicy option)" where
  "GetIngressTrafficPolicy mc svc =
     (if \<not> ff_EnableIngressBackendPolicy (featureFlags mc) then (None, Inr None)
      else case GetIngressBackendPolicy (mc_policyController mc) svc of
        None \<Rightarrow> (None, Inr None)
      | Some ingressBackendPolicy \<Rightarrow>
          (case ingressBackends mc svc (map ingressSource (ibs_Sources (ib_Spec ingressBackendPolicy)))
              (ibs_Backends (ib_Spec ingressBackendPolicy)) ([], [], {}) of
             Inl err \<Rightarrow> (Some (ingressBackendPolicy\<lparr>ib_Status :=
                 \<lparr>ibst_CurrentStatus = ''error'', ibst_Reason = errorReason err\<rparr>\<rparr>), Inl err)
           | Inr (trafficMatches, routes, sourcePrincipals) \<Rightarrow>
               if length trafficMatches = 0 then (None, Inr None)
               else (Some (ingressBackendPolicy\<lparr>ib_Status := committed\<rparr>),
                 Inr (Some \<lparr>ingp_TrafficMatches = trafficMatches,
                   ingp_HTTPRoutePolicies = [Some
                     \<lparr>itp_Name = MeshService_String svc @ ''_from_'' @ om_Name (ib_Meta ingressBackendPolicy),
                      itp_Hostnames = [''*''], itp_Rules = sharedRules routes sourcePrincipals, itp_RateLimit = None\<rparr>]\<rparr>))))"



section \<open>Access control (access_control.go)\<close>

definition aclSource :: "AccessControlSourceSpec \<Rightarrow> PolicySource" where
  "aclSource s = \<lparr>src_Kind = acs_Kind s, src_Name = acs_Name s, src_Namespace = acs_Namespace s\<rparr>"

definition aclMatch :: "MeshCatalog \<Rightarrow> MeshService \<Rightarrow> AccessControlBackendSpec \<Rightarrow> string list \<Rightarrow> AccessControlTrafficMatch" where
  "aclMatch mc svc backend sourceIPRanges =
     \<lparr>acm_Name = AccessControlTrafficMatchName (ms_Name svc) (ms_Namespace svc)
        (to_uint16 (ps_Number (acb_Port backend))) (ps_Protocol (acb_Port backend)),
      acm_Port = to_uint32 (ps_Number (acb_Port backend)), acm_Protocol = ps_Protocol (acb_Port backend),
      acm_SourceIPRanges = sourceIPRanges, acm_TLS = acb_TLS backend,
      acm_RateLimit = settingRateLimit (upstreamTrafficSettingFor mc svc)\<rparr>"

definition is_http_or_grpc :: "string \<Rightarrow> bool" where
  "is_http_or_grpc protocol \<longleftrightarrow> to_lower protocol = ProtocolHTTP \<or> to_lower protocol = ProtocolGRPC"

fun aclBackends ::
  "MeshCatalog \<Rightarrow> MeshService \<Rightarrow> PolicySource list \<Rightarrow> AccessControlBackendSpec list \<Rightarrow>
     AccessControlTrafficMatch list \<times> RouteWeightedClusters list \<times> string set \<Rightarrow>
     IngressError + AccessControlTrafficMatch list \<times> RouteWeightedClusters list \<times> string set" where
  "aclBackends mc svc sources [] acc = Inr acc"
| "aclBackends mc svc sources (backend # backends) (trafficMatches, routes, sourcePrincipals) =
     (if acb_Name backend \<noteq> ms_Name svc \<or> ps_Number (acb_Port backend) \<noteq> int (unat (ms_TargetPort svc))
      then aclBackends mc svc sources backends (trafficMatches, routes, sourcePrincipals)
      else
        case backendSources mc (acb_TLS backend) (ps_Protocol (acb_Port backend)) sources sourcePrincipals of
          Inl err \<Rightarrow> Inl err
        | Inr (sourceIPRanges, sourcePrincipals') \<Rightarrow>
            aclBackends mc svc sources backends
              (trafficMatches @ [aclMatch mc svc backend sourceIPRanges],
               routes @ (if is_http_or_grpc (ps_Protocol (acb_Port backend)) then [wildcardRoute svc] else []),
               sourcePrincipals'))"

text \<open>Without a routing rule the list of route policies holds a nil pointer.\<close>

definition GetAccessControlTrafficPolicy ::
  "MeshCatalog \<Rightarrow> MeshService \<Rightarrow> AccessControl option \<times> (IngressError + AccessControlTrafficPolicy option)" where
  "GetAccessControlTrafficPolicy mc svc =
     (if \<not> ff_EnableAccessControlPolicy (featureFlags mc) then (None, Inr None)
      else case GetAccessControlPolicy (mc_policyController mc) svc of
        None \<Rightarrow> (None, Inr None)
      | Some aclPolicy \<Rightarrow>
          (case aclBackends mc svc (map aclSource (acsp_Sources (ac_Spec aclPolicy)))
              (acsp_Backends (ac_Spec aclPolicy)) ([], [], {}) of
             Inl err \<Rightarrow> (Some (aclPolicy\<lparr>ac_Status :=
                 \<lparr>acst_CurrentStatus = ''error'', acst_Reason = errorReason err\<rparr>\<rparr>), Inl err)
           | Inr (trafficMatches, routes, sourcePrincipals) \<Rightarrow>
               if length trafficMatches = 0 then (None, Inr None)
               else (Some (aclPolicy\<lparr>ac_Status := \<lparr>acst_CurrentStatus = ''committed'',
                     acst_Reason = ''successfully committed by the system''\<rparr>\<rparr>),
                 Inr (Some \<lparr>acp_TrafficMatches = trafficMatches,
                   acp_HTTPRoutePolicies = [if routes = [] then None else Some
                     \<lparr>itp_Name = MeshService_String svc @ ''_from_'' @ om_Name (ac_Meta aclPolicy),
                      itp_Hostnames = [''*''], itp_Rules = sharedRules routes sourcePrincipals, itp_RateLimit = None\<rparr>]\<rparr>))))"


section \<open>Exported services (multi_cluster.go)\<close>

text \<open>
  The lookup in the informer cache has an error result that the cache store never uses, so that the error
  of \<open>GetExportedRule\<close> does not occur here; a missing and an invalid rule are both the nil policy.
\<close>

definition GetExportTrafficPolicy :: "MeshCatalog \<Rightarrow> MeshService \<Rightarrow> ServiceExportTrafficPolicy option" where
  "GetExportTrafficPolicy mc svc =
     (case GetExportedRule (mc_multiclusterController mc) svc of
        None \<Rightarrow> None
      | Some exportedRule \<Rightarrow>
          let sourceIPRanges = set_adds
                (map (\<lambda>ep. IP_String (ep_IP ep) @ singeIPPrefixLen)
                  (concat (map (listEndpointsForService mc) (GetIngressControllerServices (mc_multiclusterController mc))))) [];
              trafficMatch =
                \<lparr>sem_Name = ExportedServiceTrafficMatchName (ms_Name svc) (ms_Namespace svc)
                   (to_uint16 (ser_PortNumber exportedRule)) (ms_Protocol svc),
                 sem_Port = to_uint32 (ser_PortNumber exportedRule), sem_Protocol = ms_Protocol svc,
                 sem_SourceIPRanges = sourceIPRanges, sem_TLS = None\<rparr>;
              sourcePrincipals = (if equal_fold (ms_Protocol svc) ProtocolHTTP then {WildcardPrincipal} else {}) in
          Some \<lparr>sep_TrafficMatches = [trafficMatch],
            sep_HTTPRoutePolicies = [if is_http_or_grpc (ms_Protocol svc)
              then Some \<lparr>itp_Name = MeshService_String svc @ ''_from_IngressController'', itp_Hostnames = [''*''],
                itp_Rules = sharedRules [wildcardRoute svc] sourcePrincipals, itp_RateLimit = None\<rparr>
              else None]\<rparr>)"



section \<open>Lemmas\<close>

definition sourceEndpoints :: "MeshCatalog \<Rightarrow> PolicySource \<Rightarrow> Endpoint list" where
  "sourceEndpoints mc s = listEndpointsForService mc
     (zero_MeshService\<lparr>ms_Name := src_Name s, ms_Namespace := src_Namespace s\<rparr>)"

definition unresolved :: "MeshCatalog \<Rightarrow> PolicySource \<Rightarrow> bool" where
  "unresolved mc s \<longleftrightarrow> src_Kind s = KindService \<and> sourceEndpoints mc s = []"

definition source_ranges :: "MeshCatalog \<Rightarrow> PolicySource list \<Rightarrow> string set" where
  "source_ranges mc ss =
     {r. \<exists>s \<in> set ss. src_Kind s = KindService \<and> (\<exists>ep \<in> set (sourceEndpoints mc s). r = IP_String (ep_IP ep) @ ''/32'')} \<union>
     {r. \<exists>s \<in> set ss. src_Kind s = KindIPRange \<and> src_Name s = r \<and> ParseCIDR r \<noteq> None}"

definition source_principals :: "TLSSpec option \<Rightarrow> PolicySource list \<Rightarrow> string set" where
  "source_principals tls ss =
     (\<lambda>s. if skipsClientCert tls then ''*'' else src_Name s) ` {s \<in> set ss. src_Kind s = KindAuthenticatedPrincipal}"

lemma kinds_distinct: "KindService \<noteq> KindIPRange" "KindService \<noteq> KindAuthenticatedPrincipal" "KindIPRange \<noteq> KindAuthenticatedPrincipal"
  by (simp_all add: KindService_def KindIPRange_def KindAuthenticatedPrincipal_def)

definition ranges_inv :: "SourceAcc \<Rightarrow> bool" where
  "ranges_inv acc \<longleftrightarrow> sac_IPSet acc \<subseteq> set (sac_IPRanges acc)"

lemma add_cidr_ranges:
  assumes "ranges_inv acc"
  shows "set (sac_IPRanges (add_cidr c acc)) = insert c (set (sac_IPRanges acc))"
    and "ranges_inv (add_cidr c acc)"
    and "sac_Principals (add_cidr c acc) = sac_Principals acc"
  using assms by (auto simp: add_cidr_def ranges_inv_def)

lemma fold_add_cidr:
  assumes "ranges_inv acc"
  shows "set (sac_IPRanges (fold (\<lambda>ep. add_cidr (f ep)) eps acc)) = set (sac_IPRanges acc) \<union> f ` set eps"
    and "ranges_inv (fold (\<lambda>ep. add_cidr (f ep)) eps acc)"
    and "sac_Principals (fold (\<lambda>ep. add_cidr (f ep)) eps acc) = sac_Principals acc"
  using assms by (induction eps arbitrary: acc) (simp_all add: add_cidr_ranges)

lemma addSource_Inr:
  assumes "addSource mc tls s acc = Inr acc'" and "ranges_inv acc"
  shows "set (sac_IPRanges acc') = set (sac_IPRanges acc) \<union> source_ranges mc [s]"
    and "ranges_inv acc'"
    and "sac_Principals acc' = sac_Principals acc \<union> source_principals tls [s]"
    and "\<not> unresolved mc s"
proof -
  note defs = addSource_def source_ranges_def source_principals_def unresolved_def sourceEndpoints_def Let_def
    singeIPPrefixLen_def WildcardServiceIdentity_def
  show "set (sac_IPRanges acc') = set (sac_IPRanges acc) \<union> source_ranges mc [s]"
    "sac_Principals acc' = sac_Principals acc \<union> source_principals tls [s]"
    "\<not> unresolved mc s"
    using assms kinds_distinct by (auto simp: defs fold_add_cidr split: if_splits)
  have upd: "ranges_inv (acc\<lparr>sac_Principals := P\<rparr>)" "ranges_inv (acc\<lparr>sac_IPRanges := sac_IPRanges acc @ r\<rparr>)" for P r
    using assms(2) by (auto simp: ranges_inv_def)
  show "ranges_inv acc'"
    using assms fold_add_cidr(2) [OF assms(2)] upd by (auto simp: addSource_def Let_def split: if_splits)
qed

lemma addSource_Inl:
  "addSource mc tls s acc = Inl err \<longleftrightarrow> unresolved mc s \<and> err = ErrNoSourceEndpoints (src_Namespace s) (src_Name s)"
  by (auto simp: addSource_def unresolved_def sourceEndpoints_def Let_def)

lemma source_ranges_Cons: "source_ranges mc (s # ss) = source_ranges mc [s] \<union> source_ranges mc ss"
  by (auto simp: source_ranges_def)

lemma source_principals_Cons: "source_principals tls (s # ss) = source_principals tls [s] \<union> source_principals tls ss"
  by (auto simp: source_principals_def)

lemma addSources_Inr:
  assumes "addSources mc tls ss acc = Inr acc'" and "ranges_inv acc"
  shows "set (sac_IPRanges acc') = set (sac_IPRanges acc) \<union> source_ranges mc ss \<and>
    sac_Principals acc' = sac_Principals acc \<union> source_principals tls ss"
  using assms
proof (induction ss arbitrary: acc)
  case Nil
  then show ?case by (simp add: source_ranges_def source_principals_def)
next
  case (Cons s ss)
  then obtain acc1 where acc1: "addSource mc tls s acc = Inr acc1" "addSources mc tls ss acc1 = Inr acc'"
    by (auto split: sum.splits)
  note s = addSource_Inr [OF acc1(1) Cons.prems(2)]
  from Cons.IH [OF acc1(2) s(2)] s(1,3)
  show ?case unfolding source_ranges_Cons [of mc s ss] source_principals_Cons [of tls s ss] by (simp add: Un_assoc)
qed

lemma addSources_Inl: "(\<exists>err. addSources mc tls ss acc = Inl err) \<longleftrightarrow> (\<exists>s \<in> set ss. unresolved mc s)"
proof (induction ss arbitrary: acc)
  case (Cons s ss)
  show ?case
  proof (cases "addSource mc tls s acc")
    case (Inl err)
    then show ?thesis using addSource_Inl [of mc tls s acc err] by simp
  next
    case (Inr acc1)
    then have "\<not> unresolved mc s"
      using addSource_Inl [of mc tls s acc "ErrNoSourceEndpoints (src_Namespace s) (src_Name s)"] by simp
    with Inr Cons.IH [of acc1] show ?thesis by simp
  qed
qed simp

lemma addSources_Inl_source:
  "addSources mc tls ss acc = Inl err \<Longrightarrow>
   \<exists>s \<in> set ss. unresolved mc s \<and> err = ErrNoSourceEndpoints (src_Namespace s) (src_Name s)"
  by (induction ss arbitrary: acc) (auto simp: addSource_Inl split: sum.splits)


definition backend_principals :: "TLSSpec option \<Rightarrow> string \<Rightarrow> PolicySource list \<Rightarrow> string set" where
  "backend_principals tls protocol ss =
     source_principals tls ss \<union> (if equal_fold protocol ''http'' then {''*''} else {})"

lemma backendSources_Inr:
  assumes "backendSources mc tls protocol ss P = Inr (ranges, P')"
  shows "set ranges = source_ranges mc ss" and "P' = P \<union> backend_principals tls protocol ss"
proof -
  from assms obtain acc where acc: "addSources mc tls ss \<lparr>sac_IPRanges = [], sac_IPSet = {}, sac_Principals = P\<rparr> = Inr acc"
    "ranges = sac_IPRanges acc"
    "P' = (if equal_fold protocol ''http'' then insert ''*'' (sac_Principals acc) else sac_Principals acc)"
    by (auto simp: backendSources_def ProtocolHTTP_def WildcardPrincipal_def split: sum.splits)
  from addSources_Inr [OF acc(1)] have "set (sac_IPRanges acc) = source_ranges mc ss"
    "sac_Principals acc = P \<union> source_principals tls ss" by (simp_all add: ranges_inv_def)
  with acc(2,3) show "set ranges = source_ranges mc ss" "P' = P \<union> backend_principals tls protocol ss"
    by (simp_all add: backend_principals_def)
qed

lemma backendSources_Inl:
  "(\<exists>err. backendSources mc tls protocol ss P = Inl err) \<longleftrightarrow> (\<exists>s \<in> set ss. unresolved mc s)"
  using addSources_Inl [of mc tls ss "\<lparr>sac_IPRanges = [], sac_IPSet = {}, sac_Principals = P\<rparr>"]
  by (auto simp: backendSources_def split: sum.splits)

definition ingress_matched :: "MeshService \<Rightarrow> BackendSpec \<Rightarrow> bool" where
  "ingress_matched svc b \<longleftrightarrow> be_Name b = ms_Name svc \<and> ps_Number (be_Port b) = int (unat (ms_TargetPort svc))"

lemma ingressBackends_Inr:
  assumes "ingressBackends mc svc ss bs (ms, rs, P) = Inr (ms', rs', P')"
  shows "\<exists>added. ms' = ms @ added \<and>
      list_all2 (\<lambda>m b. \<exists>ranges. m = ingressMatch mc svc b ranges \<and> set ranges = source_ranges mc ss)
        added (filter (ingress_matched svc) bs) \<and>
      rs' = rs @ replicate (length added) (wildcardRoute svc) \<and>
      P' = P \<union> (\<Union>b \<in> set (filter (ingress_matched svc) bs). backend_principals (be_TLS b) (ps_Protocol (be_Port b)) ss)"
  using assms
proof (induction bs arbitrary: ms rs P)
  case (Cons b bs)
  show ?case
  proof (cases "ingress_matched svc b")
    case False
    with Cons show ?thesis by (auto simp: ingress_matched_def)
  next
    case True
    then have m: "\<not> (be_Name b \<noteq> ms_Name svc \<or> ps_Number (be_Port b) \<noteq> int (unat (ms_TargetPort svc)))"
      by (simp add: ingress_matched_def)
    with Cons.prems obtain ranges P1 where
      src: "backendSources mc (be_TLS b) (ps_Protocol (be_Port b)) ss P = Inr (ranges, P1)"
      and rest: "ingressBackends mc svc ss bs (ms @ [ingressMatch mc svc b ranges], rs @ [wildcardRoute svc], P1) = Inr (ms', rs', P')"
      by (auto split: sum.splits)
    note s = backendSources_Inr [OF src]
    from Cons.IH [OF rest] obtain added where added: "ms' = (ms @ [ingressMatch mc svc b ranges]) @ added"
      "list_all2 (\<lambda>m b. \<exists>ranges. m = ingressMatch mc svc b ranges \<and> set ranges = source_ranges mc ss)
        added (filter (ingress_matched svc) bs)"
      "rs' = (rs @ [wildcardRoute svc]) @ replicate (length added) (wildcardRoute svc)"
      "P' = P1 \<union> (\<Union>b \<in> set (filter (ingress_matched svc) bs). backend_principals (be_TLS b) (ps_Protocol (be_Port b)) ss)"
      by blast
    show ?thesis
    proof (intro exI [of _ "ingressMatch mc svc b ranges # added"] conjI)
      show "list_all2 (\<lambda>m b. \<exists>ranges. m = ingressMatch mc svc b ranges \<and> set ranges = source_ranges mc ss)
        (ingressMatch mc svc b ranges # added) (filter (ingress_matched svc) (b # bs))"
        using added(2) s(1) True by auto
    qed (use added s(2) True in \<open>auto simp: replicate_append_same\<close>)
  qed
qed simp

lemma ingressBackends_Inl:
  "(\<exists>err. ingressBackends mc svc ss bs acc = Inl err) \<longleftrightarrow>
   (\<exists>b \<in> set bs. ingress_matched svc b) \<and> (\<exists>s \<in> set ss. unresolved mc s)"
proof (induction bs arbitrary: acc)
  case (Cons b bs)
  obtain ms rs P where acc: "acc = (ms, rs, P)" by (cases acc)
  show ?case
  proof (cases "ingress_matched svc b")
    case False
    with Cons acc show ?thesis by (auto simp: ingress_matched_def)
  next
    case True
    then have m: "\<not> (be_Name b \<noteq> ms_Name svc \<or> ps_Number (be_Port b) \<noteq> int (unat (ms_TargetPort svc)))"
      by (simp add: ingress_matched_def)
    show ?thesis
    proof (cases "backendSources mc (be_TLS b) (ps_Protocol (be_Port b)) ss P")
      case (Inl err)
      then have "\<exists>s \<in> set ss. unresolved mc s" using backendSources_Inl by blast
      with Inl m True acc show ?thesis by auto
    next
      case (Inr x)
      then have "\<not> (\<exists>s \<in> set ss. unresolved mc s)" using backendSources_Inl [of mc "be_TLS b" "ps_Protocol (be_Port b)" ss P] by simp
      with Inr m acc Cons.IH show ?thesis by (auto split: prod.splits)
    qed
  qed
qed simp



section \<open>Properties\<close>

text \<open>C7. The ingress policy of a service is decided by the backends of the IngressBackend object that name it
  and its target port. If there is none, there is no policy and no status is written. If a source of kind Service has
  no endpoint, the call fails and the object is marked with the status error. Otherwise the object is marked
  committed, there is one traffic match per backend, restricted to exactly the addresses of the source services
  and the valid IP ranges, and one wildcard rule per backend. All rules allow the same principals: the union, over the
  backends, of the authenticated principals and of the wildcard for HTTP.\<close>

theorem ingress_policy_exact:
  assumes "ff_EnableIngressBackendPolicy (featureFlags mc)"
    and "GetIngressBackendPolicy (mc_policyController mc) svc = Some ib"
  defines "ss \<equiv> map ingressSource (ibs_Sources (ib_Spec ib))"
    and "matched \<equiv> filter (ingress_matched svc) (ibs_Backends (ib_Spec ib))"
  shows "if matched = [] then GetIngressTrafficPolicy mc svc = (None, Inr None)
    else if \<exists>s \<in> set ss. unresolved mc s then
      \<exists>err. GetIngressTrafficPolicy mc svc =
        (Some (ib\<lparr>ib_Status := \<lparr>ibst_CurrentStatus = ''error'', ibst_Reason = errorReason err\<rparr>\<rparr>), Inl err)
    else \<exists>pol rp. GetIngressTrafficPolicy mc svc = (Some (ib\<lparr>ib_Status := committed\<rparr>), Inr (Some pol)) \<and>
      list_all2 (\<lambda>m b. \<exists>ranges. m = ingressMatch mc svc b ranges \<and> set ranges = source_ranges mc ss)
        (ingp_TrafficMatches pol) matched \<and>
      ingp_HTTPRoutePolicies pol = [Some rp] \<and> itp_Hostnames rp = [''*''] \<and>
      itp_Rules rp = replicate (length matched) \<lparr>rule_Route = wildcardRoute svc,
        rule_AllowedPrincipals = (\<Union>b \<in> set matched. backend_principals (be_TLS b) (ps_Protocol (be_Port b)) ss)\<rparr>"
proof -
  let ?bs = "ibs_Backends (ib_Spec ib)"
  let ?res = "ingressBackends mc svc ss ?bs ([], [], {})"
  have call: "GetIngressTrafficPolicy mc svc = (case ?res of
             Inl err \<Rightarrow> (Some (ib\<lparr>ib_Status := \<lparr>ibst_CurrentStatus = ''error'', ibst_Reason = errorReason err\<rparr>\<rparr>), Inl err)
           | Inr (trafficMatches, routes, sourcePrincipals) \<Rightarrow>
               if length trafficMatches = 0 then (None, Inr None)
               else (Some (ib\<lparr>ib_Status := committed\<rparr>),
                 Inr (Some \<lparr>ingp_TrafficMatches = trafficMatches,
                   ingp_HTTPRoutePolicies = [Some
                     \<lparr>itp_Name = MeshService_String svc @ ''_from_'' @ om_Name (ib_Meta ib),
                      itp_Hostnames = [''*''], itp_Rules = sharedRules routes sourcePrincipals, itp_RateLimit = None\<rparr>]\<rparr>)))"
    using assms(1,2) by (simp add: GetIngressTrafficPolicy_def ss_def)
  have fails: "(\<exists>err. ?res = Inl err) \<longleftrightarrow> matched \<noteq> [] \<and> (\<exists>s \<in> set ss. unresolved mc s)"
    unfolding ingressBackends_Inl matched_def by (auto simp: filter_empty_conv)
  show ?thesis
  proof (cases ?res)
    case (Inl err)
    with fails have f: "matched \<noteq> []" "\<exists>s \<in> set ss. unresolved mc s" by auto
    show ?thesis unfolding call Inl using f by simp
  next
    case (Inr r)
    then obtain ms rs P where r: "?res = Inr (ms, rs, P)" by (cases r) auto
    note ex = ingressBackends_Inr [OF r, folded matched_def, simplified]
    then have len: "length ms = length matched" by (auto dest: list_all2_lengthD)
    from fails r have ok: "matched = [] \<or> \<not> (\<exists>s \<in> set ss. unresolved mc s)" by auto
    show ?thesis
    proof (cases "matched = []")
      case True
      with len show ?thesis unfolding call r by simp
    next
      case False
      with ok have ok': "\<not> (\<exists>s \<in> set ss. unresolved mc s)" by blast
      have ne: "ms \<noteq> []" using False len by auto
      show ?thesis unfolding call r using False ok' ne ex len
        by (simp add: sharedRules_def map_replicate)
    qed
  qed
qed


definition sample_ingress :: IngressBackend where
  "sample_ingress =
     \<lparr>ib_Meta = sample_meta ''shop'' ''gw'',
      ib_Spec = \<lparr>ibs_Backends =
         [\<lparr>be_Name = ''db'', be_Port = \<lparr>ps_Number = 8080, ps_Protocol = ''https''\<rparr>, be_TLS = None\<rparr>,
          \<lparr>be_Name = ''other'', be_Port = \<lparr>ps_Number = 8080, ps_Protocol = ''http''\<rparr>, be_TLS = None\<rparr>],
        ibs_Sources = [\<lparr>is_Kind = KindAuthenticatedPrincipal, is_Name = ''gw'', is_Namespace = ''''\<rparr>],
        ibs_Matches = []\<rparr>,
      ib_Status = \<lparr>ibst_CurrentStatus = '''', ibst_Reason = ''''\<rparr>\<rparr>"

definition sample_ingress_catalog :: MeshCatalog where
  "sample_ingress_catalog = (sample_catalog False)\<lparr>mc_policyController :=
     sample_policies\<lparr>pc_IngressBackends := [(''shop/gw'', sample_ingress)]\<rparr>\<rparr>"

theorem ingress_policy_exact_witness:
  "\<exists>pol rp. GetIngressTrafficPolicy sample_ingress_catalog sample_http_service =
     (Some (sample_ingress\<lparr>ib_Status := committed\<rparr>), Inr (Some pol)) \<and>
     ingp_HTTPRoutePolicies pol = [Some rp] \<and>
     itp_Rules rp = [\<lparr>rule_Route = wildcardRoute sample_http_service, rule_AllowedPrincipals = {''gw''}\<rparr>]"
proof -
  have on: "ff_EnableIngressBackendPolicy (featureFlags sample_ingress_catalog)"
    by (simp add: sample_ingress_catalog_def sample_catalog_def sample_flags_def)
  have get: "GetIngressBackendPolicy (mc_policyController sample_ingress_catalog) sample_http_service = Some sample_ingress"
    by (simp add: sample_ingress_catalog_def GetIngressBackendPolicy_def cache_List_def sample_ingress_def sample_meta_def
        sample_http_service_def backend_matches_def)
  have m: "filter (ingress_matched sample_http_service) (ibs_Backends (ib_Spec sample_ingress)) =
      [\<lparr>be_Name = ''db'', be_Port = \<lparr>ps_Number = 8080, ps_Protocol = ''https''\<rparr>, be_TLS = None\<rparr>]"
    by (simp add: sample_ingress_def ingress_matched_def sample_http_service_def)
  have u: "\<not> (\<exists>s \<in> set (map ingressSource (ibs_Sources (ib_Spec sample_ingress))). unresolved sample_ingress_catalog s)"
    by (simp add: sample_ingress_def ingressSource_def unresolved_def kinds_distinct [symmetric])
  have p: "backend_principals None ''https'' (map ingressSource (ibs_Sources (ib_Spec sample_ingress))) = {''gw''}"
    by (simp add: backend_principals_def source_principals_def sample_ingress_def ingressSource_def skipsClientCert_def
        equal_fold_def to_lower_def image_def)
  from ingress_policy_exact [OF on get, unfolded m] u p show ?thesis by auto
qed

text \<open>C32. The policy for an exported service whose protocol is gRPC has a wildcard route that no principal is
  allowed to use, while for HTTP every principal is allowed.\<close>

theorem export_policy_principals:
  assumes "GetExportedRule (mc_multiclusterController mc) svc = Some rule"
  shows "\<exists>pol. GetExportTrafficPolicy mc svc = Some pol \<and>
    (to_lower (ms_Protocol svc) = ''grpc'' \<longrightarrow> (\<exists>rp. sep_HTTPRoutePolicies pol = [Some rp] \<and>
       itp_Rules rp = [\<lparr>rule_Route = wildcardRoute svc, rule_AllowedPrincipals = {}\<rparr>])) \<and>
    (to_lower (ms_Protocol svc) = ''http'' \<longrightarrow> (\<exists>rp. sep_HTTPRoutePolicies pol = [Some rp] \<and>
       itp_Rules rp = [\<lparr>rule_Route = wildcardRoute svc, rule_AllowedPrincipals = {''*''}\<rparr>])) \<and>
    (to_lower (ms_Protocol svc) \<notin> {''http'', ''grpc''} \<longrightarrow> sep_HTTPRoutePolicies pol = [None])"
proof -
  have "to_lower ''http'' = ''http''" by code_simp
  with assms show ?thesis
    by (simp add: GetExportTrafficPolicy_def is_http_or_grpc_def equal_fold_def ProtocolHTTP_def ProtocolGRPC_def Let_def
        sharedRules_def WildcardPrincipal_def)
qed


definition sample_export_catalog :: MeshCatalog where
  "sample_export_catalog = (sample_catalog False)\<lparr>mc_multiclusterController := sample_multicluster\<lparr>mcl_ServiceExports :=
     [(''shop/db'', \<lparr>sx_Meta = sample_meta ''shop'' ''db'', sx_PathRewrite = None, sx_SessionSticky = False,
        sx_LoadBalancer = '''', sx_Rules = [\<lparr>ser_PortNumber = 80, ser_Path = ''/db'', ser_PathType = None\<rparr>],
        sx_TargetClusters = [], sx_ServiceAccountName = '''', sx_Conditions = []\<rparr>)]\<rparr>\<rparr>"

theorem export_policy_principals_witness:
  "\<exists>pol rp. GetExportTrafficPolicy sample_export_catalog (sample_http_service\<lparr>ms_Protocol := ''gRPC''\<rparr>) = Some pol \<and>
     sep_HTTPRoutePolicies pol = [Some rp] \<and> itp_Rules rp \<noteq> [] \<and>
     (\<Union>r \<in> set (itp_Rules rp). rule_AllowedPrincipals r) = {}"
proof -
  let ?svc = "sample_http_service\<lparr>ms_Protocol := ''gRPC''\<rparr>"
  have "GetExportedRule (mc_multiclusterController sample_export_catalog) ?svc =
      Some \<lparr>ser_PortNumber = 80, ser_Path = ''/db'', ser_PathType = None\<rparr>" by code_simp
  moreover have "to_lower (ms_Protocol ?svc) = ''grpc''" by code_simp
  ultimately show ?thesis using export_policy_principals [of sample_export_catalog ?svc] by fastforce
qed

definition acl_matched :: "MeshService \<Rightarrow> AccessControlBackendSpec \<Rightarrow> bool" where
  "acl_matched svc b \<longleftrightarrow> acb_Name b = ms_Name svc \<and> ps_Number (acb_Port b) = int (unat (ms_TargetPort svc))"

lemma aclBackends_Inr:
  assumes "aclBackends mc svc ss bs (ms, rs, P) = Inr (ms', rs', P')"
  shows "\<exists>added. ms' = ms @ added \<and>
      list_all2 (\<lambda>m b. \<exists>ranges. m = aclMatch mc svc b ranges \<and> set ranges = source_ranges mc ss)
        added (filter (acl_matched svc) bs) \<and>
      rs' = rs @ map (\<lambda>_. wildcardRoute svc)
        (filter (\<lambda>b. is_http_or_grpc (ps_Protocol (acb_Port b))) (filter (acl_matched svc) bs)) \<and>
      P' = P \<union> (\<Union>b \<in> set (filter (acl_matched svc) bs). backend_principals (acb_TLS b) (ps_Protocol (acb_Port b)) ss)"
  using assms
proof (induction bs arbitrary: ms rs P)
  case (Cons b bs)
  show ?case
  proof (cases "acl_matched svc b")
    case False
    with Cons show ?thesis by (auto simp: acl_matched_def)
  next
    case True
    let ?new = "if is_http_or_grpc (ps_Protocol (acb_Port b)) then [wildcardRoute svc] else []"
    from True have m: "\<not> (acb_Name b \<noteq> ms_Name svc \<or> ps_Number (acb_Port b) \<noteq> int (unat (ms_TargetPort svc)))"
      by (simp add: acl_matched_def)
    with Cons.prems obtain ranges P1 where
      src: "backendSources mc (acb_TLS b) (ps_Protocol (acb_Port b)) ss P = Inr (ranges, P1)"
      and rest: "aclBackends mc svc ss bs (ms @ [aclMatch mc svc b ranges], rs @ ?new, P1) = Inr (ms', rs', P')"
      by (auto split: sum.splits)
    note s = backendSources_Inr [OF src]
    from Cons.IH [OF rest] obtain added where added: "ms' = (ms @ [aclMatch mc svc b ranges]) @ added"
      "list_all2 (\<lambda>m b. \<exists>ranges. m = aclMatch mc svc b ranges \<and> set ranges = source_ranges mc ss)
        added (filter (acl_matched svc) bs)"
      "rs' = (rs @ ?new) @ map (\<lambda>_. wildcardRoute svc)
        (filter (\<lambda>b. is_http_or_grpc (ps_Protocol (acb_Port b))) (filter (acl_matched svc) bs))"
      "P' = P1 \<union> (\<Union>b \<in> set (filter (acl_matched svc) bs). backend_principals (acb_TLS b) (ps_Protocol (acb_Port b)) ss)"
      by blast
    show ?thesis
    proof (intro exI [of _ "aclMatch mc svc b ranges # added"] conjI)
      show "list_all2 (\<lambda>m b. \<exists>ranges. m = aclMatch mc svc b ranges \<and> set ranges = source_ranges mc ss)
        (aclMatch mc svc b ranges # added) (filter (acl_matched svc) (b # bs))"
        using added(2) s(1) True by auto
    qed (use added s(2) True in auto)
  qed
qed simp

lemma aclBackends_Inl:
  "(\<exists>err. aclBackends mc svc ss bs acc = Inl err) \<longleftrightarrow>
   (\<exists>b \<in> set bs. acl_matched svc b) \<and> (\<exists>s \<in> set ss. unresolved mc s)"
proof (induction bs arbitrary: acc)
  case (Cons b bs)
  obtain ms rs P where acc: "acc = (ms, rs, P)" by (cases acc)
  show ?case
  proof (cases "acl_matched svc b")
    case False
    with Cons acc show ?thesis by (auto simp: acl_matched_def)
  next
    case True
    then have m: "\<not> (acb_Name b \<noteq> ms_Name svc \<or> ps_Number (acb_Port b) \<noteq> int (unat (ms_TargetPort svc)))"
      by (simp add: acl_matched_def)
    show ?thesis
    proof (cases "backendSources mc (acb_TLS b) (ps_Protocol (acb_Port b)) ss P")
      case (Inl err)
      then have "\<exists>s \<in> set ss. unresolved mc s" using backendSources_Inl by blast
      with Inl m True acc show ?thesis by auto
    next
      case (Inr x)
      then have "\<not> (\<exists>s \<in> set ss. unresolved mc s)"
        using backendSources_Inl [of mc "acb_TLS b" "ps_Protocol (acb_Port b)" ss P] by simp
      with Inr m acc Cons.IH show ?thesis by (auto split: prod.splits)
    qed
  qed
qed simp


text \<open>C31. The access control policy of a service follows the AccessControl object in the same way, except
  that only HTTP and gRPC backends yield a routing rule: if none of the selected backends is of such a protocol, the
  list of route policies holds a single nil pointer.\<close>

theorem access_control_policy_exact:
  assumes "ff_EnableAccessControlPolicy (featureFlags mc)"
    and "GetAccessControlPolicy (mc_policyController mc) svc = Some acl"
  defines "ss \<equiv> map aclSource (acsp_Sources (ac_Spec acl))"
    and "matched \<equiv> filter (acl_matched svc) (acsp_Backends (ac_Spec acl))"
  shows "if matched = [] then GetAccessControlTrafficPolicy mc svc = (None, Inr None)
    else if \<exists>s \<in> set ss. unresolved mc s then
      \<exists>err. GetAccessControlTrafficPolicy mc svc =
        (Some (acl\<lparr>ac_Status := \<lparr>acst_CurrentStatus = ''error'', acst_Reason = errorReason err\<rparr>\<rparr>), Inl err)
    else \<exists>pol. GetAccessControlTrafficPolicy mc svc =
        (Some (acl\<lparr>ac_Status := \<lparr>acst_CurrentStatus = ''committed'',
           acst_Reason = ''successfully committed by the system''\<rparr>\<rparr>), Inr (Some pol)) \<and>
      list_all2 (\<lambda>m b. \<exists>ranges. m = aclMatch mc svc b ranges \<and> set ranges = source_ranges mc ss)
        (acp_TrafficMatches pol) matched \<and>
      (let http = filter (\<lambda>b. is_http_or_grpc (ps_Protocol (acb_Port b))) matched in
       if http = [] then acp_HTTPRoutePolicies pol = [None]
       else \<exists>rp. acp_HTTPRoutePolicies pol = [Some rp] \<and> itp_Hostnames rp = [''*''] \<and>
         itp_Rules rp = replicate (length http) \<lparr>rule_Route = wildcardRoute svc,
           rule_AllowedPrincipals = (\<Union>b \<in> set matched. backend_principals (acb_TLS b) (ps_Protocol (acb_Port b)) ss)\<rparr>)"
proof -
  let ?res = "aclBackends mc svc ss (acsp_Backends (ac_Spec acl)) ([], [], {})"
  have call: "GetAccessControlTrafficPolicy mc svc = (case ?res of
             Inl err \<Rightarrow> (Some (acl\<lparr>ac_Status := \<lparr>acst_CurrentStatus = ''error'', acst_Reason = errorReason err\<rparr>\<rparr>), Inl err)
           | Inr (trafficMatches, routes, sourcePrincipals) \<Rightarrow>
               if length trafficMatches = 0 then (None, Inr None)
               else (Some (acl\<lparr>ac_Status := \<lparr>acst_CurrentStatus = ''committed'',
                     acst_Reason = ''successfully committed by the system''\<rparr>\<rparr>),
                 Inr (Some \<lparr>acp_TrafficMatches = trafficMatches,
                   acp_HTTPRoutePolicies = [if routes = [] then None else Some
                     \<lparr>itp_Name = MeshService_String svc @ ''_from_'' @ om_Name (ac_Meta acl),
                      itp_Hostnames = [''*''], itp_Rules = sharedRules routes sourcePrincipals, itp_RateLimit = None\<rparr>]\<rparr>)))"
    using assms(1,2) by (simp add: GetAccessControlTrafficPolicy_def ss_def)
  have fails: "(\<exists>err. ?res = Inl err) \<longleftrightarrow> matched \<noteq> [] \<and> (\<exists>s \<in> set ss. unresolved mc s)"
    unfolding aclBackends_Inl matched_def by (auto simp: filter_empty_conv)
  show ?thesis
  proof (cases ?res)
    case (Inl err)
    with fails have f: "matched \<noteq> []" "\<exists>s \<in> set ss. unresolved mc s" by auto
    show ?thesis unfolding call Inl using f by simp
  next
    case (Inr r)
    then obtain ms rs P where r: "?res = Inr (ms, rs, P)" by (cases r) auto
    note ex = aclBackends_Inr [OF r, folded matched_def, simplified append_Nil ex_simps]
    then have len: "length ms = length matched" by (auto dest: list_all2_lengthD)
    from fails r have ok: "matched = [] \<or> \<not> (\<exists>s \<in> set ss. unresolved mc s)" by auto
    show ?thesis
    proof (cases "matched = []")
      case True
      with len show ?thesis unfolding call r by simp
    next
      case False
      with ok have ok': "\<not> (\<exists>s \<in> set ss. unresolved mc s)" by blast
      have ne: "ms \<noteq> []" using False len by auto
      let ?http = "filter (\<lambda>b. is_http_or_grpc (ps_Protocol (acb_Port b))) matched"
      from ex have rs: "rs = replicate (length ?http) (wildcardRoute svc)" by (simp add: map_replicate_const)
      from ex have P: "P = (\<Union>b \<in> set matched. backend_principals (acb_TLS b) (ps_Protocol (acb_Port b)) ss)" by simp
      from ex have ms: "list_all2 (\<lambda>m b. \<exists>ranges. m = aclMatch mc svc b ranges \<and> set ranges = source_ranges mc ss) ms matched"
        by simp
      show ?thesis unfolding call r using False ok' ne ms
        by (cases "?http = []") (simp_all add: rs P sharedRules_def map_replicate)
    qed
  qed
qed


definition sample_acl :: AccessControl where
  "sample_acl =
     \<lparr>ac_Meta = sample_meta ''shop'' ''acl'',
      ac_Spec = \<lparr>acsp_Backends =
         [\<lparr>acb_Name = ''db'', acb_Port = \<lparr>ps_Number = 8080, ps_Protocol = ''tcp''\<rparr>, acb_TLS = None\<rparr>],
        acsp_Sources = [\<lparr>acs_Kind = KindAuthenticatedPrincipal, acs_Name = ''gw'', acs_Namespace = ''''\<rparr>],
        acsp_Matches = []\<rparr>,
      ac_Status = \<lparr>acst_CurrentStatus = '''', acst_Reason = ''''\<rparr>\<rparr>"

definition sample_acl_catalog :: MeshCatalog where
  "sample_acl_catalog = (sample_catalog False)\<lparr>mc_policyController :=
     sample_policies\<lparr>pc_AccessControls := [(''shop/acl'', sample_acl)]\<rparr>\<rparr>"

theorem access_control_policy_exact_witness:
  "\<exists>status pol. GetAccessControlTrafficPolicy sample_acl_catalog sample_http_service = (Some status, Inr (Some pol)) \<and>
     length (acp_TrafficMatches pol) = 1 \<and> acp_HTTPRoutePolicies pol = [None]"
proof -
  have on: "ff_EnableAccessControlPolicy (featureFlags sample_acl_catalog)"
    by (simp add: sample_acl_catalog_def sample_catalog_def sample_flags_def)
  have get: "GetAccessControlPolicy (mc_policyController sample_acl_catalog) sample_http_service = Some sample_acl"
    by (simp add: sample_acl_catalog_def GetAccessControlPolicy_def cache_List_def sample_acl_def sample_meta_def
        sample_http_service_def backend_matches_def)
  have m: "filter (acl_matched sample_http_service) (acsp_Backends (ac_Spec sample_acl)) =
      [\<lparr>acb_Name = ''db'', acb_Port = \<lparr>ps_Number = 8080, ps_Protocol = ''tcp''\<rparr>, acb_TLS = None\<rparr>]"
    by (simp add: sample_acl_def acl_matched_def sample_http_service_def)
  have u: "\<not> (\<exists>s \<in> set (map aclSource (acsp_Sources (ac_Spec sample_acl))). unresolved sample_acl_catalog s)"
    by (simp add: sample_acl_def aclSource_def unresolved_def kinds_distinct [symmetric])
  have p: "\<not> is_http_or_grpc ''tcp''" by code_simp
  from access_control_policy_exact [OF on get, unfolded m] u p show ?thesis
    by (auto dest: list_all2_lengthD)
qed

end
