(* ===== verification/Announcements.thy ===== *)
theory Announcements
  imports Osm_Prelude
begin

text \<open>
  The kinds of events that travel inside the control plane (\<open>src/pkg/announcements/types.go\<close>). A kind is a
  string, which is also the topic the event is published on.
\<close>

type_synonym Kind = string

named_theorems kind_defs

definition ProxyUpdate :: Kind where [kind_defs]:
  "ProxyUpdate = ''proxy-update''"

definition PodAdded :: Kind where [kind_defs]:
  "PodAdded = ''pod-added''"

definition PodDeleted :: Kind where [kind_defs]:
  "PodDeleted = ''pod-deleted''"

definition PodUpdated :: Kind where [kind_defs]:
  "PodUpdated = ''pod-updated''"

definition EndpointAdded :: Kind where [kind_defs]:
  "EndpointAdded = ''endpoint-added''"

definition EndpointDeleted :: Kind where [kind_defs]:
  "EndpointDeleted = ''endpoint-deleted''"

definition EndpointUpdated :: Kind where [kind_defs]:
  "EndpointUpdated = ''endpoint-updated''"

definition NamespaceAdded :: Kind where [kind_defs]:
  "NamespaceAdded = ''namespace-added''"

definition NamespaceDeleted :: Kind where [kind_defs]:
  "NamespaceDeleted = ''namespace-deleted''"

definition NamespaceUpdated :: Kind where [kind_defs]:
  "NamespaceUpdated = ''namespace-updated''"

definition ServiceAdded :: Kind where [kind_defs]:
  "ServiceAdded = ''service-added''"

definition ServiceDeleted :: Kind where [kind_defs]:
  "ServiceDeleted = ''service-deleted''"

definition ServiceUpdated :: Kind where [kind_defs]:
  "ServiceUpdated = ''service-updated''"

definition ServiceAccountAdded :: Kind where [kind_defs]:
  "ServiceAccountAdded = ''serviceaccount-added''"

definition ServiceAccountDeleted :: Kind where [kind_defs]:
  "ServiceAccountDeleted = ''serviceaccount-deleted''"

definition ServiceAccountUpdated :: Kind where [kind_defs]:
  "ServiceAccountUpdated = ''serviceaccount-updated''"

definition TrafficSplitAdded :: Kind where [kind_defs]:
  "TrafficSplitAdded = ''trafficsplit-added''"

definition TrafficSplitDeleted :: Kind where [kind_defs]:
  "TrafficSplitDeleted = ''trafficsplit-deleted''"

definition TrafficSplitUpdated :: Kind where [kind_defs]:
  "TrafficSplitUpdated = ''trafficsplit-updated''"

definition RouteGroupAdded :: Kind where [kind_defs]:
  "RouteGroupAdded = ''routegroup-added''"

definition RouteGroupDeleted :: Kind where [kind_defs]:
  "RouteGroupDeleted = ''routegroup-deleted''"

definition RouteGroupUpdated :: Kind where [kind_defs]:
  "RouteGroupUpdated = ''routegroup-updated''"

definition TCPRouteAdded :: Kind where [kind_defs]:
  "TCPRouteAdded = ''tcproute-added''"

definition TCPRouteDeleted :: Kind where [kind_defs]:
  "TCPRouteDeleted = ''tcproute-deleted''"

definition TCPRouteUpdated :: Kind where [kind_defs]:
  "TCPRouteUpdated = ''tcproute-updated''"

definition TrafficTargetAdded :: Kind where [kind_defs]:
  "TrafficTargetAdded = ''traffictarget-added''"

definition TrafficTargetDeleted :: Kind where [kind_defs]:
  "TrafficTargetDeleted = ''traffictarget-deleted''"

definition TrafficTargetUpdated :: Kind where [kind_defs]:
  "TrafficTargetUpdated = ''traffictarget-updated''"

definition IngressAdded :: Kind where [kind_defs]:
  "IngressAdded = ''ingress-added''"

definition IngressDeleted :: Kind where [kind_defs]:
  "IngressDeleted = ''ingress-deleted''"

definition IngressUpdated :: Kind where [kind_defs]:
  "IngressUpdated = ''ingress-updated''"

definition IngressClassAdded :: Kind where [kind_defs]:
  "IngressClassAdded = ''ingressclass-added''"

definition IngressClassDeleted :: Kind where [kind_defs]:
  "IngressClassDeleted = ''ingressclass-deleted''"

definition IngressClassUpdated :: Kind where [kind_defs]:
  "IngressClassUpdated = ''ingressclass-updated''"

definition CertificateRotated :: Kind where [kind_defs]:
  "CertificateRotated = ''certificate-rotated''"

definition MeshConfigAdded :: Kind where [kind_defs]:
  "MeshConfigAdded = ''meshconfig-added''"

definition MeshConfigDeleted :: Kind where [kind_defs]:
  "MeshConfigDeleted = ''meshconfig-deleted''"

definition MeshConfigUpdated :: Kind where [kind_defs]:
  "MeshConfigUpdated = ''meshconfig-updated''"

definition MeshRootCertificateAdded :: Kind where [kind_defs]:
  "MeshRootCertificateAdded = ''meshrootcertificate-added''"

definition MeshRootCertificateDeleted :: Kind where [kind_defs]:
  "MeshRootCertificateDeleted = ''meshrootcertificate-deleted''"

definition MeshRootCertificateUpdated :: Kind where [kind_defs]:
  "MeshRootCertificateUpdated = ''meshrootcertificate-updated''"

definition EgressAdded :: Kind where [kind_defs]:
  "EgressAdded = ''egress-added''"

definition EgressDeleted :: Kind where [kind_defs]:
  "EgressDeleted = ''egress-deleted''"

definition EgressUpdated :: Kind where [kind_defs]:
  "EgressUpdated = ''egress-updated''"

definition EgressGatewayAdded :: Kind where [kind_defs]:
  "EgressGatewayAdded = ''egressgateway-added''"

definition EgressGatewayDeleted :: Kind where [kind_defs]:
  "EgressGatewayDeleted = ''egressgateway-deleted''"

definition EgressGatewayUpdated :: Kind where [kind_defs]:
  "EgressGatewayUpdated = ''egressgateway-updated''"

definition IngressBackendAdded :: Kind where [kind_defs]:
  "IngressBackendAdded = ''ingressbackend-added''"

definition IngressBackendDeleted :: Kind where [kind_defs]:
  "IngressBackendDeleted = ''ingressbackend-deleted''"

definition IngressBackendUpdated :: Kind where [kind_defs]:
  "IngressBackendUpdated = ''ingressbackend-updated''"

definition AccessControlAdded :: Kind where [kind_defs]:
  "AccessControlAdded = ''accesscontrol-added''"

definition AccessControlDeleted :: Kind where [kind_defs]:
  "AccessControlDeleted = ''accesscontrol-deleted''"

definition AccessControlUpdated :: Kind where [kind_defs]:
  "AccessControlUpdated = ''accesscontrol-updated''"

definition AccessCertAdded :: Kind where [kind_defs]:
  "AccessCertAdded = ''accesscert-added''"

definition AccessCertDeleted :: Kind where [kind_defs]:
  "AccessCertDeleted = ''accesscert-deleted''"

definition AccessCertUpdated :: Kind where [kind_defs]:
  "AccessCertUpdated = ''accesscert-updated''"

definition ServiceExportAdded :: Kind where [kind_defs]:
  "ServiceExportAdded = ''serviceexport-added''"

definition ServiceExportDeleted :: Kind where [kind_defs]:
  "ServiceExportDeleted = ''serviceexport-deleted''"

definition ServiceExportUpdated :: Kind where [kind_defs]:
  "ServiceExportUpdated = ''serviceexport-updated''"

definition ServiceImportAdded :: Kind where [kind_defs]:
  "ServiceImportAdded = ''serviceimport-added''"

definition ServiceImportDeleted :: Kind where [kind_defs]:
  "ServiceImportDeleted = ''serviceimport-deleted''"

definition ServiceImportUpdated :: Kind where [kind_defs]:
  "ServiceImportUpdated = ''serviceimport-updated''"

definition GlobalTrafficPolicyAdded :: Kind where [kind_defs]:
  "GlobalTrafficPolicyAdded = ''globaltrafficpolicy-added''"

definition GlobalTrafficPolicyDeleted :: Kind where [kind_defs]:
  "GlobalTrafficPolicyDeleted = ''globaltrafficpolicy-deleted''"

definition GlobalTrafficPolicyUpdated :: Kind where [kind_defs]:
  "GlobalTrafficPolicyUpdated = ''globaltrafficpolicy-updated''"

definition RetryPolicyAdded :: Kind where [kind_defs]:
  "RetryPolicyAdded = ''retry-added''"

definition RetryPolicyDeleted :: Kind where [kind_defs]:
  "RetryPolicyDeleted = ''retry-deleted''"

definition RetryPolicyUpdated :: Kind where [kind_defs]:
  "RetryPolicyUpdated = ''retry-updated''"

definition UpstreamTrafficSettingAdded :: Kind where [kind_defs]:
  "UpstreamTrafficSettingAdded = ''upstreamtrafficsetting-added''"

definition UpstreamTrafficSettingDeleted :: Kind where [kind_defs]:
  "UpstreamTrafficSettingDeleted = ''upstreamtrafficsetting-deleted''"

definition UpstreamTrafficSettingUpdated :: Kind where [kind_defs]:
  "UpstreamTrafficSettingUpdated = ''upstreamtrafficsetting-updated''"

definition PluginAdded :: Kind where [kind_defs]:
  "PluginAdded = ''plugin-added''"

definition PluginDeleted :: Kind where [kind_defs]:
  "PluginDeleted = ''plugin-deleted''"

definition PluginUpdated :: Kind where [kind_defs]:
  "PluginUpdated = ''plugin-updated''"

definition PluginChainAdded :: Kind where [kind_defs]:
  "PluginChainAdded = ''pluginchain-added''"

definition PluginChainDeleted :: Kind where [kind_defs]:
  "PluginChainDeleted = ''pluginchain-deleted''"

definition PluginChainUpdated :: Kind where [kind_defs]:
  "PluginChainUpdated = ''pluginchain-updated''"

definition PluginConfigAdded :: Kind where [kind_defs]:
  "PluginConfigAdded = ''pluginconfig-added''"

definition PluginConfigDeleted :: Kind where [kind_defs]:
  "PluginConfigDeleted = ''pluginconfig-deleted''"

definition PluginConfigUpdated :: Kind where [kind_defs]:
  "PluginConfigUpdated = ''pluginconfig-updated''"

end
