(* ===== verification/Broker.thy ===== *)
theory Broker
  imports Announcements Go_Time Mesh_Config K8s_Client
begin

text \<open>
  The message broker (\<open>src/pkg/messaging/broker.go\<close>, \<open>workqueue.go\<close>, \<open>types.go\<close>): which events update the
  proxies and on which topic, the processing of one item of the work queue, and the dispatcher that
  coalesces broadcasts with two timers.

  The objects an event carries are interfaces; the broker looks inside a MeshConfig and a Pod only.
  The work queue and the publish-subscribe instances are third-party code: the environment chooses
  what the queue delivers, and what is published is recorded in a log. Slices that are nil and
  slices that are empty are not distinguished.

  A Go timer has a deadline while it is armed and a channel that buffers one value. Stopping a timer
  whose deadline has passed and draining its channel blocks if the channel is empty; a handler
  that would block returns \<open>None\<close>. Times are in nanoseconds.
\<close>

section \<open>Events\<close>

datatype event_object = NilObj | MeshConfigObj MeshConfig | PodObj Pod | OtherObj

record PubSubMessage =
  psm_Kind :: Kind
  psm_OldObj :: event_object
  psm_NewObj :: event_object

record proxyUpdateEvent =
  pue_msg :: PubSubMessage
  pue_topic :: string

fun as_MeshConfig :: "event_object \<Rightarrow> MeshConfig option" where
  "as_MeshConfig (MeshConfigObj c) = Some c"
| "as_MeshConfig x = None"

fun as_Pod :: "event_object \<Rightarrow> Pod option" where
  "as_Pod (PodObj p) = Some p"
| "as_Pod x = None"

definition GetPubSubTopicForProxyUUID :: "string \<Rightarrow> string" where
  "GetPubSubTopicForProxyUUID uuid = ''proxy:'' @ uuid"

definition broadcast_kinds :: "Kind list" where
  "broadcast_kinds =
    [EndpointAdded, EndpointDeleted, EndpointUpdated, IngressAdded, IngressDeleted, IngressUpdated,
     IngressClassAdded, IngressClassDeleted, IngressClassUpdated, EgressAdded, EgressDeleted, EgressUpdated,
     EgressGatewayAdded, EgressGatewayDeleted, EgressGatewayUpdated, IngressBackendAdded, IngressBackendDeleted,
     IngressBackendUpdated, AccessControlAdded, AccessControlDeleted, AccessControlUpdated, RetryPolicyAdded,
     RetryPolicyDeleted, RetryPolicyUpdated, UpstreamTrafficSettingAdded, UpstreamTrafficSettingDeleted,
     UpstreamTrafficSettingUpdated, RouteGroupAdded, RouteGroupDeleted, RouteGroupUpdated, TCPRouteAdded,
     TCPRouteDeleted, TCPRouteUpdated, TrafficSplitAdded, TrafficSplitDeleted, TrafficSplitUpdated,
     TrafficTargetAdded, TrafficTargetDeleted, TrafficTargetUpdated, ServiceImportAdded, ServiceImportDeleted,
     ServiceImportUpdated, ServiceExportAdded, ServiceExportDeleted, ServiceExportUpdated,
     GlobalTrafficPolicyAdded, GlobalTrafficPolicyDeleted, GlobalTrafficPolicyUpdated, PluginAdded, PluginDeleted,
     PluginUpdated, PluginChainAdded, PluginChainDeleted, PluginChainUpdated, PluginConfigAdded,
     PluginConfigDeleted, PluginConfigUpdated, ProxyUpdate]"

text \<open>Go's \<open>!=\<close> on the two structs with a pointer field compares the addresses.\<close>

definition TracingSpec_eq :: "TracingSpec \<Rightarrow> TracingSpec \<Rightarrow> bool" where
  "TracingSpec_eq s t \<longleftrightarrow> tcg_Enable s = tcg_Enable t \<and> tcg_Port s = tcg_Port t \<and> tcg_Address s = tcg_Address t \<and>
     tcg_Endpoint s = tcg_Endpoint t \<and> ptr_eq (tcg_SampledFraction s) (tcg_SampledFraction t)"

definition RemoteLoggingSpec_eq :: "RemoteLoggingSpec \<Rightarrow> RemoteLoggingSpec \<Rightarrow> bool" where
  "RemoteLoggingSpec_eq s t \<longleftrightarrow> rls_Enable s = rls_Enable t \<and> rls_Level s = rls_Level t \<and> rls_Port s = rls_Port t \<and>
     rls_Address s = rls_Address t \<and> rls_Endpoint s = rls_Endpoint t \<and> rls_Authorization s = rls_Authorization t \<and>
     ptr_eq (rls_SampledFraction s) (rls_SampledFraction t)"

definition meshConfigUpdatesProxies :: "MeshConfigSpec \<Rightarrow> MeshConfigSpec \<Rightarrow> bool" where
  "meshConfigUpdatesProxies prevSpec newSpec \<longleftrightarrow>
     (let prevTraffic = mcs_Traffic prevSpec; newTraffic = mcs_Traffic newSpec;
          prevObs = mcs_Observability prevSpec; newObs = mcs_Observability newSpec;
          prevSidecar = mcs_Sidecar prevSpec; newSidecar = mcs_Sidecar newSpec;
          prevAuth = trs_InboundExternalAuthorization prevTraffic; newAuth = trs_InboundExternalAuthorization newTraffic in
      trs_EnableEgress prevTraffic \<noteq> trs_EnableEgress newTraffic \<or>
      trs_EnablePermissiveTrafficPolicyMode prevTraffic \<noteq> trs_EnablePermissiveTrafficPolicyMode newTraffic \<or>
      trs_HTTP1PerRequestLoadBalancing prevTraffic \<noteq> trs_HTTP1PerRequestLoadBalancing newTraffic \<or>
      trs_HTTP2PerRequestLoadBalancing prevTraffic \<noteq> trs_HTTP2PerRequestLoadBalancing newTraffic \<or>
      \<not> TracingSpec_eq (obs_Tracing prevObs) (obs_Tracing newObs) \<or>
      \<not> RemoteLoggingSpec_eq (obs_RemoteLogging prevObs) (obs_RemoteLogging newObs) \<or>
      scs_LogLevel prevSidecar \<noteq> scs_LogLevel newSidecar \<or>
      scs_SidecarTimeout prevSidecar \<noteq> scs_SidecarTimeout newSidecar \<or>
      eas_Enable prevAuth \<noteq> eas_Enable newAuth \<or>
      (eas_Enable newAuth \<and> prevAuth \<noteq> newAuth) \<or>
      mcs_FeatureFlags prevSpec \<noteq> mcs_FeatureFlags newSpec \<or>
      mcs_PluginChains prevSpec \<noteq> mcs_PluginChains newSpec \<or>
      mcs_ClusterSet prevSpec \<noteq> mcs_ClusterSet newSpec)"

definition label_value :: "(string, string) gomap \<Rightarrow> string \<Rightarrow> string" where
  "label_value m k = (case gm_get m k of None \<Rightarrow> '''' | Some v \<Rightarrow> v)"

definition getProxyUpdateEvent :: "PubSubMessage \<Rightarrow> proxyUpdateEvent option" where
  "getProxyUpdateEvent msg =
     (if psm_Kind msg \<in> set broadcast_kinds then Some \<lparr>pue_msg = msg, pue_topic = ProxyUpdate\<rparr>
      else if psm_Kind msg = MeshConfigUpdated then
        (case (as_MeshConfig (psm_OldObj msg), as_MeshConfig (psm_NewObj msg)) of
           (Some prevMeshConfig, Some newMeshConfig) \<Rightarrow>
             if meshConfigUpdatesProxies (mcf_Spec prevMeshConfig) (mcf_Spec newMeshConfig)
             then Some \<lparr>pue_msg = msg, pue_topic = ProxyUpdate\<rparr> else None
         | _ \<Rightarrow> None)
      else if psm_Kind msg = PodUpdated then
        (case (as_Pod (psm_OldObj msg), as_Pod (psm_NewObj msg)) of
           (Some prevPod, Some newPod) \<Rightarrow>
             (let proxyUUID = label_value (om_Labels (pod_Meta newPod)) SidecarUniqueIDLabelName in
              if label_value (om_Annotations (pod_Meta prevPod)) PrometheusScrapeAnnotation \<noteq>
                 label_value (om_Annotations (pod_Meta newPod)) PrometheusScrapeAnnotation
              then Some \<lparr>pue_msg = msg, pue_topic = GetPubSubTopicForProxyUUID proxyUUID\<rparr>
              else if 0 < length proxyUUID then Some \<lparr>pue_msg = msg, pue_topic = ProxyUpdate\<rparr>
              else None)
         | _ \<Rightarrow> None)
      else None)"



section \<open>Informer event handlers\<close>

text \<open>
  The handlers that put informer events on the queue (\<open>src/pkg/k8s/event_handlers.go\<close>): a message for each
  observed event, none for the others. Without a filter every object is observed.
\<close>

record EventTypes =
  evt_Add :: Kind
  evt_Update :: Kind
  evt_Delete :: Kind

type_synonym observeFilter = "event_object \<Rightarrow> bool"

definition observed :: "observeFilter option \<Rightarrow> event_object \<Rightarrow> bool" where
  "observed shouldObserve obj = (case shouldObserve of None \<Rightarrow> True | Some f \<Rightarrow> f obj)"

definition AddFunc :: "observeFilter option \<Rightarrow> EventTypes \<Rightarrow> event_object \<Rightarrow> PubSubMessage option" where
  "AddFunc shouldObserve eventTypes obj =
     (if \<not> observed shouldObserve obj then None
      else Some \<lparr>psm_Kind = evt_Add eventTypes, psm_OldObj = NilObj, psm_NewObj = obj\<rparr>)"

definition UpdateFunc :: "observeFilter option \<Rightarrow> EventTypes \<Rightarrow> event_object \<Rightarrow> event_object \<Rightarrow> PubSubMessage option" where
  "UpdateFunc shouldObserve eventTypes oldObj newObj =
     (if \<not> observed shouldObserve newObj then None
      else Some \<lparr>psm_Kind = evt_Update eventTypes, psm_OldObj = oldObj, psm_NewObj = newObj\<rparr>)"

definition DeleteFunc :: "observeFilter option \<Rightarrow> EventTypes \<Rightarrow> event_object \<Rightarrow> PubSubMessage option" where
  "DeleteFunc shouldObserve eventTypes obj =
     (if \<not> observed shouldObserve obj then None
      else Some \<lparr>psm_Kind = evt_Delete eventTypes, psm_OldObj = obj, psm_NewObj = NilObj\<rparr>)"


section \<open>Timers\<close>

record Timer =
  tmr_deadline :: "int option"
  tmr_ch :: bool

definition NewTimer :: "int \<Rightarrow> duration \<Rightarrow> Timer" where
  "NewTimer now d = \<lparr>tmr_deadline = Some (now + d), tmr_ch = False\<rparr>"

definition Timer_Reset :: "int \<Rightarrow> duration \<Rightarrow> Timer \<Rightarrow> Timer" where
  "Timer_Reset now d t = t\<lparr>tmr_deadline := Some (now + d)\<rparr>"

text \<open>The runtime: an armed timer whose deadline has passed sends on its channel.\<close>

definition Timer_fire :: "int \<Rightarrow> Timer \<Rightarrow> Timer option" where
  "Timer_fire now t =
     (case tmr_deadline t of
        Some d \<Rightarrow> if d \<le> now then Some \<lparr>tmr_deadline = None, tmr_ch = True\<rparr> else None
      | None \<Rightarrow> None)"

text \<open>\<open>if !timer.Stop() { <-timer.C }\<close>.\<close>

definition Timer_stopAndDrain :: "Timer \<Rightarrow> Timer option" where
  "Timer_stopAndDrain t =
     (if tmr_deadline t \<noteq> None then Some (t\<lparr>tmr_deadline := None\<rparr>)
      else if tmr_ch t then Some (t\<lparr>tmr_ch := False\<rparr>)
      else None)"

definition Timer_receive :: "Timer \<Rightarrow> Timer option" where
  "Timer_receive t = (if tmr_ch t then Some (t\<lparr>tmr_ch := False\<rparr>) else None)"


section \<open>The dispatcher\<close>

definition proxyUpdateSlidingWindow :: duration where
  "proxyUpdateSlidingWindow = 2 * Second"

definition proxyUpdateMaxWindow :: duration where
  "proxyUpdateMaxWindow = 10 * Second"

definition noTimeout :: duration where
  "noTimeout = 87600 * Hour"

definition zero_proxyUpdateEvent :: proxyUpdateEvent where
  "zero_proxyUpdateEvent = \<lparr>pue_msg = \<lparr>psm_Kind = '''', psm_OldObj = NilObj, psm_NewObj = NilObj\<rparr>, pue_topic = ''''\<rparr>"

record Dispatcher =
  dp_slidingTimer :: Timer
  dp_maxTimer :: Timer
  dp_dispatchPending :: bool
  dp_batchCount :: int
  dp_event :: proxyUpdateEvent

definition initDispatcher :: "int \<Rightarrow> Dispatcher" where
  "initDispatcher now =
     \<lparr>dp_slidingTimer = NewTimer now noTimeout, dp_maxTimer = NewTimer now noTimeout,
      dp_dispatchPending = False, dp_batchCount = 0, dp_event = zero_proxyUpdateEvent\<rparr>"

text \<open>The case \<open>e := <-b.proxyUpdateCh\<close> of the select statement.\<close>

definition onProxyUpdate :: "int \<Rightarrow> proxyUpdateEvent \<Rightarrow> Dispatcher \<Rightarrow> Dispatcher option" where
  "onProxyUpdate now e d =
     do {
       sliding \<leftarrow> Timer_stopAndDrain (dp_slidingTimer d);
       if \<not> dp_dispatchPending d
       then do {
         maxT \<leftarrow> Timer_stopAndDrain (dp_maxTimer d);
         Some (d\<lparr>dp_event := e, dp_slidingTimer := Timer_Reset now proxyUpdateSlidingWindow sliding,
           dp_maxTimer := Timer_Reset now proxyUpdateMaxWindow maxT, dp_dispatchPending := True,
           dp_batchCount := dp_batchCount d + 1\<rparr>)
       }
       else Some (d\<lparr>dp_event := e, dp_slidingTimer := Timer_Reset now proxyUpdateSlidingWindow sliding,
         dp_batchCount := dp_batchCount d + 1\<rparr>)
     }"

text \<open>The two timer cases; both publish the event that is returned.\<close>

definition onSlidingTimer :: "int \<Rightarrow> Dispatcher \<Rightarrow> (Dispatcher \<times> proxyUpdateEvent) option" where
  "onSlidingTimer now d =
     do {
       sliding \<leftarrow> Timer_receive (dp_slidingTimer d);
       maxT \<leftarrow> Timer_stopAndDrain (dp_maxTimer d);
       Some (d\<lparr>dp_slidingTimer := Timer_Reset now noTimeout sliding, dp_maxTimer := Timer_Reset now noTimeout maxT,
         dp_dispatchPending := False, dp_batchCount := 0\<rparr>, dp_event d)
     }"

definition onMaxTimer :: "int \<Rightarrow> Dispatcher \<Rightarrow> (Dispatcher \<times> proxyUpdateEvent) option" where
  "onMaxTimer now d =
     do {
       maxT \<leftarrow> Timer_receive (dp_maxTimer d);
       sliding \<leftarrow> Timer_stopAndDrain (dp_slidingTimer d);
       Some (d\<lparr>dp_slidingTimer := Timer_Reset now noTimeout sliding, dp_maxTimer := Timer_Reset now noTimeout maxT,
         dp_dispatchPending := False, dp_batchCount := 0\<rparr>, dp_event d)
     }"


section \<open>The work queue\<close>

datatype queue_item = MsgItem PubSubMessage | OtherItem

record Broker =
  bk_totalQEventCount :: "64 word"
  bk_totalQProxyEventCount :: "64 word"
  bk_totalDispatchedProxyEventCount :: "64 word"
  bk_proxyUpdatePubSub :: "(string \<times> PubSubMessage) list"
  bk_kubeEventPubSub :: "(string \<times> PubSubMessage) list"
  bk_MonitoredNamespaceCounter :: int

definition NewBroker :: Broker where
  "NewBroker = \<lparr>bk_totalQEventCount = 0, bk_totalQProxyEventCount = 0, bk_totalDispatchedProxyEventCount = 0,
     bk_proxyUpdatePubSub = [], bk_kubeEventPubSub = [], bk_MonitoredNamespaceCounter = 0\<rparr>"

definition publishProxyUpdate :: "proxyUpdateEvent \<Rightarrow> Broker \<Rightarrow> Broker" where
  "publishProxyUpdate e b = b
     \<lparr>bk_proxyUpdatePubSub := bk_proxyUpdatePubSub b @ [(pue_topic e, pue_msg e)],
      bk_totalDispatchedProxyEventCount := bk_totalDispatchedProxyEventCount b + 1\<rparr>"

definition updateMetric :: "PubSubMessage \<Rightarrow> Broker \<Rightarrow> Broker" where
  "updateMetric msg b =
     (if psm_Kind msg = NamespaceAdded
      then b\<lparr>bk_MonitoredNamespaceCounter := bk_MonitoredNamespaceCounter b + 1\<rparr>
      else if psm_Kind msg = NamespaceDeleted
      then b\<lparr>bk_MonitoredNamespaceCounter := bk_MonitoredNamespaceCounter b - 1\<rparr>
      else b)"

text \<open>
  Processing a message either publishes it at once or sends it to the dispatcher. The channel is
  unbuffered, so the sender waits for the dispatcher: sending is receiving.
\<close>

definition processEvent :: "int \<Rightarrow> PubSubMessage \<Rightarrow> Broker \<times> Dispatcher \<Rightarrow> (Broker \<times> Dispatcher) option" where
  "processEvent now msg s =
     do {
       (b, d) \<leftarrow>
         (case getProxyUpdateEvent msg of
            None \<Rightarrow> Some s
          | Some event \<Rightarrow>
              (let (b0, d0) = s; b1 = b0\<lparr>bk_totalQProxyEventCount := bk_totalQProxyEventCount b0 + 1\<rparr> in
               if pue_topic event \<noteq> ProxyUpdate then Some (publishProxyUpdate event b1, d0)
               else map_option (\<lambda>d1. (b1, d1)) (onProxyUpdate now event d0)));
       let b2 = b\<lparr>bk_kubeEventPubSub := bk_kubeEventPubSub b @ [(psm_Kind msg, msg)]\<rparr>;
       Some (updateMetric msg b2, d)
     }"

definition processNextItem :: "int \<Rightarrow> queue_item option \<Rightarrow> Broker \<times> Dispatcher \<Rightarrow> (bool \<times> Broker \<times> Dispatcher) option" where
  "processNextItem now item s =
     (case item of
        None \<Rightarrow> Some (False, s)
      | Some i \<Rightarrow>
          let s1 = (fst s\<lparr>bk_totalQEventCount := bk_totalQEventCount (fst s) + 1\<rparr>, snd s) in
          (case i of
             OtherItem \<Rightarrow> Some (True, s1)
           | MsgItem msg \<Rightarrow> map_option (\<lambda>s2. (True, s2)) (processEvent now msg s1)))"



section \<open>Runs of the broker\<close>

text \<open>
  The broker runs as interleaved steps: time passes, the worker processes an item, the runtime fires a
  timer, the dispatcher takes one of its timer cases.
\<close>

datatype label = Elapse | Process int queue_item | TimerFires | Dispatch int proxyUpdateEvent

type_synonym broker_state = "int \<times> Broker \<times> Dispatcher"

inductive broker_step :: "broker_state \<Rightarrow> label \<Rightarrow> broker_state \<Rightarrow> bool" where
  elapse: "now \<le> now' \<Longrightarrow> broker_step (now, b, d) Elapse (now', b, d)"
| process_item: "processNextItem now (Some i) (b, d) = Some (True, b', d') \<Longrightarrow>
    broker_step (now, b, d) (Process now i) (now, b', d')"
| sliding_fires: "Timer_fire now (dp_slidingTimer d) = Some t \<Longrightarrow>
    broker_step (now, b, d) TimerFires (now, b, d\<lparr>dp_slidingTimer := t\<rparr>)"
| max_fires: "Timer_fire now (dp_maxTimer d) = Some t \<Longrightarrow>
    broker_step (now, b, d) TimerFires (now, b, d\<lparr>dp_maxTimer := t\<rparr>)"
| sliding_case: "onSlidingTimer now d = Some (d', e) \<Longrightarrow>
    broker_step (now, b, d) (Dispatch now e) (now, publishProxyUpdate e b, d')"
| max_case: "onMaxTimer now d = Some (d', e) \<Longrightarrow>
    broker_step (now, b, d) (Dispatch now e) (now, publishProxyUpdate e b, d')"

inductive broker_run :: "int \<Rightarrow> label list \<Rightarrow> broker_state \<Rightarrow> bool" for start where
  start: "broker_run start [] (start, NewBroker, initDispatcher start)"
| step: "broker_run start tr s \<Longrightarrow> broker_step s l s' \<Longrightarrow> broker_run start (tr @ [l]) s'"

inductive_cases broker_step_elim: "broker_step s l s'"

text \<open>
  What a run has received, with the times: the broadcasts, those that no dispatch has followed yet
  (\<open>batch\<close>), and the earlier batches with the time of the dispatch that ended each (\<open>dispatched\<close>).
\<close>

fun item_broadcast :: "queue_item \<Rightarrow> proxyUpdateEvent option" where
  "item_broadcast OtherItem = None"
| "item_broadcast (MsgItem msg) =
     (case getProxyUpdateEvent msg of
        Some e \<Rightarrow> if pue_topic e = ProxyUpdate then Some e else None
      | None \<Rightarrow> None)"

type_synonym broadcast_batch = "(int \<times> proxyUpdateEvent) list"

fun label_received :: "label \<Rightarrow> broadcast_batch" where
  "label_received (Process t i) = (case item_broadcast i of Some e \<Rightarrow> [(t, e)] | None \<Rightarrow> [])"
| "label_received l = []"

definition received :: "label list \<Rightarrow> broadcast_batch" where
  "received tr = concat (map label_received tr)"

fun label_history :: "label \<Rightarrow> (int \<times> broadcast_batch) list \<times> broadcast_batch \<Rightarrow> (int \<times> broadcast_batch) list \<times> broadcast_batch" where
  "label_history (Dispatch t e) (closed, xs) = (closed @ [(t, xs)], [])"
| "label_history l (closed, xs) = (closed, xs @ label_received l)"

definition dispatched :: "label list \<Rightarrow> (int \<times> broadcast_batch) list" where
  "dispatched tr = fst (fold label_history tr ([], []))"

definition batch :: "label list \<Rightarrow> broadcast_batch" where
  "batch tr = snd (fold label_history tr ([], []))"

definition published_broadcasts :: "Broker \<Rightarrow> (string \<times> PubSubMessage) list" where
  "published_broadcasts b = filter (\<lambda>(topic, msg). topic = ProxyUpdate) (bk_proxyUpdatePubSub b)"

definition batch_message :: "broadcast_batch \<Rightarrow> string \<times> PubSubMessage" where
  "batch_message xs = (pue_topic (snd (last xs)), pue_msg (snd (last xs)))"

fun label_idle :: "label \<Rightarrow> int \<Rightarrow> int" where
  "label_idle (Dispatch t e) t0 = t"
| "label_idle l t0 = t0"

definition idle_since :: "int \<Rightarrow> label list \<Rightarrow> int" where
  "idle_since start tr = fold label_idle tr start"

text \<open>
  A prompt run: the runtime fires a timer at its deadline and the dispatcher takes a ready timer case at
  once, that is, time does not pass a deadline and does not pass while the channel of a timer is ready.
  Any number of items can be processed at the same time.
\<close>

definition on_time :: "int \<Rightarrow> Timer \<Rightarrow> bool" where
  "on_time now t \<longleftrightarrow> \<not> tmr_ch t \<and> (case tmr_deadline t of None \<Rightarrow> True | Some dl \<Rightarrow> now \<le> dl)"

inductive timely_run :: "int \<Rightarrow> label list \<Rightarrow> broker_state \<Rightarrow> bool" for start where
  prompt_start: "timely_run start [] (start, NewBroker, initDispatcher start)"
| prompt_elapse: "timely_run start tr (now, b, d) \<Longrightarrow> now \<le> now' \<Longrightarrow>
    on_time now' (dp_slidingTimer d) \<Longrightarrow> on_time now' (dp_maxTimer d) \<Longrightarrow>
    timely_run start (tr @ [Elapse]) (now', b, d)"
| prompt_step: "timely_run start tr s \<Longrightarrow> broker_step s l s' \<Longrightarrow> l \<noteq> Elapse \<Longrightarrow> timely_run start (tr @ [l]) s'"

lemma batch_snoc [simp]:
  "batch (tr @ [Dispatch t e]) = []" "batch (tr @ [Elapse]) = batch tr" "batch (tr @ [TimerFires]) = batch tr"
  "batch (tr @ [Process t i]) = batch tr @ label_received (Process t i)"
  by (simp_all add: batch_def split: prod.splits) (cases "fold label_history tr ([], [])"; simp)+

lemma dispatched_snoc [simp]:
  "dispatched (tr @ [Dispatch t e]) = dispatched tr @ [(t, batch tr)]" "dispatched (tr @ [Elapse]) = dispatched tr"
  "dispatched (tr @ [TimerFires]) = dispatched tr" "dispatched (tr @ [Process t i]) = dispatched tr"
  by (simp_all add: dispatched_def batch_def) (cases "fold label_history tr ([], [])"; simp)+

lemma received_snoc [simp]: "received (tr @ [l]) = received tr @ label_received l"
  by (simp add: received_def)

lemma idle_since_snoc [simp]: "idle_since start (tr @ [l]) = label_idle l (idle_since start tr)"
  by (simp add: idle_since_def)

lemma run_Nil [simp]: "batch [] = []" "dispatched [] = []" "received [] = []" "idle_since start [] = start"
  by (simp_all add: batch_def dispatched_def received_def idle_since_def)

lemma received_batches: "received tr = concat (map snd (dispatched tr)) @ batch tr"
proof (induction tr rule: rev_induct)
  case (snoc l tr)
  then show ?case by (cases l) simp_all
qed simp

lemma timely_run_is_run: "timely_run start tr s \<Longrightarrow> broker_run start tr s"
  by (induction rule: timely_run.induct) (auto intro: broker_run.intros broker_step.elapse)


section \<open>Lemmas\<close>

lemma proxy_topic: "GetPubSubTopicForProxyUUID u \<noteq> ProxyUpdate"
  by (simp add: GetPubSubTopicForProxyUUID_def ProxyUpdate_def)

lemma getProxyUpdateEvent_msg: "getProxyUpdateEvent msg = Some e \<Longrightarrow> pue_msg e = msg"
  by (auto simp: getProxyUpdateEvent_def Let_def split: if_splits option.splits)

text \<open>A timer is live if it is either armed or has a value to receive; then stopping and draining never blocks.\<close>

definition timer_live :: "Timer \<Rightarrow> bool" where
  "timer_live t \<longleftrightarrow> (tmr_deadline t \<noteq> None) \<noteq> tmr_ch t"

text \<open>A timer was set for a deadline: it is armed for it, or it has fired after it.\<close>

definition timer_set :: "int \<Rightarrow> int \<Rightarrow> Timer \<Rightarrow> bool" where
  "timer_set now dl t \<longleftrightarrow> t = \<lparr>tmr_deadline = Some dl, tmr_ch = False\<rparr> \<or> (t = \<lparr>tmr_deadline = None, tmr_ch = True\<rparr> \<and> dl \<le> now)"

lemma timer_set_live: "timer_set now dl t \<Longrightarrow> timer_live t"
  by (auto simp: timer_set_def timer_live_def)

lemma timer_live_drains:
  "timer_live t \<Longrightarrow> Timer_stopAndDrain t = Some \<lparr>tmr_deadline = None, tmr_ch = False\<rparr>"
  by (cases t) (auto simp: timer_live_def Timer_stopAndDrain_def)

lemma timer_set_simps [simp]:
  "timer_set now (now' + d) (NewTimer now' d)"
  "timer_set now (now' + d) (Timer_Reset now' d \<lparr>tmr_deadline = None, tmr_ch = False\<rparr>)"
  by (simp_all add: timer_set_def NewTimer_def Timer_Reset_def)

lemma timer_set_elapse: "timer_set now dl t \<Longrightarrow> now \<le> now' \<Longrightarrow> timer_set now' dl t"
  by (auto simp: timer_set_def)

lemma timer_set_fire: "timer_set now dl t \<Longrightarrow> Timer_fire now t = Some t' \<Longrightarrow> timer_set now dl t'"
  by (auto simp: timer_set_def Timer_fire_def split: if_splits)

lemma timer_set_receive:
  "timer_set now dl t \<Longrightarrow> Timer_receive t = Some t' \<Longrightarrow> t' = \<lparr>tmr_deadline = None, tmr_ch = False\<rparr> \<and> dl \<le> now"
  by (auto simp: timer_set_def Timer_receive_def split: if_splits)

lemma timer_set_due:
  "timer_set now dl t \<Longrightarrow> dl \<le> now \<Longrightarrow> tmr_ch t \<or> Timer_fire now t = Some \<lparr>tmr_deadline = None, tmr_ch = True\<rparr>"
  by (auto simp: timer_set_def Timer_fire_def)


text \<open>
  The invariant of the dispatcher, for the broadcasts \<open>xs\<close> received since the last dispatch at \<open>t0\<close>: it knows
  whether and how many there are, it holds the latest, the sliding timer is set from the latest and the max
  timer from the first.
\<close>

definition dispatcher_inv :: "(int \<times> proxyUpdateEvent) list \<Rightarrow> int \<Rightarrow> int \<Rightarrow> Dispatcher \<Rightarrow> bool" where
  "dispatcher_inv xs t0 now d \<longleftrightarrow>
     dp_dispatchPending d = (xs \<noteq> []) \<and> dp_batchCount d = int (length xs) \<and>
     (if xs = [] then timer_set now (t0 + noTimeout) (dp_slidingTimer d) \<and> timer_set now (t0 + noTimeout) (dp_maxTimer d)
      else dp_event d = snd (last xs) \<and> timer_set now (fst (last xs) + proxyUpdateSlidingWindow) (dp_slidingTimer d) \<and>
        timer_set now (fst (hd xs) + proxyUpdateMaxWindow) (dp_maxTimer d))"

lemma dispatcher_inv_timers:
  "dispatcher_inv xs t0 now d \<Longrightarrow> timer_live (dp_slidingTimer d) \<and> timer_live (dp_maxTimer d)"
  by (auto simp: dispatcher_inv_def dest: timer_set_live split: if_splits)

lemma dispatcher_inv_init: "dispatcher_inv [] start start (initDispatcher start)"
  by (simp add: dispatcher_inv_def initDispatcher_def)

lemma dispatcher_inv_elapse: "dispatcher_inv xs t0 now d \<Longrightarrow> now \<le> now' \<Longrightarrow> dispatcher_inv xs t0 now' d"
  by (auto simp: dispatcher_inv_def intro: timer_set_elapse split: if_splits)

lemma dispatcher_inv_fire:
  "dispatcher_inv xs t0 now d \<Longrightarrow> Timer_fire now (dp_slidingTimer d) = Some t \<Longrightarrow>
     dispatcher_inv xs t0 now (d\<lparr>dp_slidingTimer := t\<rparr>)"
  "dispatcher_inv xs t0 now d \<Longrightarrow> Timer_fire now (dp_maxTimer d) = Some t \<Longrightarrow>
     dispatcher_inv xs t0 now (d\<lparr>dp_maxTimer := t\<rparr>)"
  by (auto simp: dispatcher_inv_def intro: timer_set_fire split: if_splits)

lemma dispatcher_inv_event:
  assumes "dispatcher_inv xs t0 now d"
  shows "\<exists>d'. onProxyUpdate now e d = Some d' \<and> dispatcher_inv (xs @ [(now, e)]) t0 now d'"
proof -
  note live = dispatcher_inv_timers [OF assms]
  show ?thesis
  proof (cases "xs = []")
    case True
    with assms live show ?thesis
      by (simp add: onProxyUpdate_def timer_live_drains dispatcher_inv_def)
  next
    case False
    with assms live show ?thesis
      by (simp add: onProxyUpdate_def timer_live_drains dispatcher_inv_def)
  qed
qed

lemma dispatcher_inv_event':
  "dispatcher_inv xs t0 now d \<Longrightarrow> onProxyUpdate now e d = Some d' \<Longrightarrow> dispatcher_inv (xs @ [(now, e)]) t0 now d'"
  using dispatcher_inv_event [of xs t0 now d e] by auto

lemma dispatcher_inv_sliding:
  assumes "dispatcher_inv xs t0 now d" and "onSlidingTimer now d = Some (d', e)"
  shows "dispatcher_inv [] now now d' \<and> e = dp_event d \<and> (xs = [] \<longrightarrow> t0 + noTimeout \<le> now) \<and>
    (xs \<noteq> [] \<longrightarrow> fst (last xs) + proxyUpdateSlidingWindow \<le> now)"
proof -
  from assms obtain dl where "timer_set now dl (dp_slidingTimer d)"
    "dl = (if xs = [] then t0 + noTimeout else fst (last xs) + proxyUpdateSlidingWindow)"
    by (auto simp: dispatcher_inv_def split: if_splits)
  moreover from assms(2) obtain sliding where "Timer_receive (dp_slidingTimer d) = Some sliding"
    by (auto simp: onSlidingTimer_def split: bind_splits)
  ultimately have r: "Timer_receive (dp_slidingTimer d) = Some \<lparr>tmr_deadline = None, tmr_ch = False\<rparr>"
    "(if xs = [] then t0 + noTimeout else fst (last xs) + proxyUpdateSlidingWindow) \<le> now" using timer_set_receive by blast+
  let ?t = "Timer_Reset now noTimeout \<lparr>tmr_deadline = None, tmr_ch = False\<rparr>"
  have "onSlidingTimer now d = Some (d\<lparr>dp_slidingTimer := ?t, dp_maxTimer := ?t, dp_dispatchPending := False,
      dp_batchCount := 0\<rparr>, dp_event d)"
    using r(1) dispatcher_inv_timers [OF assms(1)] by (simp add: onSlidingTimer_def timer_live_drains)
  with assms(2) have "d' = d\<lparr>dp_slidingTimer := ?t, dp_maxTimer := ?t, dp_dispatchPending := False, dp_batchCount := 0\<rparr>"
    "e = dp_event d" by simp_all
  with r(2) show ?thesis by (auto simp: dispatcher_inv_def)
qed

lemma dispatcher_inv_max:
  assumes "dispatcher_inv xs t0 now d" and "onMaxTimer now d = Some (d', e)"
  shows "dispatcher_inv [] now now d' \<and> e = dp_event d \<and> (xs = [] \<longrightarrow> t0 + noTimeout \<le> now) \<and>
    (xs \<noteq> [] \<longrightarrow> fst (hd xs) + proxyUpdateMaxWindow \<le> now)"
proof -
  from assms obtain dl where "timer_set now dl (dp_maxTimer d)"
    "dl = (if xs = [] then t0 + noTimeout else fst (hd xs) + proxyUpdateMaxWindow)"
    by (auto simp: dispatcher_inv_def split: if_splits)
  moreover from assms(2) obtain maxT where "Timer_receive (dp_maxTimer d) = Some maxT"
    by (auto simp: onMaxTimer_def split: bind_splits)
  ultimately have r: "Timer_receive (dp_maxTimer d) = Some \<lparr>tmr_deadline = None, tmr_ch = False\<rparr>"
    "(if xs = [] then t0 + noTimeout else fst (hd xs) + proxyUpdateMaxWindow) \<le> now" using timer_set_receive by blast+
  let ?t = "Timer_Reset now noTimeout \<lparr>tmr_deadline = None, tmr_ch = False\<rparr>"
  have "onMaxTimer now d = Some (d\<lparr>dp_slidingTimer := ?t, dp_maxTimer := ?t, dp_dispatchPending := False,
      dp_batchCount := 0\<rparr>, dp_event d)"
    using r(1) dispatcher_inv_timers [OF assms(1)] by (simp add: onMaxTimer_def timer_live_drains)
  with assms(2) have "d' = d\<lparr>dp_slidingTimer := ?t, dp_maxTimer := ?t, dp_dispatchPending := False, dp_batchCount := 0\<rparr>"
    "e = dp_event d" by simp_all
  with r(2) show ?thesis by (auto simp: dispatcher_inv_def)
qed

text \<open>What processing an item does to the dispatcher and to the published broadcasts.\<close>

lemma updateMetric_pub [simp]: "bk_proxyUpdatePubSub (updateMetric msg b) = bk_proxyUpdatePubSub b"
  by (simp add: updateMetric_def)

lemma process_effect:
  assumes "processNextItem now (Some i) (b, d) = Some (True, b', d')"
  shows "(case item_broadcast i of Some e \<Rightarrow> onProxyUpdate now e d = Some d' | None \<Rightarrow> d' = d) \<and>
    published_broadcasts b' = published_broadcasts b"
  using assms proxy_topic
  by (cases i)
    (auto simp: processNextItem_def processEvent_def Let_def published_broadcasts_def publishProxyUpdate_def
      split: option.splits if_splits bind_splits)

lemma process_enabled:
  assumes "dispatcher_inv xs t0 now d"
  shows "\<exists>b' d'. processNextItem now (Some i) (b, d) = Some (True, b', d')"
proof (cases i)
  case (MsgItem msg)
  show ?thesis
  proof (cases "getProxyUpdateEvent msg")
    case None
    with MsgItem show ?thesis by (simp add: processNextItem_def processEvent_def Let_def)
  next
    case (Some e)
    obtain d' where "onProxyUpdate now e d = Some d'" using dispatcher_inv_event [OF assms] by blast
    with MsgItem Some show ?thesis
      by (cases "pue_topic e = ProxyUpdate") (simp_all add: processNextItem_def processEvent_def Let_def)
  qed
qed (simp add: processNextItem_def)


lemma run_inv:
  assumes "broker_run start tr (now, b, d)"
  shows "dispatcher_inv (batch tr) (idle_since start tr) now d \<and> start \<le> idle_since start tr \<and> idle_since start tr \<le> now"
proof -
  define s where "s = (now, b, d)"
  with assms have "broker_run start tr s" by simp
  then have "case s of (now, b, d) \<Rightarrow>
    dispatcher_inv (batch tr) (idle_since start tr) now d \<and> start \<le> idle_since start tr \<and> idle_since start tr \<le> now"
  proof (induction rule: broker_run.induct)
    case start
    then show ?case by (simp add: dispatcher_inv_init)
  next
    case (step tr s l s')
    obtain now b d where s: "s = (now, b, d)" by (cases s)
    with step.IH have inv: "dispatcher_inv (batch tr) (idle_since start tr) now d"
      and t: "start \<le> idle_since start tr" "idle_since start tr \<le> now" by simp_all
    from step.hyps(2) show ?case unfolding s
    proof (cases rule: broker_step.cases)
      case (process_item i b' d')
      with process_effect [OF process_item(3)] inv t show ?thesis
        by (cases "item_broadcast i") (auto intro: dispatcher_inv_event')
    qed (use inv t dispatcher_inv_elapse dispatcher_inv_fire dispatcher_inv_sliding dispatcher_inv_max in auto)
  qed
  then show ?thesis by (simp add: s_def)
qed

text \<open>The dispatched batches: each is published with its latest broadcast, and only when a window has passed.\<close>

definition window_passed :: "int \<Rightarrow> broadcast_batch \<Rightarrow> bool" where
  "window_passed t xs \<longleftrightarrow> fst (last xs) + proxyUpdateSlidingWindow \<le> t \<or> fst (hd xs) + proxyUpdateMaxWindow \<le> t"

lemma item_broadcast_topic: "item_broadcast i = Some e \<Longrightarrow> pue_topic e = ProxyUpdate"
  by (cases i) (auto split: option.splits if_splits)

lemma batch_topics: "\<forall>x \<in> set (batch tr). pue_topic (snd x) = ProxyUpdate"
proof (induction tr rule: rev_induct)
  case (snoc l tr)
  then show ?case by (cases l) (auto dest: item_broadcast_topic [OF sym] split: option.splits)
qed simp

lemma published_dispatch:
  "pue_topic e = ProxyUpdate \<Longrightarrow>
     published_broadcasts (publishProxyUpdate e b) = published_broadcasts b @ [(pue_topic e, pue_msg e)]"
  by (simp add: published_broadcasts_def publishProxyUpdate_def)

lemma run_history:
  assumes "broker_run start tr (now, b, d)" and "now < start + noTimeout"
  shows "published_broadcasts b = map (batch_message \<circ> snd) (dispatched tr) \<and>
    (\<forall>(t, xs) \<in> set (dispatched tr). xs \<noteq> [] \<and> window_passed t xs)"
proof -
  define s where "s = (now, b, d)"
  with assms have "broker_run start tr s" "fst s < start + noTimeout" by simp_all
  then have "published_broadcasts (fst (snd s)) = map (batch_message \<circ> snd) (dispatched tr) \<and>
    (\<forall>(t, xs) \<in> set (dispatched tr). xs \<noteq> [] \<and> window_passed t xs)"
  proof (induction rule: broker_run.induct)
    case start
    then show ?case by (simp add: published_broadcasts_def NewBroker_def)
  next
    case (step tr s l s')
    obtain now b d where s: "s = (now, b, d)" by (cases s)
    from run_inv step.hyps(1) have inv: "dispatcher_inv (batch tr) (idle_since start tr) now d" "start \<le> idle_since start tr"
      unfolding s by blast+
    from step.hyps(2) step.prems have now: "now < start + noTimeout" unfolding s by (cases rule: broker_step.cases) auto
    with step.IH s have IH: "published_broadcasts b = map (batch_message \<circ> snd) (dispatched tr)"
      "\<forall>(t, xs) \<in> set (dispatched tr). xs \<noteq> [] \<and> window_passed t xs" by auto
    have taken: "batch tr \<noteq> [] \<and> window_passed now (batch tr) \<and>
        published_broadcasts (publishProxyUpdate e b) = published_broadcasts b @ [batch_message (batch tr)]"
      if "e = dp_event d" "batch tr = [] \<longrightarrow> idle_since start tr + noTimeout \<le> now"
        "batch tr \<noteq> [] \<longrightarrow> window_passed now (batch tr)" for e
    proof -
      from that(2) inv(2) now have ne: "batch tr \<noteq> []" by auto
      with inv(1) that(1) have e: "e = snd (last (batch tr))" by (simp add: dispatcher_inv_def)
      with ne have "pue_topic e = ProxyUpdate" using batch_topics [of tr] by simp
      with ne e that(3) show ?thesis by (simp add: published_dispatch batch_message_def)
    qed
    from step.hyps(2) show ?case unfolding s
    proof (cases rule: broker_step.cases)
      case (process_item i b' d')
      with process_effect [OF process_item(3)] IH show ?thesis by simp
    next
      case (sliding_case d' e)
      with dispatcher_inv_sliding [OF inv(1) sliding_case(3)] taken [of e] IH show ?thesis by (auto simp: window_passed_def)
    next
      case (max_case d' e)
      with dispatcher_inv_max [OF inv(1) max_case(3)] taken [of e] IH show ?thesis by (auto simp: window_passed_def)
    qed (use IH in auto)
  qed
  then show ?thesis by (simp add: s_def)
qed

text \<open>In a prompt run no deadline is passed.\<close>

definition window_open :: "int \<Rightarrow> broadcast_batch \<Rightarrow> bool" where
  "window_open t xs \<longleftrightarrow> xs \<noteq> [] \<longrightarrow> t \<le> fst (last xs) + proxyUpdateSlidingWindow \<and> t \<le> fst (hd xs) + proxyUpdateMaxWindow"

lemma on_time_set: "timer_set now dl t \<Longrightarrow> on_time now' t \<Longrightarrow> now' \<le> dl"
  by (auto simp: timer_set_def on_time_def)

lemma prompt_windows:
  assumes "timely_run start tr s"
  shows "window_open (fst s) (batch tr) \<and> (\<forall>(t, xs) \<in> set (dispatched tr). window_open t xs)"
  using assms
proof (induction rule: timely_run.induct)
  case prompt_start
  then show ?case by (simp add: window_open_def)
next
  case (prompt_elapse tr now b d now')
  from run_inv [OF timely_run_is_run [OF prompt_elapse.hyps(1)]]
  have "dispatcher_inv (batch tr) (idle_since start tr) now d" by blast
  then have "window_open now' (batch tr)"
    using prompt_elapse.hyps(3,4) by (auto simp: dispatcher_inv_def window_open_def dest: on_time_set)
  with prompt_elapse.IH show ?case by simp
next
  case (prompt_step tr s l s')
  obtain now b d where s: "s = (now, b, d)" by (cases s)
  have windows: "0 \<le> proxyUpdateSlidingWindow" "0 \<le> proxyUpdateMaxWindow"
    by (simp_all add: proxyUpdateSlidingWindow_def proxyUpdateMaxWindow_def duration_units)
  from prompt_step.hyps(2,3) show ?case unfolding s
  proof (cases rule: broker_step.cases)
    case (process_item i b' d')
    with prompt_step.IH s windows show ?thesis
      by (cases "item_broadcast i"; cases "batch tr = []") (auto simp: window_open_def)
  qed (use prompt_step.IH s in \<open>auto simp: window_open_def\<close>)
qed

text \<open>From a prompt run with something pending, waiting for the first deadline dispatches it.\<close>

lemma prompt_dispatch:
  assumes run: "timely_run start tr (now, b, d)" and ready: "tmr_ch (dp_slidingTimer d) \<or> tmr_ch (dp_maxTimer d)"
  shows "\<exists>e b' d'. timely_run start (tr @ [Dispatch now e]) (now, b', d')"
proof -
  from run_inv [OF timely_run_is_run [OF run]] have inv: "dispatcher_inv (batch tr) (idle_since start tr) now d" by blast
  have "onSlidingTimer now d \<noteq> None \<or> onMaxTimer now d \<noteq> None"
    using ready dispatcher_inv_timers [OF inv]
    by (auto simp: onSlidingTimer_def onMaxTimer_def Timer_receive_def timer_live_drains)
  then obtain d' e where "onSlidingTimer now d = Some (d', e) \<or> onMaxTimer now d = Some (d', e)" by auto
  then have "broker_step (now, b, d) (Dispatch now e) (now, publishProxyUpdate e b, d')"
    by (auto intro: broker_step.sliding_case broker_step.max_case)
  from timely_run.prompt_step [OF run this] show ?thesis by blast
qed

lemma prompt_fire:
  assumes run: "timely_run start tr (now, b, d)"
    and due: "tmr_deadline (dp_slidingTimer d) = Some now \<or> tmr_deadline (dp_maxTimer d) = Some now"
  shows "\<exists>d'. timely_run start (tr @ [TimerFires]) (now, b, d') \<and> (tmr_ch (dp_slidingTimer d') \<or> tmr_ch (dp_maxTimer d'))"
proof -
  let ?t = "\<lparr>tmr_deadline = None, tmr_ch = True\<rparr> :: Timer"
  have "broker_step (now, b, d) TimerFires (now, b, d\<lparr>dp_slidingTimer := ?t\<rparr>) \<or>
      broker_step (now, b, d) TimerFires (now, b, d\<lparr>dp_maxTimer := ?t\<rparr>)"
    using due by (auto simp: Timer_fire_def intro: broker_step.sliding_fires broker_step.max_fires)
  then show ?thesis using timely_run.prompt_step [OF run] by fastforce
qed

lemma prompt_progress:
  assumes run: "timely_run start tr (now, b, d)" and pending: "batch tr \<noteq> []"
  shows "\<exists>steps s'. timely_run start (tr @ steps) s' \<and> received steps = [] \<and> batch (tr @ steps) = []"
proof (cases "tmr_ch (dp_slidingTimer d) \<or> tmr_ch (dp_maxTimer d)")
  case True
  from prompt_dispatch [OF run True] obtain e s' where "timely_run start (tr @ [Dispatch now e]) s'" by blast
  then show ?thesis by (intro exI [of _ "[Dispatch now e]"] exI [of _ s']) (simp add: received_def)
next
  case False
  from run_inv [OF timely_run_is_run [OF run]] pending False obtain
    dl1: "tmr_deadline (dp_slidingTimer d) = Some (fst (last (batch tr)) + proxyUpdateSlidingWindow)" and
    dl2: "tmr_deadline (dp_maxTimer d) = Some (fst (hd (batch tr)) + proxyUpdateMaxWindow)"
    by (auto simp: dispatcher_inv_def timer_set_def)
  define due where "due = min (fst (last (batch tr)) + proxyUpdateSlidingWindow) (fst (hd (batch tr)) + proxyUpdateMaxWindow)"
  have "now \<le> due" using prompt_windows [OF run] pending by (simp add: window_open_def due_def)
  from timely_run.prompt_elapse [OF run this] have waited: "timely_run start (tr @ [Elapse]) (due, b, d)"
    using False dl1 dl2 by (simp add: on_time_def due_def)
  have "tmr_deadline (dp_slidingTimer d) = Some due \<or> tmr_deadline (dp_maxTimer d) = Some due"
    using dl1 dl2 by (auto simp: due_def min_def)
  from prompt_fire [OF waited this] obtain d' where fired: "timely_run start ((tr @ [Elapse]) @ [TimerFires]) (due, b, d')"
    "tmr_ch (dp_slidingTimer d') \<or> tmr_ch (dp_maxTimer d')" by blast
  from prompt_dispatch [OF this] obtain e s' where run': "timely_run start (((tr @ [Elapse]) @ [TimerFires]) @ [Dispatch due e]) s'" by blast
  moreover have "batch (((tr @ [Elapse]) @ [TimerFires]) @ [Dispatch due e]) = []" by (rule batch_snoc(1))
  ultimately show ?thesis by (intro exI [of _ "[Elapse, TimerFires, Dispatch due e]"] exI [of _ s']) (simp add: received_def)
qed


section \<open>Properties\<close>

text \<open>
  C34. The broker never blocks on its timers: in every state it reaches, each item of the queue can be
  processed, and each timer case whose channel is ready can be taken. Go's rules for stopping and
  resetting timers are respected.
\<close>

theorem broker_never_blocks:
  assumes "broker_run start tr (now, b, d)"
  shows "(\<exists>b' d'. processNextItem now (Some i) (b, d) = Some (True, b', d')) \<and>
    (tmr_ch (dp_slidingTimer d) \<longrightarrow> onSlidingTimer now d \<noteq> None) \<and> (tmr_ch (dp_maxTimer d) \<longrightarrow> onMaxTimer now d \<noteq> None)"
proof -
  from run_inv [OF assms] have inv: "dispatcher_inv (batch tr) (idle_since start tr) now d" by blast
  with dispatcher_inv_timers [OF inv] process_enabled [OF inv] show ?thesis
    by (simp add: onSlidingTimer_def onMaxTimer_def Timer_receive_def timer_live_drains)
qed

text \<open>
  C15. Broadcasts are dispatched on time. Take a run in which timers fire at their deadlines and the
  dispatcher does not wait, within ten years of the start. Every batch was published exactly when the
  sliding window had passed since its latest broadcast or the max window since its first, whichever
  came first; a broadcast that is still pending is not older than these windows. The run can always
  be continued, without another event, to the dispatch of what is pending.
\<close>

theorem broadcast_dispatched:
  assumes "timely_run start tr (now, b, d)" and "now < start + noTimeout"
  shows "(\<forall>(t, xs) \<in> set (dispatched tr). xs \<noteq> [] \<and>
      t = min (fst (last xs) + proxyUpdateSlidingWindow) (fst (hd xs) + proxyUpdateMaxWindow)) \<and>
    (batch tr \<noteq> [] \<longrightarrow>
      now \<le> min (fst (last (batch tr)) + proxyUpdateSlidingWindow) (fst (hd (batch tr)) + proxyUpdateMaxWindow) \<and>
      (\<exists>steps s'. timely_run start (tr @ steps) s' \<and> received steps = [] \<and> batch (tr @ steps) = []))"
  using run_history [OF timely_run_is_run [OF assms(1)] assms(2)] prompt_windows [OF assms(1)] prompt_progress [OF assms(1)]
  by (force simp: window_open_def window_passed_def min_def)

text \<open>
  C33. Coalescing loses no news. As long as the broker has run for less than ten years, the broadcasts
  received are, in order, those of the batches dispatched so far followed by the pending ones; no batch
  is empty, and what was published is the latest broadcast of each batch, in order. The dispatcher
  knows whether something is pending, how many broadcasts there are, and the latest of them.
\<close>

theorem broadcasts_coalesced:
  assumes "broker_run start tr (now, b, d)" and "now < start + noTimeout"
  shows "received tr = concat (map snd (dispatched tr)) @ batch tr \<and> (\<forall>(t, xs) \<in> set (dispatched tr). xs \<noteq> []) \<and>
    published_broadcasts b = map (\<lambda>(t, xs). (pue_topic (snd (last xs)), pue_msg (snd (last xs)))) (dispatched tr) \<and>
    dp_dispatchPending d = (batch tr \<noteq> []) \<and> dp_batchCount d = int (length (batch tr)) \<and>
    (batch tr \<noteq> [] \<longrightarrow> dp_event d = snd (last (batch tr)))"
proof -
  from run_history [OF assms] have "published_broadcasts b = map (\<lambda>(t, xs). (pue_topic (snd (last xs)), pue_msg (snd (last xs)))) (dispatched tr)"
    "\<forall>(t, xs) \<in> set (dispatched tr). xs \<noteq> []" by (auto simp: batch_message_def split_beta)
  with run_inv [OF assms(1)] received_batches show ?thesis by (auto simp: dispatcher_inv_def)
qed

text \<open>A run: an endpoint is added, and after the sliding window it is broadcast.\<close>

definition sample_msg :: PubSubMessage where
  "sample_msg = \<lparr>psm_Kind = EndpointAdded, psm_OldObj = NilObj, psm_NewObj = OtherObj\<rparr>"

definition sample_event :: proxyUpdateEvent where
  "sample_event = \<lparr>pue_msg = sample_msg, pue_topic = ProxyUpdate\<rparr>"

definition sample_trace :: "label list" where
  "sample_trace = [Process 0 (MsgItem sample_msg)]"

lemma sample_broadcast: "item_broadcast (MsgItem sample_msg) = Some sample_event"
  by (simp add: sample_msg_def sample_event_def getProxyUpdateEvent_def broadcast_kinds_def)

lemma sample_batch: "batch sample_trace = [(0, sample_event)]" "dispatched sample_trace = []"
  by (simp_all add: sample_trace_def batch_def dispatched_def sample_broadcast del: item_broadcast.simps)

lemma sample_run: "\<exists>b d. timely_run 0 sample_trace (0, b, d)"
proof -
  obtain b d where "processNextItem 0 (Some (MsgItem sample_msg)) (NewBroker, initDispatcher 0) = Some (True, b, d)"
    using process_enabled [OF dispatcher_inv_init] by blast
  from timely_run.prompt_step [OF timely_run.prompt_start broker_step.process_item [OF this]]
  show ?thesis by (auto simp: sample_trace_def)
qed

lemma sample_run_dispatched:
  "\<exists>tr b d. timely_run 0 tr (2 * Second, b, d) \<and> dispatched tr = [(2 * Second, [(0, sample_event)])] \<and> batch tr = []"
proof -
  obtain b d where run: "timely_run 0 sample_trace (0, b, d)" using sample_run by blast
  from run_inv [OF timely_run_is_run [OF run]]
  have timers: "dp_slidingTimer d = \<lparr>tmr_deadline = Some (2 * Second), tmr_ch = False\<rparr>"
    "dp_maxTimer d = \<lparr>tmr_deadline = Some (10 * Second), tmr_ch = False\<rparr>"
    by (auto simp: dispatcher_inv_def sample_batch timer_set_def proxyUpdateSlidingWindow_def proxyUpdateMaxWindow_def duration_units)
  from timely_run.prompt_elapse [OF run, of "2 * Second"] have "timely_run 0 (sample_trace @ [Elapse]) (2 * Second, b, d)"
    by (simp add: timers on_time_def duration_units)
  from prompt_fire [OF this] obtain d' where "timely_run 0 ((sample_trace @ [Elapse]) @ [TimerFires]) (2 * Second, b, d')"
    "tmr_ch (dp_slidingTimer d') \<or> tmr_ch (dp_maxTimer d')" by (auto simp: timers)
  from prompt_dispatch [OF this] obtain e b' d''
    where "timely_run 0 (((sample_trace @ [Elapse]) @ [TimerFires]) @ [Dispatch (2 * Second) e]) (2 * Second, b', d'')" by blast
  moreover have "dispatched (((sample_trace @ [Elapse]) @ [TimerFires]) @ [Dispatch (2 * Second) e]) = [(2 * Second, [(0, sample_event)])]"
    "batch (((sample_trace @ [Elapse]) @ [TimerFires]) @ [Dispatch (2 * Second) e]) = []"
    by (simp_all only: dispatched_snoc batch_snoc sample_batch append_Nil)
  ultimately show ?thesis by blast
qed

theorem broadcast_dispatched_witness:
  "(\<exists>tr b d. timely_run 0 tr (2 * Second, b, d) \<and> dispatched tr = [(2 * Second, [(0, sample_event)])] \<and>
      2 * Second = min (0 + proxyUpdateSlidingWindow) (0 + proxyUpdateMaxWindow)) \<and>
   (\<exists>steps s'. timely_run 0 (sample_trace @ steps) s' \<and> received steps = [] \<and> batch (sample_trace @ steps) = [])"
proof (intro conjI)
  have decade: "2 * Second < 0 + noTimeout" "0 < 0 + noTimeout" by (simp_all add: noTimeout_def duration_units)
  obtain tr b d where run: "timely_run 0 tr (2 * Second, b, d)" "dispatched tr = [(2 * Second, [(0, sample_event)])]"
    using sample_run_dispatched by blast
  from broadcast_dispatched [OF run(1) decade(1)] run
  show "\<exists>tr b d. timely_run 0 tr (2 * Second, b, d) \<and> dispatched tr = [(2 * Second, [(0, sample_event)])] \<and>
      2 * Second = min (0 + proxyUpdateSlidingWindow) (0 + proxyUpdateMaxWindow)" by auto
  obtain b d where "timely_run 0 sample_trace (0, b, d)" using sample_run by blast
  from broadcast_dispatched [OF this decade(2)] sample_batch
  show "\<exists>steps s'. timely_run 0 (sample_trace @ steps) s' \<and> received steps = [] \<and> batch (sample_trace @ steps) = []" by auto
qed

theorem broker_never_blocks_witness:
  "\<exists>b d. broker_run 0 sample_trace (0, b, d) \<and>
     (\<exists>b' d'. processNextItem 0 (Some (MsgItem sample_msg)) (b, d) = Some (True, b', d'))"
  using sample_run timely_run_is_run broker_never_blocks [of 0 sample_trace 0 _ _ "MsgItem sample_msg"] by blast

theorem broadcasts_coalesced_witness:
  "\<exists>tr b d. broker_run 0 tr (2 * Second, b, d) \<and> received tr = [(0, sample_event)] \<and>
     published_broadcasts b = [(ProxyUpdate, sample_msg)] \<and> \<not> dp_dispatchPending d"
proof -
  obtain tr b d where run: "timely_run 0 tr (2 * Second, b, d)" "dispatched tr = [(2 * Second, [(0, sample_event)])]" "batch tr = []"
    using sample_run_dispatched by blast
  from broadcasts_coalesced [OF timely_run_is_run [OF run(1)]] run timely_run_is_run [OF run(1)] show ?thesis
    by (auto simp: noTimeout_def duration_units sample_event_def)
qed

text \<open>
  C35. The comparison that decides whether a MeshConfig update concerns the proxies compares pointers: an
  update that changes nothing but where the sampled fraction of the tracing is stored is broadcast to all proxies.
\<close>

theorem unchanged_config_broadcast:
  assumes "tcg_SampledFraction (obs_Tracing (mcs_Observability (mcf_Spec old))) = PtrTo p s"
    and "tcg_SampledFraction (obs_Tracing (mcs_Observability (mcf_Spec new))) = PtrTo q s" and "p \<noteq> q"
  shows "getProxyUpdateEvent \<lparr>psm_Kind = MeshConfigUpdated, psm_OldObj = MeshConfigObj old, psm_NewObj = MeshConfigObj new\<rparr> =
    Some \<lparr>pue_msg = \<lparr>psm_Kind = MeshConfigUpdated, psm_OldObj = MeshConfigObj old, psm_NewObj = MeshConfigObj new\<rparr>,
      pue_topic = ProxyUpdate\<rparr>"
proof -
  have "MeshConfigUpdated \<notin> set broadcast_kinds" by (simp add: broadcast_kinds_def kind_defs)
  with assms show ?thesis
    by (simp add: getProxyUpdateEvent_def meshConfigUpdatesProxies_def TracingSpec_eq_def Let_def)
qed

definition sample_traced :: "nat \<Rightarrow> MeshConfig" where
  "sample_traced p = zero_MeshConfig\<lparr>mcf_Spec := (mcf_Spec zero_MeshConfig)\<lparr>mcs_Observability :=
     zero_ObservabilitySpec\<lparr>obs_Tracing := (obs_Tracing zero_ObservabilitySpec)\<lparr>tcg_SampledFraction := PtrTo p ''0.5''\<rparr>\<rparr>\<rparr>\<rparr>"

theorem unchanged_config_broadcast_witness:
  "getProxyUpdateEvent \<lparr>psm_Kind = MeshConfigUpdated, psm_OldObj = MeshConfigObj (sample_traced 1),
     psm_NewObj = MeshConfigObj (sample_traced 2)\<rparr> \<noteq> None"
  using unchanged_config_broadcast [of "sample_traced 1" 1 "''0.5''" "sample_traced 2" 2]
  by (simp add: sample_traced_def)

end
