(* ===== verification/Resync_Ticker.thy ===== *)
theory Resync_Ticker
  imports Broker
begin

text \<open>
  The resync ticker (\<open>src/pkg/ticker/ticker.go\<close>). A watcher goroutine reads MeshConfig updates and starts
  and stops ticker goroutines; a ticker goroutine first creates its timer, records that it is running and
  then ticks until it receives from the unbuffered stop channel. Sending on that channel blocks until a
  ticker goroutine receives, so a stop is two steps of the watcher: it waits at the send, and it continues
  when the rendezvous happens. \<open>Start\<close> may be called again: it then waits in the same way and adds a
  second watcher.
\<close>

section \<open>State\<close>

text \<open>
  Where a watcher is: at its select statement, blocked in \<open>stopTicker\<close> with what it does next, or returned.
  A call of \<open>Start\<close> that waits for a running ticker to stop is a watcher that has not begun.
\<close>

datatype after_stop = ContinueWatching | StartTicker duration | Return | BeginWatching duration

datatype watcher = Watching | StopTicker after_stop | Returned

record ResyncTicker =
  rt_running :: bool
  rt_minTickInterval :: duration
  rt_invalidIntervalCounter :: "64 word"
  rt_watchers :: "watcher list"
  rt_spawned :: "duration list"
  rt_ticking :: "duration list"
  rt_queued :: nat
  rt_panicked :: bool

text \<open>
  \<open>rt_spawned\<close> are the goroutines that have been created but have not executed a statement yet, \<open>rt_ticking\<close>
  those in their loop. \<open>time.NewTicker\<close> panics for an interval that is not positive, which ends the program.
\<close>

definition NewResyncTicker :: "duration \<Rightarrow> ResyncTicker" where
  "NewResyncTicker minTickInterval =
     \<lparr>rt_running = False, rt_minTickInterval = minTickInterval, rt_invalidIntervalCounter = 0, rt_watchers = [],
      rt_spawned = [], rt_ticking = [], rt_queued = 0, rt_panicked = False\<rparr>"

definition goStart :: "duration \<Rightarrow> ResyncTicker \<Rightarrow> ResyncTicker" where
  "goStart resyncInterval r =
     (if rt_minTickInterval r \<le> resyncInterval then r\<lparr>rt_spawned := rt_spawned r @ [resyncInterval]\<rparr> else r)"

definition ticker_Start :: "duration \<Rightarrow> ResyncTicker \<Rightarrow> ResyncTicker" where
  "ticker_Start resyncInterval r =
     (if rt_running r then r\<lparr>rt_watchers := rt_watchers r @ [StopTicker (BeginWatching resyncInterval)]\<rparr>
      else goStart resyncInterval (r\<lparr>rt_watchers := rt_watchers r @ [Watching]\<rparr>))"

definition startTicker :: "duration \<Rightarrow> ResyncTicker \<Rightarrow> ResyncTicker" where
  "startTicker tickInterval r =
     (if tickInterval \<le> 0 then r\<lparr>rt_panicked := True\<rparr>
      else r\<lparr>rt_running := True, rt_ticking := rt_ticking r @ [tickInterval]\<rparr>)"


section \<open>The watcher\<close>

text \<open>What a message on the MeshConfig channel asks for.\<close>

datatype resync_change = NoChange | NewInterval duration

definition resyncChange :: "fraction \<Rightarrow> PubSubMessage \<Rightarrow> resync_change" where
  "resyncChange frac event =
     (case (as_MeshConfig (psm_OldObj event), as_MeshConfig (psm_NewObj event)) of
        (Some oldMeshSpec, Some newMeshSpec) \<Rightarrow>
          (let old = scs_ConfigResyncInterval (mcs_Sidecar (mcf_Spec oldMeshSpec));
               new = scs_ConfigResyncInterval (mcs_Sidecar (mcf_Spec newMeshSpec)) in
           if old = new then NoChange
           else if new = '''' then NoChange
           else case ParseDuration frac new of None \<Rightarrow> NoChange | Some d \<Rightarrow> NewInterval d)
      | _ \<Rightarrow> NoChange)"

text \<open>The state after a message and where the watcher that read it is then.\<close>

definition onMeshConfig :: "resync_change \<Rightarrow> ResyncTicker \<Rightarrow> ResyncTicker \<times> watcher" where
  "onMeshConfig change r =
     (case change of
        NoChange \<Rightarrow> (r, Watching)
      | NewInterval d \<Rightarrow>
          if rt_minTickInterval r \<le> d then
            (if rt_running r then (r, StopTicker (StartTicker d))
             else (r\<lparr>rt_spawned := rt_spawned r @ [d]\<rparr>, Watching))
          else if d = 0 then (r, StopTicker ContinueWatching)
          else (r\<lparr>rt_invalidIntervalCounter := rt_invalidIntervalCounter r + 1\<rparr>, Watching))"

text \<open>What follows once a ticker goroutine has received the stop.\<close>

fun afterStop :: "after_stop \<Rightarrow> ResyncTicker \<Rightarrow> ResyncTicker \<times> watcher" where
  "afterStop ContinueWatching r = (r\<lparr>rt_running := False\<rparr>, Watching)"
| "afterStop (StartTicker d) r = (r\<lparr>rt_running := False, rt_spawned := rt_spawned r @ [d]\<rparr>, Watching)"
| "afterStop Return r = (r\<lparr>rt_running := False\<rparr>, Returned)"
| "afterStop (BeginWatching d) r = (goStart d (r\<lparr>rt_running := False\<rparr>), Watching)"


section \<open>Runs\<close>

definition set_watcher :: "nat \<Rightarrow> ResyncTicker \<times> watcher \<Rightarrow> ResyncTicker" where
  "set_watcher i = (\<lambda>(r, w). r\<lparr>rt_watchers := (rt_watchers r)[i := w]\<rparr>)"

abbreviation watcher_at :: "ResyncTicker \<Rightarrow> nat \<Rightarrow> watcher \<Rightarrow> bool" where
  "watcher_at r i w \<equiv> i < length (rt_watchers r) \<and> rt_watchers r ! i = w"

inductive ticker_step :: "ResyncTicker \<Rightarrow> ResyncTicker \<Rightarrow> bool" where
  config: "\<not> rt_panicked r \<Longrightarrow> watcher_at r i Watching \<Longrightarrow> ticker_step r (set_watcher i (onMeshConfig change r))"
| quit: "\<not> rt_panicked r \<Longrightarrow> watcher_at r i Watching \<Longrightarrow> ticker_step r (set_watcher i (r, StopTicker Return))"
| rendezvous: "\<not> rt_panicked r \<Longrightarrow> watcher_at r i (StopTicker k) \<Longrightarrow> rt_ticking r = ds @ d # es \<Longrightarrow>
    ticker_step r (set_watcher i (afterStop k (r\<lparr>rt_ticking := ds @ es\<rparr>)))"
| goroutine_starts: "\<not> rt_panicked r \<Longrightarrow> rt_spawned r = ds @ d # es \<Longrightarrow>
    ticker_step r (startTicker d (r\<lparr>rt_spawned := ds @ es\<rparr>))"
| tick: "\<not> rt_panicked r \<Longrightarrow> rt_ticking r \<noteq> [] \<Longrightarrow> ticker_step r (r\<lparr>rt_queued := rt_queued r + 1\<rparr>)"

inductive_cases ticker_step_elim: "ticker_step r r'"

abbreviation ticker_steps :: "ResyncTicker \<Rightarrow> ResyncTicker \<Rightarrow> bool" where
  "ticker_steps \<equiv> ticker_step\<^sup>*\<^sup>*"

text \<open>
  A prompt run of a new ticker: no message is read and \<open>Start\<close> is not called while a goroutine that has been
  created has not started yet.
\<close>

inductive prompt_run :: "duration \<Rightarrow> ResyncTicker \<Rightarrow> bool" for minTickInterval where
  prompt_new: "prompt_run minTickInterval (NewResyncTicker minTickInterval)"
| prompt_start: "prompt_run minTickInterval r \<Longrightarrow> \<not> rt_panicked r \<Longrightarrow> rt_spawned r = [] \<Longrightarrow>
    prompt_run minTickInterval (ticker_Start resyncInterval r)"
| prompt_step: "prompt_run minTickInterval r \<Longrightarrow> rt_spawned r = [] \<Longrightarrow> ticker_step r r' \<Longrightarrow>
    prompt_run minTickInterval r'"
| prompt_goroutine: "prompt_run minTickInterval r \<Longrightarrow> \<not> rt_panicked r \<Longrightarrow> rt_spawned r = ds @ d # es \<Longrightarrow>
    prompt_run minTickInterval (startTicker d (r\<lparr>rt_spawned := ds @ es\<rparr>))"


section \<open>Lemmas\<close>

lemma set_watcher_simps [simp]:
  "rt_running (set_watcher i p) = rt_running (fst p)" "rt_spawned (set_watcher i p) = rt_spawned (fst p)"
  "rt_ticking (set_watcher i p) = rt_ticking (fst p)" "rt_panicked (set_watcher i p) = rt_panicked (fst p)"
  "rt_minTickInterval (set_watcher i p) = rt_minTickInterval (fst p)"
  "rt_watchers (set_watcher i p) = (rt_watchers (fst p))[i := snd p]"
  by (simp_all add: set_watcher_def case_prod_beta)

text \<open>With no goroutine to receive, watchers that wait at the stop channel wait forever.\<close>

definition stuck :: "ResyncTicker \<Rightarrow> bool" where
  "stuck r \<longleftrightarrow> (\<forall>w \<in> set (rt_watchers r). w \<noteq> Watching) \<and> rt_ticking r = [] \<and> rt_spawned r = []"

lemma stuck_no_step: "stuck r \<Longrightarrow> \<not> ticker_step r r'"
  by (auto simp: stuck_def all_set_conv_all_nth elim!: ticker_step_elim)

lemma stuck_forever: "ticker_steps r r' \<Longrightarrow> stuck r \<Longrightarrow> r' = r"
  by (induction rule: converse_rtranclp_induct) (auto dest: stuck_no_step)

text \<open>In a prompt run there is at most one ticker goroutine, and \<open>running\<close> tells whether there is one.\<close>

definition one_ticker :: "ResyncTicker \<Rightarrow> bool" where
  "one_ticker r \<longleftrightarrow> length (rt_spawned r) + length (rt_ticking r) \<le> 1 \<and> rt_running r = (rt_ticking r \<noteq> [])"

lemma one_ticker_step:
  assumes "ticker_step r r'" and "one_ticker r" and "rt_spawned r = []"
  shows "one_ticker r'"
  using assms(1)
proof (cases rule: ticker_step.cases)
  case (config i change)
  with assms(2,3) show ?thesis
    by (auto simp: one_ticker_def onMeshConfig_def split: resync_change.splits)
next
  case (rendezvous i k ds d es)
  with assms(2,3) show ?thesis by (cases k) (auto simp: one_ticker_def goStart_def)
qed (use assms(2,3) in \<open>auto simp: one_ticker_def\<close>)

lemma prompt_one_ticker: "prompt_run m r \<Longrightarrow> one_ticker r"
proof (induction rule: prompt_run.induct)
  case (prompt_step r r')
  then show ?case by (blast intro: one_ticker_step)
qed (auto simp: one_ticker_def NewResyncTicker_def ticker_Start_def goStart_def startTicker_def)

text \<open>Every interval a ticker is started with is at least the smallest one allowed.\<close>

definition intervals_ok :: "ResyncTicker \<Rightarrow> bool" where
  "intervals_ok r \<longleftrightarrow> (\<forall>d \<in> set (rt_spawned r). rt_minTickInterval r \<le> d) \<and>
     (\<forall>d. StopTicker (StartTicker d) \<in> set (rt_watchers r) \<longrightarrow> rt_minTickInterval r \<le> d)"

lemma intervals_ok_set_watcher:
  assumes "intervals_ok r" and "rt_watchers r' = rt_watchers r" and "rt_minTickInterval r' = rt_minTickInterval r"
    and "\<forall>d \<in> set (rt_spawned r'). rt_minTickInterval r \<le> d"
    and "\<And>d. w = StopTicker (StartTicker d) \<Longrightarrow> rt_minTickInterval r \<le> d"
  shows "intervals_ok (set_watcher i (r', w))"
  using assms set_update_subset_insert [of "rt_watchers r" i w] by (auto simp: intervals_ok_def)

lemma intervals_ok_step:
  assumes "ticker_step r r'" and "intervals_ok r" and "0 < rt_minTickInterval r"
  shows "intervals_ok r' \<and> rt_minTickInterval r' = rt_minTickInterval r \<and> \<not> rt_panicked r'"
  using assms(1)
proof (cases rule: ticker_step.cases)
  case (config i change)
  have "intervals_ok (set_watcher i (fst (onMeshConfig change r), snd (onMeshConfig change r)))"
    using assms(2) by (intro intervals_ok_set_watcher [of r])
      (auto simp: onMeshConfig_def intervals_ok_def split: resync_change.splits if_splits)
  with config show ?thesis by (auto simp: onMeshConfig_def split: resync_change.splits)
next
  case (quit i)
  with assms(2) show ?thesis
    using intervals_ok_set_watcher [of r r "StopTicker Return" i] by (auto simp: intervals_ok_def)
next
  case (rendezvous i k ds d es)
  have "StopTicker k \<in> set (rt_watchers r)" using rendezvous by (metis nth_mem)
  then have "intervals_ok (set_watcher i (fst (afterStop k (r\<lparr>rt_ticking := ds @ es\<rparr>)), snd (afterStop k (r\<lparr>rt_ticking := ds @ es\<rparr>))))"
    using assms(2) by (intro intervals_ok_set_watcher [of r]) (cases k; auto simp: intervals_ok_def goStart_def)+
  with rendezvous show ?thesis by (cases k) (auto simp: goStart_def)
next
  case (goroutine_starts ds d es)
  with assms(2,3) have "rt_minTickInterval r \<le> d" by (simp add: intervals_ok_def)
  with goroutine_starts assms(2,3) show ?thesis by (auto simp: intervals_ok_def startTicker_def)
next
  case tick
  with assms(2) show ?thesis by (simp add: intervals_ok_def)
qed

lemma prompt_goroutine_step:
  "\<not> rt_panicked r \<Longrightarrow> rt_spawned r = ds @ d # es \<Longrightarrow> ticker_step r (startTicker d (r\<lparr>rt_spawned := ds @ es\<rparr>))"
  by (rule ticker_step.goroutine_starts)

lemma prompt_intervals:
  "prompt_run m r \<Longrightarrow> 0 < m \<Longrightarrow> intervals_ok r \<and> rt_minTickInterval r = m \<and> \<not> rt_panicked r"
proof (induction rule: prompt_run.induct)
  case (prompt_start r d)
  then show ?case by (auto simp: intervals_ok_def ticker_Start_def goStart_def)
next
  case (prompt_step r r')
  then show ?case using intervals_ok_step by metis
next
  case (prompt_goroutine r ds d es)
  then show ?case using intervals_ok_step [OF prompt_goroutine_step] by metis
qed (simp add: NewResyncTicker_def intervals_ok_def)


section \<open>Properties\<close>

text \<open>
  C37. When every goroutine starts before the next MeshConfig update is read and before \<open>Start\<close> is called
  again, there is never more than one ticker goroutine, whatever the number of watchers, and the flag
  \<open>running\<close> is set exactly when one is in its loop. With a positive smallest interval no goroutine panics
  when it creates its timer.
\<close>

theorem ticker_unique:
  assumes "prompt_run minTickInterval r"
  shows "length (rt_spawned r) + length (rt_ticking r) \<le> 1 \<and> rt_running r = (rt_ticking r \<noteq> []) \<and>
    (0 < minTickInterval \<longrightarrow> \<not> rt_panicked r)"
  using prompt_one_ticker [OF assms] prompt_intervals [OF assms] by (simp add: one_ticker_def)

lemma sample_ticker:
  "prompt_run 10 (startTicker 20 (ticker_Start 20 (NewResyncTicker 10)\<lparr>rt_spawned := [] @ []\<rparr>))"
  by (rule prompt_run.prompt_goroutine [OF prompt_run.prompt_start [OF prompt_run.prompt_new]])
    (simp_all add: ticker_Start_def goStart_def NewResyncTicker_def)

theorem ticker_unique_witness:
  "\<exists>r. prompt_run 10 r \<and> rt_ticking r = [20] \<and> rt_running r \<and> \<not> rt_panicked r"
  using ticker_unique [OF sample_ticker] sample_ticker
  by (intro exI [of _ "startTicker 20 (ticker_Start 20 (NewResyncTicker 10)\<lparr>rt_spawned := [] @ []\<rparr>)"])
    (simp add: startTicker_def ticker_Start_def goStart_def NewResyncTicker_def)

text \<open>
  A resync interval of zero blocks the watcher for ever if no ticker is running: the watcher
  waits on the stop channel that nobody reads, so no later MeshConfig update and not even the quit
  signal has an effect. The check of \<open>running\<close> that protects the restart is missing there.
\<close>

lemma zero_interval_blocks_watcher:
  assumes "rt_watchers r = [Watching]" and "rt_ticking r = []" and "rt_spawned r = []" and "0 < rt_minTickInterval r"
    and "ticker_steps (set_watcher 0 (onMeshConfig (NewInterval 0) r)) r'"
  shows "r' = r\<lparr>rt_watchers := [StopTicker ContinueWatching]\<rparr> \<and> (\<nexists>r''. ticker_step r' r'')"
proof -
  let ?r = "set_watcher 0 (onMeshConfig (NewInterval 0) r)"
  have "?r = r\<lparr>rt_watchers := [StopTicker ContinueWatching]\<rparr>"
    using assms(1,4) by (simp add: onMeshConfig_def set_watcher_def)
  moreover from this have stuck: "stuck ?r" using assms(2,3) by (simp add: stuck_def)
  ultimately show ?thesis using stuck_forever [OF assms(5) stuck] stuck_no_step [OF stuck] by simp
qed

text \<open>
  Without promptness two updates in a row create two tickers, because \<open>running\<close> is set by the goroutine
  and not by the watcher; one of them can then never be stopped by a single stop.
\<close>

lemma two_tickers: "\<exists>r. ticker_steps (ticker_Start 0 (NewResyncTicker 10)) r \<and> length (rt_ticking r) = 2"
proof -
  let ?r0 = "ticker_Start 0 (NewResyncTicker 10)"
  let ?r1 = "set_watcher 0 (onMeshConfig (NewInterval 10) ?r0)"
  let ?r2 = "set_watcher 0 (onMeshConfig (NewInterval 20) ?r1)"
  let ?r3 = "startTicker 10 (?r2\<lparr>rt_spawned := [] @ [20]\<rparr>)"
  let ?r4 = "startTicker 20 (?r3\<lparr>rt_spawned := [] @ []\<rparr>)"
  note s = ticker_Start_def goStart_def NewResyncTicker_def onMeshConfig_def startTicker_def set_watcher_def
  have "ticker_step ?r0 ?r1" by (rule ticker_step.config) (simp_all add: s)
  moreover have "ticker_step ?r1 ?r2" by (rule ticker_step.config) (simp_all add: s)
  moreover have "ticker_step ?r2 ?r3" by (rule ticker_step.goroutine_starts) (simp_all add: s)
  moreover have "ticker_step ?r3 ?r4" by (rule ticker_step.goroutine_starts) (simp_all add: s)
  ultimately have "ticker_steps ?r0 ?r4" by (meson converse_rtranclp_into_rtranclp rtranclp.rtrancl_refl)
  then show ?thesis by (intro exI [of _ ?r4]) (simp add: s)
qed

end
