(* ===== verification/Worker_Pool.thy ===== *)
theory Worker_Pool
  imports Osm_Prelude "HOL-Library.Multiset"
begin

text \<open>
  The worker pool (\<open>src/pkg/workerpool/workerpool.go\<close>). Jobs travel through a channel that buffers as many
  jobs as there are workers; each worker repeats a select between the next job and the closed stop
  channel. The steps of the workers and of the callers interleave. \<open>wp_submitted\<close> and \<open>wp_done\<close> record the
  history: the jobs accepted by \<open>AddJob\<close> and the jobs whose \<open>Run\<close> has returned.
\<close>

section \<open>State\<close>

datatype 'job worker = Selecting | Working 'job | Stopped

record 'job WorkerPool =
  wp_workers :: "'job worker list"
  wp_jobs :: "'job list"
  wp_stop :: bool
  wp_submitted :: "'job list"
  wp_done :: "'job list"

text \<open>A pool of 0 workers takes the number of processors; a negative size panics when the channel is made.\<close>

definition NewWorkerPool :: "nat \<Rightarrow> int \<Rightarrow> 'job WorkerPool option" where
  "NewWorkerPool gomaxprocs nWorkers =
     (let n = (if nWorkers = 0 then int gomaxprocs else nWorkers) in
      if n < 0 then None
      else Some \<lparr>wp_workers = replicate (nat n) Selecting, wp_jobs = [], wp_stop = False, wp_submitted = [], wp_done = []\<rparr>)"

definition GetWorkerNumber :: "'job WorkerPool \<Rightarrow> nat" where
  "GetWorkerNumber wp = length (wp_workers wp)"

text \<open>Posting a job succeeds when the channel has room; otherwise the caller waits.\<close>

definition AddJob :: "'job \<Rightarrow> 'job WorkerPool \<Rightarrow> 'job WorkerPool option" where
  "AddJob job wp =
     (if length (wp_jobs wp) < GetWorkerNumber wp
      then Some (wp\<lparr>wp_jobs := wp_jobs wp @ [job], wp_submitted := wp_submitted wp @ [job]\<rparr>)
      else None)"

text \<open>Closing the stop channel a second time panics.\<close>

definition Stop :: "'job WorkerPool \<Rightarrow> 'job WorkerPool option" where
  "Stop wp = (if wp_stop wp then None else Some (wp\<lparr>wp_stop := True\<rparr>))"

text \<open>One step of the worker with the given index.\<close>

inductive work :: "'job WorkerPool \<Rightarrow> 'job WorkerPool \<Rightarrow> bool" where
  take: "i < length (wp_workers wp) \<Longrightarrow> wp_workers wp ! i = Selecting \<Longrightarrow> wp_jobs wp = j # js \<Longrightarrow>
    work wp (wp\<lparr>wp_workers := (wp_workers wp)[i := Working j], wp_jobs := js\<rparr>)"
| finish: "i < length (wp_workers wp) \<Longrightarrow> wp_workers wp ! i = Working j \<Longrightarrow>
    work wp (wp\<lparr>wp_workers := (wp_workers wp)[i := Selecting], wp_done := wp_done wp @ [j]\<rparr>)"
| leave: "i < length (wp_workers wp) \<Longrightarrow> wp_workers wp ! i = Selecting \<Longrightarrow> wp_stop wp \<Longrightarrow>
    work wp (wp\<lparr>wp_workers := (wp_workers wp)[i := Stopped]\<rparr>)"

inductive pool_step :: "'job WorkerPool \<Rightarrow> 'job WorkerPool \<Rightarrow> bool" where
  add: "AddJob j wp = Some wp' \<Longrightarrow> pool_step wp wp'"
| stop: "Stop wp = Some wp' \<Longrightarrow> pool_step wp wp'"
| work: "work wp wp' \<Longrightarrow> pool_step wp wp'"

inductive_cases work_elim: "work wp wp'"


section \<open>Lemmas\<close>

fun worker_job :: "'job worker \<Rightarrow> 'job multiset" where
  "worker_job (Working j) = {#j#}"
| "worker_job w = {#}"

definition running_jobs :: "'job WorkerPool \<Rightarrow> 'job multiset" where
  "running_jobs wp = (\<Sum>w \<leftarrow> wp_workers wp. worker_job w)"

lemma sum_list_update_mset:
  "i < length xs \<Longrightarrow> (\<Sum>w \<leftarrow> xs[i := y]. f w) + f (xs ! i) = (\<Sum>w \<leftarrow> xs. f w) + (f y :: 'a multiset)"
proof (induction xs arbitrary: i)
  case (Cons x xs)
  then show ?case by (cases i) (auto simp: ac_simps)
qed simp

lemma running_update:
  "i < length (wp_workers wp) \<Longrightarrow>
     running_jobs (wp\<lparr>wp_workers := (wp_workers wp)[i := y]\<rparr>) + worker_job (wp_workers wp ! i) =
     running_jobs wp + worker_job y"
  unfolding running_jobs_def by (simp add: sum_list_update_mset)

text \<open>Every accepted job is in the channel, with a worker, or done.\<close>

definition pool_inv :: "'job WorkerPool \<Rightarrow> bool" where
  "pool_inv wp \<longleftrightarrow> mset (wp_submitted wp) = mset (wp_jobs wp) + running_jobs wp + mset (wp_done wp) \<and>
     length (wp_jobs wp) \<le> length (wp_workers wp)"

lemma work_inv:
  assumes "work wp wp'" and "pool_inv wp"
  shows "pool_inv wp' \<and> length (wp_workers wp') = length (wp_workers wp)"
  using assms(1)
proof (cases rule: work.cases)
  case (take i j js)
  with assms(2) running_update [of i wp "Working j"] show ?thesis
    by (simp add: pool_inv_def running_jobs_def)
next
  case (finish i j)
  with assms(2) running_update [of i wp Selecting] show ?thesis
    by (simp add: pool_inv_def running_jobs_def)
next
  case (leave i)
  with assms(2) running_update [of i wp Stopped] show ?thesis
    by (simp add: pool_inv_def running_jobs_def)
qed

lemma pool_step_inv:
  assumes "pool_step wp wp'" and "pool_inv wp"
  shows "pool_inv wp' \<and> length (wp_workers wp') = length (wp_workers wp)"
  using assms(1)
proof (cases rule: pool_step.cases)
  case (add j)
  with assms(2) show ?thesis
    by (auto simp: AddJob_def pool_inv_def running_jobs_def GetWorkerNumber_def split: if_splits)
next
  case stop
  with assms(2) show ?thesis by (auto simp: Stop_def pool_inv_def running_jobs_def split: if_splits)
next
  case work
  with assms(2) show ?thesis by (simp add: work_inv)
qed

lemma pool_steps_inv:
  "pool_step\<^sup>*\<^sup>* wp wp' \<Longrightarrow> pool_inv wp \<Longrightarrow> pool_inv wp' \<and> length (wp_workers wp') = length (wp_workers wp)"
  by (induction rule: rtranclp_induct) (auto dest: pool_step_inv)

lemma sum_list_replicate_empty [simp]: "sum_list (replicate n {#}) = {#}"
  by (induction n) auto

lemma sum_list_empty: "\<forall>w \<in> set ws. f w = {#} \<Longrightarrow> (\<Sum>w \<leftarrow> ws. f w) = {#}"
  by (induction ws) auto

lemma pool_inv_new: "NewWorkerPool g n = Some wp \<Longrightarrow> pool_inv wp"
  by (auto simp: NewWorkerPool_def Let_def pool_inv_def running_jobs_def split: if_splits)

lemma running_bound: "size (running_jobs wp) \<le> length (wp_workers wp)"
proof -
  have "size (\<Sum>w \<leftarrow> ws. worker_job w) \<le> length ws" for ws :: "'a worker list"
  proof (induction ws)
    case (Cons w ws)
    then show ?case by (cases w) auto
  qed simp
  then show ?thesis by (simp add: running_jobs_def)
qed


text \<open>Each step of a worker uses up some of the work that is left.\<close>

fun worker_weight :: "'job worker \<Rightarrow> nat" where
  "worker_weight Selecting = 1"
| "worker_weight (Working j) = 2"
| "worker_weight Stopped = 0"

definition pool_weight :: "'job WorkerPool \<Rightarrow> nat" where
  "pool_weight wp = 2 * length (wp_jobs wp) + (\<Sum>w \<leftarrow> wp_workers wp. worker_weight w)"

lemma sum_list_update_nat:
  "i < length xs \<Longrightarrow> (\<Sum>w \<leftarrow> xs[i := y]. f w) + f (xs ! i) = (\<Sum>w \<leftarrow> xs. f w) + (f y :: nat)"
proof (induction xs arbitrary: i)
  case (Cons x xs)
  then show ?case by (cases i) auto
qed simp

lemma work_decreases: "work wp wp' \<Longrightarrow> pool_weight wp' < pool_weight wp"
proof (induction rule: work.induct)
  case (take i wp j js)
  then show ?case using sum_list_update_nat [of i "wp_workers wp" worker_weight "Working j"]
    by (simp add: pool_weight_def)
next
  case (finish i wp j)
  then show ?case using sum_list_update_nat [of i "wp_workers wp" worker_weight Selecting]
    by (simp add: pool_weight_def)
next
  case (leave i wp)
  then show ?case using sum_list_update_nat [of i "wp_workers wp" worker_weight Stopped]
    by (simp add: pool_weight_def)
qed

lemma work_stop [simp]: "work wp wp' \<Longrightarrow> wp_stop wp' = wp_stop wp \<and> wp_submitted wp' = wp_submitted wp"
  by (induction rule: work.induct) auto

lemma works_stop: "work\<^sup>*\<^sup>* wp wp' \<Longrightarrow> wp_stop wp' = wp_stop wp \<and> wp_submitted wp' = wp_submitted wp"
  by (induction rule: rtranclp_induct) auto

lemma works_inv: "work\<^sup>*\<^sup>* wp wp' \<Longrightarrow> pool_inv wp \<Longrightarrow> pool_inv wp' \<and> length (wp_workers wp') = length (wp_workers wp)"
  by (induction rule: rtranclp_induct) (auto dest: work_inv)

lemma works_end: "\<exists>wp'. work\<^sup>*\<^sup>* wp wp' \<and> (\<nexists>wp''. work wp' wp'')"
proof (induction wp rule: measure_induct_rule [of pool_weight])
  case (less wp)
  show ?case
  proof (cases "\<exists>wp1. work wp wp1")
    case True
    then obtain wp1 where w: "work wp wp1" by blast
    with less.IH work_decreases obtain wp' where "work\<^sup>*\<^sup>* wp1 wp'" "\<nexists>wp''. work wp' wp''" by blast
    with w show ?thesis by (meson converse_rtranclp_into_rtranclp)
  qed blast
qed

lemma work_final:
  assumes "\<nexists>wp'. work wp wp'" and "w \<in> set (wp_workers wp)"
  shows "if wp_stop wp then w = Stopped else w = Stopped \<or> (w = Selecting \<and> wp_jobs wp = [])"
proof -
  from assms(2) obtain i where i: "i < length (wp_workers wp)" "wp_workers wp ! i = w" by (auto simp: in_set_conv_nth)
  show ?thesis
  proof (cases w)
    case Selecting
    then show ?thesis using i assms(1) work.take [of i wp] work.leave [of i wp] by (cases "wp_jobs wp") auto
  next
    case (Working j)
    then show ?thesis using i assms(1) work.finish [of i wp j] by auto
  qed simp
qed


text \<open>A worker leaves only a stopped pool.\<close>

definition staying :: "'job WorkerPool \<Rightarrow> bool" where
  "staying wp \<longleftrightarrow> wp_stop wp \<or> Stopped \<notin> set (wp_workers wp)"

lemma staying_new: "NewWorkerPool g n = Some wp \<Longrightarrow> staying wp"
  by (auto simp: NewWorkerPool_def Let_def staying_def split: if_splits)

lemma work_staying: "work wp wp' \<Longrightarrow> staying wp \<Longrightarrow> staying wp'"
  by (induction rule: work.induct) (auto simp: staying_def dest!: subsetD [OF set_update_subset_insert])

lemma pool_step_staying: "pool_step wp wp' \<Longrightarrow> staying wp \<Longrightarrow> staying wp'"
proof (induction rule: pool_step.induct)
  case (work wp wp')
  then show ?case by (rule work_staying)
qed (auto simp: AddJob_def Stop_def staying_def split: if_splits)

lemma works_staying: "work\<^sup>*\<^sup>* wp wp' \<Longrightarrow> staying wp \<Longrightarrow> staying wp'"
  by (induction rule: rtranclp_induct) (auto dest: work_staying)

lemma pool_steps_staying: "pool_step\<^sup>*\<^sup>* wp wp' \<Longrightarrow> staying wp \<Longrightarrow> staying wp'"
  by (induction rule: rtranclp_induct) (auto dest: pool_step_staying)


section \<open>Properties\<close>

text \<open>
  C38. The pool runs every accepted job exactly once: at any time each accepted job is in the channel, with
  one worker, or done, counted with multiplicity, and no more jobs run at the same time than there are workers.
\<close>

theorem worker_pool_runs_once:
  assumes "NewWorkerPool gomaxprocs n = Some wp0" and "pool_step\<^sup>*\<^sup>* wp0 wp"
  shows "mset (wp_submitted wp) = mset (wp_jobs wp) + running_jobs wp + mset (wp_done wp) \<and>
    size (running_jobs wp) \<le> GetWorkerNumber wp0"
  using pool_steps_inv [OF assms(2) pool_inv_new [OF assms(1)]] running_bound [of wp]
  by (simp add: pool_inv_def GetWorkerNumber_def)

theorem worker_pool_runs_once_witness:
  "\<exists>wp. pool_step\<^sup>*\<^sup>* (the (NewWorkerPool 1 2)) wp \<and> wp_submitted wp = [''job''] \<and>
     size (running_jobs wp) \<le> GetWorkerNumber (the (NewWorkerPool 1 2) :: string WorkerPool)"
proof -
  obtain wp0 :: "string WorkerPool" where wp0: "NewWorkerPool 1 2 = Some wp0" by (simp add: NewWorkerPool_def)
  then have "AddJob ''job'' wp0 = Some (wp0\<lparr>wp_jobs := [''job''], wp_submitted := [''job'']\<rparr>)"
    by (auto simp: NewWorkerPool_def AddJob_def GetWorkerNumber_def)
  then have "pool_step\<^sup>*\<^sup>* wp0 (wp0\<lparr>wp_jobs := [''job''], wp_submitted := [''job'']\<rparr>)" by (auto intro: pool_step.add)
  with worker_pool_runs_once [OF wp0] wp0 show ?thesis by (intro exI [of _ "wp0\<lparr>wp_jobs := [''job''], wp_submitted := [''job'']\<rparr>"]) auto
qed

text \<open>
  C39. The workers come to rest. Take a pool after any sequence of calls and of steps of the workers. If
  jobs return and no more calls are made, every run of the workers ends, and some run does. Where it
  ends, all workers have left if the pool was stopped, so \<open>Stop\<close> returns; if it was not, all workers
  wait for jobs and every accepted job is done.
\<close>

theorem worker_pool_comes_to_rest:
  assumes "NewWorkerPool gomaxprocs n = Some wp0" and "pool_step\<^sup>*\<^sup>* wp0 wp"
  shows "wfP (\<lambda>wp2 wp1. work wp1 wp2) \<and> (\<exists>wp'. work\<^sup>*\<^sup>* wp wp' \<and> (\<nexists>wp''. work wp' wp'')) \<and>
    (\<forall>wp'. work\<^sup>*\<^sup>* wp wp' \<and> (\<nexists>wp''. work wp' wp'') \<longrightarrow>
       (if wp_stop wp then set (wp_workers wp') \<subseteq> {Stopped}
        else set (wp_workers wp') \<subseteq> {Selecting} \<and> mset (wp_done wp') = mset (wp_submitted wp)))"
proof (intro conjI allI impI)
  show "wfP (\<lambda>wp2 wp1. work wp1 wp2)"
    by (rule wfp_if_convertible_to_nat [of _ pool_weight]) (rule work_decreases)
  show "\<exists>wp'. work\<^sup>*\<^sup>* wp wp' \<and> (\<nexists>wp''. work wp' wp'')" by (rule works_end)
next
  fix wp' assume wp': "work\<^sup>*\<^sup>* wp wp' \<and> (\<nexists>wp''. work wp' wp'')"
  note final = work_final [OF conjunct2 [OF wp']]
  note stop = works_stop [OF conjunct1 [OF wp']]
  note inv = pool_steps_inv [OF assms(2) pool_inv_new [OF assms(1)]]
  note inv' = works_inv [OF conjunct1 [OF wp'] conjunct1 [OF inv]]
  note staying = works_staying [OF conjunct1 [OF wp'] pool_steps_staying [OF assms(2) staying_new [OF assms(1)]]]
  have "set (wp_workers wp') \<subseteq> {Selecting} \<and> mset (wp_done wp') = mset (wp_submitted wp)" if "\<not> wp_stop wp"
  proof -
    have all: "w = Selecting \<and> wp_jobs wp' = []" if "w \<in> set (wp_workers wp')" for w
      using final [OF that] staying that \<open>\<not> wp_stop wp\<close> stop by (auto simp: staying_def)
    moreover have "wp_jobs wp' = []"
      using all inv' by (cases "wp_workers wp'") (auto simp: pool_inv_def)
    moreover have "running_jobs wp' = {#}"
      unfolding running_jobs_def by (rule sum_list_empty) (use all worker_job.simps(2) in metis)
    ultimately show ?thesis using inv' stop by (auto simp: pool_inv_def)
  qed
  with final stop show "if wp_stop wp then set (wp_workers wp') \<subseteq> {Stopped}
      else set (wp_workers wp') \<subseteq> {Selecting} \<and> mset (wp_done wp') = mset (wp_submitted wp)" by auto
qed

text \<open>Two workers, two jobs and no stop.\<close>

theorem worker_pool_comes_to_rest_witness:
  "\<exists>wp wp'. pool_step\<^sup>*\<^sup>* (the (NewWorkerPool 1 2)) wp \<and> wp_submitted wp = [''a'', ''b''] \<and> work\<^sup>*\<^sup>* wp wp' \<and>
     mset (wp_done wp') = {#''a'', ''b''#}"
proof -
  obtain wp0 :: "string WorkerPool" where wp0: "NewWorkerPool 1 2 = Some wp0" by (simp add: NewWorkerPool_def)
  let ?wp1 = "wp0\<lparr>wp_jobs := [''a''], wp_submitted := [''a'']\<rparr>"
  let ?wp2 = "wp0\<lparr>wp_jobs := [''a'', ''b''], wp_submitted := [''a'', ''b'']\<rparr>"
  have "AddJob ''a'' wp0 = Some ?wp1" "AddJob ''b'' ?wp1 = Some ?wp2" "\<not> wp_stop ?wp2"
    using wp0 by (auto simp: NewWorkerPool_def AddJob_def GetWorkerNumber_def)
  moreover from this have "pool_step\<^sup>*\<^sup>* wp0 ?wp2"
    by (meson pool_step.add r_into_rtranclp rtranclp_trans)
  ultimately obtain wp' where "work\<^sup>*\<^sup>* ?wp2 wp'" "mset (wp_done wp') = {#''a'', ''b''#}"
    using worker_pool_comes_to_rest [OF wp0 \<open>pool_step\<^sup>*\<^sup>* wp0 ?wp2\<close>] by (auto simp: add_mset_commute)
  with wp0 \<open>pool_step\<^sup>*\<^sup>* wp0 ?wp2\<close> show ?thesis by (intro exI [of _ ?wp2] exI [of _ wp']) simp
qed

end
