(* ===== verification/Certificate.thy ===== *)
theory Certificate
  imports Go_Time Mesh_Config Constants
begin

text \<open>
  Certificates and the options for issuing them (\<open>src/pkg/certificate/types.go\<close>, \<open>certificate.go\<close>,
  \<open>options.go\<close>), and the interface of a certificate authority. PEM blocks are strings of bytes; a time is
  the number of nanoseconds since an epoch. An issuer is a function of the current time, the common
  name, the alternative names and the validity period; its failure is the error text, a panic is \<open>None\<close>.
\<close>

section \<open>Types\<close>

type_synonym CommonName = string
type_synonym CertType = string

definition Internal :: CertType where
  "Internal = ''internal''"

definition IngressGateway :: CertType where
  "IngressGateway = ''ingressGateway''"

definition Service :: CertType where
  "Service = ''service''"

definition TypeCertificate :: string where
  "TypeCertificate = ''CERTIFICATE''"

definition TypePrivateKey :: string where
  "TypePrivateKey = ''PRIVATE KEY''"

record Certificate =
  crt_CommonName :: CommonName
  crt_SANames :: "string list"
  crt_SerialNumber :: string
  crt_Expiration :: int
  crt_CertChain :: string
  crt_PrivateKey :: string
  crt_IssuingCA :: string
  crt_TrustedCAs :: string
  crt_signingIssuerID :: string
  crt_validatingIssuerID :: string
  crt_certType :: CertType

type_synonym Issuer = "int \<Rightarrow> CommonName \<Rightarrow> string list \<Rightarrow> duration \<Rightarrow> (string + Certificate) option"

record issuer =
  isr_Issuer :: Issuer
  isr_ID :: string
  isr_TrustDomain :: string
  isr_CertificateAuthority :: string

definition RenewBeforeCertExpires :: duration where
  "RenewBeforeCertExpires = 30 * Second"

definition noiseSeconds :: int where
  "noiseSeconds = 5"

text \<open>The certificate that trusts \<open>root\<close> in addition to its own issuer.\<close>

definition newMergedWithRoot :: "string \<Rightarrow> Certificate \<Rightarrow> Certificate" where
  "newMergedWithRoot root c = c\<lparr>crt_TrustedCAs := crt_IssuingCA c @ root\<rparr>"


section \<open>Options\<close>

record issueOptions =
  opt_fullCNProvided :: bool
  opt_validityDuration :: "duration option"
  opt_saNames :: "string list"

datatype IssueOption = FullCNProvided | ValidityDurationProvided "duration option" | SubjectAlternativeNames "string list"

definition zero_issueOptions :: issueOptions where
  "zero_issueOptions = \<lparr>opt_fullCNProvided = False, opt_validityDuration = None, opt_saNames = []\<rparr>"

fun applyOption :: "IssueOption \<Rightarrow> issueOptions \<Rightarrow> issueOptions" where
  "applyOption FullCNProvided opts = opts\<lparr>opt_fullCNProvided := True\<rparr>"
| "applyOption (ValidityDurationProvided d) opts = opts\<lparr>opt_validityDuration := d\<rparr>"
| "applyOption (SubjectAlternativeNames saNames) opts = opts\<lparr>opt_saNames := saNames\<rparr>"

definition applyOptions :: "IssueOption list \<Rightarrow> issueOptions" where
  "applyOptions opts = fold applyOption opts zero_issueOptions"

definition formatCN :: "issueOptions \<Rightarrow> string \<Rightarrow> string \<Rightarrow> CommonName" where
  "formatCN o1 pre trustDomain = (if opt_fullCNProvided o1 then pre else pre @ ''.'' @ trustDomain)"

text \<open>
  Several names are made unique, and names with a colon or among the excluded ones are dropped; a single
  name is kept as it is.
\<close>

definition uniqueSubjectAlternativeNames :: "string list \<Rightarrow> string list \<Rightarrow> string list" where
  "uniqueSubjectAlternativeNames saNames excludeSANS =
     (if 1 < length saNames
      then set_adds (filter (\<lambda>san. CHR '':'' \<notin> set san \<and> san \<notin> set excludeSANS) saNames) []
      else saNames)"

definition subjectAlternativeNames :: "issueOptions \<Rightarrow> string list" where
  "subjectAlternativeNames o1 =
     (if 1 < length (opt_saNames o1) then uniqueSubjectAlternativeNames (opt_saNames o1) [] else opt_saNames o1)"

definition validityPeriod :: "issueOptions \<Rightarrow> duration \<Rightarrow> duration" where
  "validityPeriod o1 validityDuration = (case opt_validityDuration o1 of Some d \<Rightarrow> d | None \<Rightarrow> validityDuration)"

lemma uniqueSANs_set:
  "1 < length sans \<Longrightarrow>
     set (uniqueSubjectAlternativeNames sans ex) = {s \<in> set sans. CHR '':'' \<notin> set s \<and> s \<notin> set ex}"
  by (auto simp: uniqueSubjectAlternativeNames_def)

lemma uniqueSANs_distinct: "distinct (uniqueSubjectAlternativeNames sans ex)"
proof (cases "1 < length sans")
  case False
  then show ?thesis by (cases sans) (auto simp: uniqueSubjectAlternativeNames_def)
qed (simp add: uniqueSubjectAlternativeNames_def)

text \<open>With names that have no colon, nothing but repetitions is lost.\<close>

lemma uniqueSANs_plain:
  "\<forall>s \<in> set sans. CHR '':'' \<notin> set s \<Longrightarrow> set (uniqueSubjectAlternativeNames sans []) = set sans"
  by (auto simp: uniqueSubjectAlternativeNames_def)

end
