(* ===== verification/Cert_Issuers.thy ===== *)
theory Cert_Issuers
  imports Certificate
begin

text \<open>
  The certificate authorities: PEM encoding and decoding (\<open>src/pkg/certificate/encode.go\<close>), the built-in
  authority Tresor (\<open>providers/tresor\<close>) and the client of Hashi Vault (\<open>providers/vault\<close>). Key
  generation, signing and parsing of certificates are the operations of the record \<open>crypto\<close>; random
  draws are functions of the time at which they are made.
\<close>

section \<open>Cryptographic operations\<close>

record pem_Block =
  pb_Type :: string
  pb_Headers :: "(string, string) gomap"
  pb_Bytes :: string

text \<open>The key usages of \<open>crypto/x509\<close> the code names.\<close>

datatype x509_KeyUsage = KeyUsageDigitalSignature | KeyUsageKeyEncipherment | KeyUsageCertSign | KeyUsageCRLSign

datatype x509_ExtKeyUsage = ExtKeyUsageServerAuth | ExtKeyUsageClientAuth

record x509_Certificate =
  x5_SerialNumber :: nat
  x5_CommonName :: string
  x5_Country :: "string list"
  x5_Locality :: "string list"
  x5_Organization :: "string list"
  x5_DNSNames :: "string list"
  x5_NotBefore :: int
  x5_NotAfter :: int
  x5_KeyUsage :: "x509_KeyUsage list"
  x5_ExtKeyUsage :: "x509_ExtKeyUsage list"
  x5_BasicConstraintsValid :: bool
  x5_IsCA :: bool

text \<open>A parsed PKCS8 key is an RSA key or a key of another kind.\<close>

datatype pkcs8_key = RSAKey string | OtherKey

record crypto =
  cry_pemEncode :: "pem_Block \<Rightarrow> string"
  cry_pemDecode :: "string \<Rightarrow> (pem_Block \<times> string) option"
  cry_ParseCertificate :: "string \<Rightarrow> string + x509_Certificate"
  cry_MarshalPKCS8PrivateKey :: "string \<Rightarrow> string + string"
  cry_ParsePKCS8PrivateKey :: "string \<Rightarrow> string + pkcs8_key"
  cry_GenerateKey :: "int \<Rightarrow> int \<Rightarrow> string + string"
  cry_SerialNumber :: "int \<Rightarrow> string + nat"
  cry_CreateCertificate :: "x509_Certificate \<Rightarrow> x509_Certificate \<Rightarrow> string \<Rightarrow> string \<Rightarrow> string + string"


section \<open>PEM\<close>

definition EncodeCertDERtoPEM :: "crypto \<Rightarrow> string \<Rightarrow> string" where
  "EncodeCertDERtoPEM cry derBytes = cry_pemEncode cry \<lparr>pb_Type = TypeCertificate, pb_Headers = [], pb_Bytes = derBytes\<rparr>"

definition EncodeKeyDERtoPEM :: "crypto \<Rightarrow> string \<Rightarrow> string + string" where
  "EncodeKeyDERtoPEM cry priv =
     (case cry_MarshalPKCS8PrivateKey cry priv of
        Inl err \<Rightarrow> Inl (''marshal private key: '' @ err)
      | Inr privBytes \<Rightarrow> Inr (cry_pemEncode cry \<lparr>pb_Type = TypePrivateKey, pb_Headers = [], pb_Bytes = privBytes\<rparr>))"

definition ErrNoCertificateInPEM :: string where
  "ErrNoCertificateInPEM = ''no certificate in PEM''"

definition errNoPrivateKeyInPEM :: string where
  "errNoPrivateKeyInPEM = ''no private Key in PEM''"

text \<open>
  The decoders read one block after the other. Decoding a block consumes at least one byte, so the length
  of the input bounds the number of rounds; running out of rounds is \<open>None\<close>.
\<close>

fun decodeCertificates :: "nat \<Rightarrow> crypto \<Rightarrow> string \<Rightarrow> (string + x509_Certificate) option" where
  "decodeCertificates n cry [] = Some (Inl ErrNoCertificateInPEM)"
| "decodeCertificates 0 cry (c # s) = None"
| "decodeCertificates (Suc n) cry (c # s) =
     (case cry_pemDecode cry (c # s) of
        None \<Rightarrow> Some (Inl ErrNoCertificateInPEM)
      | Some (block, rest) \<Rightarrow>
          if pb_Type block \<noteq> TypeCertificate \<or> pb_Headers block \<noteq> [] then decodeCertificates n cry rest
          else (case cry_ParseCertificate cry (pb_Bytes block) of
                  Inl err \<Rightarrow> decodeCertificates n cry rest
                | Inr cert \<Rightarrow> Some (Inr cert)))"

definition DecodePEMCertificate :: "crypto \<Rightarrow> string \<Rightarrow> (string + x509_Certificate) option" where
  "DecodePEMCertificate cry certPEM = decodeCertificates (length certPEM) cry certPEM"

text \<open>A private key that is not an RSA key panics in the type assertion: \<open>None\<close>.\<close>

fun decodeKeys :: "nat \<Rightarrow> crypto \<Rightarrow> string \<Rightarrow> (string + string) option" where
  "decodeKeys n cry [] = Some (Inl ErrNoCertificateInPEM)"
| "decodeKeys 0 cry (c # s) = None"
| "decodeKeys (Suc n) cry (c # s) =
     (case cry_pemDecode cry (c # s) of
        None \<Rightarrow> Some (Inl errNoPrivateKeyInPEM)
      | Some (block, rest) \<Rightarrow>
          if pb_Type block \<noteq> TypePrivateKey \<or> pb_Headers block \<noteq> [] then decodeKeys n cry rest
          else (case cry_ParsePKCS8PrivateKey cry (pb_Bytes block) of
                  Inl err \<Rightarrow> Some (Inl err)
                | Inr (RSAKey key) \<Rightarrow> Some (Inr key)
                | Inr OtherKey \<Rightarrow> None))"

definition DecodePEMPrivateKey :: "crypto \<Rightarrow> string \<Rightarrow> (string + string) option" where
  "DecodePEMPrivateKey cry keyPEM = decodeKeys (length keyPEM) cry keyPEM"

definition pem_consumes :: "crypto \<Rightarrow> bool" where
  "pem_consumes cry \<longleftrightarrow> (\<forall>s block rest. cry_pemDecode cry s = Some (block, rest) \<longrightarrow> length rest < length s)"

lemma decodeCertificates_total:
  assumes "pem_consumes cry"
  shows "length s \<le> n \<Longrightarrow> \<exists>r. decodeCertificates n cry s = Some r"
proof (induction n arbitrary: s)
  case (Suc n)
  show ?case
  proof (cases s)
    case (Cons c s')
    have rest: "\<exists>r. decodeCertificates n cry rest = Some r" if d: "cry_pemDecode cry (c # s') = Some (block, rest)" for block rest
    proof -
      from assms d have "length rest < length (c # s')" unfolding pem_consumes_def by blast
      with Suc Cons show ?thesis by simp
    qed
    show ?thesis
    proof (cases "cry_pemDecode cry (c # s')")
      case (Some p)
      then obtain block rest where "cry_pemDecode cry (c # s') = Some (block, rest)" by (cases p) simp
      with rest [OF this] Cons show ?thesis
        by (cases "cry_ParseCertificate cry (pb_Bytes block)") auto
    qed (simp add: Cons)
  qed simp
qed simp

text \<open>NewFromPEM takes its fields from the first certificate of the bundle.\<close>

definition NewFromPEM :: "crypto \<Rightarrow> string \<Rightarrow> string \<Rightarrow> (string + Certificate) option" where
  "NewFromPEM cry pemCert pemKey =
     (case DecodePEMCertificate cry pemCert of
        None \<Rightarrow> None
      | Some (Inl err) \<Rightarrow> Some (Inl err)
      | Some (Inr x509Cert) \<Rightarrow> Some (Inr
          \<lparr>crt_CommonName = x5_CommonName x509Cert, crt_SANames = x5_DNSNames x509Cert,
           crt_SerialNumber = itoa (x5_SerialNumber x509Cert), crt_Expiration = x5_NotAfter x509Cert,
           crt_CertChain = pemCert, crt_PrivateKey = pemKey, crt_IssuingCA = pemCert, crt_TrustedCAs = pemCert,
           crt_signingIssuerID = '''', crt_validatingIssuerID = '''', crt_certType = ''''\<rparr>))"


section \<open>Tresor\<close>

record tresor_CertManager =
  tcm_ca :: "Certificate option"
  tcm_certificatesOrganization :: string
  tcm_keySize :: int

definition rsaBits :: int where
  "rsaBits = 2048"

definition NewCA ::
  "crypto \<Rightarrow> int \<Rightarrow> CommonName \<Rightarrow> duration \<Rightarrow> string \<Rightarrow> string \<Rightarrow> string \<Rightarrow> string + Certificate" where
  "NewCA cry now cn validity rootCertCountry rootCertLocality rootCertOrganization =
     (case cry_SerialNumber cry now of
        Inl err \<Rightarrow> Inl (''generate serial number: '' @ err)
      | Inr serialNumber \<Rightarrow>
          (let template = \<lparr>x5_SerialNumber = serialNumber, x5_CommonName = cn, x5_Country = [rootCertCountry],
             x5_Locality = [rootCertLocality], x5_Organization = [rootCertOrganization], x5_DNSNames = [],
             x5_NotBefore = now, x5_NotAfter = now + validity, x5_KeyUsage = [KeyUsageCertSign, KeyUsageCRLSign],
             x5_ExtKeyUsage = [], x5_BasicConstraintsValid = True, x5_IsCA = True\<rparr> in
           case cry_GenerateKey cry now rsaBits of
             Inl err \<Rightarrow> Inl err
           | Inr rsaKey \<Rightarrow>
               (case cry_CreateCertificate cry template template rsaKey rsaKey of
                  Inl err \<Rightarrow> Inl (''create cert: '' @ err)
                | Inr derBytes \<Rightarrow>
                    (case EncodeKeyDERtoPEM cry rsaKey of
                       Inl err \<Rightarrow> Inl err
                     | Inr pemKey \<Rightarrow>
                         (let pemCert = EncodeCertDERtoPEM cry derBytes in Inr
                          \<lparr>crt_CommonName = cn, crt_SANames = [], crt_SerialNumber = itoa serialNumber,
                           crt_Expiration = now + validity, crt_CertChain = pemCert, crt_PrivateKey = pemKey,
                           crt_IssuingCA = pemCert, crt_TrustedCAs = pemCert,
                           crt_signingIssuerID = '''', crt_validatingIssuerID = '''', crt_certType = ''''\<rparr>)))))"

definition tresor_New :: "Certificate option \<Rightarrow> string \<Rightarrow> int \<Rightarrow> string + tresor_CertManager" where
  "tresor_New ca certificatesOrganization keySize =
     (if ca = None then Inl ''no issuing CA''
      else if keySize = 0 then Inl ''key bit size cannot be zero''
      else Inr \<lparr>tcm_ca = ca, tcm_certificatesOrganization = certificatesOrganization, tcm_keySize = keySize\<rparr>)"

text \<open>The names of the template: the common name, then the requested names, made unique.\<close>

definition templateDNSNames :: "CommonName \<Rightarrow> string list \<Rightarrow> string list" where
  "templateDNSNames cn saNames =
     (let names = cn # saNames in if 1 < length names then uniqueSubjectAlternativeNames names [] else names)"

definition tresor_IssueCertificate :: "crypto \<Rightarrow> tresor_CertManager \<Rightarrow> Issuer" where
  "tresor_IssueCertificate cry cm now cn saNames validity =
     (case tcm_ca cm of
        None \<Rightarrow> Some (Inl ''no issuing CA'')
      | Some ca \<Rightarrow>
          (case cry_GenerateKey cry now (tcm_keySize cm) of
             Inl err \<Rightarrow> Some (Inl (''generate private: '' @ err))
           | Inr certPrivKey \<Rightarrow>
               (case cry_SerialNumber cry now of
                  Inl err \<Rightarrow> Some (Inl (''generate serial number: '' @ err))
                | Inr serialNumber \<Rightarrow>
                    (let template = \<lparr>x5_SerialNumber = serialNumber, x5_CommonName = cn, x5_Country = [], x5_Locality = [],
                       x5_Organization = [tcm_certificatesOrganization cm], x5_DNSNames = templateDNSNames cn saNames,
                       x5_NotBefore = now, x5_NotAfter = now + validity,
                       x5_KeyUsage = [KeyUsageKeyEncipherment, KeyUsageDigitalSignature],
                       x5_ExtKeyUsage = [ExtKeyUsageClientAuth, ExtKeyUsageServerAuth],
                       x5_BasicConstraintsValid = True, x5_IsCA = False\<rparr> in
                     do {
                       x509Root \<leftarrow> DecodePEMCertificate cry (crt_CertChain ca);
                       (case x509Root of
                          Inl err \<Rightarrow> Some (Inl (''create cert: '' @ err))
                        | Inr root \<Rightarrow> do {
                            rsaKeyRoot \<leftarrow> DecodePEMPrivateKey cry (crt_PrivateKey ca);
                            (case rsaKeyRoot of
                               Inl err \<Rightarrow> Some (Inl (''create cert: '' @ err))
                             | Inr rootKey \<Rightarrow>
                                 (case cry_CreateCertificate cry template root certPrivKey rootKey of
                                    Inl err \<Rightarrow> Some (Inl (''create cert: '' @ err))
                                  | Inr derBytes \<Rightarrow>
                                      (case EncodeKeyDERtoPEM cry certPrivKey of
                                         Inl err \<Rightarrow> Some (Inl err)
                                       | Inr privKeyPEM \<Rightarrow> Some (Inr
                                           \<lparr>crt_CommonName = cn, crt_SANames = x5_DNSNames template,
                                            crt_SerialNumber = itoa serialNumber, crt_Expiration = x5_NotAfter template,
                                            crt_CertChain = EncodeCertDERtoPEM cry derBytes, crt_PrivateKey = privKeyPEM,
                                            crt_IssuingCA = crt_CertChain ca, crt_TrustedCAs = crt_CertChain ca,
                                            crt_signingIssuerID = '''', crt_validatingIssuerID = '''',
                                            crt_certType = ''''\<rparr>))))
                          })
                     }))))"


section \<open>Vault\<close>

text \<open>
  A request to Vault and its answer, which may be nil and whose data maps names to values of any type.
  The time to live is printed in whole hours.
\<close>

record vault_request =
  vrq_path :: string
  vrq_common_name :: string
  vrq_ttl :: string

datatype vault_value = StringValue string | OtherValue

record vault_secret =
  vsc_Data :: "(string, vault_value) gomap"

type_synonym vault_client = "int \<Rightarrow> vault_request \<Rightarrow> string + vault_secret option"

text \<open>The type assertion \<open>secret.Data[field].(string)\<close>, which panics for a missing field and for another type.\<close>

definition vault_field :: "vault_secret \<Rightarrow> string \<Rightarrow> string option" where
  "vault_field secret field =
     (case gm_get (vsc_Data secret) field of Some (StringValue s) \<Rightarrow> Some s | _ \<Rightarrow> None)"

definition getDurationInMinutes :: "duration \<Rightarrow> string" where
  "getDurationInMinutes validity = itoa_int (go_quot validity Hour) @ ''h''"

definition getIssueURL :: "string \<Rightarrow> string" where
  "getIssueURL role = ''pki/issue/'' @ role"

definition getIssuanceData :: "string \<Rightarrow> CommonName \<Rightarrow> duration \<Rightarrow> vault_request" where
  "getIssuanceData path cn validity =
     \<lparr>vrq_path = path, vrq_common_name = cn, vrq_ttl = getDurationInMinutes validity\<rparr>"

definition vault_newCert ::
  "CommonName \<Rightarrow> vault_secret option \<Rightarrow> string list \<Rightarrow> int \<Rightarrow> Certificate option" where
  "vault_newCert cn secretPtr saNames expiration =
     do {
       secret \<leftarrow> secretPtr;
       serialNumber \<leftarrow> vault_field secret ''serial_number'';
       certChain \<leftarrow> vault_field secret ''certificate'';
       privateKey \<leftarrow> vault_field secret ''private_key'';
       issuingCA \<leftarrow> vault_field secret ''issuing_ca'';
       Some \<lparr>crt_CommonName = cn, crt_SANames = saNames, crt_SerialNumber = serialNumber, crt_Expiration = expiration,
         crt_CertChain = certChain, crt_PrivateKey = privateKey, crt_IssuingCA = issuingCA, crt_TrustedCAs = issuingCA,
         crt_signingIssuerID = '''', crt_validatingIssuerID = '''', crt_certType = ''''\<rparr>
     }"

definition vault_IssueCertificate :: "vault_client \<Rightarrow> string \<Rightarrow> Issuer" where
  "vault_IssueCertificate client role now cn saNames validity =
     (case client now (getIssuanceData (getIssueURL role) cn validity) of
        Inl err \<Rightarrow> Some (Inl err)
      | Inr secret \<Rightarrow> map_option Inr (vault_newCert cn secret (uniqueSubjectAlternativeNames saNames []) (now + validity)))"

text \<open>The client panics exactly when Vault answers without an error and a field is missing or not a string.\<close>

lemma vault_panics_iff:
  "vault_IssueCertificate client role now cn saNames validity = None \<longleftrightarrow>
   (\<exists>secret. client now (getIssuanceData (getIssueURL role) cn validity) = Inr secret \<and>
      (secret = None \<or> (\<exists>field \<in> {''serial_number'', ''certificate'', ''private_key'', ''issuing_ca''}.
         vault_field (the secret) field = None)))"
  by (auto simp: vault_IssueCertificate_def vault_newCert_def bind_eq_None_conv split: sum.splits)

text \<open>
  The time to live that is asked for is the validity rounded down to hours, while the manager takes the
  certificate to be valid for the whole period.
\<close>

lemma vault_ttl_short:
  assumes "0 \<le> h" and "0 \<le> r" and "r < Hour"
  shows "getDurationInMinutes (h * Hour + r) = itoa_int h @ ''h''"
proof -
  have "go_quot (h * Hour + r) Hour = (h * Hour + r) div Hour"
    using assms by (intro go_quot_nonneg) (simp_all add: duration_units)
  also have "\<dots> = h" using assms by (simp add: duration_units)
  finally show ?thesis by (simp add: getDurationInMinutes_def)
qed


section \<open>The interface of an issuer\<close>

text \<open>
  What the certificate manager relies on: an issued certificate carries the requested name, expires after
  the requested period, and is signed by the authority of the issuer, which is what its holder trusts.
\<close>

locale cert_issuer =
  fixes issue :: Issuer and ca :: string
  assumes issued_name: "issue now cn sans d = Some (Inr c) \<Longrightarrow> crt_CommonName c = cn"
    and issued_expiration: "issue now cn sans d = Some (Inr c) \<Longrightarrow> crt_Expiration c = now + d"
    and issued_by: "issue now cn sans d = Some (Inr c) \<Longrightarrow> crt_IssuingCA c = ca"
    and issued_trust: "issue now cn sans d = Some (Inr c) \<Longrightarrow> crt_TrustedCAs c = ca"
begin

lemma issued_merged:
  "issue now cn sans d = Some (Inr c) \<Longrightarrow> crt_TrustedCAs (newMergedWithRoot root c) = ca @ root"
  by (simp add: newMergedWithRoot_def issued_by)

end

lemma tresor_issued:
  assumes "tresor_IssueCertificate cry cm now cn sans d = Some (Inr c)"
  obtains ca where "tcm_ca cm = Some ca" "crt_CommonName c = cn" "crt_Expiration c = now + d"
    "crt_IssuingCA c = crt_CertChain ca" "crt_TrustedCAs c = crt_CertChain ca" "crt_SANames c = templateDNSNames cn sans"
  using assms unfolding tresor_IssueCertificate_def
  by (auto simp: Let_def split: option.splits sum.splits Option.bind_splits)

text \<open>The authority of a Tresor instance is the chain of its certificate.\<close>

definition tresor_ca :: "tresor_CertManager \<Rightarrow> string" where
  "tresor_ca cm = (case tcm_ca cm of Some ca \<Rightarrow> crt_CertChain ca | None \<Rightarrow> '''')"

interpretation tresor: cert_issuer "tresor_IssueCertificate cry cm" "tresor_ca cm" for cry cm
  by unfold_locales (auto elim: tresor_issued simp: tresor_ca_def)

text \<open>A Vault client keeps the contract when the server always answers with the same authority.\<close>

definition vault_serves :: "string \<Rightarrow> vault_client \<Rightarrow> bool" where
  "vault_serves ca client \<longleftrightarrow>
     (\<forall>now req secret. client now req = Inr (Some secret) \<longrightarrow> vault_field secret ''issuing_ca'' = Some ca)"

lemma vault_cert_issuer: "vault_serves ca client \<Longrightarrow> cert_issuer (vault_IssueCertificate client role) ca"
  by unfold_locales
    (auto simp: vault_IssueCertificate_def vault_newCert_def vault_serves_def split: sum.splits Option.bind_splits)

end
