(* ===== verification/Cert_Manager.thy ===== *)
theory Cert_Manager
  imports Cert_Issuers Announcements
begin

text \<open>
  The certificate manager (\<open>src/pkg/certificate/manager.go\<close>): a cache of issued certificates, rotation of
  certificates that are about to expire or that belong to another root certificate, and the events of
  MeshRootCertificate (MRC) resources (\<open>apis/config/v1alpha2/meshrootcertificate.go\<close>). Each operation
  takes the current time. The random part of the renewal period is an argument. A nil issuer panics:
  \<open>None\<close>. Every operation is one step: the single-flight group makes concurrent calls for one key share
  one call, which here is a sequence of calls of which the later ones find the certificate in the cache;
  an MRC event that arrives between reading the issuers and storing the certificate is taken to come
  after the store.
\<close>

section \<open>State\<close>

record MeshRootCertificate =
  mrc_Name :: string
  mrc_Namespace :: string
  mrc_TrustDomain :: string
  mrc_State :: string

definition MRCStateValidatingRollout :: string where "MRCStateValidatingRollout = ''validatingRollout''"

definition MRCStateIssuingRollout :: string where "MRCStateIssuingRollout = ''issuingRollout''"

definition MRCStateActive :: string where "MRCStateActive = ''active''"

definition MRCStateIssuingRollback :: string where "MRCStateIssuingRollback = ''issuingRollback''"

definition MRCStateValidatingRollback :: string where "MRCStateValidatingRollback = ''validatingRollback''"

definition MRCStateError :: string where "MRCStateError = ''error''"

lemmas mrc_states = MRCStateValidatingRollout_def MRCStateIssuingRollout_def MRCStateActive_def
  MRCStateIssuingRollback_def MRCStateValidatingRollback_def MRCStateError_def

datatype MRCEventType = MRCEventAdded | MRCEventUpdated

record MRCEvent =
  mev_Type :: MRCEventType
  mev_MRC :: MeshRootCertificate

definition OSMCertificateValidityPeriod :: duration where
  "OSMCertificateValidityPeriod = 87600 * Hour"

record Manager =
  mgr_cache :: "(string, Certificate) gomap"
  mgr_ingressCertValidityDuration :: duration
  mgr_serviceCertValidityDuration :: duration
  mgr_signingIssuer :: "issuer option"
  mgr_validatingIssuer :: "issuer option"
  mgr_certPubSub :: "(Certificate \<times> Certificate) list"

text \<open>\<open>mgr_certPubSub\<close> records the rotation messages: the old and the new certificate.\<close>

definition zero_Manager :: "duration \<Rightarrow> duration \<Rightarrow> Manager" where
  "zero_Manager service ingress =
     \<lparr>mgr_cache = [], mgr_ingressCertValidityDuration = ingress, mgr_serviceCertValidityDuration = service,
      mgr_signingIssuer = None, mgr_validatingIssuer = None, mgr_certPubSub = []\<rparr>"


section \<open>Root certificates\<close>

type_synonym issuer_factory = "MeshRootCertificate \<Rightarrow> string + Issuer \<times> string"

definition handleMRCEvent :: "issuer_factory \<Rightarrow> MRCEvent \<Rightarrow> Manager \<Rightarrow> string + Manager" where
  "handleMRCEvent getCertIssuerForMRC event m =
     (case mev_Type event of
        MRCEventAdded \<Rightarrow>
          (let mrc = mev_MRC event in
           if mrc_State mrc = MRCStateError then Inr m
           else
             (case getCertIssuerForMRC mrc of
                Inl err \<Rightarrow> Inl err
              | Inr (client, ca) \<Rightarrow>
                  (let c = \<lparr>isr_Issuer = client, isr_ID = mrc_Name mrc, isr_TrustDomain = mrc_TrustDomain mrc,
                     isr_CertificateAuthority = ca\<rparr> in
                   if mrc_State mrc = MRCStateActive
                   then Inr (m\<lparr>mgr_signingIssuer := Some c, mgr_validatingIssuer := Some c\<rparr>)
                   else if mrc_State mrc = MRCStateIssuingRollback \<or> mrc_State mrc = MRCStateIssuingRollout
                   then Inr (m\<lparr>mgr_signingIssuer := Some c\<rparr>)
                   else if mrc_State mrc = MRCStateValidatingRollback \<or> mrc_State mrc = MRCStateValidatingRollout
                   then Inr (m\<lparr>mgr_validatingIssuer := Some c\<rparr>)
                   else Inr (m\<lparr>mgr_signingIssuer := Some c, mgr_validatingIssuer := Some c\<rparr>))))
      | MRCEventUpdated \<Rightarrow> Inr m)"

text \<open>
  The watch goroutine of \<open>start\<close> skips events that fail; the manager is handed out once both issuers are
  set, and is refused when that does not happen in time.
\<close>

definition watchStep :: "issuer_factory \<Rightarrow> MRCEvent \<Rightarrow> Manager \<Rightarrow> Manager" where
  "watchStep getCertIssuerForMRC event m =
     (case handleMRCEvent getCertIssuerForMRC event m of Inl err \<Rightarrow> m | Inr m' \<Rightarrow> m')"

definition initialized :: "Manager \<Rightarrow> bool" where
  "initialized m \<longleftrightarrow> mgr_signingIssuer m \<noteq> None \<and> mgr_validatingIssuer m \<noteq> None"

definition manager_start :: "issuer_factory \<Rightarrow> MRCEvent list \<Rightarrow> Manager \<Rightarrow> string + Manager" where
  "manager_start getCertIssuerForMRC eventsInTime m =
     (let m' = fold (watchStep getCertIssuerForMRC) eventsInTime m in
      if initialized m' then Inr m'
      else Inl ''manager initialization timed out. Make sure your MeshRootCertificate(s) are valid'')"

definition manager_GetTrustDomain :: "Manager \<Rightarrow> string option" where
  "manager_GetTrustDomain m = map_option isr_TrustDomain (mgr_signingIssuer m)"


section \<open>Issuing and rotation\<close>

definition ShouldRotate :: "int \<Rightarrow> int \<Rightarrow> Manager \<Rightarrow> Certificate \<Rightarrow> bool option" where
  "ShouldRotate now intNoise m c =
     (let renewBefore = RenewBeforeCertExpires + intNoise * Second in
      if crt_Expiration c - now \<le> renewBefore then Some True
      else
        (case mgr_signingIssuer m of
           None \<Rightarrow> None
         | Some signing \<Rightarrow>
             if crt_signingIssuerID c \<noteq> isr_ID signing then Some True
             else map_option (\<lambda>validating. crt_validatingIssuerID c \<noteq> isr_ID validating) (mgr_validatingIssuer m)))"

definition getValidityDurationForCertType :: "Manager \<Rightarrow> CertType \<Rightarrow> duration" where
  "getValidityDurationForCertType m ct =
     (if ct = Internal then OSMCertificateValidityPeriod
      else if ct = IngressGateway then mgr_ingressCertValidityDuration m
      else if ct = Service then mgr_serviceCertValidityDuration m
      else OSMCertificateValidityPeriod)"

definition getFromCache :: "Manager \<Rightarrow> string \<Rightarrow> Certificate option" where
  "getFromCache m key = gm_get (mgr_cache m) key"

definition GetCertificate :: "Manager \<Rightarrow> string \<Rightarrow> Certificate option" where
  "GetCertificate m pre = getFromCache m pre"

text \<open>
  Issuing a new certificate; \<open>old\<close> is the certificate it replaces, whose alternative names override those of
  the options.
\<close>

definition newOptions :: "IssueOption list \<Rightarrow> Certificate option \<Rightarrow> issueOptions" where
  "newOptions opts old =
     (let options = applyOptions opts in
      case old of None \<Rightarrow> options
      | Some cert \<Rightarrow> options\<lparr>opt_saNames := uniqueSubjectAlternativeNames (crt_SANames cert) []\<rparr>)"

definition issueNew :: "int \<Rightarrow> string \<Rightarrow> CertType \<Rightarrow> IssueOption list \<Rightarrow> Certificate option \<Rightarrow> Manager \<Rightarrow> (Manager \<times> (string + Certificate)) option" where
  "issueNew now pre ct opts old m =
     (let options = newOptions opts old in
      case mgr_signingIssuer m of
        None \<Rightarrow> None
      | Some signing \<Rightarrow> do {
          r \<leftarrow> isr_Issuer signing now (formatCN options pre (isr_TrustDomain signing)) (subjectAlternativeNames options)
                 (validityPeriod options (getValidityDurationForCertType m ct));
          (case r of
             Inl err \<Rightarrow> Some (m, Inl err)
           | Inr newCert0 \<Rightarrow>
               (case mgr_validatingIssuer m of
                  None \<Rightarrow> None
                | Some validating \<Rightarrow>
                    (let newCert1 = (if isr_ID validating \<noteq> isr_ID signing
                                     then newMergedWithRoot (isr_CertificateAuthority validating) newCert0 else newCert0);
                         newCert = newCert1\<lparr>crt_signingIssuerID := isr_ID signing,
                           crt_validatingIssuerID := isr_ID validating, crt_certType := ct\<rparr> in
                     Some (m\<lparr>mgr_cache := gm_put (mgr_cache m) pre newCert,
                       mgr_certPubSub := mgr_certPubSub m @ (case old of None \<Rightarrow> [] | Some cert \<Rightarrow> [(cert, newCert)])\<rparr>,
                       Inr newCert))))
        })"

definition IssueCertificate :: "int \<Rightarrow> int \<Rightarrow> string \<Rightarrow> CertType \<Rightarrow> IssueOption list \<Rightarrow> Manager \<Rightarrow> (Manager \<times> (string + Certificate)) option" where
  "IssueCertificate now intNoise pre ct opts m =
     (case getFromCache m pre of
        None \<Rightarrow> issueNew now pre ct opts None m
      | Some cert \<Rightarrow> do {
          rotate \<leftarrow> ShouldRotate now intNoise m cert;
          if \<not> rotate then Some (m, Inr cert) else issueNew now pre ct opts (Some cert) m
        })"

definition ReleaseCertificate :: "string \<Rightarrow> Manager \<Rightarrow> Manager" where
  "ReleaseCertificate key m = m\<lparr>mgr_cache := AList.delete key (mgr_cache m)\<rparr>"

definition ListIssuedCertificates :: "Manager \<Rightarrow> Certificate list" where
  "ListIssuedCertificates m = map snd (mgr_cache m)"

text \<open>
  \<open>checkAndRotate\<close> takes a snapshot of the cache and asks for every certificate of it, in the order of map
  iteration \<open>certs\<close>.
\<close>

definition rotateOptions :: "string \<Rightarrow> Certificate \<Rightarrow> IssueOption list" where
  "rotateOptions key cert =
     (if key = crt_CommonName cert
      then [FullCNProvided, SubjectAlternativeNames (uniqueSubjectAlternativeNames (crt_SANames cert) [key])]
      else [])"

definition rotateStep :: "int \<Rightarrow> (string \<Rightarrow> int) \<Rightarrow> string \<times> Certificate \<Rightarrow> Manager \<Rightarrow> Manager option" where
  "rotateStep now noise entry m =
     (case entry of (key, cert) \<Rightarrow>
        map_option fst (IssueCertificate now (noise key) key (crt_certType cert) (rotateOptions key cert) m))"

fun checkAndRotate :: "int \<Rightarrow> (string \<Rightarrow> int) \<Rightarrow> (string \<times> Certificate) list \<Rightarrow> Manager \<Rightarrow> Manager option" where
  "checkAndRotate now noise [] m = Some m"
| "checkAndRotate now noise (e # certs) m =
     (case rotateStep now noise e m of None \<Rightarrow> None | Some m' \<Rightarrow> checkAndRotate now noise certs m')"



section \<open>Runs\<close>

text \<open>
  The manager runs as a sequence of MRC events, requests, releases, rotation rounds and changes of the
  configured validity periods, at any times.
\<close>

inductive manager_step :: "issuer_factory \<Rightarrow> Manager \<Rightarrow> Manager \<Rightarrow> bool" for factory where
  mrc_event: "manager_step factory m (watchStep factory event m)"
| request: "IssueCertificate now intNoise pre ct opts m = Some (m', r) \<Longrightarrow> manager_step factory m m'"
| release: "manager_step factory m (ReleaseCertificate key m)"
| rotation: "checkAndRotate now noise certs m = Some m' \<Longrightarrow> manager_step factory m m'"
| configure: "manager_step factory m (m\<lparr>mgr_serviceCertValidityDuration := d, mgr_ingressCertValidityDuration := d'\<rparr>)"

inductive_cases manager_step_elim: "manager_step factory m m'"

text \<open>
  The trust context of a certificate: it is signed by the authority of its signing issuer, and its holder
  trusts that authority and the one of the validating issuer.
\<close>

definition trust_context :: "(string \<Rightarrow> string) \<Rightarrow> Certificate \<Rightarrow> bool" where
  "trust_context ca_of c \<longleftrightarrow> crt_IssuingCA c = ca_of (crt_signingIssuerID c) \<and>
     crt_TrustedCAs c = (if crt_signingIssuerID c = crt_validatingIssuerID c then ca_of (crt_signingIssuerID c)
       else ca_of (crt_signingIssuerID c) @ ca_of (crt_validatingIssuerID c))"

definition issuer_ok :: "(string \<Rightarrow> string) \<Rightarrow> issuer \<Rightarrow> bool" where
  "issuer_ok ca_of i \<longleftrightarrow> cert_issuer (isr_Issuer i) (ca_of (isr_ID i)) \<and> isr_CertificateAuthority i = ca_of (isr_ID i)"

definition factory_ok :: "(string \<Rightarrow> string) \<Rightarrow> issuer_factory \<Rightarrow> bool" where
  "factory_ok ca_of factory \<longleftrightarrow>
     (\<forall>mrc client ca. factory mrc = Inr (client, ca) \<longrightarrow> ca = ca_of (mrc_Name mrc) \<and> cert_issuer client ca)"

definition manager_inv :: "(string \<Rightarrow> string) \<Rightarrow> Manager \<Rightarrow> bool" where
  "manager_inv ca_of m \<longleftrightarrow> gm_wf (mgr_cache m) \<and>
     (\<forall>i. mgr_signingIssuer m = Some i \<or> mgr_validatingIssuer m = Some i \<longrightarrow> issuer_ok ca_of i) \<and>
     (\<forall>key c. getFromCache m key = Some c \<longrightarrow> trust_context ca_of c)"

text \<open>A certificate is current when it belongs to the issuers the manager has now.\<close>

definition current :: "Manager \<Rightarrow> Certificate \<Rightarrow> bool" where
  "current m c \<longleftrightarrow> map_option isr_ID (mgr_signingIssuer m) = Some (crt_signingIssuerID c) \<and>
     map_option isr_ID (mgr_validatingIssuer m) = Some (crt_validatingIssuerID c)"


section \<open>Lemmas\<close>

lemma ShouldRotate_False_iff:
  "ShouldRotate now intNoise m c = Some False \<longleftrightarrow>
     RenewBeforeCertExpires + intNoise * Second < crt_Expiration c - now \<and> current m c"
  by (auto simp: ShouldRotate_def current_def Let_def split: option.splits)

lemma ShouldRotate_total: "initialized m \<Longrightarrow> \<exists>b. ShouldRotate now intNoise m c = Some b"
  by (auto simp: ShouldRotate_def initialized_def Let_def)

lemma getFromCache_put: "getFromCache (m\<lparr>mgr_cache := gm_put (mgr_cache m) k c, mgr_certPubSub := l\<rparr>) k' =
    (if k' = k then Some c else getFromCache m k')"
  by (simp add: getFromCache_def gm_get_put)

text \<open>What issuing a certificate does, apart from failing.\<close>

definition issued_from :: "int \<Rightarrow> string \<Rightarrow> CertType \<Rightarrow> IssueOption list \<Rightarrow> Certificate option \<Rightarrow> Manager \<Rightarrow> Certificate \<Rightarrow> Certificate \<Rightarrow> bool" where
  "issued_from now pre ct opts old m c0 c \<longleftrightarrow>
     (\<exists>signing validating options.
        mgr_signingIssuer m = Some signing \<and> mgr_validatingIssuer m = Some validating \<and> options = newOptions opts old \<and>
        isr_Issuer signing now (formatCN options pre (isr_TrustDomain signing)) (subjectAlternativeNames options)
          (validityPeriod options (getValidityDurationForCertType m ct)) = Some (Inr c0) \<and>
        c = (if isr_ID validating \<noteq> isr_ID signing then newMergedWithRoot (isr_CertificateAuthority validating) c0 else c0)
              \<lparr>crt_signingIssuerID := isr_ID signing, crt_validatingIssuerID := isr_ID validating, crt_certType := ct\<rparr>)"

lemma issueNew_cases:
  assumes "issueNew now pre ct opts old m = Some (m', r)"
  obtains (failed) err where "r = Inl err" "m' = m"
  | (issued) c0 c where "r = Inr c" "issued_from now pre ct opts old m c0 c"
      "m' = m\<lparr>mgr_cache := gm_put (mgr_cache m) pre c,
         mgr_certPubSub := mgr_certPubSub m @ (case old of None \<Rightarrow> [] | Some cert \<Rightarrow> [(cert, c)])\<rparr>"
  using assms unfolding issueNew_def issued_from_def Let_def
  by (cases "mgr_signingIssuer m"; cases "mgr_validatingIssuer m")
    (auto split: sum.splits Option.bind_splits option.splits)

lemma issueNew_Inr:
  assumes "issueNew now pre ct opts old m = Some (m', Inr c)"
  obtains c0 where "issued_from now pre ct opts old m c0 c"
    "m' = m\<lparr>mgr_cache := gm_put (mgr_cache m) pre c,
       mgr_certPubSub := mgr_certPubSub m @ (case old of None \<Rightarrow> [] | Some cert \<Rightarrow> [(cert, c)])\<rparr>"
  using assms
proof (cases rule: issueNew_cases)
  case (issued c0 c')
  then have "c' = c" by simp
  with issued that show ?thesis by blast
qed simp

lemma IssueCertificate_cases:
  assumes "IssueCertificate now intNoise pre ct opts m = Some (m', r)"
  obtains (failed) err where "r = Inl err" "m' = m"
  | (cached) c where "r = Inr c" "m' = m" "getFromCache m pre = Some c" "ShouldRotate now intNoise m c = Some False"
  | (issued) c0 c where "r = Inr c" "issued_from now pre ct opts (getFromCache m pre) m c0 c"
      "m' = m\<lparr>mgr_cache := gm_put (mgr_cache m) pre c, mgr_certPubSub := mgr_certPubSub m @
         (case getFromCache m pre of None \<Rightarrow> [] | Some cert \<Rightarrow> [(cert, c)])\<rparr>"
proof (cases "getFromCache m pre")
  case None
  with assms have "issueNew now pre ct opts None m = Some (m', r)" by (simp add: IssueCertificate_def)
  then show ?thesis using None failed issued by (cases rule: issueNew_cases) auto
next
  case (Some cert)
  with assms obtain b where b: "ShouldRotate now intNoise m cert = Some b"
    "(if \<not> b then Some (m, Inr cert) else issueNew now pre ct opts (Some cert) m) = Some (m', r)"
    by (auto simp: IssueCertificate_def split: Option.bind_splits)
  show ?thesis
  proof (cases b)
    case True
    with b have "issueNew now pre ct opts (Some cert) m = Some (m', r)" by simp
    then show ?thesis using Some failed issued by (cases rule: issueNew_cases) auto
  next
    case False
    with b have "r = Inr cert" "m' = m" by auto
    with b False Some cached show ?thesis by auto
  qed
qed


lemma issued_from_facts:
  assumes "issued_from now pre ct opts old m c0 c" and inv: "manager_inv ca_of m"
  shows "trust_context ca_of c" and "current m c" and "crt_certType c = ct"
    and "map_option (\<lambda>signing. formatCN (newOptions opts old) pre (isr_TrustDomain signing)) (mgr_signingIssuer m) = Some (crt_CommonName c)"
    and "crt_Expiration c = now + validityPeriod (applyOptions opts) (getValidityDurationForCertType m ct)"
proof -
  let ?options = "newOptions opts old"
  from assms(1) obtain signing validating where
    s: "mgr_signingIssuer m = Some signing" and v: "mgr_validatingIssuer m = Some validating" and
    iss: "isr_Issuer signing now (formatCN ?options pre (isr_TrustDomain signing)) (subjectAlternativeNames ?options)
       (validityPeriod ?options (getValidityDurationForCertType m ct)) = Some (Inr c0)" and
    c: "c = (if isr_ID validating \<noteq> isr_ID signing then newMergedWithRoot (isr_CertificateAuthority validating) c0 else c0)
       \<lparr>crt_signingIssuerID := isr_ID signing, crt_validatingIssuerID := isr_ID validating, crt_certType := ct\<rparr>"
    unfolding issued_from_def by blast
  from inv s have law: "cert_issuer (isr_Issuer signing) (ca_of (isr_ID signing))"
    by (simp add: manager_inv_def issuer_ok_def)
  from inv v have ca: "isr_CertificateAuthority validating = ca_of (isr_ID validating)"
    by (simp add: manager_inv_def issuer_ok_def)
  have "validityPeriod ?options d = validityPeriod (applyOptions opts) d" for d
    by (cases old) (simp_all add: newOptions_def validityPeriod_def)
  note facts = cert_issuer.issued_name [OF law iss] cert_issuer.issued_expiration [OF law iss, unfolded this]
    cert_issuer.issued_by [OF law iss] cert_issuer.issued_trust [OF law iss]
  show "trust_context ca_of c" using c facts ca by (auto simp: trust_context_def newMergedWithRoot_def)
  show "current m c" using c s v by (simp add: current_def)
  show "crt_certType c = ct" using c by simp
  show "map_option (\<lambda>signing. formatCN ?options pre (isr_TrustDomain signing)) (mgr_signingIssuer m) = Some (crt_CommonName c)"
    using c s facts(1) by (simp add: newMergedWithRoot_def)
  show "crt_Expiration c = now + validityPeriod (applyOptions opts) (getValidityDurationForCertType m ct)"
    using c facts(2) by (simp add: newMergedWithRoot_def)
qed

lemma manager_inv_put:
  assumes "manager_inv ca_of m" and "trust_context ca_of c"
  shows "manager_inv ca_of (m\<lparr>mgr_cache := gm_put (mgr_cache m) pre c, mgr_certPubSub := l\<rparr>)"
  using assms by (auto simp: manager_inv_def getFromCache_put split: if_splits)

lemma IssueCertificate_inv:
  assumes "IssueCertificate now intNoise pre ct opts m = Some (m', r)" and inv: "manager_inv ca_of m"
  shows "manager_inv ca_of m'"
  using assms(1)
proof (cases rule: IssueCertificate_cases)
  case (issued c0 c)
  from issued_from_facts(1) [OF issued(2) inv] have "trust_context ca_of c" .
  with issued(3) inv show ?thesis by (simp add: manager_inv_put)
qed (use inv in simp_all)

lemma IssueCertificate_issuers:
  assumes "IssueCertificate now intNoise pre ct opts m = Some (m', r)"
  shows "mgr_signingIssuer m' = mgr_signingIssuer m \<and> mgr_validatingIssuer m' = mgr_validatingIssuer m \<and>
    mgr_serviceCertValidityDuration m' = mgr_serviceCertValidityDuration m \<and>
    mgr_ingressCertValidityDuration m' = mgr_ingressCertValidityDuration m"
  using assms by (cases rule: IssueCertificate_cases) simp_all

text \<open>Whatever one request keeps, a rotation round keeps.\<close>

lemma checkAndRotate_keeps:
  assumes step: "\<And>now intNoise pre ct opts m m' r. IssueCertificate now intNoise pre ct opts m = Some (m', r) \<Longrightarrow> P m \<Longrightarrow> P m'"
  shows "checkAndRotate now noise certs m = Some m' \<Longrightarrow> P m \<Longrightarrow> P m'"
proof (induction certs arbitrary: m)
  case (Cons e certs)
  obtain key cert where e: "e = (key, cert)" by (cases e)
  from Cons.prems obtain m1 where m1: "rotateStep now noise e m = Some m1" "checkAndRotate now noise certs m1 = Some m'"
    by (auto split: option.splits)
  then obtain r where "IssueCertificate now (noise key) key (crt_certType cert) (rotateOptions key cert) m = Some (m1, r)"
    by (auto simp: rotateStep_def e)
  from step [OF this Cons.prems(2)] Cons.IH [OF m1(2)] show ?case by blast
qed simp

lemma getFromCache_release:
  "getFromCache (ReleaseCertificate key m) k = (if k = key then None else getFromCache m k)"
  by (simp add: getFromCache_def ReleaseCertificate_def gm_get_def delete_conv')

lemma release_fields:
  "mgr_signingIssuer (ReleaseCertificate key m) = mgr_signingIssuer m"
  "mgr_validatingIssuer (ReleaseCertificate key m) = mgr_validatingIssuer m"
  "gm_wf (mgr_cache m) \<Longrightarrow> gm_wf (mgr_cache (ReleaseCertificate key m))"
  by (simp_all add: ReleaseCertificate_def gm_wf_def distinct_delete)

lemma watchStep_cases:
  obtains "watchStep factory event m = m"
  | c where "watchStep factory event m = m\<lparr>mgr_signingIssuer := Some c, mgr_validatingIssuer := Some c\<rparr>"
      "\<exists>mrc client ca. factory mrc = Inr (client, ca) \<and> c = \<lparr>isr_Issuer = client, isr_ID = mrc_Name mrc, isr_TrustDomain = mrc_TrustDomain mrc,
                     isr_CertificateAuthority = ca\<rparr>"
  | c where "watchStep factory event m = m\<lparr>mgr_signingIssuer := Some c\<rparr>"
      "\<exists>mrc client ca. factory mrc = Inr (client, ca) \<and> c = \<lparr>isr_Issuer = client, isr_ID = mrc_Name mrc, isr_TrustDomain = mrc_TrustDomain mrc,
                     isr_CertificateAuthority = ca\<rparr>"
  | c where "watchStep factory event m = m\<lparr>mgr_validatingIssuer := Some c\<rparr>"
      "\<exists>mrc client ca. factory mrc = Inr (client, ca) \<and> c = \<lparr>isr_Issuer = client, isr_ID = mrc_Name mrc, isr_TrustDomain = mrc_TrustDomain mrc,
                     isr_CertificateAuthority = ca\<rparr>"
proof (cases "mev_Type event")
  case MRCEventAdded
  show thesis
  proof (cases "factory (mev_MRC event)")
    case (Inl err)
    then show ?thesis using MRCEventAdded that(1) by (auto simp: watchStep_def handleMRCEvent_def Let_def)
  next
    case (Inr p)
    then obtain client ca where p: "factory (mev_MRC event) = Inr (client, ca)" by (cases p) simp
    define c where "c = \<lparr>isr_Issuer = client, isr_ID = mrc_Name (mev_MRC event), isr_TrustDomain = mrc_TrustDomain (mev_MRC event),
      isr_CertificateAuthority = ca\<rparr>"
    have "watchStep factory event m \<in> {m, m\<lparr>mgr_signingIssuer := Some c, mgr_validatingIssuer := Some c\<rparr>,
        m\<lparr>mgr_signingIssuer := Some c\<rparr>, m\<lparr>mgr_validatingIssuer := Some c\<rparr>}"
      using MRCEventAdded p by (simp add: watchStep_def handleMRCEvent_def Let_def c_def)
    with that p c_def show ?thesis by blast
  qed
next
  case MRCEventUpdated
  then show ?thesis using that(1) by (simp add: watchStep_def handleMRCEvent_def)
qed

lemma watchStep_inv:
  assumes ok: "factory_ok ca_of factory" and inv: "manager_inv ca_of m"
  shows "manager_inv ca_of (watchStep factory event m)"
proof -
  have new: "issuer_ok ca_of c" if "\<exists>mrc client ca. factory mrc = Inr (client, ca) \<and>
      c = \<lparr>isr_Issuer = client, isr_ID = mrc_Name mrc, isr_TrustDomain = mrc_TrustDomain mrc, isr_CertificateAuthority = ca\<rparr>" for c
    using that ok by (auto simp: factory_ok_def issuer_ok_def)
  show ?thesis
    by (rule watchStep_cases [of factory event m])
      (use inv new in \<open>auto simp: manager_inv_def getFromCache_def\<close>)
qed

lemma manager_step_inv:
  assumes ok: "factory_ok ca_of factory"
  shows "manager_step factory m m' \<Longrightarrow> manager_inv ca_of m \<Longrightarrow> manager_inv ca_of m'"
proof (induction rule: manager_step.induct)
  case (mrc_event m event)
  then show ?case by (simp add: ok watchStep_inv)
next
  case (request now intNoise pre ct opts m m' r)
  then show ?case by (rule IssueCertificate_inv)
next
  case (release m key)
  then show ?case by (auto simp: manager_inv_def getFromCache_release release_fields split: if_splits)
next
  case (rotation now noise certs m m')
  then show ?case using checkAndRotate_keeps [of "manager_inv ca_of" now noise certs m m'] IssueCertificate_inv by blast
next
  case (configure m d d')
  then show ?case by (simp add: manager_inv_def getFromCache_def)
qed

lemma manager_steps_inv:
  assumes "(manager_step factory)\<^sup>*\<^sup>* m m'" and "factory_ok ca_of factory" and "manager_inv ca_of m"
  shows "manager_inv ca_of m'"
  using assms by (induction rule: rtranclp_induct) (auto intro: manager_step_inv)

lemma manager_inv_zero: "manager_inv ca_of (zero_Manager service ingress)"
  by (simp add: manager_inv_def zero_Manager_def getFromCache_def)



section \<open>Properties\<close>

text \<open>
  A concrete authority for the witnesses: every MRC is served by a Tresor instance whose chain carries
  the name of the MRC.
\<close>

definition sample_crypto :: crypto where
  "sample_crypto =
     \<lparr>cry_pemEncode = (\<lambda>b. (if pb_Type b = TypeCertificate then CHR ''C'' else CHR ''K'') # pb_Bytes b),
      cry_pemDecode = (\<lambda>s. case s of [] \<Rightarrow> None
        | k # rest \<Rightarrow> Some (\<lparr>pb_Type = (if k = CHR ''C'' then TypeCertificate else TypePrivateKey), pb_Headers = [],
            pb_Bytes = rest\<rparr>, [])),
      cry_ParseCertificate = (\<lambda>der. Inr \<lparr>x5_SerialNumber = 1, x5_CommonName = der, x5_Country = [], x5_Locality = [],
        x5_Organization = [], x5_DNSNames = [], x5_NotBefore = 0, x5_NotAfter = 0,
        x5_KeyUsage = [KeyUsageCertSign, KeyUsageCRLSign], x5_ExtKeyUsage = [], x5_BasicConstraintsValid = True,
        x5_IsCA = True\<rparr>),
      cry_MarshalPKCS8PrivateKey = Inr, cry_ParsePKCS8PrivateKey = (\<lambda>k. Inr (RSAKey k)),
      cry_GenerateKey = (\<lambda>now bits. Inr ''key''), cry_SerialNumber = (\<lambda>now. Inr (nat now)),
      cry_CreateCertificate = (\<lambda>template parent pub key. Inr (x5_CommonName template))\<rparr>"

definition sample_root :: "string \<Rightarrow> Certificate" where
  "sample_root name = \<lparr>crt_CommonName = name, crt_SANames = [], crt_SerialNumber = ''1'', crt_Expiration = 0,
     crt_CertChain = CHR ''C'' # name, crt_PrivateKey = ''K'', crt_IssuingCA = CHR ''C'' # name, crt_TrustedCAs = CHR ''C'' # name,
     crt_signingIssuerID = '''', crt_validatingIssuerID = '''', crt_certType = ''''\<rparr>"

definition sample_tresor :: "string \<Rightarrow> tresor_CertManager" where
  "sample_tresor name = \<lparr>tcm_ca = Some (sample_root name), tcm_certificatesOrganization = ''org'', tcm_keySize = 2048\<rparr>"

definition sample_ca :: "string \<Rightarrow> string" where
  "sample_ca name = tresor_ca (sample_tresor name)"

definition sample_factory :: issuer_factory where
  "sample_factory mrc = Inr (tresor_IssueCertificate sample_crypto (sample_tresor (mrc_Name mrc)), sample_ca (mrc_Name mrc))"

definition sample_mrc :: "string \<Rightarrow> string \<Rightarrow> MRCEvent" where
  "sample_mrc name state = \<lparr>mev_Type = MRCEventAdded,
     mev_MRC = \<lparr>mrc_Name = name, mrc_Namespace = ''osm-system'', mrc_TrustDomain = ''cluster.local'', mrc_State = state\<rparr>\<rparr>"

definition sample_issuer :: "string \<Rightarrow> issuer" where
  "sample_issuer name = \<lparr>isr_Issuer = tresor_IssueCertificate sample_crypto (sample_tresor name), isr_ID = name,
     isr_TrustDomain = ''cluster.local'', isr_CertificateAuthority = sample_ca name\<rparr>"

definition sample_manager :: "string \<Rightarrow> string \<Rightarrow> Manager" where
  "sample_manager signing validating = (zero_Manager (24 * Hour) (24 * Hour))
     \<lparr>mgr_signingIssuer := Some (sample_issuer signing), mgr_validatingIssuer := Some (sample_issuer validating)\<rparr>"

lemma sample_ca_eq: "sample_ca name = CHR ''C'' # name"
  by (simp add: sample_ca_def tresor_ca_def sample_tresor_def sample_root_def)

lemma sample_factory_ok: "factory_ok sample_ca sample_factory"
  by (auto simp: factory_ok_def sample_factory_def sample_ca_def intro: tresor.cert_issuer_axioms)

lemma sample_issuer_ok: "issuer_ok sample_ca (sample_issuer name)"
  by (simp add: issuer_ok_def sample_issuer_def sample_ca_def tresor.cert_issuer_axioms)

lemma sample_manager_inv: "manager_inv sample_ca (sample_manager s v)"
  using manager_inv_zero [of sample_ca] by (auto simp: manager_inv_def sample_manager_def sample_issuer_ok getFromCache_def)

lemma sample_issue:
  "tresor_IssueCertificate sample_crypto (sample_tresor name) now cn sans d = Some (Inr
     \<lparr>crt_CommonName = cn, crt_SANames = templateDNSNames cn sans, crt_SerialNumber = itoa (nat now), crt_Expiration = now + d,
      crt_CertChain = CHR ''C'' # cn, crt_PrivateKey = ''Kkey'', crt_IssuingCA = CHR ''C'' # name, crt_TrustedCAs = CHR ''C'' # name,
      crt_signingIssuerID = '''', crt_validatingIssuerID = '''', crt_certType = ''''\<rparr>)"
  by (simp add: tresor_IssueCertificate_def sample_tresor_def sample_root_def sample_crypto_def DecodePEMCertificate_def
      DecodePEMPrivateKey_def EncodeKeyDERtoPEM_def EncodeCertDERtoPEM_def TypeCertificate_def TypePrivateKey_def Let_def)


text \<open>
  C12. Certificates always carry the right trust context: in every state the manager reaches, a cached
  certificate is signed by the authority of its signing issuer, and its trust bundle is that authority,
  followed by the one of the validating issuer when a root rotation separates the two.
\<close>

theorem trust_contexts_kept:
  assumes "factory_ok ca_of factory" and "(manager_step factory)\<^sup>*\<^sup>* (zero_Manager service ingress) m"
  shows "\<forall>key c. getFromCache m key = Some c \<longrightarrow> trust_context ca_of c"
  using manager_steps_inv [OF assms(2,1) manager_inv_zero] by (simp add: manager_inv_def)

definition sample_issued :: "string \<Rightarrow> string \<Rightarrow> Certificate" where
  "sample_issued signing validating =
     \<lparr>crt_CommonName = ''web.ns.cluster.local'', crt_SANames = [''web.ns.cluster.local''], crt_SerialNumber = ''7'',
      crt_Expiration = 7 + 24 * Hour, crt_CertChain = ''Cweb.ns.cluster.local'', crt_PrivateKey = ''Kkey'',
      crt_IssuingCA = sample_ca signing,
      crt_TrustedCAs = (if signing = validating then sample_ca signing else sample_ca signing @ sample_ca validating),
      crt_signingIssuerID = signing, crt_validatingIssuerID = validating, crt_certType = Service\<rparr>"

lemma sample_request:
  "IssueCertificate 7 0 ''web.ns'' Service [] (sample_manager s v) =
     Some ((sample_manager s v)\<lparr>mgr_cache := [(''web.ns'', sample_issued s v)]\<rparr>, Inr (sample_issued s v))"
proof -
  have "itoa 7 = ''7''" by code_simp
  then show ?thesis
    by (simp add: IssueCertificate_def issueNew_def newOptions_def getFromCache_def sample_manager_def zero_Manager_def sample_issuer_def
        sample_issue applyOptions_def zero_issueOptions_def formatCN_def subjectAlternativeNames_def validityPeriod_def
        getValidityDurationForCertType_def Service_def Internal_def IngressGateway_def templateDNSNames_def
        newMergedWithRoot_def gm_put_def sample_issued_def sample_ca_eq Let_def)
qed

theorem trust_contexts_kept_witness:
  "\<exists>m c. (manager_step sample_factory)\<^sup>*\<^sup>* (zero_Manager (24 * Hour) (24 * Hour)) m \<and> getFromCache m ''web.ns'' = Some c \<and>
     crt_signingIssuerID c = ''a'' \<and> crt_validatingIssuerID c = ''b'' \<and> crt_TrustedCAs c = ''CaCb'' \<and> trust_context sample_ca c"
proof -
  let ?z = "zero_Manager (24 * Hour) (24 * Hour)"
  let ?m = "(sample_manager ''a'' ''b'')\<lparr>mgr_cache := [(''web.ns'', sample_issued ''a'' ''b'')]\<rparr>"
  have 1: "watchStep sample_factory (sample_mrc ''a'' MRCStateActive) ?z = sample_manager ''a'' ''a''"
    by (simp add: watchStep_def handleMRCEvent_def sample_mrc_def sample_factory_def mrc_states sample_manager_def sample_issuer_def Let_def)
  have 2: "watchStep sample_factory (sample_mrc ''b'' MRCStateValidatingRollout) (sample_manager ''a'' ''a'') = sample_manager ''a'' ''b''"
    by (simp add: watchStep_def handleMRCEvent_def sample_mrc_def sample_factory_def mrc_states sample_manager_def sample_issuer_def Let_def)
  have "(manager_step sample_factory)\<^sup>*\<^sup>* ?z (sample_manager ''a'' ''b'')"
    using manager_step.mrc_event [of sample_factory ?z "sample_mrc ''a'' MRCStateActive", unfolded 1]
      manager_step.mrc_event [of sample_factory "sample_manager ''a'' ''a''" "sample_mrc ''b'' MRCStateValidatingRollout", unfolded 2]
    by (meson rtranclp.rtrancl_into_rtrancl r_into_rtranclp)
  then have run: "(manager_step sample_factory)\<^sup>*\<^sup>* ?z ?m"
    using manager_step.request [OF sample_request] by (rule rtranclp.rtrancl_into_rtrancl)
  have c: "getFromCache ?m ''web.ns'' = Some (sample_issued ''a'' ''b'')" by (simp add: getFromCache_def gm_get_def)
  with trust_contexts_kept [OF sample_factory_ok run] have "trust_context sample_ca (sample_issued ''a'' ''b'')" by blast
  with run c show ?thesis
    by (intro exI conjI) (assumption | simp add: sample_issued_def sample_ca_eq)+
qed

text \<open>
  C14. A request never returns a stale certificate. Either it fails and leaves the manager unchanged, or
  the certificate it returns is the cached one, belongs to the present issuers and has the right trust
  context, and no other entry has changed. It is the certificate that was cached before, still good for
  longer than the renewal period, or a new one, valid for the period asked for, whose predecessor is
  announced as rotated.
\<close>

theorem issue_certificate_current:
  assumes inv: "manager_inv ca_of m" and call: "IssueCertificate now intNoise pre ct opts m = Some (m', r)"
  shows "case r of
      Inl err \<Rightarrow> m' = m
    | Inr c \<Rightarrow> getFromCache m' pre = Some c \<and> (\<forall>k. k \<noteq> pre \<longrightarrow> getFromCache m' k = getFromCache m k) \<and>
        current m' c \<and> trust_context ca_of c \<and>
        (m' = m \<and> RenewBeforeCertExpires + intNoise * Second < crt_Expiration c - now \<or>
         crt_Expiration c = now + validityPeriod (applyOptions opts) (getValidityDurationForCertType m ct) \<and>
         mgr_certPubSub m' = mgr_certPubSub m @ (case getFromCache m pre of None \<Rightarrow> [] | Some old \<Rightarrow> [(old, c)]))"
  using call
proof (cases rule: IssueCertificate_cases)
  case (cached c)
  with inv show ?thesis by (auto simp: ShouldRotate_False_iff manager_inv_def)
next
  case (issued c0 c)
  note f = issued_from_facts [OF issued(2) inv]
  with f issued show ?thesis by (simp add: getFromCache_put current_def)
qed simp

theorem issue_certificate_current_witness:
  "\<exists>m' c. IssueCertificate 7 0 ''web.ns'' Service [] (sample_manager ''a'' ''b'') = Some (m', Inr c) \<and>
     current m' c \<and> trust_context sample_ca c \<and> crt_Expiration c = 7 + 24 * Hour"
proof -
  have "current ((sample_manager ''a'' ''b'')\<lparr>mgr_cache := [(''web.ns'', sample_issued ''a'' ''b'')]\<rparr>) (sample_issued ''a'' ''b'')"
    "trust_context sample_ca (sample_issued ''a'' ''b'')"
    using issue_certificate_current [OF sample_manager_inv sample_request [of "''a''" "''b''"]] by simp_all
  moreover have "crt_Expiration (sample_issued ''a'' ''b'') = 7 + 24 * Hour" by (simp add: sample_issued_def)
  ultimately show ?thesis using sample_request [of "''a''" "''b''"] by blast
qed



subsection \<open>Rotation rounds\<close>

definition rotated_to :: "(string \<Rightarrow> string) \<Rightarrow> int \<Rightarrow> int \<Rightarrow> Manager \<Rightarrow> Certificate \<Rightarrow> Certificate \<Rightarrow> bool" where
  "rotated_to ca_of now intNoise m cert cert' \<longleftrightarrow>
     current m cert' \<and> trust_context ca_of cert' \<and> crt_certType cert' = crt_certType cert \<and>
     (ShouldRotate now intNoise m cert = Some False \<longrightarrow> cert' = cert) \<and>
     (ShouldRotate now intNoise m cert = Some True \<longrightarrow>
        crt_Expiration cert' = now + getValidityDurationForCertType m (crt_certType cert))"

definition issuers_work :: "Manager \<Rightarrow> bool" where
  "issuers_work m \<longleftrightarrow> initialized m \<and>
     (\<forall>s now cn sans d. mgr_signingIssuer m = Some s \<longrightarrow> (\<exists>c. isr_Issuer s now cn sans d = Some (Inr c)))"

lemma rotateOptions_validity: "validityPeriod (applyOptions (rotateOptions key cert)) d = d"
  by (simp add: rotateOptions_def applyOptions_def zero_issueOptions_def validityPeriod_def)

lemma issueNew_works:
  assumes "issuers_work m"
  shows "\<exists>m' c. issueNew now pre ct opts old m = Some (m', Inr c)"
proof -
  from assms obtain s v where "mgr_signingIssuer m = Some s" "mgr_validatingIssuer m = Some v"
    and "\<And>now cn sans d. \<exists>c. isr_Issuer s now cn sans d = Some (Inr c)"
    by (auto simp: issuers_work_def initialized_def)
  moreover from this(3) obtain issued where "\<And>now cn sans d. isr_Issuer s now cn sans d = Some (Inr (issued now cn sans d))"
    by metis
  ultimately show ?thesis by (simp add: issueNew_def Let_def)
qed

lemma rotateStep_works:
  assumes inv: "manager_inv ca_of m" and works: "issuers_work m" and cert: "getFromCache m key = Some cert"
  shows "\<exists>m' cert' log. rotateStep now noise (key, cert) m = Some m' \<and> manager_inv ca_of m' \<and>
    mgr_signingIssuer m' = mgr_signingIssuer m \<and> mgr_validatingIssuer m' = mgr_validatingIssuer m \<and>
    getValidityDurationForCertType m' = getValidityDurationForCertType m \<and>
    (\<forall>k. getFromCache m' k = (if k = key then Some cert' else getFromCache m k)) \<and>
    rotated_to ca_of now (noise key) m cert cert' \<and> mgr_certPubSub m' = mgr_certPubSub m @ log \<and>
    log = (if ShouldRotate now (noise key) m cert = Some True then [(cert, cert')] else [])"
proof -
  let ?issue = "IssueCertificate now (noise key) key (crt_certType cert) (rotateOptions key cert) m"
  from works have "initialized m" by (simp add: issuers_work_def)
  from ShouldRotate_total [OF this] obtain b where b: "ShouldRotate now (noise key) m cert = Some b" by blast
  have "\<exists>m' c. ?issue = Some (m', Inr c)"
  proof (cases b)
    case True
    then show ?thesis using issueNew_works [OF works] by (simp add: IssueCertificate_def cert b)
  qed (simp add: IssueCertificate_def cert b)
  then obtain m' c where call: "?issue = Some (m', Inr c)" by blast
  note kept = IssueCertificate_inv [OF call inv] IssueCertificate_issuers [OF call]
  have validity: "getValidityDurationForCertType m' = getValidityDurationForCertType m"
    using kept by (simp add: getValidityDurationForCertType_def fun_eq_iff)
  have step: "rotateStep now noise (key, cert) m = Some m'" by (simp add: rotateStep_def call)
  show ?thesis
    using call
  proof (cases rule: IssueCertificate_cases)
    case (cached c')
    then have "c' = cert" using cert by simp
    with cached have sr: "ShouldRotate now (noise key) m cert = Some False" by simp
    then have "rotated_to ca_of now (noise key) m cert cert"
      using inv cert by (simp add: rotated_to_def) (simp add: ShouldRotate_False_iff manager_inv_def)
    with cached inv cert step validity kept sr show ?thesis
      by (intro exI [of _ m'] exI [of _ cert] exI [of _ "[]"]) simp
  next
    case (issued c0 c')
    have b: b
    proof (rule ccontr)
      assume "\<not> b"
      then have "?issue = Some (m, Inr cert)" by (simp add: IssueCertificate_def cert b)
      with call have "mgr_certPubSub m' = mgr_certPubSub m" by simp
      with issued(3) cert show False by simp
    qed
    note f = issued_from_facts [OF issued(2) inv, unfolded rotateOptions_validity]
    with f b have "rotated_to ca_of now (noise key) m cert c'"
      by (simp add: rotated_to_def \<open>ShouldRotate now (noise key) m cert = Some b\<close>)
    with issued step kept validity cert b show ?thesis
      by (intro exI [of _ m'] exI [of _ c'] exI [of _ "[(cert, c')]"])
        (simp add: getFromCache_put \<open>ShouldRotate now (noise key) m cert = Some b\<close>)
  qed simp
qed


lemma same_issuers:
  assumes "mgr_signingIssuer m' = mgr_signingIssuer m" and "mgr_validatingIssuer m' = mgr_validatingIssuer m"
    and "getValidityDurationForCertType m' = getValidityDurationForCertType m"
  shows "rotated_to ca_of now intNoise m' = rotated_to ca_of now intNoise m" and "issuers_work m' = issuers_work m"
    and "ShouldRotate now intNoise m' = ShouldRotate now intNoise m" and "current m' = current m"
proof -
  show sr: "ShouldRotate now intNoise m' = ShouldRotate now intNoise m" by (simp add: ShouldRotate_def fun_eq_iff assms split: option.split)
  show cur: "current m' = current m" by (simp add: current_def fun_eq_iff assms)
  show "rotated_to ca_of now intNoise m' = rotated_to ca_of now intNoise m"
    by (simp add: rotated_to_def fun_eq_iff sr cur assms(3))
  show "issuers_work m' = issuers_work m" by (simp add: issuers_work_def initialized_def assms)
qed

lemma checkAndRotate_works:
  assumes "manager_inv ca_of m" and "issuers_work m" and "distinct (map fst certs)"
    and "\<forall>(key, cert) \<in> set certs. getFromCache m key = Some cert"
  shows "\<exists>m' log. checkAndRotate now noise certs m = Some m' \<and>
    mgr_signingIssuer m' = mgr_signingIssuer m \<and> mgr_validatingIssuer m' = mgr_validatingIssuer m \<and>
    (\<forall>key. key \<notin> fst ` set certs \<longrightarrow> getFromCache m' key = getFromCache m key) \<and>
    (\<forall>(key, cert) \<in> set certs. \<exists>cert'. getFromCache m' key = Some cert' \<and> rotated_to ca_of now (noise key) m cert cert' \<and>
       (ShouldRotate now (noise key) m cert = Some True \<longrightarrow> (cert, cert') \<in> set log)) \<and>
    mgr_certPubSub m' = mgr_certPubSub m @ log"
  using assms
proof (induction certs arbitrary: m)
  case (Cons e certs)
  obtain key cert where e: "e = (key, cert)" by (cases e)
  with Cons.prems have cert: "getFromCache m key = Some cert" by simp
  from rotateStep_works [OF Cons.prems(1,2) cert] obtain m1 cert1 log1 where
    step: "rotateStep now noise (key, cert) m = Some m1" and inv1: "manager_inv ca_of m1" and
    same: "mgr_signingIssuer m1 = mgr_signingIssuer m" "mgr_validatingIssuer m1 = mgr_validatingIssuer m"
      "getValidityDurationForCertType m1 = getValidityDurationForCertType m" and
    look: "\<And>k. getFromCache m1 k = (if k = key then Some cert1 else getFromCache m k)" and
    to: "rotated_to ca_of now (noise key) m cert cert1" and
    log: "mgr_certPubSub m1 = mgr_certPubSub m @ log1"
      "log1 = (if ShouldRotate now (noise key) m cert = Some True then [(cert, cert1)] else [])"
    by metis
  have fresh: "key \<notin> fst ` set certs" "distinct (map fst certs)" using Cons.prems(3) e by auto
  then have rest: "\<forall>(k, c) \<in> set certs. getFromCache m1 k = Some c"
    using Cons.prems(4) look by (force simp: e)
  have works1: "issuers_work m1" using Cons.prems(2) same_issuers(2) [OF same] by simp
  note to_m = same_issuers [OF same]
  from Cons.IH [OF inv1 works1 fresh(2) rest] obtain m' log' where
    go: "checkAndRotate now noise certs m1 = Some m'" and
    same': "mgr_signingIssuer m' = mgr_signingIssuer m1" "mgr_validatingIssuer m' = mgr_validatingIssuer m1" and
    out: "\<forall>k. k \<notin> fst ` set certs \<longrightarrow> getFromCache m' k = getFromCache m1 k" and
    tail: "\<forall>(k, c) \<in> set certs. \<exists>c'. getFromCache m' k = Some c' \<and> rotated_to ca_of now (noise k) m c c' \<and>
       (ShouldRotate now (noise k) m c = Some True \<longrightarrow> (c, c') \<in> set log')" and
    log': "mgr_certPubSub m' = mgr_certPubSub m1 @ log'"
    unfolding to_m by blast
  have head: "getFromCache m' key = Some cert1" using out fresh(1) look by simp
  show ?case
  proof (intro exI conjI)
    show "checkAndRotate now noise (e # certs) m = Some m'" using step go by (simp add: e)
    show "mgr_signingIssuer m' = mgr_signingIssuer m" "mgr_validatingIssuer m' = mgr_validatingIssuer m" using same same' by simp_all
    show "\<forall>k. k \<notin> fst ` set (e # certs) \<longrightarrow> getFromCache m' k = getFromCache m k" using out look by (simp add: e)
    show "mgr_certPubSub m' = mgr_certPubSub m @ (log1 @ log')" using log log' by simp
    show "\<forall>(k, c) \<in> set (e # certs). \<exists>c'. getFromCache m' k = Some c' \<and> rotated_to ca_of now (noise k) m c c' \<and>
       (ShouldRotate now (noise k) m c = Some True \<longrightarrow> (c, c') \<in> set (log1 @ log'))"
    proof (rule ballI, clarify)
      fix k c
      assume "(k, c) \<in> set (e # certs)"
      then consider "k = key" "c = cert" | "(k, c) \<in> set certs" by (auto simp: e)
      then show "\<exists>c'. getFromCache m' k = Some c' \<and> rotated_to ca_of now (noise k) m c c' \<and>
          (ShouldRotate now (noise k) m c = Some True \<longrightarrow> (c, c') \<in> set (log1 @ log'))"
      proof cases
        case 1
        with head to log(2) show ?thesis by simp
      next
        case 2
        with tail show ?thesis by fastforce
      qed
    qed
  qed
qed auto


text \<open>
  C13. A rotation round brings the whole cache up to date. With an issuer that works, \<open>checkAndRotate\<close>
  returns; no entry appears or disappears; every certificate belongs to the present issuers and has the
  right trust context; one that was not due is untouched, one that was due has been replaced by a
  certificate valid for the period of its type, and the exchange has been announced.
\<close>

theorem rotation_round_complete:
  assumes inv: "manager_inv ca_of m" and works: "issuers_work m"
    and snapshot: "distinct (map fst certs)" "set certs = set (mgr_cache m)"
  shows "\<exists>m'. checkAndRotate now noise certs m = Some m' \<and>
    (\<forall>key. getFromCache m key = None \<longrightarrow> getFromCache m' key = None) \<and>
    (\<forall>key cert. getFromCache m key = Some cert \<longrightarrow>
       (\<exists>cert'. getFromCache m' key = Some cert' \<and> current m' cert' \<and> trust_context ca_of cert' \<and>
          (ShouldRotate now (noise key) m cert = Some False \<longrightarrow> cert' = cert) \<and>
          (ShouldRotate now (noise key) m cert = Some True \<longrightarrow>
             crt_Expiration cert' = now + getValidityDurationForCertType m (crt_certType cert) \<and>
             (cert, cert') \<in> set (mgr_certPubSub m'))))"
proof -
  from inv have entry: "getFromCache m key = Some cert \<longleftrightarrow> (key, cert) \<in> set certs" for key cert
    by (simp add: manager_inv_def getFromCache_def gm_get_in snapshot(2))
  then have cached: "\<forall>(key, cert) \<in> set certs. getFromCache m key = Some cert" by auto
  from checkAndRotate_works [OF inv works snapshot(1) cached] obtain m' log where
    go: "checkAndRotate now noise certs m = Some m'" and
    same: "mgr_signingIssuer m' = mgr_signingIssuer m" "mgr_validatingIssuer m' = mgr_validatingIssuer m" and
    out: "\<forall>key. key \<notin> fst ` set certs \<longrightarrow> getFromCache m' key = getFromCache m key" and
    all: "\<forall>(key, cert) \<in> set certs. \<exists>cert'. getFromCache m' key = Some cert' \<and> rotated_to ca_of now (noise key) m cert cert' \<and>
       (ShouldRotate now (noise key) m cert = Some True \<longrightarrow> (cert, cert') \<in> set log)" and
    log: "mgr_certPubSub m' = mgr_certPubSub m @ log"
    by blast
  have cur: "current m' = current m" by (simp add: current_def fun_eq_iff same)
  show ?thesis
  proof (intro exI [of _ m'] conjI go allI impI)
    fix key assume none: "getFromCache m key = None"
    then have "key \<notin> fst ` set certs" using cached by force
    with out none show "getFromCache m' key = None" by simp
  next
    fix key cert assume "getFromCache m key = Some cert"
    then have "(key, cert) \<in> set certs" by (simp add: entry)
    with all obtain cert' where "getFromCache m' key = Some cert'" "rotated_to ca_of now (noise key) m cert cert'"
      "ShouldRotate now (noise key) m cert = Some True \<longrightarrow> (cert, cert') \<in> set log"
      by blast
    then show "\<exists>cert'. getFromCache m' key = Some cert' \<and> current m' cert' \<and> trust_context ca_of cert' \<and>
        (ShouldRotate now (noise key) m cert = Some False \<longrightarrow> cert' = cert) \<and>
        (ShouldRotate now (noise key) m cert = Some True \<longrightarrow>
           crt_Expiration cert' = now + getValidityDurationForCertType m (crt_certType cert) \<and>
           (cert, cert') \<in> set (mgr_certPubSub m'))"
      by (intro exI [of _ cert']) (auto simp: rotated_to_def cur log)
  qed
qed

text \<open>The root \<open>b\<close> joins as a validating root while \<open>a\<close> keeps signing: the cached certificate is exchanged.\<close>

definition sample_rollout :: Manager where
  "sample_rollout = (sample_manager ''a'' ''b'')\<lparr>mgr_cache := [(''web.ns'', sample_issued ''a'' ''a'')]\<rparr>"

lemma sample_rollout_inv: "manager_inv sample_ca sample_rollout"
  using sample_manager_inv [of "''a''" "''b''"]
  by (auto simp: manager_inv_def sample_rollout_def getFromCache_def gm_get_def gm_wf_def trust_context_def sample_issued_def
      split: if_splits)

lemma sample_works: "issuers_work sample_rollout"
  by (simp add: issuers_work_def sample_rollout_def sample_manager_def initialized_def sample_issuer_def sample_issue)

lemma sample_due: "ShouldRotate 8 0 sample_rollout (sample_issued ''a'' ''a'') = Some True"
  by (simp add: ShouldRotate_def sample_rollout_def sample_manager_def sample_issuer_def sample_issued_def
      RenewBeforeCertExpires_def duration_units Let_def)

theorem rotation_round_complete_witness:
  "\<exists>m' c. checkAndRotate 8 (\<lambda>key. 0) (mgr_cache sample_rollout) sample_rollout = Some m' \<and> getFromCache m' ''web.ns'' = Some c \<and>
     current m' c \<and> trust_context sample_ca c \<and> crt_Expiration c = 8 + 24 * Hour \<and>
     (sample_issued ''a'' ''a'', c) \<in> set (mgr_certPubSub m')"
proof -
  have look: "getFromCache sample_rollout ''web.ns'' = Some (sample_issued ''a'' ''a'')"
    by (simp add: sample_rollout_def getFromCache_def gm_get_def)
  have "distinct (map fst (mgr_cache sample_rollout))" by (simp add: sample_rollout_def)
  from rotation_round_complete [OF sample_rollout_inv sample_works this refl, of 8 "\<lambda>key. 0"] look sample_due
  obtain m' c where "checkAndRotate 8 (\<lambda>key. 0) (mgr_cache sample_rollout) sample_rollout = Some m'"
    "getFromCache m' ''web.ns'' = Some c" "current m' c" "trust_context sample_ca c"
    "crt_Expiration c = 8 + getValidityDurationForCertType sample_rollout (crt_certType (sample_issued ''a'' ''a''))"
    "(sample_issued ''a'' ''a'', c) \<in> set (mgr_certPubSub m')"
    by blast
  moreover have "getValidityDurationForCertType sample_rollout (crt_certType (sample_issued ''a'' ''a'')) = 24 * Hour"
    by (simp add: getValidityDurationForCertType_def sample_issued_def sample_rollout_def sample_manager_def zero_Manager_def
        Service_def Internal_def IngressGateway_def)
  ultimately show ?thesis by auto
qed


subsection \<open>Rolling out a root\<close>

text \<open>The holder of one certificate accepts the other: the authority that signed it is in the trust bundle.\<close>

definition trusts :: "Certificate \<Rightarrow> Certificate \<Rightarrow> bool" where
  "trusts c1 c2 \<longleftrightarrow> (\<exists>before behind. crt_TrustedCAs c1 = before @ crt_IssuingCA c2 @ behind)"

definition signed_by :: "string \<Rightarrow> Manager \<Rightarrow> bool" where
  "signed_by i m \<longleftrightarrow> map_option isr_ID (mgr_signingIssuer m) = Some i \<and>
     (\<forall>key c. getFromCache m key = Some c \<longrightarrow> crt_signingIssuerID c = i)"

lemma IssueCertificate_signed:
  assumes call: "IssueCertificate now intNoise pre ct opts m = Some (m', r)" and signed: "signed_by i m"
  shows "signed_by i m'"
  using call
proof (cases rule: IssueCertificate_cases)
  case (issued c0 c)
  then have "crt_signingIssuerID c = i" using signed by (auto simp: issued_from_def signed_by_def)
  with issued(3) signed show ?thesis by (simp add: signed_by_def getFromCache_put)
qed (use signed in simp_all)

lemma manager_step_signed:
  assumes "manager_step factory m m'" and "mgr_signingIssuer m' = mgr_signingIssuer m" and "signed_by i m"
  shows "signed_by i m'"
  using assms
proof (induction rule: manager_step.induct)
  case (mrc_event m event)
  then show ?case by (cases rule: watchStep_cases [of factory event m]) (auto simp: signed_by_def getFromCache_def)
next
  case (request now intNoise pre ct opts m m' r)
  then show ?case by (blast intro: IssueCertificate_signed)
next
  case (rotation now noise certs m m')
  then show ?case using checkAndRotate_keeps [of "signed_by i" now noise certs m m'] IssueCertificate_signed by blast
next
  case (release m key)
  then show ?case by (auto simp: signed_by_def getFromCache_release release_fields split: if_splits)
next
  case (configure m d d')
  then show ?case by (simp add: signed_by_def getFromCache_def)
qed

text \<open>
  C11. Rolling out a validating root never splits the mesh. Start with certificates that are all signed by
  one root and add another root as validating root, in any of the two validating states. Whatever
  requests, releases, rotation rounds and further validating roots follow, as long as the signing root
  stays, any two certificates handed out accept each other.
\<close>

theorem validating_rollout_seamless:
  assumes ok: "factory_ok ca_of factory" and inv: "manager_inv ca_of m" and signed: "signed_by i m"
    and event: "mrc_State (mev_MRC event) \<in> {MRCStateValidatingRollout, MRCStateValidatingRollback}"
    and run: "(\<lambda>m1 m2. manager_step factory m1 m2 \<and> mgr_signingIssuer m2 = mgr_signingIssuer m1)\<^sup>*\<^sup>* (watchStep factory event m) m'"
    and certs: "getFromCache m' k1 = Some c1" "getFromCache m' k2 = Some c2"
  shows "trusts c1 c2"
proof -
  from event have "mgr_signingIssuer (watchStep factory event m) = mgr_signingIssuer m"
    by (auto simp: watchStep_def handleMRCEvent_def mrc_states Let_def split: MRCEventType.split sum.split)
  then have start: "manager_inv ca_of (watchStep factory event m) \<and> signed_by i (watchStep factory event m)"
    using watchStep_inv [OF ok inv] manager_step_signed [OF manager_step.mrc_event] signed by blast
  from run have "manager_inv ca_of m' \<and> signed_by i m'"
  proof (induction rule: rtranclp_induct)
    case (step m1 m2)
    then show ?case using manager_step_inv [OF ok] manager_step_signed by blast
  qed (rule start)
  then have t: "trust_context ca_of c1" "trust_context ca_of c2" and s: "crt_signingIssuerID c1 = i" "crt_signingIssuerID c2 = i"
    using certs by (auto simp: manager_inv_def signed_by_def)
  then have "crt_TrustedCAs c1 = [] @ crt_IssuingCA c2 @
      (if crt_validatingIssuerID c1 = i then [] else ca_of (crt_validatingIssuerID c1))"
    by (auto simp: trust_context_def)
  then show ?thesis unfolding trusts_def by blast
qed


theorem validating_rollout_seamless_witness:
  "\<exists>m' c. (\<lambda>m1 m2. manager_step sample_factory m1 m2 \<and> mgr_signingIssuer m2 = mgr_signingIssuer m1)\<^sup>*\<^sup>*
       (watchStep sample_factory (sample_mrc ''b'' MRCStateValidatingRollout)
          ((sample_manager ''a'' ''a'')\<lparr>mgr_cache := [(''web.ns'', sample_issued ''a'' ''a'')]\<rparr>)) m' \<and>
     getFromCache m' ''web.ns'' = Some (sample_issued ''a'' ''a'') \<and> getFromCache m' ''db.ns'' = Some c \<and>
     crt_validatingIssuerID c = ''b'' \<and> trusts c (sample_issued ''a'' ''a'') \<and> trusts (sample_issued ''a'' ''a'') c"
proof -
  let ?m = "(sample_manager ''a'' ''a'')\<lparr>mgr_cache := [(''web.ns'', sample_issued ''a'' ''a'')]\<rparr>"
  let ?e = "sample_mrc ''b'' MRCStateValidatingRollout"
  have start: "watchStep sample_factory ?e ?m = sample_rollout"
    by (simp add: watchStep_def handleMRCEvent_def sample_mrc_def sample_factory_def mrc_states sample_manager_def
        sample_issuer_def sample_rollout_def Let_def)
  have none: "getFromCache sample_rollout ''db.ns'' = None"
    by (simp add: sample_rollout_def getFromCache_def gm_get_def)
  from issueNew_works [OF sample_works] obtain m' c where new: "issueNew 7 ''db.ns'' Service [] None sample_rollout = Some (m', Inr c)"
    by blast
  then have call: "IssueCertificate 7 0 ''db.ns'' Service [] sample_rollout = Some (m', Inr c)"
    by (simp add: IssueCertificate_def none)
  then have run: "(\<lambda>m1 m2. manager_step sample_factory m1 m2 \<and> mgr_signingIssuer m2 = mgr_signingIssuer m1)\<^sup>*\<^sup>*
      (watchStep sample_factory ?e ?m) m'"
    unfolding start using manager_step.request [OF call] IssueCertificate_issuers [OF call] by blast
  from new obtain c0 where isf: "issued_from 7 ''db.ns'' Service [] None sample_rollout c0 c" and
    m': "m' = sample_rollout\<lparr>mgr_cache := gm_put (mgr_cache sample_rollout) ''db.ns'' c, mgr_certPubSub := mgr_certPubSub sample_rollout @ []\<rparr>"
    by (rule issueNew_Inr) simp
  have web: "getFromCache sample_rollout ''web.ns'' = Some (sample_issued ''a'' ''a'')"
    by (simp add: sample_rollout_def getFromCache_def gm_get_def)
  have c: "getFromCache m' ''web.ns'' = Some (sample_issued ''a'' ''a'')" "getFromCache m' ''db.ns'' = Some c"
    unfolding m' getFromCache_put by (simp_all add: web)
  have vb: "map_option isr_ID (mgr_validatingIssuer sample_rollout) = Some ''b''"
    by (simp add: sample_rollout_def sample_manager_def sample_issuer_def)
  from isf have "map_option isr_ID (mgr_validatingIssuer sample_rollout) = Some (crt_validatingIssuerID c)"
    unfolding issued_from_def by auto
  with vb have "crt_validatingIssuerID c = ''b''" by simp
  have inv: "manager_inv sample_ca ?m"
    using sample_manager_inv [of "''a''" "''a''"]
    by (auto simp: manager_inv_def getFromCache_def gm_get_def gm_wf_def trust_context_def sample_issued_def split: if_splits)
  have signed: "signed_by ''a'' ?m"
    by (auto simp: signed_by_def sample_manager_def sample_issuer_def getFromCache_def gm_get_def sample_issued_def split: if_splits)
  have ev: "mrc_State (mev_MRC ?e) \<in> {MRCStateValidatingRollout, MRCStateValidatingRollback}" by (simp add: sample_mrc_def)
  note seamless = validating_rollout_seamless [OF sample_factory_ok inv signed ev run]
  show ?thesis using run c \<open>crt_validatingIssuerID c = ''b''\<close> seamless [OF c(1,2)] seamless [OF c(2,1)] by blast
qed

end
