(* ===== verification/Ingress_Gateway.thy ===== *)
theory Ingress_Gateway
  imports Cert_Manager Config_Client
begin

text \<open>
  Provisioning of gateway and access certificates (\<open>src/pkg/ingress/gateway.go\<close>). The client watches the
  MeshConfig, the AccessCert resources and the rotation messages of the certificate manager, and keeps
  the certificates in Kubernetes secrets. The API server is a parameter: the outcome of each call is a
  function of the calls made so far, and the calls are recorded with their outcomes. A handler that
  panics (index out of range, nil issuer) returns \<open>None\<close>.
\<close>

section \<open>State\<close>

record AccessCertSpec =
  acs_SubjectAltNames :: "string list"
  acs_Secret :: SecretReference

record AccessCert =
  acc_Meta :: ObjectMeta
  acc_Spec :: AccessCertSpec

record Secret =
  sec_Name :: string
  sec_Namespace :: string
  sec_ca_crt :: string
  sec_tls_crt :: string
  sec_tls_key :: string

datatype secret_call = CreateSecret Secret | UpdateSecret Secret | DeleteSecret string string

datatype api_result = ApiOk | AlreadyExists | ApiError string

type_synonym api_log = "(secret_call \<times> api_result) list"

type_synonym secret_api = "api_log \<Rightarrow> secret_call \<Rightarrow> api_result"

datatype gateway_error =
    ErrNoSAN | ErrInvalidDuration string | ErrSecretRef string string | ErrIssuing string | ErrStoring string | ErrDeleting string

datatype access_status = StatusProhibited | StatusError gateway_error | StatusCommitted

record gateway =
  gw_certProvider :: Manager
  gw_calls :: api_log
  gw_statuses :: "(AccessCert \<times> access_status) list"
  gw_currentCertSpec :: "IngressGatewayCertSpec option"
  gw_accessCertCache :: "(string, AccessCert) gomap"

text \<open>What a handler sees of its surroundings: the time, the renewal noise, the API server and the settings.\<close>

record gateway_env =
  ge_now :: int
  ge_noise :: int
  ge_api :: secret_api
  ge_fraction :: fraction
  ge_EnableAccessCertPolicy :: bool

definition api_call :: "gateway_env \<Rightarrow> secret_call \<Rightarrow> gateway \<Rightarrow> api_result \<times> gateway" where
  "api_call env call g = (let r = ge_api env (gw_calls g) call in (r, g\<lparr>gw_calls := gw_calls g @ [(call, r)]\<rparr>))"


section \<open>Storing a certificate\<close>

definition secret_of :: "Certificate \<Rightarrow> SecretReference \<Rightarrow> Secret" where
  "secret_of cert ref = \<lparr>sec_Name = sr_Name ref, sec_Namespace = sr_Namespace ref, sec_ca_crt = crt_TrustedCAs cert,
     sec_tls_crt = crt_CertChain cert, sec_tls_key = crt_PrivateKey cert\<rparr>"

definition storeCertInSecret :: "gateway_env \<Rightarrow> Certificate \<Rightarrow> SecretReference \<Rightarrow> gateway \<Rightarrow> gateway_error option \<times> gateway" where
  "storeCertInSecret env cert ref g =
     (case api_call env (CreateSecret (secret_of cert ref)) g of
        (ApiOk, g') \<Rightarrow> (None, g')
      | (ApiError err, g') \<Rightarrow> (Some (ErrStoring err), g')
      | (AlreadyExists, g') \<Rightarrow>
          (case api_call env (UpdateSecret (secret_of cert ref)) g' of
             (ApiOk, g'') \<Rightarrow> (None, g'')
           | (AlreadyExists, g'') \<Rightarrow> (Some (ErrStoring ''already exists''), g'')
           | (ApiError err, g'') \<Rightarrow> (Some (ErrStoring err), g'')))"

text \<open>Releasing the cached certificate of a name, issuing a new one and storing it.\<close>

definition issueAndStore :: "gateway_env \<Rightarrow> CommonName \<Rightarrow> CertType \<Rightarrow> SecretReference \<Rightarrow> gateway \<Rightarrow> (gateway_error option \<times> gateway) option" where
  "issueAndStore env certCN ct ref g =
     do {
       (m, r) \<leftarrow> IssueCertificate (ge_now env) (ge_noise env) certCN ct [FullCNProvided]
                   (ReleaseCertificate certCN (gw_certProvider g));
       let g' = g\<lparr>gw_certProvider := m\<rparr>;
       (case r of
          Inl err \<Rightarrow> Some (Some (ErrIssuing err), g')
        | Inr issuedCert \<Rightarrow> Some (storeCertInSecret env issuedCert ref g'))
     }"

definition createAndStoreGatewayCert :: "gateway_env \<Rightarrow> IngressGatewayCertSpec \<Rightarrow> gateway \<Rightarrow> (gateway_error option \<times> gateway) option" where
  "createAndStoreGatewayCert env spec g =
     (case igc_SubjectAltNames spec of
        [] \<Rightarrow> Some (Some ErrNoSAN, g)
      | certCN # _ \<Rightarrow>
          if ParseDuration (ge_fraction env) (igc_ValidityDuration spec) = None
          then Some (Some (ErrInvalidDuration (igc_ValidityDuration spec)), g)
          else if sr_Name (igc_Secret spec) = '''' \<or> sr_Namespace (igc_Secret spec) = ''''
          then Some (Some (ErrSecretRef (sr_Namespace (igc_Secret spec)) (sr_Name (igc_Secret spec))), g)
          else issueAndStore env certCN IngressGateway (igc_Secret spec) g)"

definition createAndStoreAccessCert :: "gateway_env \<Rightarrow> AccessCertSpec \<Rightarrow> gateway \<Rightarrow> (gateway_error option \<times> gateway) option" where
  "createAndStoreAccessCert env spec g =
     (case acs_SubjectAltNames spec of
        [] \<Rightarrow> Some (Some ErrNoSAN, g)
      | certCN # _ \<Rightarrow>
          if sr_Name (acs_Secret spec) = '''' \<or> sr_Namespace (acs_Secret spec) = ''''
          then Some (Some (ErrSecretRef (sr_Namespace (acs_Secret spec)) (sr_Name (acs_Secret spec))), g)
          else issueAndStore env certCN Service (acs_Secret spec) g)"

text \<open>Removing a secret and releasing the certificate of the first name.\<close>

definition removeCertAndSecret :: "gateway_env \<Rightarrow> SecretReference \<Rightarrow> string list \<Rightarrow> gateway \<Rightarrow> (gateway_error option \<times> gateway) option" where
  "removeCertAndSecret env ref subjectAltNames g =
     (case api_call env (DeleteSecret (sr_Namespace ref) (sr_Name ref)) g of
        (ApiOk, g') \<Rightarrow> do {
          certCN \<leftarrow> index subjectAltNames 0;
          Some (None, g'\<lparr>gw_certProvider := ReleaseCertificate certCN (gw_certProvider g')\<rparr>)
        }
      | (AlreadyExists, g') \<Rightarrow> Some (Some (ErrDeleting ''already exists''), g')
      | (ApiError err, g') \<Rightarrow> Some (Some (ErrDeleting err), g'))"

definition removeGatewayCertAndSecret :: "gateway_env \<Rightarrow> IngressGatewayCertSpec \<Rightarrow> gateway \<Rightarrow> (gateway_error option \<times> gateway) option" where
  "removeGatewayCertAndSecret env spec g = removeCertAndSecret env (igc_Secret spec) (igc_SubjectAltNames spec) g"

definition removeAccessCertAndSecret :: "gateway_env \<Rightarrow> AccessCertSpec \<Rightarrow> gateway \<Rightarrow> (gateway_error option \<times> gateway) option" where
  "removeAccessCertAndSecret env spec g = removeCertAndSecret env (acs_Secret spec) (acs_SubjectAltNames spec) g"


section \<open>Handlers\<close>

definition updateStatus :: "AccessCert \<Rightarrow> access_status \<Rightarrow> gateway \<Rightarrow> gateway" where
  "updateStatus ac status g = g\<lparr>gw_statuses := gw_statuses g @ [(ac, status)]\<rparr>"

definition provisionIngressGatewayCert :: "gateway_env \<Rightarrow> IngressGatewayCertSpec option \<Rightarrow> gateway \<Rightarrow> (gateway_error option \<times> gateway) option" where
  "provisionIngressGatewayCert env defaultCertSpec g =
     (case defaultCertSpec of
        None \<Rightarrow> Some (None, g\<lparr>gw_currentCertSpec := None\<rparr>)
      | Some spec \<Rightarrow> do {
          (err, g') \<leftarrow> createAndStoreGatewayCert env spec g;
          Some (err, if err = None then g'\<lparr>gw_currentCertSpec := Some spec\<rparr> else g')
        })"

definition doMeshConfigUpdateChan :: "gateway_env \<Rightarrow> MeshConfig \<Rightarrow> gateway \<Rightarrow> gateway option" where
  "doMeshConfigUpdateChan env updatedMeshConfig g =
     (let newCertSpec = cts_IngressGateway (mcs_Certificate (mcf_Spec updatedMeshConfig)) in
      if gw_currentCertSpec g = newCertSpec then Some g
      else
        (case newCertSpec of
           None \<Rightarrow>
             (case gw_currentCertSpec g of
                None \<Rightarrow> Some g
              | Some currentCertSpec \<Rightarrow> do {
                  (err, g') \<leftarrow> removeGatewayCertAndSecret env currentCertSpec g;
                  Some (g'\<lparr>gw_currentCertSpec := None\<rparr>)
                })
         | Some spec \<Rightarrow> do {
             (err, g') \<leftarrow> createAndStoreGatewayCert env spec g;
             Some (g'\<lparr>gw_currentCertSpec := Some spec\<rparr>)
           }))"

definition issueAccessCert :: "gateway_env \<Rightarrow> AccessCert \<Rightarrow> gateway \<Rightarrow> gateway option" where
  "issueAccessCert env newAccessCert g =
     do {
       (err, g') \<leftarrow> createAndStoreAccessCert env (acc_Spec newAccessCert) g;
       (case err of
          Some e \<Rightarrow> Some (updateStatus newAccessCert (StatusError e) g')
        | None \<Rightarrow> do {
            certCN \<leftarrow> index (acs_SubjectAltNames (acc_Spec newAccessCert)) 0;
            Some (updateStatus newAccessCert StatusCommitted
              (g'\<lparr>gw_accessCertCache := gm_put (gw_accessCertCache g') certCN newAccessCert\<rparr>))
          })
     }"

definition removeAccessCert :: "gateway_env \<Rightarrow> AccessCert \<Rightarrow> AccessCert option \<Rightarrow> gateway \<Rightarrow> (bool \<times> gateway) option" where
  "removeAccessCert env oldAccessCert newAccessCert g =
     do {
       (err, g') \<leftarrow> removeAccessCertAndSecret env (acc_Spec oldAccessCert) g;
       (case (err, newAccessCert) of
          (None, _) \<Rightarrow> Some (True, g')
        | (Some e, None) \<Rightarrow> Some (False, g')
        | (Some e, Some ac) \<Rightarrow> Some (False, updateStatus ac (StatusError e) g'))
     }"

definition doAccessCertChan :: "gateway_env \<Rightarrow> AccessCert option \<Rightarrow> AccessCert option \<Rightarrow> gateway \<Rightarrow> gateway option" where
  "doAccessCertChan env oldObj newObj g =
     (case (newObj, ge_EnableAccessCertPolicy env) of
        (Some newAccessCert, False) \<Rightarrow> Some (updateStatus newAccessCert StatusProhibited g)
      | _ \<Rightarrow> do {
          (go, g1) \<leftarrow>
            (case oldObj of
               None \<Rightarrow> Some (True, g)
             | Some oldAccessCert \<Rightarrow> do {
                 oldCN \<leftarrow> index (acs_SubjectAltNames (acc_Spec oldAccessCert)) 0;
                 removeAccessCert env oldAccessCert newObj (g\<lparr>gw_accessCertCache := AList.delete oldCN (gw_accessCertCache g)\<rparr>)
               });
          (case newObj of
             Some newAccessCert \<Rightarrow> if go then issueAccessCert env newAccessCert g1 else Some g1
           | None \<Rightarrow> Some g1)
        })"

definition doCertRotateChan :: "gateway_env \<Rightarrow> Certificate \<Rightarrow> gateway \<Rightarrow> gateway option" where
  "doCertRotateChan env cert g =
     do {
       isGateway \<leftarrow>
         (case gw_currentCertSpec g of
            None \<Rightarrow> Some False
          | Some spec \<Rightarrow> map_option (\<lambda>cn. crt_CommonName cert = cn) (index (igc_SubjectAltNames spec) 0));
       (case (isGateway, gw_currentCertSpec g) of
          (True, Some spec) \<Rightarrow> map_option snd (createAndStoreGatewayCert env spec g)
        | _ \<Rightarrow>
            (case gm_get (gw_accessCertCache g) (crt_CommonName cert) of
               None \<Rightarrow> Some g
             | Some ac \<Rightarrow> map_option snd (createAndStoreAccessCert env (acc_Spec ac) g)))
     }"



section \<open>What the secrets hold\<close>

text \<open>The content of a secret after the recorded calls: successful writes set it, a successful deletion clears it.\<close>

fun secret_effect :: "string \<Rightarrow> string \<Rightarrow> secret_call \<times> api_result \<Rightarrow> Secret option \<Rightarrow> Secret option" where
  "secret_effect ns name (CreateSecret s, ApiOk) c = (if sec_Namespace s = ns \<and> sec_Name s = name then Some s else c)"
| "secret_effect ns name (UpdateSecret s, ApiOk) c = (if sec_Namespace s = ns \<and> sec_Name s = name then Some s else c)"
| "secret_effect ns name (DeleteSecret ns' name', ApiOk) c = (if ns' = ns \<and> name' = name then None else c)"
| "secret_effect ns name _ c = c"

definition secret_content :: "api_log \<Rightarrow> string \<Rightarrow> string \<Rightarrow> Secret option" where
  "secret_content log ns name = fold (secret_effect ns name) log None"

lemma secret_content_append [simp]: "secret_content (log @ es) ns name = fold (secret_effect ns name) es (secret_content log ns name)"
  by (simp add: secret_content_def)

text \<open>The secret of a certificate holds the certificate that the manager has cached under its name.\<close>

definition holds_certificate :: "(string \<Rightarrow> string) \<Rightarrow> CommonName \<Rightarrow> SecretReference \<Rightarrow> gateway \<Rightarrow> bool" where
  "holds_certificate ca_of cn ref g \<longleftrightarrow>
     (\<exists>cert. getFromCache (gw_certProvider g) cn = Some cert \<and> crt_CommonName cert = cn \<and> current (gw_certProvider g) cert \<and>
        trust_context ca_of cert \<and> secret_content (gw_calls g) (sr_Namespace ref) (sr_Name ref) = Some (secret_of cert ref))"

definition api_works :: "gateway_env \<Rightarrow> bool" where
  "api_works env \<longleftrightarrow> (\<forall>log s. ge_api env log (CreateSecret s) \<in> {ApiOk, AlreadyExists} \<and> ge_api env log (UpdateSecret s) = ApiOk)"

definition valid_gateway_spec :: "fraction \<Rightarrow> CommonName \<Rightarrow> IngressGatewayCertSpec \<Rightarrow> bool" where
  "valid_gateway_spec frac cn spec \<longleftrightarrow> (\<exists>rest. igc_SubjectAltNames spec = cn # rest) \<and>
     ParseDuration frac (igc_ValidityDuration spec) \<noteq> None \<and> sr_Name (igc_Secret spec) \<noteq> '''' \<and> sr_Namespace (igc_Secret spec) \<noteq> ''''"

lemma storeCertInSecret_ok:
  assumes "storeCertInSecret env cert ref g = (None, g')"
  shows "secret_content (gw_calls g') (sr_Namespace ref) (sr_Name ref) = Some (secret_of cert ref) \<and>
    gw_certProvider g' = gw_certProvider g"
  using assms by (auto simp: storeCertInSecret_def api_call_def Let_def secret_of_def split: api_result.splits)

lemma storeCertInSecret_works:
  assumes "api_works env"
  shows "\<exists>g'. storeCertInSecret env cert ref g = (None, g')"
proof -
  from assms have "ge_api env (gw_calls g) (CreateSecret (secret_of cert ref)) \<in> {ApiOk, AlreadyExists}"
    and "\<And>log. ge_api env log (UpdateSecret (secret_of cert ref)) = ApiOk"
    by (simp_all add: api_works_def)
  then show ?thesis by (auto simp: storeCertInSecret_def api_call_def Let_def)
qed

lemma release_inv: "manager_inv ca_of m \<Longrightarrow> manager_inv ca_of (ReleaseCertificate key m)"
  by (auto simp: manager_inv_def getFromCache_release release_fields split: if_splits)

lemma release_works: "issuers_work m \<Longrightarrow> issuers_work (ReleaseCertificate key m)"
  by (simp add: issuers_work_def initialized_def release_fields)

lemma issueAndStore_cases:
  assumes "issueAndStore env cn ct ref g = Some (e, g')"
  obtains m r where "IssueCertificate (ge_now env) (ge_noise env) cn ct [FullCNProvided] (ReleaseCertificate cn (gw_certProvider g)) = Some (m, r)"
    "(case r of Inl err \<Rightarrow> (Some (ErrIssuing err), g\<lparr>gw_certProvider := m\<rparr>)
      | Inr cert \<Rightarrow> storeCertInSecret env cert ref (g\<lparr>gw_certProvider := m\<rparr>)) = (e, g')"
proof (cases "IssueCertificate (ge_now env) (ge_noise env) cn ct [FullCNProvided] (ReleaseCertificate cn (gw_certProvider g))")
  case None
  with assms show ?thesis by (simp add: issueAndStore_def)
next
  case (Some p)
  obtain m r where p: "p = (m, r)" by (cases p)
  from assms Some p show ?thesis
    by (intro that [of m r]) (simp_all add: issueAndStore_def Let_def split: sum.splits)
qed

lemma issueAndStore_ok:
  assumes inv: "manager_inv ca_of (gw_certProvider g)" and call: "issueAndStore env cn ct ref g = Some (None, g')"
  shows "holds_certificate ca_of cn ref g'"
proof -
  let ?m = "ReleaseCertificate cn (gw_certProvider g)"
  from call obtain m cert where iss: "IssueCertificate (ge_now env) (ge_noise env) cn ct [FullCNProvided] ?m = Some (m, Inr cert)"
    and store: "storeCertInSecret env cert ref (g\<lparr>gw_certProvider := m\<rparr>) = (None, g')"
    by (rule issueAndStore_cases) (simp split: sum.splits)
  have none: "getFromCache ?m cn = None" by (simp add: getFromCache_release)
  from iss have new: "issueNew (ge_now env) cn ct [FullCNProvided] None ?m = Some (m, Inr cert)"
    by (simp add: IssueCertificate_def none)
  from new obtain c0 where f: "issued_from (ge_now env) cn ct [FullCNProvided] None ?m c0 cert"
    and m: "m = ?m\<lparr>mgr_cache := gm_put (mgr_cache ?m) cn cert, mgr_certPubSub := mgr_certPubSub ?m @
      (case None of None \<Rightarrow> [] | Some c \<Rightarrow> [(c, cert)])\<rparr>"
    by (rule issueNew_Inr)
  note facts = issued_from_facts [OF f release_inv [OF inv]]
  from facts(4) have cn: "crt_CommonName cert = cn"
    by (auto simp: newOptions_def formatCN_def applyOptions_def zero_issueOptions_def)
  have cached: "getFromCache m cn = Some cert" unfolding m getFromCache_put by simp
  have cur: "current m cert" using facts(2) unfolding m by (simp add: current_def)
  from storeCertInSecret_ok [OF store] cached cur cn facts(1) show ?thesis
    unfolding holds_certificate_def by auto
qed

lemma issueAndStore_works:
  assumes works: "issuers_work (gw_certProvider g)" and api: "api_works env"
  shows "\<exists>g'. issueAndStore env cn ct ref g = Some (None, g')"
proof -
  let ?m = "ReleaseCertificate cn (gw_certProvider g)"
  from issueNew_works [OF release_works [OF works], of "ge_now env" cn ct "[FullCNProvided]" None cn]
  obtain m cert where "issueNew (ge_now env) cn ct [FullCNProvided] None ?m = Some (m, Inr cert)" by blast
  then have "IssueCertificate (ge_now env) (ge_noise env) cn ct [FullCNProvided] ?m = Some (m, Inr cert)"
    by (simp add: IssueCertificate_def getFromCache_release)
  moreover from storeCertInSecret_works [OF api] obtain g' where
    "storeCertInSecret env cert ref (g\<lparr>gw_certProvider := m\<rparr>) = (None, g')" by blast
  ultimately show ?thesis by (simp add: issueAndStore_def)
qed

lemma issueAndStore_spec:
  assumes "issueAndStore env cn ct ref g = Some (err, g')"
  shows "gw_currentCertSpec g' = gw_currentCertSpec g"
proof -
  have "gw_currentCertSpec g2 = gw_currentCertSpec g1" if "storeCertInSecret env cert ref g1 = (e, g2)" for cert g1 e g2
    using that by (auto simp: storeCertInSecret_def api_call_def Let_def split: api_result.splits)
  with assms show ?thesis by (elim issueAndStore_cases) (fastforce split: sum.splits)
qed

lemma holds_spec_update: "holds_certificate ca_of cn ref (g\<lparr>gw_currentCertSpec := s\<rparr>) = holds_certificate ca_of cn ref g"
  by (simp add: holds_certificate_def)

lemma createAndStoreGatewayCert_valid:
  assumes "valid_gateway_spec (ge_fraction env) cn spec"
  shows "createAndStoreGatewayCert env spec g = issueAndStore env cn IngressGateway (igc_Secret spec) g"
  using assms by (auto simp: valid_gateway_spec_def createAndStoreGatewayCert_def)


section \<open>Properties\<close>

text \<open>
  C16. The secret of the ingress gateway follows the configuration and the rotations. With a working
  issuer and API server and a valid specification, handling a changed MeshConfig or a rotation message
  for the gateway certificate succeeds; afterwards the specification is the current one, and its secret
  holds the chain, the key and the trust bundle of the certificate that the manager has cached under the
  first name, a certificate of the present issuers.
\<close>

theorem gateway_secret_current:
  assumes inv: "manager_inv ca_of (gw_certProvider g)" and works: "issuers_work (gw_certProvider g)"
    and api: "api_works env" and valid: "valid_gateway_spec (ge_fraction env) cn spec"
  shows "(cts_IngressGateway (mcs_Certificate (mcf_Spec config)) = Some spec \<and> gw_currentCertSpec g \<noteq> Some spec \<longrightarrow>
      (\<exists>g'. doMeshConfigUpdateChan env config g = Some g' \<and> gw_currentCertSpec g' = Some spec \<and>
         holds_certificate ca_of cn (igc_Secret spec) g')) \<and>
    (gw_currentCertSpec g = Some spec \<and> crt_CommonName rotated = cn \<longrightarrow>
      (\<exists>g'. doCertRotateChan env rotated g = Some g' \<and> gw_currentCertSpec g' = Some spec \<and>
         holds_certificate ca_of cn (igc_Secret spec) g'))"
proof -
  from issueAndStore_works [OF works api] obtain g' where
    call: "issueAndStore env cn IngressGateway (igc_Secret spec) g = Some (None, g')" by blast
  note holds = issueAndStore_ok [OF inv call] and kept = issueAndStore_spec [OF call]
  have create: "createAndStoreGatewayCert env spec g = Some (None, g')"
    using createAndStoreGatewayCert_valid [OF valid] call by simp
  from valid have "index (igc_SubjectAltNames spec) 0 = Some cn" by (auto simp: valid_gateway_spec_def)
  with create holds kept show ?thesis
    by (auto simp: doMeshConfigUpdateChan_def doCertRotateChan_def Let_def holds_spec_update)
qed

definition sample_gateway_spec :: IngressGatewayCertSpec where
  "sample_gateway_spec = \<lparr>igc_SubjectAltNames = [''gw.example.org''], igc_ValidityDuration = ''10s'',
     igc_Secret = \<lparr>sr_Name = ''gw-cert'', sr_Namespace = ''osm-system''\<rparr>\<rparr>"

definition sample_gateway :: gateway where
  "sample_gateway = \<lparr>gw_certProvider = sample_rollout, gw_calls = [], gw_statuses = [], gw_currentCertSpec = None,
     gw_accessCertCache = []\<rparr>"

definition sample_gateway_env :: gateway_env where
  "sample_gateway_env = \<lparr>ge_now = 9, ge_noise = 0, ge_api = (\<lambda>log call. ApiOk), ge_fraction = (\<lambda>a b c. 0),
     ge_EnableAccessCertPolicy = True\<rparr>"

definition sample_gateway_config :: "IngressGatewayCertSpec \<Rightarrow> MeshConfig" where
  "sample_gateway_config spec = zero_MeshConfig\<lparr>mcf_Spec := (mcf_Spec zero_MeshConfig)
     \<lparr>mcs_Certificate := (mcs_Certificate (mcf_Spec zero_MeshConfig))\<lparr>cts_IngressGateway := Some spec\<rparr>\<rparr>\<rparr>"

theorem gateway_secret_current_witness:
  "\<exists>g'. doMeshConfigUpdateChan sample_gateway_env (sample_gateway_config sample_gateway_spec) sample_gateway = Some g' \<and>
     holds_certificate sample_ca ''gw.example.org'' (igc_Secret sample_gateway_spec) g'"
proof -
  have "valid_gateway_spec (ge_fraction sample_gateway_env) ''gw.example.org'' sample_gateway_spec"
    by (simp add: valid_gateway_spec_def sample_gateway_spec_def ParseDuration_fraction_free)
  moreover have "manager_inv sample_ca (gw_certProvider sample_gateway)" "issuers_work (gw_certProvider sample_gateway)"
    by (simp_all add: sample_gateway_def sample_rollout_inv sample_works)
  moreover have "api_works sample_gateway_env" by (simp add: api_works_def sample_gateway_env_def)
  moreover have "cts_IngressGateway (mcs_Certificate (mcf_Spec (sample_gateway_config sample_gateway_spec))) = Some sample_gateway_spec"
    by (simp add: sample_gateway_config_def)
  moreover have "gw_currentCertSpec sample_gateway \<noteq> Some sample_gateway_spec" by (simp add: sample_gateway_def)
  ultimately show ?thesis using gateway_secret_current by blast
qed

text \<open>
  C40. A gateway specification without names brings the controller down: it is refused when the MeshConfig
  is updated, but becomes the current specification all the same, and the next rotation of any
  certificate reads its first name and panics.
\<close>

theorem gateway_spec_without_names_panics:
  assumes "igc_SubjectAltNames spec = []" and "gw_currentCertSpec g \<noteq> Some spec"
    and "cts_IngressGateway (mcs_Certificate (mcf_Spec config)) = Some spec"
  shows "\<exists>g'. doMeshConfigUpdateChan env config g = Some g' \<and> gw_certProvider g' = gw_certProvider g \<and>
    (\<forall>env' cert. doCertRotateChan env' cert g' = None)"
  using assms by (simp add: doMeshConfigUpdateChan_def createAndStoreGatewayCert_def doCertRotateChan_def Let_def)

theorem gateway_spec_without_names_panics_witness:
  "\<exists>g'. doMeshConfigUpdateChan sample_gateway_env
        (sample_gateway_config (sample_gateway_spec\<lparr>igc_SubjectAltNames := []\<rparr>)) sample_gateway = Some g' \<and>
     doCertRotateChan sample_gateway_env (sample_issued ''a'' ''a'') g' = None"
  using gateway_spec_without_names_panics [of "sample_gateway_spec\<lparr>igc_SubjectAltNames := []\<rparr>" sample_gateway
      "sample_gateway_config (sample_gateway_spec\<lparr>igc_SubjectAltNames := []\<rparr>)" sample_gateway_env]
  by (auto simp: sample_gateway_def sample_gateway_config_def)

text \<open>
  An AccessCert whose secret was never written cannot be corrected: an update first deletes the secret of
  the old version, and when that fails (there is none) the new version is not provisioned.
\<close>

lemma access_cert_update_stuck:
  assumes "ge_EnableAccessCertPolicy env" and "acs_SubjectAltNames (acc_Spec old) = cn # rest"
    and "ge_api env (gw_calls g) (DeleteSecret (sr_Namespace (acs_Secret (acc_Spec old))) (sr_Name (acs_Secret (acc_Spec old)))) = ApiError err"
  shows "\<exists>g'. doAccessCertChan env (Some old) (Some new) g = Some g' \<and> gw_certProvider g' = gw_certProvider g \<and>
    gw_statuses g' = gw_statuses g @ [(new, StatusError (ErrDeleting err))]"
  using assms by (simp add: doAccessCertChan_def removeAccessCert_def removeAccessCertAndSecret_def removeCertAndSecret_def
      api_call_def updateStatus_def Let_def)

end
