(* ===== verification/Spec2Isabelle.thy ===== *)
theory Spec2Isabelle
  imports Catalog_Ingress Resync_Ticker Worker_Pool Ingress_Gateway
begin

text \<open>
  A verification library for osm-edge, a service mesh control plane written in Go (sources under
  \<open>src/\<close>). The control plane watches Kubernetes services, SMI access policies and its own policy
  resources and compiles them into the traffic policies that are programmed on the sidecar of each
  pod. The library models the part of the program that decides who may talk to whom, from the
  informer caches up to the policies handed to the sidecar drivers.

  \<^bold>\<open>Theories.\<close> Each theory states at its top which files it models.

  \<^descr>[Osm_Prelude, Keyed_Merge, Net_Ip] the Go vocabulary: strings, formatting, machine integers, maps
    with an explicit iteration order, sets, \<open>net.IP\<close> and \<open>net.ParseCIDR\<close>; the locales of Keyed_Merge
    are the interface of "merge lists of records by a key", interpreted by the rule, hostname and
    route merges.
  \<^descr>[Identity, Mesh_Service, Constants, Endpoint] \<open>pkg/identity\<close>, \<open>pkg/service\<close>, \<open>pkg/constants\<close>, \<open>pkg/endpoint\<close>.
  \<^descr>[Policy_Api, Traffic_Policy, Traffic_Merge] the resources of \<open>pkg/apis/policy\<close>, the policy types of
    \<open>pkg/trafficpolicy\<close> and their construction, merging and deduplication. Merging is modelled twice,
    on values and on a store of rule pointers, because the code aliases rules.
  \<^descr>[K8s_Client, Smi, Policy_Client, Multicluster, Providers] the lookups over the informer caches
    (\<open>pkg/k8s\<close>, \<open>pkg/smi\<close>, \<open>pkg/policy\<close>, \<open>pkg/multicluster\<close>) and the two service and endpoint
    providers (\<open>pkg/providers/kube\<close>, \<open>pkg/providers/fsm\<close>), which interpret one provider locale.
  \<^descr>[Catalog, Catalog_Inbound, Catalog_Egress, Catalog_Outbound, Catalog_Ingress] \<open>pkg/catalog\<close>: the
    record \<open>MeshCatalog\<close> holds the providers and controllers; each exported method is one definition.
  \<^descr>[Go_Time, Mesh_Config, Plugin, Config_Client] \<open>time.ParseDuration\<close>, the MeshConfig and plugin resources and
    the configurator (\<open>pkg/configurator\<close>), from which the catalog takes its settings.
  \<^descr>[Announcements, Broker, Resync_Ticker, Worker_Pool] the concurrent part: the message broker with its
    batching dispatcher (\<open>pkg/messaging\<close>), the resync ticker (\<open>pkg/ticker\<close>) and the worker pool
    (\<open>pkg/workerpool\<close>), each as a state record with an \<open>inductive\<close> step relation whose steps are the
    cases of the select statements of the goroutines.
  \<^descr>[Certificate, Cert_Issuers, Cert_Manager, Ingress_Gateway] certificates (\<open>pkg/certificate\<close>): the PEM
    codec and the Tresor and Vault issuers, which satisfy the locale \<open>cert_issuer\<close>; the manager with its cache,
    its two issuers and its rotation rounds, whose events are a step relation; and the ingress gateway client
    (\<open>pkg/ingress\<close>), which stores certificates of the manager in Kubernetes secrets.

  \<^bold>\<open>Conventions.\<close> A struct is a record with prefixed fields, a nil pointer is \<open>None\<close>, a panic is \<open>None\<close>
  in the result, an error is the left side of a sum. Unsigned integers are words; \<open>int\<close> is \<open>int\<close> with
  the conversions \<open>to_uint16\<close> and \<open>to_uint32\<close> where the code narrows. Logging and error metrics are left
  out. An informer cache is an association list from keys to objects. Go iterates maps and sets in an
  unspecified order: the order is an argument of the definition, and theorems assume only that it
  permutes the elements. Code outside \<open>src/\<close> (hashing, label selectors, the API server) is a
  parameter.

  \<^bold>\<open>What is shown.\<close> The theorem of this theory ties the client side and the server side of the
  catalog together: what a client is offered and what a server admits follow from the same traffic
  targets. The component theories prove the parts: authorization is exact in both directions,
  policies cover exactly the services they are for, weights are spread without loss, merging keeps
  one rule per route, round trips of identities and host names, and the statuses and errors of
  ingress and access control. Some theorems record where the code departs from its intent; they are
  named after the effect.
  For the concurrent part: the dispatcher never blocks on a timer, a broadcast is published within the
  max window, coalescing drops no news, the ticker is unique when goroutines start promptly, and the
  worker pool runs every job once and comes to rest.
  For certificates: every certificate in the cache carries the trust bundle of its two issuers, requests and
  rotation rounds leave only current certificates, a validating root is rolled out without two certificates
  that refuse each other, and the gateway secret follows the cache.

  \<^bold>\<open>Bounds.\<close> No definition of the policy core uses fuel: every loop of the code runs over a finite
  collection and is a fold or a recursion on a list.
  The PEM decoding loops take the length of the input as fuel, which is enough because each block consumes
  input (\<open>decodeCertificates_total\<close>).

  \<^bold>\<open>Not modelled.\<close> Watching and writing Kubernetes objects (informers, listers, generated clients,
  the API server), the sidecar drivers for Envoy and Pipy, the cert-manager issuer, the sidecar
  injector, admission validation, the CNI plugin, the command line, metrics, logging and debug
  servers.
\<close>


section \<open>The client and the server side agree\<close>

text \<open>The principal of a traffic target's source stands for that source alone.\<close>

lemma source_principal:
  assumes "sa_plain client"
  shows "K8sServiceAccount_AsPrincipal client td = AsPrincipal (New (ibj_Name source) (ibj_Namespace source)) td \<longleftrightarrow>
    trafficTargetIdentityToSvcAccount source = client"
proof -
  have "New (sa_Name client) (sa_Namespace client) = New name ns \<longleftrightarrow> name = sa_Name client \<and> ns = sa_Namespace client" for name ns
  proof
    assume eq: "New (sa_Name client) (sa_Namespace client) = New name ns"
    then have "sa_Name client @ CHR ''.'' # sa_Namespace client = name @ CHR ''.'' # ns" by (simp add: New_def)
    then have "count_list (sa_Name client @ CHR ''.'' # sa_Namespace client) CHR ''.'' = count_list (name @ CHR ''.'' # ns) CHR ''.''"
      by simp
    with assms have "count_list name CHR ''.'' = 0" "count_list ns CHR ''.'' = 0"
      by (simp_all add: sa_plain_def count_list_0_iff)
    then have "CHR ''.'' \<notin> set name" "CHR ''.'' \<notin> set ns" by (simp_all add: count_list_0_iff)
    with assms eq show "name = sa_Name client \<and> ns = sa_Namespace client" by (auto simp: sa_plain_def New_inject)
  qed auto
  then show ?thesis
    by (auto simp: K8sServiceAccount_AsPrincipal_def ToServiceIdentity_def AsPrincipal_inject subject_account_eq)
qed

text \<open>
  C1. The policy of the client and the policy of the server come from the same traffic targets.
  Take a client account and an HTTP service that belongs to the server account, in SMI mode. If the
  inbound policy of the server lets the client's principal use some route of the service, then the
  service is among those the client is offered. Conversely, for each traffic target from the client
  to the server, the service is offered to the client and the server admits the client on every
  route the target names.
\<close>

theorem client_server_agreement:
  assumes "\<not> permissive mc" and "route_groups_wf (mc_meshSpec mc)"
    and "sa_plain client" and "sa_plain server" and "sa_Name server \<noteq> ''''"
    and "ListOutboundServicesForIdentity mc (ToServiceIdentity client) = Some offered"
    and "getServicesForServiceIdentity mc (ToServiceIdentity server) = Some services"
    and "svc \<in> set services" and "\<not> is_tcp_protocol (ms_Protocol svc)"
  shows "\<exists>pol. GetInboundMeshTrafficPolicy mc (ToServiceIdentity server) services = Some pol \<and>
    (\<exists>policy \<in> set (gm_slice (imp_HTTPRouteConfigsPerPort pol) (int (unat (ms_TargetPort svc)))).
      itp_Name policy = FQDN svc \<and>
      (\<forall>route. allows (itp_Rules policy) route (K8sServiceAccount_AsPrincipal client (mc_trustDomain mc)) \<longrightarrow>
         svc \<in> set offered) \<and>
      (\<forall>t \<in> set (ListTrafficTargets (mc_meshSpec mc) []).
         trafficTargetIdentityToSvcAccount (tt_Destination t) = server \<and>
         (\<exists>source \<in> set (tt_Sources t). trafficTargetIdentityToSvcAccount source = client) \<longrightarrow>
         svc \<in> set offered \<and>
         (\<forall>rule \<in> set (tt_Rules t). \<forall>matchName \<in> set (ttu_Matches rule). \<forall>m.
            smi_route (mc_meshSpec mc) (om_Namespace (tt_Meta t)) (ttu_Name rule) matchName = Some m \<longrightarrow>
            allows (itp_Rules policy) (NewRouteWeightedCluster m [localCluster svc] (upstreamTrafficSettingFor mc svc))
              (K8sServiceAccount_AsPrincipal client (mc_trustDomain mc)))))"
proof -
  let ?who = "K8sServiceAccount_AsPrincipal client (mc_trustDomain mc)"
  let ?targets = "set (ListTrafficTargets (mc_meshSpec mc) [])"
  let ?policy = "inboundPolicy mc (ListTrafficTargets (mc_meshSpec mc) [WithTrafficTargetDestination server]) svc"
  note sa = ToK8sServiceAccount_inverse [OF assms(4)]
  have "GetInboundMeshTrafficPolicy mc (ToServiceIdentity server) services \<noteq> None"
    using sa assms(1) by (simp add: GetInboundMeshTrafficPolicy_def)
  then obtain pol where pol: "GetInboundMeshTrafficPolicy mc (ToServiceIdentity server) services = Some pol" by blast
  note mem = inbound_service_policy [OF assms(1) sa pol assms(8,9)]
  have allows_iff: "allows (itp_Rules ?policy) route ?who \<longleftrightarrow>
      (\<exists>t \<in> ?targets. trafficTargetIdentityToSvcAccount (tt_Destination t) = server \<and> target_grants mc svc t route ?who)" for route
    by (rule inbound_service_allows [OF assms(1,2,5)])
  have offered: "svc \<in> set offered" if "t \<in> ?targets" "trafficTargetIdentityToSvcAccount (tt_Destination t) = server"
      "\<exists>source \<in> set (tt_Sources t). trafficTargetIdentityToSvcAccount source = client" for t
    unfolding ListOutboundServices_iff(2) [OF assms(1,3,6)] using that assms(7,8) by blast
  have source: "(\<exists>source \<in> set (tt_Sources t). trafficTargetIdentityToSvcAccount source = client) \<longleftrightarrow>
      (\<exists>source \<in> set (tt_Sources t). ?who = AsPrincipal (New (ibj_Name source) (ibj_Namespace source)) (mc_trustDomain mc))" for t
    using source_principal [OF assms(3)] by blast
  have "svc \<in> set offered" if "allows (itp_Rules ?policy) route ?who" for route
    using that offered source unfolding allows_iff target_grants_def by blast
  moreover have "svc \<in> set offered \<and>
      (\<forall>rule \<in> set (tt_Rules t). \<forall>matchName \<in> set (ttu_Matches rule). \<forall>m.
            smi_route (mc_meshSpec mc) (om_Namespace (tt_Meta t)) (ttu_Name rule) matchName = Some m \<longrightarrow>
            allows (itp_Rules ?policy) (NewRouteWeightedCluster m [localCluster svc] (upstreamTrafficSettingFor mc svc)) ?who)"
    if "t \<in> ?targets" "trafficTargetIdentityToSvcAccount (tt_Destination t) = server"
      "\<exists>source \<in> set (tt_Sources t). trafficTargetIdentityToSvcAccount source = client" for t
    using that offered source unfolding allows_iff target_grants_def by blast
  ultimately show ?thesis using pol mem inboundPolicy_name(1) by blast
qed


definition sample_smi_catalog :: MeshCatalog where
  "sample_smi_catalog = sample_http_catalog\<lparr>mc_configurator := mc_configurator (sample_catalog False)\<rparr>"

theorem client_server_agreement_witness:
  "\<exists>offered pol. ListOutboundServicesForIdentity sample_smi_catalog ''client.shop'' = Some offered \<and>
     ''db-0.db'' \<in> ms_Name ` set offered \<and>
     (\<exists>services. getServicesForServiceIdentity sample_smi_catalog ''sql.shop'' = Some services \<and>
        GetInboundMeshTrafficPolicy sample_smi_catalog ''sql.shop'' services = Some pol) \<and>
     (\<exists>policy \<in> set (gm_slice (imp_HTTPRouteConfigsPerPort pol) 13306). \<exists>route.
        allows (itp_Rules policy) route ''client.shop.cluster.local'')"
proof -
  let ?svc = "\<lparr>ms_Namespace = ''shop'', ms_Name = ''db-0.db'', ms_Port = 80, ms_TargetPort = 13306,
    ms_Protocol = ''http'', ms_ServiceImportUID = ''''\<rparr>"
  let ?client = "\<lparr>sa_Namespace = ''shop'', sa_Name = ''client''\<rparr>"
  let ?server = "\<lparr>sa_Namespace = ''shop'', sa_Name = ''sql''\<rparr>"
  have sa: "ToServiceIdentity ?client = ''client.shop''" "ToServiceIdentity ?server = ''sql.shop''"
    "sa_plain ?client" "sa_plain ?server" "K8sServiceAccount_AsPrincipal ?client ''cluster.local'' = ''client.shop.cluster.local''"
    by (simp_all add: sa_plain_def ToServiceIdentity_def New_def K8sServiceAccount_AsPrincipal_def AsPrincipal_def IsWildcard_def
        WildcardServiceIdentity_def)
  have offered: "ListOutboundServicesForIdentity sample_smi_catalog ''client.shop'' = Some [?svc]" by code_simp
  have services: "getServicesForServiceIdentity sample_smi_catalog ''sql.shop'' = Some [?svc]" by code_simp
  have smi: "mc_meshSpec sample_smi_catalog = sample_smi" "\<not> permissive sample_smi_catalog"
    "mc_trustDomain sample_smi_catalog = ''cluster.local''"
    by (simp_all add: sample_smi_catalog_def sample_http_catalog_def sample_catalog_def)
  have mem: "sample_target \<in> set (ListTrafficTargets sample_smi [])"
    "trafficTargetIdentityToSvcAccount (tt_Destination sample_target) = ?server"
    "\<exists>source \<in> set (tt_Sources sample_target). trafficTargetIdentityToSvcAccount source = ?client"
    by code_simp+
  have "smi_route sample_smi ''shop'' ''g'' ''get'' \<noteq> None" by code_simp
  then obtain m where m: "smi_route sample_smi ''shop'' ''g'' ''get'' = Some m" by blast
  have rule: "\<exists>rule \<in> set (tt_Rules sample_target). ttu_Name rule = ''g'' \<and> ''get'' \<in> set (ttu_Matches rule)"
    "om_Namespace (tt_Meta sample_target) = ''shop''" by code_simp+
  have tcp: "\<not> is_tcp_protocol (ms_Protocol ?svc)" by (simp add: is_tcp_protocol_def protocol_defs)
  from client_server_agreement [of sample_smi_catalog ?client ?server "[?svc]" "[?svc]" ?svc, unfolded sa smi] sa(3,4) tcp smi(2)
    offered services sample_route_groups_wf
  obtain pol policy where "GetInboundMeshTrafficPolicy sample_smi_catalog ''sql.shop'' [?svc] = Some pol"
    "policy \<in> set (gm_slice (imp_HTTPRouteConfigsPerPort pol) 13306)"
    "allows (itp_Rules policy) (NewRouteWeightedCluster m [localCluster ?svc] (upstreamTrafficSettingFor sample_smi_catalog ?svc))
      ''client.shop.cluster.local''"
    using mem m rule by fastforce
  with offered services show ?thesis by fastforce
qed

end
